(* ===== verification/Prelude.thy ===== *)
theory Prelude
  imports Main "HOL-Library.AList" "HOL-Library.State_Monad"
begin

text \<open>
  Shared vocabulary of the development: Go maps as association lists, SQL tables as lists of
  rows with a key, the collections of rewrite rules the component theories fill, and the
  interface of a keyed collection (\<open>keyed\<close>) that the tables of the database, the
  pending-nonce store and the in-memory maps of the relay all implement.
\<close>

named_theorems table_simps "rewriting of single-table SQL statements"
named_theorems store_defs "definitions of the store operations"
named_theorems hub_defs "definitions of the WebSocket hub operations"
named_theorems handler_defs "definitions of the HTTP handlers"
named_theorems inv_intros "preservation of component invariants"

section \<open>Go maps\<close>

text \<open>
  A Go map is an association list: \<open>mget\<close> reads, \<open>mput\<close> assigns, \<open>mdel\<close> is Go's
  \<open>delete\<close>. Iteration follows the list; the code never depends on the order of a Go map.
\<close>

type_synonym ('k, 'v) gomap = "('k \<times> 'v) list"

abbreviation mget :: "('k, 'v) gomap \<Rightarrow> 'k \<Rightarrow> 'v option" where
  "mget m k \<equiv> map_of m k"

abbreviation mput :: "'k \<Rightarrow> 'v \<Rightarrow> ('k, 'v) gomap \<Rightarrow> ('k, 'v) gomap" where
  "mput k v m \<equiv> AList.update k v m"

abbreviation mdel :: "'k \<Rightarrow> ('k, 'v) gomap \<Rightarrow> ('k, 'v) gomap" where
  "mdel k m \<equiv> AList.delete k m"

abbreviation mkeys :: "('k, 'v) gomap \<Rightarrow> 'k list" where
  "mkeys m \<equiv> map fst m"

text \<open>Reading a missing key gives the zero value of the element type.\<close>

definition mget_or :: "'v \<Rightarrow> ('k, 'v) gomap \<Rightarrow> 'k \<Rightarrow> 'v" where
  "mget_or z m k = (case mget m k of Some v \<Rightarrow> v | None \<Rightarrow> z)"

lemma mget_mput [simp]: "mget (mput k v m) k' = (if k' = k then Some v else mget m k')"
  by (simp add: update_conv')

lemma mget_mdel [simp]: "mget (mdel k m) k' = (if k' = k then None else mget m k')"
  by (simp add: delete_conv')

lemma distinct_mput [simp, intro]: "distinct (mkeys m) \<Longrightarrow> distinct (mkeys (mput k v m))"
  by (rule distinct_update)

lemma distinct_mdel [simp, intro]: "distinct (mkeys m) \<Longrightarrow> distinct (mkeys (mdel k m))"
  by (rule distinct_delete)

lemma mget_None_iff: "mget m k = None \<longleftrightarrow> k \<notin> set (mkeys m)"
  by (simp add: map_of_eq_None_iff)

lemma set_mkeys: "set (mkeys m) = dom (map_of m)"
  by (simp add: dom_map_of_conv_image_fst)

lemma mkeys_mput [simp]: "fst ` set (mput k v m) = insert k (fst ` set m)"
  using set_mkeys [of "mput k v m"] set_mkeys [of m] by (simp add: update_conv')

lemma mkeys_mdel [simp]: "fst ` set (mdel k m) = fst ` set m - {k}"
  using set_mkeys [of "mdel k m"] set_mkeys [of m] by (auto simp: delete_conv')

lemma mget_in_keys: "mget m k = Some v \<Longrightarrow> k \<in> set (mkeys m)"
  by (force dest: map_of_SomeD)

section \<open>SQL tables\<close>

text \<open>
  A table is the list of its rows in insertion order, and \<open>key\<close> the column under the
  primary key. \<open>row_find\<close> is \<open>SELECT ... WHERE key = ?\<close>, \<open>row_upsert\<close> is
  \<open>INSERT ... ON CONFLICT(key) DO UPDATE\<close> (\<open>merge\<close> says what an existing row becomes),
  \<open>rows_update\<close> and \<open>rows_delete\<close> are \<open>UPDATE\<close> and \<open>DELETE\<close> with a \<open>WHERE\<close> clause, and
  \<open>rows_affected\<close> is the count the driver reports for either.
\<close>

definition row_find :: "('r \<Rightarrow> 'k) \<Rightarrow> 'k \<Rightarrow> 'r list \<Rightarrow> 'r option" where
  "row_find key k rows = List.find (\<lambda>r. key r = k) rows"

definition rows_update :: "('r \<Rightarrow> bool) \<Rightarrow> ('r \<Rightarrow> 'r) \<Rightarrow> 'r list \<Rightarrow> 'r list" where
  "rows_update P f rows = map (\<lambda>r. if P r then f r else r) rows"

definition rows_delete :: "('r \<Rightarrow> bool) \<Rightarrow> 'r list \<Rightarrow> 'r list" where
  "rows_delete P rows = filter (\<lambda>r. \<not> P r) rows"

definition rows_affected :: "('r \<Rightarrow> bool) \<Rightarrow> 'r list \<Rightarrow> nat" where
  "rows_affected P rows = length (filter P rows)"

definition row_upsert :: "('r \<Rightarrow> 'k) \<Rightarrow> ('r \<Rightarrow> 'r) \<Rightarrow> 'r \<Rightarrow> 'r list \<Rightarrow> 'r list" where
  "row_upsert key merge r rows =
     (if list_ex (\<lambda>x. key x = key r) rows
      then rows_update (\<lambda>x. key x = key r) merge rows
      else rows @ [r])"

abbreviation unique_key :: "('r \<Rightarrow> 'k) \<Rightarrow> 'r list \<Rightarrow> bool" where
  "unique_key key rows \<equiv> distinct (map key rows)"

lemma row_find_Nil [simp]: "row_find key k [] = None"
  by (simp add: row_find_def)

lemma row_find_Cons [simp]:
  "row_find key k (r # rows) = (if key r = k then Some r else row_find key k rows)"
  by (simp add: row_find_def)

lemma row_find_append:
  "row_find key k (xs @ ys) = (case row_find key k xs of Some r \<Rightarrow> Some r | None \<Rightarrow> row_find key k ys)"
  by (induction xs) auto

lemma row_find_SomeD: "row_find key k rows = Some r \<Longrightarrow> r \<in> set rows \<and> key r = k"
  by (induction rows) (auto split: if_splits)

lemma row_find_None_iff: "row_find key k rows = None \<longleftrightarrow> k \<notin> key ` set rows"
  by (induction rows) auto

lemma row_find_unique:
  "unique_key key rows \<Longrightarrow> r \<in> set rows \<Longrightarrow> row_find key (key r) rows = Some r"
  by (induction rows) (auto intro: rev_image_eqI)

lemma row_find_update:
  assumes "\<And>r. key (f r) = key r"
  shows "row_find key k (rows_update (\<lambda>r. key r = k') f rows) =
    (if k = k' then map_option f (row_find key k rows) else row_find key k rows)"
  by (induction rows) (auto simp: rows_update_def assms)

lemma row_find_delete:
  "row_find key k (rows_delete (\<lambda>r. key r = k') rows) = (if k = k' then None else row_find key k rows)"
  by (induction rows) (auto simp: rows_delete_def)

lemma rows_update_keys:
  "(\<And>r. key (f r) = key r) \<Longrightarrow> map key (rows_update P f rows) = map key rows"
  by (simp add: rows_update_def)

lemma unique_key_delete: "unique_key key rows \<Longrightarrow> unique_key key (rows_delete P rows)"
  unfolding rows_delete_def by (rule distinct_map_filter)

lemma unique_key_upsert:
  "(\<And>x. key (merge x) = key x) \<Longrightarrow> unique_key key rows \<Longrightarrow> unique_key key (row_upsert key merge r rows)"
  by (auto simp: row_upsert_def rows_update_keys list_ex_iff)

lemma row_find_upsert:
  assumes "\<And>x. key (merge x) = key x"
  shows "row_find key k (row_upsert key merge r rows) =
    (if k = key r then Some (case row_find key k rows of Some x \<Rightarrow> merge x | None \<Rightarrow> r)
     else row_find key k rows)"
proof (cases "list_ex (\<lambda>x. key x = key r) rows")
  case True
  then have "row_find key (key r) rows \<noteq> None"
    by (auto simp: row_find_None_iff list_ex_iff) (metis image_eqI)
  with True show ?thesis
    by (auto simp: row_upsert_def row_find_update assms)
next
  case False
  then have "row_find key (key r) rows = None"
    by (auto simp: row_find_None_iff list_ex_iff)
  with False show ?thesis
    by (auto simp: row_upsert_def row_find_append split: option.splits)
qed

lemma rows_affected_zero: "rows_affected P rows = 0 \<longleftrightarrow> (\<forall>r\<in>set rows. \<not> P r)"
  by (simp add: rows_affected_def filter_empty_conv)

lemma rows_affected_key:
  "0 < rows_affected (\<lambda>r. key r = k) rows \<longleftrightarrow> row_find key k rows \<noteq> None"
  by (induction rows) (auto simp: rows_affected_def)

lemma rows_affected_key_nat:
  "rows_affected (\<lambda>r. key r = k) rows = 0 \<longleftrightarrow> row_find key k rows = None"
  using rows_affected_key [of key k rows] by (cases "row_find key k rows") auto

lemmas table_facts [table_simps] =
  row_find_update row_find_delete row_find_upsert rows_affected_key rows_affected_key_nat

lemma length_rows_delete: "length (rows_delete P rows) + rows_affected P rows = length rows"
  by (induction rows) (auto simp: rows_delete_def rows_affected_def)

section \<open>The interface of a keyed collection\<close>

text \<open>
  What the code relies on whenever it keeps values under a key: reading back what was
  written, nothing else changing, and deletion. \<open>inv\<close> is what every operation keeps.
\<close>

locale keyed =
  fixes get :: "'s \<Rightarrow> 'k \<Rightarrow> 'v option"
    and put :: "'k \<Rightarrow> 'v \<Rightarrow> 's \<Rightarrow> 's"
    and del :: "'k \<Rightarrow> 's \<Rightarrow> 's"
    and inv :: "'s \<Rightarrow> bool"
  assumes get_put: "inv s \<Longrightarrow> get (put k v s) = (get s)(k \<mapsto> v)"
    and get_del: "inv s \<Longrightarrow> get (del k s) = (get s)(k := None)"
    and inv_put: "inv s \<Longrightarrow> inv (put k v s)"
    and inv_del: "inv s \<Longrightarrow> inv (del k s)"
begin

lemma get_put_same: "inv s \<Longrightarrow> get (put k v s) k = Some v"
  by (simp add: get_put)

lemma get_put_other: "inv s \<Longrightarrow> k' \<noteq> k \<Longrightarrow> get (put k v s) k' = get s k'"
  by (simp add: get_put)

lemma get_del_same: "inv s \<Longrightarrow> get (del k s) k = None"
  by (simp add: get_del)

lemma get_del_other: "inv s \<Longrightarrow> k' \<noteq> k \<Longrightarrow> get (del k s) k' = get s k'"
  by (simp add: get_del)

lemma last_put_wins: "inv s \<Longrightarrow> get (put k v' (put k v s)) = get (put k v' s)"
  by (simp add: get_put inv_put)

lemma puts_commute:
  "inv s \<Longrightarrow> k \<noteq> k' \<Longrightarrow> get (put k v (put k' v' s)) = get (put k' v' (put k v s))"
  by (simp add: get_put inv_put fun_upd_twist)

lemma del_after_put: "inv s \<Longrightarrow> get (del k (put k v s)) = get (del k s)"
  by (simp add: get_put get_del inv_put)

end

interpretation gomap: keyed "\<lambda>m k. mget m k" AList.update AList.delete "\<lambda>m. distinct (mkeys m)"
  by unfold_locales (auto simp: update_conv' delete_conv' fun_eq_iff)

section \<open>Run-time of monadic code\<close>

text \<open>Reading a component of the state, and running code of a component inside a larger state.\<close>

definition gets :: "('s \<Rightarrow> 'a) \<Rightarrow> ('s, 'a) state" where
  "gets f = State (\<lambda>s. (f s, s))"

definition modify :: "('s \<Rightarrow> 's) \<Rightarrow> ('s, unit) state" where
  "modify f = State (\<lambda>s. ((), f s))"

lemma run_gets [simp]: "run_state (gets f) s = (f s, s)"
  by (simp add: gets_def)

lemma run_modify [simp]: "run_state (modify f) s = ((), f s)"
  by (simp add: modify_def)

lemma run_if [simp]: "run_state (if b then m else n) s = (if b then run_state m s else run_state n s)"
  by simp

lemma run_case_option:
  "run_state (case x of None \<Rightarrow> m | Some a \<Rightarrow> f a) s =
    (case x of None \<Rightarrow> run_state m s | Some a \<Rightarrow> run_state (f a) s)"
  by (cases x) auto

lemma run_case_sum:
  "run_state (case x of Inl e \<Rightarrow> m e | Inr a \<Rightarrow> f a) s =
    (case x of Inl e \<Rightarrow> run_state (m e) s | Inr a \<Rightarrow> run_state (f a) s)"
  by (cases x) auto

lemma find_SomeD: "List.find P xs = Some x \<Longrightarrow> x \<in> set xs \<and> P x"
  by (induction xs) (auto split: if_splits)

end
