(* ===== verification/GoText.thy ===== *)
theory GoText
  imports Prelude "HOL-Library.Sublist"
begin

text \<open>
  Go strings are byte sequences, here \<open>string\<close> (a \<open>char\<close> is one byte). This theory holds
  the functions of Go's \<open>strings\<close>, \<open>net\<close> and \<open>unicode/utf8\<close> packages the program calls,
  with the algorithms of the standard library: \<open>TrimSpace\<close>, \<open>Split\<close>, \<open>SplitHostPort\<close> and
  the conversions between a string and its code points.
\<close>

section \<open>Splitting and joining\<close>

fun split_on :: "char \<Rightarrow> string \<Rightarrow> string list" where
  "split_on c [] = [[]]"
| "split_on c (x # xs) =
     (if x = c then [] # split_on c xs
      else case split_on c xs of [] \<Rightarrow> [[x]] | p # ps \<Rightarrow> (x # p) # ps)"

fun join_with :: "char \<Rightarrow> string list \<Rightarrow> string" where
  "join_with c [] = []"
| "join_with c [p] = p"
| "join_with c (p # q # ps) = p @ c # join_with c (q # ps)"

lemma split_on_nonempty [simp]: "split_on c s \<noteq> []"
  by (induction s) (auto split: list.splits)

lemma split_on_no_sep: "p \<in> set (split_on c s) \<Longrightarrow> c \<notin> set p"
  by (induction s arbitrary: p) (auto split: list.splits if_splits)

lemma split_on_id: "c \<notin> set s \<Longrightarrow> split_on c s = [s]"
  by (induction s) auto

lemma join_split: "join_with c (split_on c s) = s"
proof (induction s)
  case (Cons x xs)
  then show ?case
    by (cases "split_on c xs"; cases "tl (split_on c xs)") auto
qed simp

lemma split_on_append:
  "c \<notin> set p \<Longrightarrow> split_on c (p @ c # s) = p # split_on c s"
  by (induction p) auto

lemma split_join:
  "ps \<noteq> [] \<Longrightarrow> \<forall>p\<in>set ps. c \<notin> set p \<Longrightarrow> split_on c (join_with c ps) = ps"
  by (induction c ps rule: join_with.induct) (auto simp: split_on_id split_on_append)

section \<open>Prefixes and white space\<close>

definition HasPrefix :: "string \<Rightarrow> string \<Rightarrow> bool" where
  "HasPrefix s p \<longleftrightarrow> length p \<le> length s \<and> take (length p) s = p"

lemma HasPrefix_iff: "HasPrefix s p \<longleftrightarrow> prefix p s"
  by (auto simp: HasPrefix_def prefix_def) (metis append_take_drop_id)

text \<open>The UTF-8 encodings of the code points for which \<open>unicode.IsSpace\<close> holds.\<close>

definition space_encodings :: "string list" where
  "space_encodings = map (map char_of)
     ([[9], [10], [11], [12], [13], [32], [194, 133], [194, 160], [225, 154, 128]]
      @ map (\<lambda>n. [226, 128, 128 + n]) [0..<11]
      @ [[226, 128, 168], [226, 128, 169], [226, 128, 175], [226, 129, 159],
         [227, 128, 128::nat]])"

lemma space_encodings_nonempty: "e \<in> set space_encodings \<Longrightarrow> e \<noteq> []"
  by (auto simp: space_encodings_def)

function trim_with :: "string list \<Rightarrow> string \<Rightarrow> string" where
  "trim_with encs s =
     (case List.find (\<lambda>e. e \<noteq> [] \<and> HasPrefix s e) encs of
        None \<Rightarrow> s
      | Some e \<Rightarrow> trim_with encs (drop (length e) s))"
  by pat_completeness auto
termination
proof (relation "measure (length \<circ> snd)")
  fix encs s e
  assume "List.find (\<lambda>e. e \<noteq> [] \<and> HasPrefix s e) encs = Some e"
  then have "e \<noteq> []" "HasPrefix s e"
    by (auto dest: find_SomeD)
  then show "((encs, drop (length e) s), (encs, s)) \<in> measure (length \<circ> snd)"
    by (cases e; cases s) (auto simp: HasPrefix_def)
qed simp

declare trim_with.simps [simp del]

definition TrimSpace :: "string \<Rightarrow> string" where
  "TrimSpace s =
     rev (trim_with (map rev space_encodings) (rev (trim_with space_encodings s)))"

lemma trim_with_Nil [simp]: "trim_with encs [] = []"
  by (subst trim_with.simps) (auto simp: HasPrefix_def dest: find_SomeD split: option.splits)

lemma TrimSpace_Nil [simp]: "TrimSpace [] = []"
  by (simp add: TrimSpace_def)

lemma trim_with_suffix: "suffix (trim_with encs s) s"
proof (induction encs s rule: trim_with.induct)
  case (1 encs s)
  show ?case
  proof (cases "List.find (\<lambda>e. e \<noteq> [] \<and> HasPrefix s e) encs")
    case None
    then show ?thesis by (simp add: trim_with.simps [of encs s])
  next
    case (Some e)
    with "1.IH" [OF this] show ?thesis
      by (simp add: trim_with.simps [of encs s]) (metis suffix_drop suffix_order.trans)
  qed
qed

text \<open>Trimming never adds a byte, so a string that trims to something is not empty.\<close>

lemma set_trim_with: "set (trim_with encs s) \<subseteq> set s"
  by (rule set_mono_suffix [OF trim_with_suffix])

lemma set_TrimSpace: "set (TrimSpace s) \<subseteq> set s"
  unfolding TrimSpace_def set_rev using set_trim_with by (metis order_trans set_rev)

text \<open>A string that starts and ends with a visible ASCII character is not trimmed.\<close>

abbreviation visible :: "char \<Rightarrow> bool" where
  "visible c \<equiv> 32 < (of_char c :: nat) \<and> (of_char c :: nat) < 128"

lemma trim_with_visible:
  assumes "\<forall>e\<in>set encs. e = [] \<or> \<not> visible (hd e)" "s \<noteq> []" "visible (hd s)"
  shows "trim_with encs s = s"
proof -
  have "\<not> HasPrefix s e" if "e \<in> set encs" "e \<noteq> []" for e
    using assms that by (cases e; cases s) (auto simp: HasPrefix_def)
  then have "List.find (\<lambda>e. e \<noteq> [] \<and> HasPrefix s e) encs = None"
    by (auto simp: find_None_iff)
  then show ?thesis by (simp add: trim_with.simps [of encs s])
qed

lemma TrimSpace_id:
  assumes "s \<noteq> []" "visible (hd s)" "visible (last s)"
  shows "TrimSpace s = s"
proof -
  have "\<forall>e\<in>set space_encodings. e = [] \<or> \<not> visible (hd e)"
    "\<forall>e\<in>set (map rev space_encodings). e = [] \<or> \<not> visible (hd e)"
    by (simp_all add: space_encodings_def upt_rec)
  with assms show ?thesis
    by (simp only: TrimSpace_def trim_with_visible hd_rev rev_is_Nil_conv not_False_eq_True rev_rev_ident)
qed

text \<open>ASCII case folding, which is how \<open>encoding/json\<close> matches field names.\<close>

definition to_lower :: "char \<Rightarrow> char" where
  "to_lower c = (let n = (of_char c :: nat) in
     if 65 \<le> n \<and> n \<le> 90 then char_of (n + 32) else c)"

definition ToLower :: "string \<Rightarrow> string" where
  "ToLower s = map to_lower s"

section \<open>net.SplitHostPort\<close>

text \<open>
  \<open>SplitHostPort\<close> of package \<open>net\<close>: \<open>None\<close> is the error result (missing port, too many
  colons, unbalanced brackets).
\<close>

definition index_of :: "char \<Rightarrow> string \<Rightarrow> nat option" where
  "index_of c s = (if c \<in> set s then Some (length (takeWhile (\<lambda>x. x \<noteq> c) s)) else None)"

definition last_index_of :: "char \<Rightarrow> string \<Rightarrow> nat option" where
  "last_index_of c s =
     (case index_of c (rev s) of None \<Rightarrow> None | Some i \<Rightarrow> Some (length s - Suc i))"

definition SplitHostPort :: "string \<Rightarrow> (string \<times> string) option" where
  "SplitHostPort a =
     (case last_index_of CHR '':'' a of
        None \<Rightarrow> None
      | Some i \<Rightarrow>
          let parts =
            (if hd a = CHR ''['' then
               (case index_of CHR '']'' a of
                  None \<Rightarrow> None
                | Some e \<Rightarrow> if Suc e = i then Some (drop 1 (take e a), 1, Suc e) else None)
             else if CHR '':'' \<in> set (take i a) then None
             else Some (take i a, 0, 0))
          in (case parts of
                None \<Rightarrow> None
              | Some (host, j, k) \<Rightarrow>
                  if CHR ''['' \<in> set (drop j a) \<or> CHR '']'' \<in> set (drop k a) then None
                  else Some (host, drop (Suc i) a)))"

section \<open>UTF-8\<close>

text \<open>
  \<open>decode_rune\<close> is \<open>utf8.DecodeRune\<close> on a non-empty byte sequence: the code point and the
  number of bytes read. A byte that starts no well-formed sequence is read alone, as U+FFFD.
\<close>

definition cont_byte :: "nat \<Rightarrow> bool" where
  "cont_byte b \<longleftrightarrow> 128 \<le> b \<and> b \<le> 191"

definition rune_error :: nat where
  "rune_error = 65533"

fun decode_rune :: "nat list \<Rightarrow> nat \<times> nat" where
  "decode_rune [] = (rune_error, 0)"
| "decode_rune (b0 # bs) =
     (if b0 < 128 then (b0, 1)
      else if 194 \<le> b0 \<and> b0 \<le> 223 then
        (case bs of b1 # _ \<Rightarrow>
           if cont_byte b1 then ((b0 - 192) * 64 + (b1 - 128), 2) else (rune_error, 1)
         | _ \<Rightarrow> (rune_error, 1))
      else if 224 \<le> b0 \<and> b0 \<le> 239 then
        (case bs of b1 # b2 # _ \<Rightarrow>
           if cont_byte b1 \<and> cont_byte b2 \<and> (b0 = 224 \<longrightarrow> 160 \<le> b1) \<and> (b0 = 237 \<longrightarrow> b1 \<le> 159)
           then ((b0 - 224) * 4096 + (b1 - 128) * 64 + (b2 - 128), 3) else (rune_error, 1)
         | _ \<Rightarrow> (rune_error, 1))
      else if 240 \<le> b0 \<and> b0 \<le> 244 then
        (case bs of b1 # b2 # b3 # _ \<Rightarrow>
           if cont_byte b1 \<and> cont_byte b2 \<and> cont_byte b3
              \<and> (b0 = 240 \<longrightarrow> 144 \<le> b1) \<and> (b0 = 244 \<longrightarrow> b1 \<le> 143)
           then ((b0 - 240) * 262144 + (b1 - 128) * 4096 + (b2 - 128) * 64 + (b3 - 128), 4)
           else (rune_error, 1)
         | _ \<Rightarrow> (rune_error, 1))
      else (rune_error, 1))"

lemma decode_rune_width: "bs \<noteq> [] \<Longrightarrow> 0 < snd (decode_rune bs)"
  by (cases bs) (auto split: list.splits)

function decode_runes :: "nat list \<Rightarrow> nat list" where
  "decode_runes bs =
     (if bs = [] then []
      else fst (decode_rune bs) # decode_runes (drop (snd (decode_rune bs)) bs))"
  by pat_completeness auto
termination
proof (relation "measure length")
  fix bs :: "nat list"
  assume "bs \<noteq> []"
  then show "(drop (snd (decode_rune bs)) bs, bs) \<in> measure length"
    using decode_rune_width [of bs] by simp
qed simp

declare decode_runes.simps [simp del] decode_rune.simps(2) [simp del]

text \<open>\<open>encode_rune\<close> is \<open>utf8.AppendRune\<close>; a surrogate or out-of-range value becomes U+FFFD.\<close>

definition valid_rune :: "nat \<Rightarrow> bool" where
  "valid_rune r \<longleftrightarrow> r \<le> 55295 \<or> (57344 \<le> r \<and> r \<le> 1114111)"

definition encode_rune :: "nat \<Rightarrow> nat list" where
  "encode_rune r =
     (if r < 128 then [r]
      else if r < 2048 then [192 + r div 64, 128 + r mod 64]
      else if \<not> valid_rune r then [239, 191, 189]
      else if r < 65536 then [224 + r div 4096, 128 + r div 64 mod 64, 128 + r mod 64]
      else [240 + r div 262144, 128 + r div 4096 mod 64, 128 + r div 64 mod 64, 128 + r mod 64])"

definition runes_of :: "string \<Rightarrow> nat list" where
  "runes_of s = decode_runes (map of_char s)"

definition string_of_runes :: "nat list \<Rightarrow> string" where
  "string_of_runes rs = map char_of (concat (map encode_rune rs))"

text \<open>A string is valid UTF-8 when it encodes some code points.\<close>

definition valid_utf8 :: "string \<Rightarrow> bool" where
  "valid_utf8 s \<longleftrightarrow> string_of_runes (runes_of s) = s"

lemma encode_rune_nonempty: "encode_rune r \<noteq> []"
  by (simp add: encode_rune_def)

lemma encode_rune_bytes: "b \<in> set (encode_rune r) \<Longrightarrow> b < 256"
  by (auto simp: encode_rune_def valid_rune_def split: if_splits)

lemma mod_64_le [simp]: "(n::nat) mod 64 \<le> 63"
  using mod_less_divisor [of 64 n] by linarith

lemma div_mod_64: "(r::nat) div 64 * 64 + r mod 64 = r"
  by (rule div_mult_mod_eq)

lemma rune_split3: "(r::nat) div 4096 * 4096 + r div 64 mod 64 * 64 + r mod 64 = r"
proof -
  have "r div 4096 = r div 64 div 64"
    by (simp add: div_mult2_eq [symmetric])
  then have "r div 4096 * 64 + r div 64 mod 64 = r div 64"
    by (simp add: div_mult_mod_eq)
  then show ?thesis
    using div_mod_64 [of r] by linarith
qed

lemma rune_split4:
  "(r::nat) div 262144 * 262144 + r div 4096 mod 64 * 4096 + r div 64 mod 64 * 64 + r mod 64 = r"
proof -
  have "r div 262144 = r div 4096 div 64"
    by (simp add: div_mult2_eq [symmetric])
  then have "r div 262144 * 64 + r div 4096 mod 64 = r div 4096"
    by (simp add: div_mult_mod_eq)
  then show ?thesis
    using rune_split3 [of r] by linarith
qed

lemma valid_rune_bound: "valid_rune r \<Longrightarrow> r \<le> 1114111"
  by (auto simp: valid_rune_def)

lemma decode_encode_rune2:
  assumes "128 \<le> r" "r < 2048"
  shows "decode_rune (encode_rune r @ bs) = (r, 2)"
proof -
  have "2 \<le> r div 64" "r div 64 < 32" using assms by simp_all
  then show ?thesis
    using assms div_mod_64 [of r] by (auto simp: encode_rune_def decode_rune.simps(2) cont_byte_def)
qed

lemma decode_encode_rune3:
  assumes "2048 \<le> r" "r < 65536" "valid_rune r"
  shows "decode_rune (encode_rune r @ bs) = (r, 3)"
proof -
  have q: "r div 4096 < 16" "r div 64 = r div 4096 * 64 + r div 64 mod 64"
    using assms rune_split3 [of r] div_mod_64 [of r] by linarith+
  have lo: "r div 4096 = 0 \<longrightarrow> 32 \<le> r div 64 mod 64"
    using assms(1) q(2) by auto
  have hi: "r div 4096 = 13 \<longrightarrow> r div 64 mod 64 \<le> 31"
    using assms q(2) by (auto simp: valid_rune_def)
  show ?thesis
    using assms q lo hi rune_split3 [of r]
    by (simp add: encode_rune_def decode_rune.simps(2) cont_byte_def)
qed

lemma decode_encode_rune4:
  assumes "65536 \<le> r" "valid_rune r"
  shows "decode_rune (encode_rune r @ bs) = (r, 4)"
proof -
  have q: "r div 262144 \<le> 4" "r div 4096 = r div 262144 * 64 + r div 4096 mod 64"
    using valid_rune_bound [OF assms(2)] rune_split4 [of r] rune_split3 [of r] by linarith+
  have lo: "r div 262144 = 0 \<longrightarrow> 16 \<le> r div 4096 mod 64"
    using assms(1) q(2) by auto
  have hi: "r div 262144 = 4 \<longrightarrow> r div 4096 mod 64 \<le> 15"
    using valid_rune_bound [OF assms(2)] q(2) by auto
  show ?thesis
    using assms q lo hi rune_split4 [of r]
    by (simp add: encode_rune_def decode_rune.simps(2) cont_byte_def)
qed

lemma decode_encode_rune:
  assumes "valid_rune r"
  shows "decode_rune (encode_rune r @ bs) = (r, length (encode_rune r))"
proof -
  consider "r < 128" | "128 \<le> r" "r < 2048" | "2048 \<le> r" "r < 65536" | "65536 \<le> r"
    by linarith
  then show ?thesis
    by cases (simp_all add: assms decode_encode_rune2 decode_encode_rune3 decode_encode_rune4,
        simp_all add: encode_rune_def decode_rune.simps(2) assms)
qed

lemma decode_runes_encode:
  "\<forall>r\<in>set rs. valid_rune r \<Longrightarrow> decode_runes (concat (map encode_rune rs)) = rs"
proof (induction rs)
  case Nil
  then show ?case by (simp add: decode_runes.simps)
next
  case (Cons r rs)
  then show ?case
    by (subst decode_runes.simps) (simp add: decode_encode_rune encode_rune_nonempty)
qed

lemma map_of_char_char_of: "\<forall>b\<in>set bs. b < 256 \<Longrightarrow> map of_char (map char_of bs :: string) = (bs :: nat list)"
  by (induction bs) auto

lemma runes_of_string_of_runes:
  assumes "\<forall>r\<in>set rs. valid_rune r"
  shows "runes_of (string_of_runes rs) = rs"
proof -
  have "\<forall>b\<in>set (concat (map encode_rune rs)). b < 256"
    by (auto dest: encode_rune_bytes)
  then show ?thesis
    unfolding runes_of_def string_of_runes_def
    by (simp only: map_of_char_char_of decode_runes_encode [OF assms])
qed

lemma string_of_runes_append:
  "string_of_runes (xs @ ys) = string_of_runes xs @ string_of_runes ys"
  by (simp add: string_of_runes_def)

lemma string_of_runes_Nil [simp]: "string_of_runes [] = []"
  by (simp add: string_of_runes_def)

lemma valid_utf8_string_of_runes:
  "\<forall>r\<in>set rs. valid_rune r \<Longrightarrow> valid_utf8 (string_of_runes rs)"
  by (simp add: valid_utf8_def runes_of_string_of_runes)

lemma valid_rune3:
  assumes "224 \<le> b0" "b0 \<le> 239" "cont_byte b1" "cont_byte b2" "b0 = 237 \<longrightarrow> b1 \<le> 159"
  shows "valid_rune ((b0 - 224) * 4096 + (b1 - 128) * 64 + (b2 - 128))"
proof -
  have b: "b1 - 128 \<le> 63" "b2 - 128 \<le> 63"
    using assms by (auto simp: cont_byte_def)
  consider "b0 - 224 \<le> 12" | "b0 = 237" "b1 - 128 \<le> 31" | "14 \<le> b0 - 224" "b0 - 224 \<le> 15"
    using assms by fastforce
  then show ?thesis
  proof cases
    case 2
    then show ?thesis using b unfolding valid_rune_def by simp
  qed (use b in \<open>unfold valid_rune_def, linarith+\<close>)
qed

lemma valid_rune4:
  assumes "240 \<le> b0" "b0 \<le> 244" "cont_byte b1" "cont_byte b2" "cont_byte b3"
    "b0 = 240 \<longrightarrow> 144 \<le> b1" "b0 = 244 \<longrightarrow> b1 \<le> 143"
  shows "valid_rune ((b0 - 240) * 262144 + (b1 - 128) * 4096 + (b2 - 128) * 64 + (b3 - 128))"
proof -
  have b: "b1 - 128 \<le> 63" "b2 - 128 \<le> 63" "b3 - 128 \<le> 63"
    using assms by (auto simp: cont_byte_def)
  consider "b0 = 240" "16 \<le> b1 - 128" | "1 \<le> b0 - 240" "b0 - 240 \<le> 3" | "b0 = 244" "b1 - 128 \<le> 15"
    using assms by fastforce
  then show ?thesis
    by cases (use b in \<open>unfold valid_rune_def, simp_all\<close>)
qed

lemma valid_rune2: "b0 \<le> 223 \<Longrightarrow> cont_byte b1 \<Longrightarrow> valid_rune ((b0 - 192) * 64 + (b1 - 128))"
  by (auto simp: valid_rune_def cont_byte_def)

lemma valid_rune_const [simp]: "valid_rune rune_error" "b < 128 \<Longrightarrow> valid_rune b"
  by (simp_all add: valid_rune_def rune_error_def)

lemma valid_rune_decode: "valid_rune (fst (decode_rune bs))"
proof (cases bs)
  case (Cons b0 t)
  then show ?thesis
    by (simp add: decode_rune.simps(2) valid_rune2 valid_rune3 valid_rune4 split: list.split)
qed simp

lemma valid_runes_decode: "\<forall>r\<in>set (decode_runes bs). valid_rune r"
proof (induction bs rule: decode_runes.induct)
  case (1 bs)
  then show ?case
    by (cases "bs = []"; subst decode_runes.simps) (auto simp: valid_rune_decode)
qed

lemma valid_runes_of: "\<forall>r\<in>set (runes_of s). valid_rune r"
  unfolding runes_of_def by (rule valid_runes_decode)

end
