(* ===== verification/GoJson.thy ===== *)
theory GoJson
  imports GoText
begin

text \<open>
  JSON values as \<open>encoding/json\<close> reads and writes them, and the decoding of an object into the
  fields of a Go struct: a key selects the field whose name it equals up to case, the last
  occurrence wins, \<open>null\<close> leaves a plain field unchanged and resets a pointer field, and a value
  of the wrong type is an error (\<open>None\<close>). Numbers are integers: no field of the program that is
  decoded holds a fraction.
\<close>

datatype json =
    JNull
  | JBool bool
  | JNum int
  | JStr string
  | JArr "json list"
  | JObj "(string \<times> json) list"

definition obj_pairs :: "json \<Rightarrow> (string \<times> json) list option" where
  "obj_pairs j = (case j of JNull \<Rightarrow> Some [] | JObj ps \<Rightarrow> Some ps | _ \<Rightarrow> None)"

definition field_values :: "string \<Rightarrow> (string \<times> json) list \<Rightarrow> json list" where
  "field_values name ps = map snd (filter (\<lambda>kv. ToLower (fst kv) = ToLower name) ps)"

fun into_string :: "string \<Rightarrow> json list \<Rightarrow> string option" where
  "into_string z [] = Some z"
| "into_string z (JStr s # js) = into_string s js"
| "into_string z (JNull # js) = into_string z js"
| "into_string z (_ # js) = None"

fun into_string_ptr :: "string option \<Rightarrow> json list \<Rightarrow> string option option" where
  "into_string_ptr z [] = Some z"
| "into_string_ptr z (JStr s # js) = into_string_ptr (Some s) js"
| "into_string_ptr z (JNull # js) = into_string_ptr None js"
| "into_string_ptr z (_ # js) = None"

fun into_int :: "int \<Rightarrow> json list \<Rightarrow> int option" where
  "into_int z [] = Some z"
| "into_int z (JNum n # js) =
     (if - (2 ^ 63) \<le> n \<and> n < 2 ^ 63 then into_int n js else None)"
| "into_int z (JNull # js) = into_int z js"
| "into_int z (_ # js) = None"

text \<open>64-bit signed arithmetic: the value that \<open>int\<close> and \<open>int64\<close> hold for a mathematical result.\<close>

definition wrap64 :: "int \<Rightarrow> int" where
  "wrap64 n = (n + 2 ^ 63) mod 2 ^ 64 - 2 ^ 63"

lemma wrap64_id: "- (2 ^ 63) \<le> n \<Longrightarrow> n < 2 ^ 63 \<Longrightarrow> wrap64 n = n"
  by (simp add: wrap64_def)

lemma wrap64_range: "- (2 ^ 63) \<le> wrap64 n" "wrap64 n < 2 ^ 63"
  by (simp_all add: wrap64_def)

fun into_bool :: "bool \<Rightarrow> json list \<Rightarrow> bool option" where
  "into_bool z [] = Some z"
| "into_bool z (JBool b # js) = into_bool b js"
| "into_bool z (JNull # js) = into_bool z js"
| "into_bool z (_ # js) = None"

definition string_field :: "string \<Rightarrow> (string \<times> json) list \<Rightarrow> string option" where
  "string_field name ps = into_string [] (field_values name ps)"

definition string_ptr_field :: "string \<Rightarrow> (string \<times> json) list \<Rightarrow> string option option" where
  "string_ptr_field name ps = into_string_ptr None (field_values name ps)"

definition int_field :: "string \<Rightarrow> (string \<times> json) list \<Rightarrow> int option" where
  "int_field name ps = into_int 0 (field_values name ps)"

definition bool_field :: "string \<Rightarrow> (string \<times> json) list \<Rightarrow> bool option" where
  "bool_field name ps = into_bool False (field_values name ps)"

lemmas json_fields = string_field_def string_ptr_field_def int_field_def bool_field_def
  field_values_def ToLower_def to_lower_def

text \<open>
  \<open>json.Unmarshal\<close> into a \<open>map[string]interface{}\<close>: an object gives its entries, \<open>null\<close> the nil
  map, anything else an error. A later duplicate key replaces the earlier one.
\<close>

datatype 'v gomap_value = NilMap | MapOf "(string, 'v) gomap"

definition unmarshal_map :: "json \<Rightarrow> json gomap_value option" where
  "unmarshal_map j =
     (case j of
        JNull \<Rightarrow> Some NilMap
      | JObj ps \<Rightarrow> Some (MapOf (fold (\<lambda>(k, v) m. mput k v m) ps []))
      | _ \<Rightarrow> None)"

lemma fold_mput_distinct:
  "distinct (mkeys m) \<Longrightarrow> distinct (mkeys (fold (\<lambda>(k, v) m. mput k v m) ps m))"
  by (induction ps arbitrary: m) auto

lemma mput_fresh: "k \<notin> fst ` set m \<Longrightarrow> mput k v m = m @ [(k, v)]"
  by (induction m) auto

lemma fold_mput_fresh:
  "distinct (mkeys ps) \<Longrightarrow> fst ` set ps \<inter> fst ` set m = {} \<Longrightarrow>
   fold (\<lambda>(k, v) m. mput k v m) ps m = m @ ps"
  by (induction ps arbitrary: m) (auto simp: mput_fresh)

lemma unmarshal_map_distinct:
  "distinct (mkeys ps) \<Longrightarrow> unmarshal_map (JObj ps) = Some (MapOf ps)"
  by (simp add: unmarshal_map_def fold_mput_fresh)

end
