(* ===== verification/Storage.thy ===== *)
theory Storage
  imports GoJson
begin

text \<open>
  The relay's database (\<open>internal/storage\<close>): the tables of the schema as lists of rows, one
  operation per method of \<open>Store\<close>. Each SQL statement may fail; \<open>db_faults\<close> is the schedule of
  those failures (one entry per statement, none left: every statement succeeds), so that every
  \<open>if err != nil\<close> of the source is a branch here. Instants are nanoseconds since the Unix epoch;
  a column written with \<open>Format(time.RFC3339)\<close> or \<open>Unix()\<close> holds whole seconds.
\<close>

section \<open>Time\<close>

type_synonym time = int

definition unix_sec :: "time \<Rightarrow> int" where
  "unix_sec t = t div 1000000000"

definition from_unix :: "int \<Rightarrow> time" where
  "from_unix s = s * 1000000000"

text \<open>\<open>nowISO\<close> renders an instant to the second; the second stands for the rendered text.\<close>

definition nowISO :: "time \<Rightarrow> int" where
  "nowISO now = unix_sec now"

lemma unix_sec_mono: "a \<le> b \<Longrightarrow> unix_sec a \<le> unix_sec b"
  by (simp add: unix_sec_def zdiv_mono1)

lemma unix_sec_from_unix [simp]: "unix_sec (from_unix s) = s"
  by (simp add: unix_sec_def from_unix_def)

section \<open>Rows\<close>

record AgentRecord =
  ag_Hostname :: string
  ag_PublicKeyPEM :: string
  ag_TokenJTI :: string
  ag_EnrolledAt :: int
  ag_LastSeen :: int
  ag_Status :: string
  ag_Suspended :: bool
  ag_Vars :: json  \<comment> \<open>the JSON text of the column, parsed\<close>

record AuthorizedKeyRecord =
  ak_Hostname :: string
  ak_PublicKeyPEM :: string
  ak_ApprovedAt :: int
  ak_ApprovedBy :: string

record BlacklistEntry =
  bl_JTI :: string
  bl_Hostname :: string
  bl_RevokedAt :: int
  bl_ExpiresAt :: int
  bl_Reason :: string

record config_row =
  cf_key :: string
  cf_value :: string
  cf_updated_at :: int

record enrollment_row =
  et_id :: string
  et_token_hash :: string
  et_hostname_pattern :: string
  et_reusable :: int
  et_use_count :: int
  et_last_used_at :: "int option"
  et_created_at :: int
  et_expires_at :: "int option"
  et_created_by :: "string option"

record plugin_row =
  pt_id :: string
  pt_token_hash :: string
  pt_description :: "string option"
  pt_role :: string
  pt_allowed_ips :: "string option"
  pt_allowed_hostname_pattern :: "string option"
  pt_created_at :: int
  pt_expires_at :: "int option"
  pt_last_used_at :: "int option"
  pt_last_used_ip :: "string option"
  pt_revoked :: int

record action_row =
  al_id :: string
  al_event :: string
  al_hostname :: string
  al_action_type :: string
  al_action_index :: int
  al_config_snapshot :: string
  al_success :: int
  al_error :: "string option"
  al_duration_ms :: int
  al_executed_at :: int

record store =
  agents :: "AgentRecord list"
  authorized_keys :: "AuthorizedKeyRecord list"
  blacklist :: "BlacklistEntry list"
  server_config :: "config_row list"
  enrollment_tokens :: "enrollment_row list"
  plugin_tokens :: "plugin_row list"
  action_log :: "action_row list"
  db_faults :: "bool list"

datatype store_error = DbError | AgentNotFound | TokenNotFound | NilMapPanic

type_synonym 'a db = "(store, store_error + 'a) state"

text \<open>One SQL statement: it fails if the schedule says so, otherwise it runs.\<close>

definition tick :: "store \<Rightarrow> store" where
  "tick s = s\<lparr>db_faults := tl (db_faults s)\<rparr>"

definition faulty :: "store \<Rightarrow> bool" where
  "faulty s \<longleftrightarrow> (case db_faults s of [] \<Rightarrow> False | b # _ \<Rightarrow> b)"

definition sql :: "(store \<Rightarrow> 'a \<times> store) \<Rightarrow> 'a db" where
  "sql f = State (\<lambda>s. if faulty s then (Inl DbError, tick s)
                      else map_prod Inr id (f (tick s)))"

definition sql_query :: "(store \<Rightarrow> 'a) \<Rightarrow> 'a db" where
  "sql_query f = sql (\<lambda>s. (f s, s))"

definition sql_exec :: "(store \<Rightarrow> nat) \<Rightarrow> (store \<Rightarrow> store) \<Rightarrow> nat db" where
  "sql_exec affected f = sql (\<lambda>s. (affected s, f s))"

abbreviation db_return :: "'a \<Rightarrow> 'a db" where
  "db_return a \<equiv> State_Monad.return (Inr a)"

abbreviation db_fail :: "store_error \<Rightarrow> 'a db" where
  "db_fail e \<equiv> State_Monad.return (Inl e)"

text \<open>\<open>if err != nil { return err }\<close>\<close>

definition db_bind :: "'a db \<Rightarrow> ('a \<Rightarrow> 'b db) \<Rightarrow> 'b db" where
  "db_bind m f = State_Monad.bind m (\<lambda>r. case r of Inl e \<Rightarrow> State_Monad.return (Inl e) | Inr a \<Rightarrow> f a)"

definition healthy :: "store \<Rightarrow> bool" where
  "healthy s \<longleftrightarrow> db_faults s = []"

lemma healthy_simps [simp]:
  "healthy s \<Longrightarrow> \<not> faulty s" "healthy s \<Longrightarrow> tick s = s" "healthy s \<Longrightarrow> healthy (tick s)"
  by (simp_all add: healthy_def faulty_def tick_def)

lemma healthy_upd [simp]:
  "healthy (s\<lparr>agents := a\<rparr>) = healthy s"
  "healthy (s\<lparr>authorized_keys := k\<rparr>) = healthy s"
  "healthy (s\<lparr>blacklist := b\<rparr>) = healthy s"
  "healthy (s\<lparr>server_config := c\<rparr>) = healthy s"
  "healthy (s\<lparr>enrollment_tokens := e\<rparr>) = healthy s"
  "healthy (s\<lparr>plugin_tokens := p\<rparr>) = healthy s"
  "healthy (s\<lparr>action_log := l\<rparr>) = healthy s"
  by (simp_all add: healthy_def)

lemma tick_tables [simp]:
  "agents (tick s) = agents s" "authorized_keys (tick s) = authorized_keys s"
  "blacklist (tick s) = blacklist s" "server_config (tick s) = server_config s"
  "enrollment_tokens (tick s) = enrollment_tokens s" "plugin_tokens (tick s) = plugin_tokens s"
  "action_log (tick s) = action_log s"
  by (simp_all add: tick_def)

lemma run_sql [simp]:
  "run_state (sql f) s = (if faulty s then (Inl DbError, tick s)
     else (Inr (fst (f (tick s))), snd (f (tick s))))"
  by (simp add: sql_def map_prod_def split: prod.split)

lemma run_sql_query [simp]:
  "run_state (sql_query f) s = (if faulty s then (Inl DbError, tick s) else (Inr (f (tick s)), tick s))"
  by (simp add: sql_query_def)

lemma run_sql_exec [simp]:
  "run_state (sql_exec n f) s =
    (if faulty s then (Inl DbError, tick s) else (Inr (n (tick s)), f (tick s)))"
  by (simp add: sql_exec_def)

lemma run_db_bind [simp]:
  "run_state (db_bind m f) s =
    (case run_state m s of (Inl e, s') \<Rightarrow> (Inl e, s') | (Inr a, s') \<Rightarrow> run_state (f a) s')"
  by (auto simp: db_bind_def split: prod.split sum.split)

section \<open>authorized_keys\<close>

definition AddAuthorizedKey :: "time \<Rightarrow> string \<Rightarrow> string \<Rightarrow> string \<Rightarrow> unit db" where
  "AddAuthorizedKey now hostname publicKeyPEM approvedBy =
     db_bind
       (sql_exec (\<lambda>_. 1)
          (\<lambda>s. s\<lparr>authorized_keys :=
             row_upsert ak_Hostname
               (\<lambda>r. r\<lparr>ak_PublicKeyPEM := publicKeyPEM, ak_ApprovedAt := nowISO now,
                      ak_ApprovedBy := approvedBy\<rparr>)
               \<lparr>ak_Hostname = hostname, ak_PublicKeyPEM = publicKeyPEM,
                 ak_ApprovedAt = nowISO now, ak_ApprovedBy = approvedBy\<rparr>
               (authorized_keys s)\<rparr>))
       (\<lambda>_. db_return ())"

definition GetAuthorizedKey :: "string \<Rightarrow> AuthorizedKeyRecord option db" where
  "GetAuthorizedKey hostname = sql_query (\<lambda>s. row_find ak_Hostname hostname (authorized_keys s))"

definition RevokeKey :: "string \<Rightarrow> bool db" where
  "RevokeKey hostname =
     db_bind
       (sql_exec (\<lambda>s. rows_affected (\<lambda>r. ak_Hostname r = hostname) (authorized_keys s))
          (\<lambda>s. s\<lparr>authorized_keys := rows_delete (\<lambda>r. ak_Hostname r = hostname) (authorized_keys s)\<rparr>))
       (\<lambda>n. db_return (0 < n))"

section \<open>agents\<close>

definition update_agent :: "string \<Rightarrow> (AgentRecord \<Rightarrow> AgentRecord) \<Rightarrow> nat db" where
  "update_agent hostname f =
     sql_exec (\<lambda>s. rows_affected (\<lambda>r. ag_Hostname r = hostname) (agents s))
       (\<lambda>s. s\<lparr>agents := rows_update (\<lambda>r. ag_Hostname r = hostname) f (agents s)\<rparr>)"

definition store_RegisterAgent :: "time \<Rightarrow> string \<Rightarrow> string \<Rightarrow> string \<Rightarrow> string db" where
  "store_RegisterAgent now hostname publicKeyPEM tokenJTI =
     db_bind
       (sql_exec (\<lambda>_. 1)
          (\<lambda>s. s\<lparr>agents :=
             row_upsert ag_Hostname
               (\<lambda>r. r\<lparr>ag_PublicKeyPEM := publicKeyPEM, ag_TokenJTI := tokenJTI,
                      ag_EnrolledAt := nowISO now, ag_LastSeen := nowISO now\<rparr>)
               \<lparr>ag_Hostname = hostname, ag_PublicKeyPEM = publicKeyPEM, ag_TokenJTI = tokenJTI,
                 ag_EnrolledAt = nowISO now, ag_LastSeen = nowISO now,
                 ag_Status = ''disconnected'', ag_Suspended = False, ag_Vars = JObj []\<rparr>
               (agents s)\<rparr>))
       (\<lambda>_. db_return hostname)"

definition UpsertAgent :: "time \<Rightarrow> string \<Rightarrow> string \<Rightarrow> string \<Rightarrow> unit db" where
  "UpsertAgent now hostname publicKeyPEM tokenJTI =
     db_bind (store_RegisterAgent now hostname publicKeyPEM tokenJTI) (\<lambda>_. db_return ())"

definition GetAgent :: "string \<Rightarrow> AgentRecord option db" where
  "GetAgent hostname = sql_query (\<lambda>s. row_find ag_Hostname hostname (agents s))"

definition ListAgents :: "bool \<Rightarrow> AgentRecord list db" where
  "ListAgents onlyConnected =
     sql_query (\<lambda>s. if onlyConnected then filter (\<lambda>r. ag_Status r = ''connected'') (agents s)
                    else agents s)"

text \<open>The second statement is best effort: its error is dropped.\<close>

definition DeleteAgent :: "string \<Rightarrow> bool db" where
  "DeleteAgent hostname =
     db_bind
       (sql_exec (\<lambda>s. rows_affected (\<lambda>r. ag_Hostname r = hostname) (agents s))
          (\<lambda>s. s\<lparr>agents := rows_delete (\<lambda>r. ag_Hostname r = hostname) (agents s)\<rparr>))
       (\<lambda>affected.
          if affected = 0 then db_return False
          else State_Monad.bind
            (sql_exec (\<lambda>s. rows_affected (\<lambda>r. ak_Hostname r = hostname) (authorized_keys s))
               (\<lambda>s. s\<lparr>authorized_keys :=
                  rows_delete (\<lambda>r. ak_Hostname r = hostname) (authorized_keys s)\<rparr>))
            (\<lambda>_. db_return True))"

definition UpdateLastSeen :: "time \<Rightarrow> string \<Rightarrow> bool db" where
  "UpdateLastSeen now hostname =
     db_bind
       (update_agent hostname (\<lambda>r. r\<lparr>ag_LastSeen := nowISO now, ag_Status := ''connected''\<rparr>))
       (\<lambda>n. db_return (0 < n))"

text \<open>An empty \<open>lastSeen\<close> argument means now.\<close>

definition UpdateAgentStatus :: "time \<Rightarrow> string \<Rightarrow> string \<Rightarrow> int option \<Rightarrow> unit db" where
  "UpdateAgentStatus now hostname status lastSeen =
     db_bind
       (update_agent hostname
          (\<lambda>r. r\<lparr>ag_Status := status,
                 ag_LastSeen := (case lastSeen of None \<Rightarrow> nowISO now | Some ts \<Rightarrow> ts)\<rparr>))
       (\<lambda>_. db_return ())"

definition UpdateTokenJTI :: "string \<Rightarrow> string \<Rightarrow> bool db" where
  "UpdateTokenJTI hostname tokenJTI =
     db_bind (update_agent hostname (\<lambda>r. r\<lparr>ag_TokenJTI := tokenJTI\<rparr>)) (\<lambda>n. db_return (0 < n))"

definition SetSuspended :: "string \<Rightarrow> bool \<Rightarrow> bool db" where
  "SetSuspended hostname suspended =
     db_bind (update_agent hostname (\<lambda>r. r\<lparr>ag_Suspended := suspended\<rparr>)) (\<lambda>n. db_return (0 < n))"

definition IsAgentSuspended :: "string \<Rightarrow> bool db" where
  "IsAgentSuspended hostname =
     sql_query (\<lambda>s. case row_find ag_Hostname hostname (agents s) of
        None \<Rightarrow> False | Some r \<Rightarrow> ag_Suspended r)"

text \<open>\<open>None\<close> is the empty string the code returns for an unknown agent.\<close>

definition GetAgentVars :: "string \<Rightarrow> json option db" where
  "GetAgentVars hostname =
     sql_query (\<lambda>s. map_option ag_Vars (row_find ag_Hostname hostname (agents s)))"

definition SetAgentVar :: "string \<Rightarrow> string \<Rightarrow> json \<Rightarrow> unit db" where
  "SetAgentVar hostname k v =
     db_bind (GetAgentVars hostname) (\<lambda>existing.
       case existing of
         None \<Rightarrow> db_fail AgentNotFound
       | Some vars \<Rightarrow>
           (case unmarshal_map vars of
              Some NilMap \<Rightarrow> db_fail NilMapPanic
            | Some (MapOf m) \<Rightarrow>
                db_bind (update_agent hostname (\<lambda>r. r\<lparr>ag_Vars := JObj (mput k v m)\<rparr>))
                  (\<lambda>_. db_return ())
            | None \<Rightarrow>
                db_bind (update_agent hostname (\<lambda>r. r\<lparr>ag_Vars := JObj (mput k v [])\<rparr>))
                  (\<lambda>_. db_return ())))"

definition DeleteAgentVar :: "string \<Rightarrow> string \<Rightarrow> bool db" where
  "DeleteAgentVar hostname k =
     db_bind (GetAgentVars hostname) (\<lambda>existing.
       case existing of
         None \<Rightarrow> db_fail AgentNotFound
       | Some vars \<Rightarrow>
           (let m = (case unmarshal_map vars of Some (MapOf m) \<Rightarrow> m | _ \<Rightarrow> [])
            in if mget m k = None then db_return False
               else db_bind (update_agent hostname (\<lambda>r. r\<lparr>ag_Vars := JObj (mdel k m)\<rparr>))
                      (\<lambda>_. db_return True)))"

section \<open>blacklist\<close>

definition AddToBlacklist :: "time \<Rightarrow> string \<Rightarrow> string \<Rightarrow> int \<Rightarrow> string option \<Rightarrow> unit db" where
  "AddToBlacklist now jti hostname expiresAt reason =
     db_bind
       (sql_exec (\<lambda>_. 1)
          (\<lambda>s. s\<lparr>blacklist :=
             row_upsert bl_JTI (\<lambda>r. r)
               \<lparr>bl_JTI = jti, bl_Hostname = hostname, bl_RevokedAt = nowISO now,
                 bl_ExpiresAt = expiresAt,
                 bl_Reason = (case reason of None \<Rightarrow> [] | Some r \<Rightarrow> r)\<rparr>
               (blacklist s)\<rparr>))
       (\<lambda>_. db_return ())"

definition IsJTIBlacklisted :: "string \<Rightarrow> bool db" where
  "IsJTIBlacklisted jti = sql_query (\<lambda>s. row_find bl_JTI jti (blacklist s) \<noteq> None)"

definition PurgeExpiredBlacklist :: "time \<Rightarrow> nat db" where
  "PurgeExpiredBlacklist now =
     sql_exec (\<lambda>s. rows_affected (\<lambda>r. bl_ExpiresAt r \<le> nowISO now) (blacklist s))
       (\<lambda>s. s\<lparr>blacklist := rows_delete (\<lambda>r. bl_ExpiresAt r \<le> nowISO now) (blacklist s)\<rparr>)"

definition CleanupExpiredBlacklist :: "time \<Rightarrow> nat db" where
  "CleanupExpiredBlacklist now = PurgeExpiredBlacklist now"

definition ListBlacklistEntries :: "BlacklistEntry list db" where
  "ListBlacklistEntries = sql_query (\<lambda>s. sort_key (\<lambda>r. - bl_RevokedAt r) (blacklist s))"

section \<open>server_config\<close>

text \<open>\<open>ConfigGet\<close> returns the empty string for a missing key.\<close>

definition ConfigGet :: "string \<Rightarrow> string db" where
  "ConfigGet k = sql_query (\<lambda>s. case row_find cf_key k (server_config s) of
     None \<Rightarrow> [] | Some r \<Rightarrow> cf_value r)"

definition ConfigSet :: "time \<Rightarrow> string \<Rightarrow> string \<Rightarrow> unit db" where
  "ConfigSet now k v =
     db_bind
       (sql_exec (\<lambda>_. 1)
          (\<lambda>s. s\<lparr>server_config :=
             row_upsert cf_key (\<lambda>r. r\<lparr>cf_value := v, cf_updated_at := nowISO now\<rparr>)
               \<lparr>cf_key = k, cf_value = v, cf_updated_at = nowISO now\<rparr> (server_config s)\<rparr>))
       (\<lambda>_. db_return ())"

definition ConfigDelete :: "string \<Rightarrow> unit db" where
  "ConfigDelete k =
     db_bind
       (sql_exec (\<lambda>s. rows_affected (\<lambda>r. cf_key r = k) (server_config s))
          (\<lambda>s. s\<lparr>server_config := rows_delete (\<lambda>r. cf_key r = k) (server_config s)\<rparr>))
       (\<lambda>_. db_return ())"

section \<open>The database file\<close>

text \<open>The file \<open>NewStore\<close> opens for a \<open>DATABASE_URL\<close>.\<close>

definition db_file_path :: "string \<Rightarrow> string" where
  "db_file_path dbURL =
     (if HasPrefix dbURL ''sqlite:////'' then drop (length ''sqlite:////'') dbURL
      else if HasPrefix dbURL ''sqlite:///'' then ''/'' @ drop (length ''sqlite:///'') dbURL
      else dbURL)"

definition empty_store :: store where
  "empty_store = \<lparr>agents = [], authorized_keys = [], blacklist = [], server_config = [],
     enrollment_tokens = [], plugin_tokens = [], action_log = [], db_faults = []\<rparr>"

section \<open>action_log\<close>

record ActionLogEntry =
  le_ID :: string
  le_Event :: string
  le_Hostname :: string
  le_ActionType :: string
  le_ActionIndex :: int
  le_ConfigSnapshot :: string
  le_Success :: bool
  le_Error :: string
  le_DurationMs :: int
  le_ExecutedAt :: time

record ActionLogFilter =
  lf_Event :: string
  lf_Hostname :: string
  lf_Limit :: int

definition action_row_of :: "ActionLogEntry \<Rightarrow> action_row" where
  "action_row_of e =
     \<lparr>al_id = le_ID e, al_event = le_Event e, al_hostname = le_Hostname e,
       al_action_type = le_ActionType e, al_action_index = le_ActionIndex e,
       al_config_snapshot = le_ConfigSnapshot e, al_success = (if le_Success e then 1 else 0),
       al_error = Some (le_Error e), al_duration_ms = le_DurationMs e,
       al_executed_at = unix_sec (le_ExecutedAt e)\<rparr>"

text \<open>The primary key rejects a second row with the same id.\<close>

definition CreateActionLog :: "ActionLogEntry \<Rightarrow> unit db" where
  "CreateActionLog entry =
     db_bind
       (sql (\<lambda>s. if row_find al_id (le_ID entry) (action_log s) \<noteq> None then (False, s)
                 else (True, s\<lparr>action_log := action_log s @ [action_row_of entry]\<rparr>)))
       (\<lambda>ok. if ok then db_return () else db_fail DbError)"

definition clamp_limit :: "int \<Rightarrow> int" where
  "clamp_limit n = (let limit = (if n \<le> 0 then 50 else n) in if 200 < limit then 200 else limit)"

definition scan_action_row :: "action_row \<Rightarrow> ActionLogEntry" where
  "scan_action_row r =
     \<lparr>le_ID = al_id r, le_Event = al_event r, le_Hostname = al_hostname r,
       le_ActionType = al_action_type r, le_ActionIndex = al_action_index r,
       le_ConfigSnapshot = al_config_snapshot r, le_Success = (al_success r \<noteq> 0),
       le_Error = (case al_error r of None \<Rightarrow> [] | Some e \<Rightarrow> e),
       le_DurationMs = al_duration_ms r, le_ExecutedAt = from_unix (al_executed_at r)\<rparr>"

definition ListActionLogs :: "ActionLogFilter \<Rightarrow> ActionLogEntry list db" where
  "ListActionLogs f =
     sql_query (\<lambda>s. map scan_action_row
       (take (nat (clamp_limit (lf_Limit f)))
         (sort_key (\<lambda>r. - al_executed_at r)
           (filter (\<lambda>r. (lf_Event f \<noteq> [] \<longrightarrow> al_event r = lf_Event f)
                      \<and> (lf_Hostname f \<noteq> [] \<longrightarrow> al_hostname r = lf_Hostname f))
              (action_log s)))))"

end
