(* ===== verification/TokenStore.thy ===== *)
theory TokenStore
  imports Storage
begin

text \<open>
  The token tables of the store: enrollment tokens (\<open>store_enrollment_tokens.go\<close>) and plugin
  tokens (\<open>store_plugin_tokens.go\<close>). A row keeps what the column holds (integers for booleans,
  Unix seconds, SQL NULL as \<open>None\<close>); the scan functions build the Go value from it.
\<close>

section \<open>Enrollment tokens\<close>

record EnrollmentToken =
  en_ID :: string
  en_TokenHash :: string
  en_HostnamePattern :: string
  en_Reusable :: bool
  en_UseCount :: int
  en_LastUsedAt :: "time option"
  en_CreatedAt :: time
  en_ExpiresAt :: "time option"
  en_CreatedBy :: string

definition enrollment_row_of :: "EnrollmentToken \<Rightarrow> enrollment_row" where
  "enrollment_row_of t =
     \<lparr>et_id = en_ID t, et_token_hash = en_TokenHash t,
       et_hostname_pattern = en_HostnamePattern t,
       et_reusable = (if en_Reusable t then 1 else 0), et_use_count = 0,
       et_last_used_at = None, et_created_at = unix_sec (en_CreatedAt t),
       et_expires_at = map_option unix_sec (en_ExpiresAt t),
       et_created_by = Some (en_CreatedBy t)\<rparr>"

text \<open>Both the primary key and the \<open>UNIQUE\<close> hash column can reject the insertion.\<close>

definition CreateEnrollmentToken :: "EnrollmentToken \<Rightarrow> unit db" where
  "CreateEnrollmentToken t =
     db_bind
       (sql (\<lambda>s. if row_find et_id (en_ID t) (enrollment_tokens s) \<noteq> None
                    \<or> row_find et_token_hash (en_TokenHash t) (enrollment_tokens s) \<noteq> None
                 then (False, s)
                 else (True, s\<lparr>enrollment_tokens := enrollment_tokens s @ [enrollment_row_of t]\<rparr>)))
       (\<lambda>ok. if ok then db_return () else db_fail DbError)"

definition scanEnrollmentToken :: "enrollment_row \<Rightarrow> EnrollmentToken" where
  "scanEnrollmentToken r =
     \<lparr>en_ID = et_id r, en_TokenHash = et_token_hash r,
       en_HostnamePattern = et_hostname_pattern r, en_Reusable = (et_reusable r \<noteq> 0),
       en_UseCount = et_use_count r, en_LastUsedAt = map_option from_unix (et_last_used_at r),
       en_CreatedAt = from_unix (et_created_at r),
       en_ExpiresAt = map_option from_unix (et_expires_at r),
       en_CreatedBy = (case et_created_by r of None \<Rightarrow> [] | Some c \<Rightarrow> c)\<rparr>"

definition GetEnrollmentTokenByHash :: "string \<Rightarrow> EnrollmentToken option db" where
  "GetEnrollmentTokenByHash tokenHash =
     sql_query (\<lambda>s. map_option scanEnrollmentToken
       (row_find et_token_hash tokenHash (enrollment_tokens s)))"

definition GetEnrollmentTokenByID :: "string \<Rightarrow> EnrollmentToken option db" where
  "GetEnrollmentTokenByID i =
     sql_query (\<lambda>s. map_option scanEnrollmentToken (row_find et_id i (enrollment_tokens s)))"

definition ListEnrollmentTokens :: "EnrollmentToken list db" where
  "ListEnrollmentTokens =
     sql_query (\<lambda>s. map scanEnrollmentToken
       (sort_key (\<lambda>r. - et_created_at r) (enrollment_tokens s)))"

definition ConsumeEnrollmentToken :: "time \<Rightarrow> string \<Rightarrow> unit db" where
  "ConsumeEnrollmentToken now i =
     db_bind
       (sql_exec (\<lambda>s. rows_affected (\<lambda>r. et_id r = i) (enrollment_tokens s))
          (\<lambda>s. s\<lparr>enrollment_tokens :=
             rows_update (\<lambda>r. et_id r = i)
               (\<lambda>r. r\<lparr>et_use_count := et_use_count r + 1, et_last_used_at := Some (unix_sec now)\<rparr>)
               (enrollment_tokens s)\<rparr>))
       (\<lambda>affected. if affected = 0 then db_fail TokenNotFound else db_return ())"

definition DeleteEnrollmentToken :: "string \<Rightarrow> bool db" where
  "DeleteEnrollmentToken i =
     db_bind
       (sql_exec (\<lambda>s. rows_affected (\<lambda>r. et_id r = i) (enrollment_tokens s))
          (\<lambda>s. s\<lparr>enrollment_tokens := rows_delete (\<lambda>r. et_id r = i) (enrollment_tokens s)\<rparr>))
       (\<lambda>n. db_return (0 < n))"

definition enrollment_expired :: "time \<Rightarrow> enrollment_row \<Rightarrow> bool" where
  "enrollment_expired now r \<longleftrightarrow>
     (case et_expires_at r of None \<Rightarrow> False | Some e \<Rightarrow> e \<le> unix_sec now)"

definition PurgeExpiredEnrollmentTokens :: "time \<Rightarrow> nat db" where
  "PurgeExpiredEnrollmentTokens now =
     sql_exec (\<lambda>s. rows_affected (enrollment_expired now) (enrollment_tokens s))
       (\<lambda>s. s\<lparr>enrollment_tokens := rows_delete (enrollment_expired now) (enrollment_tokens s)\<rparr>)"

definition used_one_shot :: "enrollment_row \<Rightarrow> bool" where
  "used_one_shot r \<longleftrightarrow> et_reusable r = 0 \<and> 0 < et_use_count r"

definition PurgeUsedOneShotEnrollmentTokens :: "nat db" where
  "PurgeUsedOneShotEnrollmentTokens =
     sql_exec (\<lambda>s. rows_affected used_one_shot (enrollment_tokens s))
       (\<lambda>s. s\<lparr>enrollment_tokens := rows_delete used_one_shot (enrollment_tokens s)\<rparr>)"

section \<open>Plugin tokens\<close>

record PluginToken =
  pl_ID :: string
  pl_TokenHash :: string
  pl_Description :: string
  pl_Role :: string
  pl_AllowedIPs :: string
  pl_AllowedHostnamePattern :: string
  pl_CreatedAt :: time
  pl_ExpiresAt :: "time option"
  pl_LastUsedAt :: "time option"
  pl_LastUsedIP :: string
  pl_Revoked :: bool

definition nullableString :: "string \<Rightarrow> string option" where
  "nullableString s = (if s = [] then None else Some s)"

definition plugin_row_of :: "PluginToken \<Rightarrow> plugin_row" where
  "plugin_row_of t =
     \<lparr>pt_id = pl_ID t, pt_token_hash = pl_TokenHash t, pt_description = Some (pl_Description t),
       pt_role = (if pl_Role t = [] then ''plugin'' else pl_Role t),
       pt_allowed_ips = nullableString (pl_AllowedIPs t),
       pt_allowed_hostname_pattern = nullableString (pl_AllowedHostnamePattern t),
       pt_created_at = unix_sec (pl_CreatedAt t),
       pt_expires_at = map_option unix_sec (pl_ExpiresAt t),
       pt_last_used_at = None, pt_last_used_ip = None, pt_revoked = 0\<rparr>"

definition CreatePluginToken :: "PluginToken \<Rightarrow> unit db" where
  "CreatePluginToken t =
     db_bind
       (sql (\<lambda>s. if row_find pt_id (pl_ID t) (plugin_tokens s) \<noteq> None
                    \<or> row_find pt_token_hash (pl_TokenHash t) (plugin_tokens s) \<noteq> None
                 then (False, s)
                 else (True, s\<lparr>plugin_tokens := plugin_tokens s @ [plugin_row_of t]\<rparr>)))
       (\<lambda>ok. if ok then db_return () else db_fail DbError)"

definition null_string :: "string option \<Rightarrow> string" where
  "null_string v = (case v of None \<Rightarrow> [] | Some s \<Rightarrow> s)"

definition scanPluginToken :: "plugin_row \<Rightarrow> PluginToken" where
  "scanPluginToken r =
     \<lparr>pl_ID = pt_id r, pl_TokenHash = pt_token_hash r,
       pl_Description = null_string (pt_description r), pl_Role = pt_role r,
       pl_AllowedIPs = null_string (pt_allowed_ips r),
       pl_AllowedHostnamePattern = null_string (pt_allowed_hostname_pattern r),
       pl_CreatedAt = from_unix (pt_created_at r),
       pl_ExpiresAt = map_option from_unix (pt_expires_at r),
       pl_LastUsedAt = map_option from_unix (pt_last_used_at r),
       pl_LastUsedIP = null_string (pt_last_used_ip r), pl_Revoked = (pt_revoked r \<noteq> 0)\<rparr>"

definition GetPluginTokenByHash :: "string \<Rightarrow> PluginToken option db" where
  "GetPluginTokenByHash tokenHash =
     sql_query (\<lambda>s. map_option scanPluginToken
       (row_find pt_token_hash tokenHash (plugin_tokens s)))"

definition GetPluginTokenByID :: "string \<Rightarrow> PluginToken option db" where
  "GetPluginTokenByID i =
     sql_query (\<lambda>s. map_option scanPluginToken (row_find pt_id i (plugin_tokens s)))"

definition ListPluginTokens :: "PluginToken list db" where
  "ListPluginTokens =
     sql_query (\<lambda>s. map scanPluginToken (sort_key (\<lambda>r. - pt_created_at r) (plugin_tokens s)))"

definition RevokePluginToken :: "string \<Rightarrow> bool db" where
  "RevokePluginToken i =
     db_bind
       (sql_exec (\<lambda>s. rows_affected (\<lambda>r. pt_id r = i) (plugin_tokens s))
          (\<lambda>s. s\<lparr>plugin_tokens :=
             rows_update (\<lambda>r. pt_id r = i) (\<lambda>r. r\<lparr>pt_revoked := 1\<rparr>) (plugin_tokens s)\<rparr>))
       (\<lambda>n. db_return (0 < n))"

definition DeletePluginToken :: "string \<Rightarrow> bool db" where
  "DeletePluginToken i =
     db_bind
       (sql_exec (\<lambda>s. rows_affected (\<lambda>r. pt_id r = i) (plugin_tokens s))
          (\<lambda>s. s\<lparr>plugin_tokens := rows_delete (\<lambda>r. pt_id r = i) (plugin_tokens s)\<rparr>))
       (\<lambda>n. db_return (0 < n))"

definition TouchPluginToken :: "time \<Rightarrow> string \<Rightarrow> string \<Rightarrow> unit db" where
  "TouchPluginToken now i remoteIP =
     db_bind
       (sql_exec (\<lambda>s. rows_affected (\<lambda>r. pt_id r = i) (plugin_tokens s))
          (\<lambda>s. s\<lparr>plugin_tokens :=
             rows_update (\<lambda>r. pt_id r = i)
               (\<lambda>r. r\<lparr>pt_last_used_at := Some (unix_sec now), pt_last_used_ip := Some remoteIP\<rparr>)
               (plugin_tokens s)\<rparr>))
       (\<lambda>affected. if affected = 0 then db_fail TokenNotFound else db_return ())"

section \<open>Validation helpers\<close>

text \<open>
  \<open>net.ParseIP\<close>, \<open>net.ParseCIDR\<close> with \<open>Contains\<close> and \<open>regexp.MatchString\<close> are the parameters
  \<open>parse_ip\<close>, \<open>cidr_contains\<close> and \<open>match\<close>; \<open>None\<close> is their error result.
\<close>

fun check_cidrs :: "(string \<Rightarrow> ('ip \<Rightarrow> bool) option) \<Rightarrow> 'ip \<Rightarrow> string list \<Rightarrow> bool option" where
  "check_cidrs cidr_contains ip [] = Some False"
| "check_cidrs cidr_contains ip (c # cs) =
     (if TrimSpace c = [] then check_cidrs cidr_contains ip cs
      else case cidr_contains (TrimSpace c) of
             None \<Rightarrow> None
           | Some net \<Rightarrow> if net ip then Some True else check_cidrs cidr_contains ip cs)"

definition PluginTokenCheckIP ::
  "(string \<Rightarrow> 'ip option) \<Rightarrow> (string \<Rightarrow> ('ip \<Rightarrow> bool) option) \<Rightarrow> string \<Rightarrow> string \<Rightarrow> bool option" where
  "PluginTokenCheckIP parse_ip cidr_contains allowedIPs remoteAddr =
     (if allowedIPs = [] then Some True
      else let host = (case SplitHostPort remoteAddr of None \<Rightarrow> remoteAddr | Some (h, _) \<Rightarrow> h)
           in case parse_ip host of
                None \<Rightarrow> None
              | Some ip \<Rightarrow> check_cidrs cidr_contains ip (split_on CHR '','' allowedIPs))"

definition PluginTokenCheckHostname ::
  "(string \<Rightarrow> string \<Rightarrow> bool option) \<Rightarrow> string \<Rightarrow> string \<Rightarrow> bool option" where
  "PluginTokenCheckHostname match pattern hostname =
     (if pattern = [] then Some True else match (''^'' @ pattern @ ''$'') hostname)"

end
