(* ===== verification/StoreSpec.thy ===== *)
theory StoreSpec
  imports TokenStore
begin

text \<open>
  What the store promises. \<open>store_inv\<close> is the schema's integrity together with the shape of
  the \<open>vars\<close> column, kept by every method whatever statements fail; \<open>agent_map\<close> is the abstract
  registry (host name to agent) that the methods on \<open>agents\<close> implement; the remaining lemmas give
  each method's result on a database whose statements succeed.
\<close>

section \<open>Integrity\<close>

definition vars_ok :: "json \<Rightarrow> bool" where
  "vars_ok v \<longleftrightarrow> (case v of JObj m \<Rightarrow> distinct (mkeys m) | _ \<Rightarrow> False)"

definition store_inv :: "store \<Rightarrow> bool" where
  "store_inv s \<longleftrightarrow>
     unique_key ag_Hostname (agents s) \<and> unique_key ak_Hostname (authorized_keys s)
   \<and> unique_key bl_JTI (blacklist s) \<and> unique_key cf_key (server_config s)
   \<and> unique_key et_id (enrollment_tokens s) \<and> unique_key et_token_hash (enrollment_tokens s)
   \<and> unique_key pt_id (plugin_tokens s) \<and> unique_key pt_token_hash (plugin_tokens s)
   \<and> unique_key al_id (action_log s)
   \<and> (\<forall>r\<in>set (agents s). vars_ok (ag_Vars r))
   \<and> (\<forall>r\<in>set (enrollment_tokens s). 0 \<le> et_use_count r)"

definition keeps :: "(store, 'a) state \<Rightarrow> bool" where
  "keeps m \<longleftrightarrow> (\<forall>s. store_inv s \<longrightarrow> store_inv (snd (run_state m s)))"

lemma store_inv_tick [simp]: "store_inv (tick s) = store_inv s"
  by (simp add: store_inv_def)

lemma keepsD: "keeps m \<Longrightarrow> store_inv s \<Longrightarrow> store_inv (snd (run_state m s))"
  by (simp add: keeps_def)

lemma keeps_return [inv_intros]: "keeps (State_Monad.return a)"
  by (simp add: keeps_def)

lemma keeps_bind [inv_intros]:
  "keeps m \<Longrightarrow> (\<And>a. keeps (f a)) \<Longrightarrow> keeps (State_Monad.bind m f)"
  unfolding keeps_def run_state_bind by (metis case_prod_beta)

lemma keeps_db_bind [inv_intros]:
  "keeps m \<Longrightarrow> (\<And>a. keeps (f a)) \<Longrightarrow> keeps (db_bind m f)"
  unfolding db_bind_def by (auto intro!: keeps_bind keeps_return split: sum.split)

lemma keeps_query [inv_intros]: "keeps (sql_query f)"
  by (simp add: keeps_def)

lemma keeps_sql: "(\<And>s. store_inv s \<Longrightarrow> store_inv (snd (f s))) \<Longrightarrow> keeps (sql f)"
  by (simp add: keeps_def)

lemma keeps_exec: "(\<And>s. store_inv s \<Longrightarrow> store_inv (f s)) \<Longrightarrow> keeps (sql_exec n f)"
  by (simp add: keeps_def)

lemma keeps_if [inv_intros]: "keeps m \<Longrightarrow> keeps n \<Longrightarrow> keeps (if b then m else n)"
  by simp

lemma keeps_case_option [inv_intros]:
  "keeps m \<Longrightarrow> (\<And>a. x = Some a \<Longrightarrow> keeps (f a)) \<Longrightarrow> keeps (case x of None \<Rightarrow> m | Some a \<Rightarrow> f a)"
  by (cases x) auto

lemma set_rows_update: "r \<in> set (rows_update P f rows) \<Longrightarrow> r \<in> set rows \<or> (\<exists>x\<in>set rows. r = f x)"
  by (auto simp: rows_update_def split: if_splits)

lemma set_row_upsert:
  "r' \<in> set (row_upsert k merge r rows) \<Longrightarrow> r' \<in> set rows \<or> (\<exists>x\<in>set rows. r' = merge x) \<or> r' = r"
  by (auto simp: row_upsert_def dest: set_rows_update split: if_splits)

lemma set_rows_delete: "r \<in> set (rows_delete P rows) \<Longrightarrow> r \<in> set rows"
  by (simp add: rows_delete_def)

lemmas row_sets = set_rows_update set_row_upsert set_rows_delete

lemma vars_ok_simps [simp]: "vars_ok (JObj m) = distinct (mkeys m)" "\<not> vars_ok JNull"
  by (simp_all add: vars_ok_def)

lemma keeps_update_agent [inv_intros]:
  assumes "\<And>r. ag_Hostname (f r) = ag_Hostname r" "\<And>r. vars_ok (ag_Vars r) \<Longrightarrow> vars_ok (ag_Vars (f r))"
  shows "keeps (update_agent h f)"
  unfolding update_agent_def
  by (rule keeps_exec)
    (auto simp: store_inv_def rows_update_keys assms dest!: set_rows_update)

lemma unmarshal_map_keys: "unmarshal_map v = Some (MapOf m) \<Longrightarrow> distinct (mkeys m)"
  by (auto simp: unmarshal_map_def fold_mput_distinct split: json.splits)

lemma keeps_delete_agents [inv_intros]:
  "keeps (sql_exec n (\<lambda>s. s\<lparr>agents := rows_delete P (agents s)\<rparr>))"
  "keeps (sql_exec n (\<lambda>s. s\<lparr>authorized_keys := rows_delete P' (authorized_keys s)\<rparr>))"
  "keeps (sql_exec n (\<lambda>s. s\<lparr>blacklist := rows_delete P'' (blacklist s)\<rparr>))"
  "keeps (sql_exec n (\<lambda>s. s\<lparr>server_config := rows_delete P1 (server_config s)\<rparr>))"
  "keeps (sql_exec n (\<lambda>s. s\<lparr>enrollment_tokens := rows_delete P2 (enrollment_tokens s)\<rparr>))"
  "keeps (sql_exec n (\<lambda>s. s\<lparr>plugin_tokens := rows_delete P3 (plugin_tokens s)\<rparr>))"
  by (rule keeps_exec; auto simp: store_inv_def unique_key_delete dest: set_rows_delete)+

lemma keeps_agents_ops:
  "keeps (store_RegisterAgent now h pem jti)"
  "keeps (UpsertAgent now h pem jti)"
  "keeps (DeleteAgent h)"
  "keeps (UpdateLastSeen now h)"
  "keeps (UpdateAgentStatus now h st ls)"
  "keeps (UpdateTokenJTI h jti)"
  "keeps (SetSuspended h b)"
proof -
  show reg: "keeps (store_RegisterAgent now h pem jti)" for now
    unfolding store_RegisterAgent_def
    by (intro keeps_db_bind keeps_return keeps_exec)
      (auto simp: store_inv_def unique_key_upsert dest!: set_row_upsert)
  show "keeps (UpsertAgent now h pem jti)"
    unfolding UpsertAgent_def by (intro inv_intros reg)
qed (auto simp: DeleteAgent_def UpdateLastSeen_def UpdateAgentStatus_def UpdateTokenJTI_def
    SetSuspended_def intro!: inv_intros split: option.split)

lemma keeps_vars_ops:
  "keeps (SetAgentVar h k v)"
  "keeps (DeleteAgentVar h k)"
  unfolding SetAgentVar_def DeleteAgentVar_def GetAgentVars_def Let_def
  by (auto intro!: inv_intros split: option.split gomap_value.split dest!: unmarshal_map_keys)

lemma keeps_other_ops:
  "keeps (AddAuthorizedKey now h pem by)"
  "keeps (RevokeKey h)"
  "keeps (AddToBlacklist now jti h e reason)"
  "keeps (PurgeExpiredBlacklist now)"
  "keeps (ConfigSet now k v)"
  "keeps (ConfigDelete k)"
  unfolding AddAuthorizedKey_def RevokeKey_def AddToBlacklist_def PurgeExpiredBlacklist_def
    ConfigSet_def ConfigDelete_def
  by (auto intro!: inv_intros)
    (rule keeps_exec, auto simp: store_inv_def unique_key_upsert)+

lemma unique_key_snoc:
  "unique_key key rows \<Longrightarrow> row_find key (key r) rows = None \<Longrightarrow> unique_key key (rows @ [r])"
  by (auto simp: row_find_None_iff)

lemma keeps_create_ops:
  "keeps (CreateEnrollmentToken et)"
  "keeps (CreatePluginToken pt)"
  "keeps (CreateActionLog e)"
  unfolding CreateEnrollmentToken_def CreatePluginToken_def CreateActionLog_def
  by (intro inv_intros keeps_sql;
      auto simp: store_inv_def row_find_None_iff enrollment_row_of_def plugin_row_of_def
        action_row_of_def)+

lemma keeps_token_ops:
  "keeps (ConsumeEnrollmentToken now i)"
  "keeps (DeleteEnrollmentToken i)"
  "keeps (PurgeExpiredEnrollmentTokens now)"
  "keeps PurgeUsedOneShotEnrollmentTokens"
  "keeps (RevokePluginToken i)"
  "keeps (DeletePluginToken i)"
  "keeps (TouchPluginToken now i ip)"
  unfolding ConsumeEnrollmentToken_def DeleteEnrollmentToken_def PurgeExpiredEnrollmentTokens_def
    PurgeUsedOneShotEnrollmentTokens_def RevokePluginToken_def DeletePluginToken_def
    TouchPluginToken_def
  by (auto intro!: inv_intros)
    (rule keeps_exec, auto simp: store_inv_def rows_update_keys dest!: set_rows_update)+

section \<open>Histories of store calls\<close>

text \<open>Every method that writes, as a command; a history runs them in order, at any instants.\<close>

datatype store_cmd =
    CAddAuthorizedKey string string string
  | CRevokeKey string
  | CRegisterAgent string string string
  | CDeleteAgent string
  | CUpdateLastSeen string
  | CUpdateAgentStatus string string "int option"
  | CUpdateTokenJTI string string
  | CSetSuspended string bool
  | CSetAgentVar string string json
  | CDeleteAgentVar string string
  | CAddToBlacklist string string int "string option"
  | CPurgeExpiredBlacklist
  | CConfigSet string string
  | CConfigDelete string
  | CCreateEnrollmentToken EnrollmentToken
  | CConsumeEnrollmentToken string
  | CDeleteEnrollmentToken string
  | CPurgeExpiredEnrollmentTokens
  | CPurgeUsedOneShotEnrollmentTokens
  | CCreatePluginToken PluginToken
  | CRevokePluginToken string
  | CDeletePluginToken string
  | CTouchPluginToken string string
  | CCreateActionLog ActionLogEntry

fun store_call :: "time \<Rightarrow> store_cmd \<Rightarrow> store \<Rightarrow> store" where
  "store_call now (CAddAuthorizedKey h k b) s = snd (run_state (AddAuthorizedKey now h k b) s)"
| "store_call now (CRevokeKey h) s = snd (run_state (RevokeKey h) s)"
| "store_call now (CRegisterAgent h k j) s = snd (run_state (store_RegisterAgent now h k j) s)"
| "store_call now (CDeleteAgent h) s = snd (run_state (DeleteAgent h) s)"
| "store_call now (CUpdateLastSeen h) s = snd (run_state (UpdateLastSeen now h) s)"
| "store_call now (CUpdateAgentStatus h st ls) s = snd (run_state (UpdateAgentStatus now h st ls) s)"
| "store_call now (CUpdateTokenJTI h j) s = snd (run_state (UpdateTokenJTI h j) s)"
| "store_call now (CSetSuspended h b) s = snd (run_state (SetSuspended h b) s)"
| "store_call now (CSetAgentVar h k v) s = snd (run_state (SetAgentVar h k v) s)"
| "store_call now (CDeleteAgentVar h k) s = snd (run_state (DeleteAgentVar h k) s)"
| "store_call now (CAddToBlacklist j h e r) s = snd (run_state (AddToBlacklist now j h e r) s)"
| "store_call now CPurgeExpiredBlacklist s = snd (run_state (PurgeExpiredBlacklist now) s)"
| "store_call now (CConfigSet k v) s = snd (run_state (ConfigSet now k v) s)"
| "store_call now (CConfigDelete k) s = snd (run_state (ConfigDelete k) s)"
| "store_call now (CCreateEnrollmentToken t) s = snd (run_state (CreateEnrollmentToken t) s)"
| "store_call now (CConsumeEnrollmentToken i) s = snd (run_state (ConsumeEnrollmentToken now i) s)"
| "store_call now (CDeleteEnrollmentToken i) s = snd (run_state (DeleteEnrollmentToken i) s)"
| "store_call now CPurgeExpiredEnrollmentTokens s = snd (run_state (PurgeExpiredEnrollmentTokens now) s)"
| "store_call now CPurgeUsedOneShotEnrollmentTokens s = snd (run_state PurgeUsedOneShotEnrollmentTokens s)"
| "store_call now (CCreatePluginToken t) s = snd (run_state (CreatePluginToken t) s)"
| "store_call now (CRevokePluginToken i) s = snd (run_state (RevokePluginToken i) s)"
| "store_call now (CDeletePluginToken i) s = snd (run_state (DeletePluginToken i) s)"
| "store_call now (CTouchPluginToken i ip) s = snd (run_state (TouchPluginToken now i ip) s)"
| "store_call now (CCreateActionLog e) s = snd (run_state (CreateActionLog e) s)"

fun store_history :: "(time \<times> store_cmd) list \<Rightarrow> store \<Rightarrow> store" where
  "store_history [] s = s"
| "store_history ((now, c) # cs) s = store_history cs (store_call now c s)"

lemma store_call_inv: "store_inv s \<Longrightarrow> store_inv (store_call now c s)"
  by (cases c)
    (auto intro: keepsD keeps_agents_ops keeps_vars_ops keeps_other_ops keeps_create_ops
      keeps_token_ops)

lemma store_inv_empty: "store_inv (empty_store\<lparr>db_faults := fs\<rparr>)"
  by (simp add: empty_store_def store_inv_def)

lemma store_history_inv: "store_inv s \<Longrightarrow> store_inv (store_history cs s)"
  by (induction cs s rule: store_history.induct) (auto intro: store_call_inv)

section \<open>The abstract agent registry\<close>

text \<open>
  What the \<open>agents\<close> table promises: a finite map from host names to agents. \<open>spec_call\<close> is the
  contract of each method on that map.
\<close>

definition agent_map :: "store \<Rightarrow> string \<Rightarrow> AgentRecord option" where
  "agent_map s h = row_find ag_Hostname h (agents s)"

definition on_agent :: "string \<Rightarrow> (AgentRecord \<Rightarrow> AgentRecord) \<Rightarrow>
    (string \<Rightarrow> AgentRecord option) \<Rightarrow> (string \<Rightarrow> AgentRecord option)" where
  "on_agent h f m = m(h := map_option f (m h))"

definition vars_of :: "AgentRecord \<Rightarrow> (string, json) gomap" where
  "vars_of r = (case ag_Vars r of JObj m \<Rightarrow> m | _ \<Rightarrow> [])"

fun spec_call :: "time \<Rightarrow> store_cmd \<Rightarrow> (string \<Rightarrow> AgentRecord option) \<Rightarrow> (string \<Rightarrow> AgentRecord option)" where
  "spec_call now (CRegisterAgent h k j) m =
     m(h \<mapsto> (case m h of
        Some r \<Rightarrow> r\<lparr>ag_PublicKeyPEM := k, ag_TokenJTI := j, ag_EnrolledAt := unix_sec now,
                    ag_LastSeen := unix_sec now\<rparr>
      | None \<Rightarrow> \<lparr>ag_Hostname = h, ag_PublicKeyPEM = k, ag_TokenJTI = j,
                  ag_EnrolledAt = unix_sec now, ag_LastSeen = unix_sec now,
                  ag_Status = ''disconnected'', ag_Suspended = False, ag_Vars = JObj []\<rparr>))"
| "spec_call now (CDeleteAgent h) m = m(h := None)"
| "spec_call now (CUpdateLastSeen h) m =
     on_agent h (\<lambda>r. r\<lparr>ag_LastSeen := unix_sec now, ag_Status := ''connected''\<rparr>) m"
| "spec_call now (CUpdateAgentStatus h st ls) m =
     on_agent h (\<lambda>r. r\<lparr>ag_Status := st,
        ag_LastSeen := (case ls of None \<Rightarrow> unix_sec now | Some ts \<Rightarrow> ts)\<rparr>) m"
| "spec_call now (CUpdateTokenJTI h j) m = on_agent h (\<lambda>r. r\<lparr>ag_TokenJTI := j\<rparr>) m"
| "spec_call now (CSetSuspended h b) m = on_agent h (\<lambda>r. r\<lparr>ag_Suspended := b\<rparr>) m"
| "spec_call now (CSetAgentVar h k v) m =
     on_agent h (\<lambda>r. r\<lparr>ag_Vars := JObj (mput k v (vars_of r))\<rparr>) m"
| "spec_call now (CDeleteAgentVar h k) m =
     on_agent h (\<lambda>r. r\<lparr>ag_Vars := JObj (mdel k (vars_of r))\<rparr>) m"
| "spec_call now _ m = m"

lemma agent_map_tick [simp]: "agent_map (tick s) = agent_map s"
  by (simp add: agent_map_def fun_eq_iff)

lemma agent_map_other [simp]:
  "agent_map (s\<lparr>authorized_keys := a\<rparr>) = agent_map s"
  "agent_map (s\<lparr>blacklist := b\<rparr>) = agent_map s"
  "agent_map (s\<lparr>server_config := c\<rparr>) = agent_map s"
  "agent_map (s\<lparr>enrollment_tokens := e\<rparr>) = agent_map s"
  "agent_map (s\<lparr>plugin_tokens := p\<rparr>) = agent_map s"
  "agent_map (s\<lparr>action_log := l\<rparr>) = agent_map s"
  by (simp_all add: agent_map_def fun_eq_iff)

lemma agent_map_update:
  assumes "\<And>r. ag_Hostname (f r) = ag_Hostname r"
  shows "agent_map (s\<lparr>agents := rows_update (\<lambda>r. ag_Hostname r = h) f (agents s)\<rparr>) =
    on_agent h f (agent_map s)"
  by (auto simp: agent_map_def on_agent_def fun_eq_iff row_find_update assms)

lemma agent_map_delete:
  "agent_map (s\<lparr>agents := rows_delete (\<lambda>r. ag_Hostname r = h) (agents s)\<rparr>) = (agent_map s)(h := None)"
  by (auto simp: agent_map_def fun_eq_iff row_find_delete)

lemma agent_map_absent: "agent_map s h = None \<longleftrightarrow> rows_affected (\<lambda>r. ag_Hostname r = h) (agents s) = 0"
  by (simp add: agent_map_def rows_affected_key_nat)

lemma agent_map_vars_ok: "store_inv s \<Longrightarrow> agent_map s h = Some r \<Longrightarrow> vars_ok (ag_Vars r)"
  by (auto simp: store_inv_def agent_map_def dest: row_find_SomeD)

lemma vars_ok_cases:
  assumes "vars_ok v"
  obtains m where "v = JObj m" "distinct (mkeys m)" "unmarshal_map v = Some (MapOf m)"
  using assms by (cases v) (auto simp: vars_ok_def unmarshal_map_distinct)

lemma on_agent_cong: "(\<And>r. m h = Some r \<Longrightarrow> f r = g r) \<Longrightarrow> on_agent h f m = on_agent h g m"
  by (cases "m h") (auto simp: on_agent_def)

lemma on_agent_absent: "m h = None \<Longrightarrow> on_agent h f m = m"
  by (auto simp: on_agent_def fun_eq_iff)

lemma run_update_agent:
  "healthy s \<Longrightarrow> run_state (update_agent h f) s =
    (Inr (rows_affected (\<lambda>r. ag_Hostname r = h) (agents s)),
     s\<lparr>agents := rows_update (\<lambda>r. ag_Hostname r = h) f (agents s)\<rparr>)"
  by (simp add: update_agent_def)

lemma SetAgentVar_run:
  assumes "healthy s" "store_inv s"
  shows "run_state (SetAgentVar h k v) s =
    (case agent_map s h of
       None \<Rightarrow> (Inl AgentNotFound, s)
     | Some r \<Rightarrow> (Inr (), s\<lparr>agents := rows_update (\<lambda>r. ag_Hostname r = h)
           (\<lambda>r. r\<lparr>ag_Vars := JObj (mput k v (vars_of (the (agent_map s h))))\<rparr>) (agents s)\<rparr>))"
proof (cases "agent_map s h")
  case None
  with assms show ?thesis
    by (simp add: SetAgentVar_def GetAgentVars_def agent_map_def)
next
  case (Some r)
  from agent_map_vars_ok [OF assms(2) Some] obtain m where
    "ag_Vars r = JObj m" "unmarshal_map (ag_Vars r) = Some (MapOf m)"
    by (rule vars_ok_cases)
  with assms Some show ?thesis
    by (simp add: SetAgentVar_def GetAgentVars_def agent_map_def run_update_agent vars_of_def)
qed

lemma DeleteAgentVar_run:
  assumes "healthy s" "store_inv s"
  shows "run_state (DeleteAgentVar h k) s =
    (case agent_map s h of
       None \<Rightarrow> (Inl AgentNotFound, s)
     | Some r \<Rightarrow>
         if mget (vars_of r) k = None then (Inr False, s)
         else (Inr True, s\<lparr>agents := rows_update (\<lambda>r. ag_Hostname r = h)
           (\<lambda>r. r\<lparr>ag_Vars := JObj (mdel k (vars_of (the (agent_map s h))))\<rparr>) (agents s)\<rparr>))"
proof (cases "agent_map s h")
  case None
  with assms show ?thesis
    by (simp add: DeleteAgentVar_def GetAgentVars_def agent_map_def)
next
  case (Some r)
  from agent_map_vars_ok [OF assms(2) Some] obtain m where
    "ag_Vars r = JObj m" "unmarshal_map (ag_Vars r) = Some (MapOf m)"
    by (rule vars_ok_cases)
  with assms Some show ?thesis
    by (simp add: DeleteAgentVar_def GetAgentVars_def agent_map_def run_update_agent vars_of_def
        Let_def)
qed

lemma mdel_fresh: "mget m k = None \<Longrightarrow> mdel k m = m"
  by (induction m) (auto split: if_splits)

lemma agent_ext: "ag_Vars r = JObj m \<Longrightarrow> r\<lparr>ag_Vars := JObj m\<rparr> = r"
  by (cases r) simp

lemma on_agent_fixed: "m h = Some r \<Longrightarrow> f r = r \<Longrightarrow> on_agent h f m = m"
  by (auto simp: on_agent_def fun_eq_iff)

lemma refine_vars:
  assumes "healthy s" "store_inv s"
  shows "agent_map (store_call now (CSetAgentVar h k v) s) = spec_call now (CSetAgentVar h k v) (agent_map s)"
    and "agent_map (store_call now (CDeleteAgentVar h k) s) = spec_call now (CDeleteAgentVar h k) (agent_map s)"
proof -
  show "agent_map (store_call now (CSetAgentVar h k v) s) = spec_call now (CSetAgentVar h k v) (agent_map s)"
    by (auto simp: SetAgentVar_run [OF assms] agent_map_update on_agent_absent
        intro!: on_agent_cong split: option.split)
  show "agent_map (store_call now (CDeleteAgentVar h k) s) = spec_call now (CDeleteAgentVar h k) (agent_map s)"
  proof (cases "agent_map s h")
    case None
    then show ?thesis by (simp add: DeleteAgentVar_run [OF assms] on_agent_absent)
  next
    case (Some r)
    from agent_map_vars_ok [OF assms(2) Some] obtain m where m: "ag_Vars r = JObj m"
      by (rule vars_ok_cases)
    show ?thesis
    proof (cases "mget (vars_of r) k")
      case None
      with m have "r\<lparr>ag_Vars := JObj (mdel k (vars_of r))\<rparr> = r"
        by (simp add: vars_of_def mdel_fresh agent_ext)
      with None Some show ?thesis
        by (simp add: DeleteAgentVar_run [OF assms] on_agent_fixed [of _ _ r])
    next
      case (Some _)
      with \<open>agent_map s h = Some r\<close> show ?thesis
        by (auto simp: DeleteAgentVar_run [OF assms] agent_map_update intro!: on_agent_cong)
    qed
  qed
qed


end
