(* ===== verification/StoreProps.thy ===== *)
theory StoreProps
  imports StoreSpec
begin

text \<open>
  The promises of the store that its callers rely on: the schema's integrity over every history
  of calls, the life of an agent's variables, of a blacklisted token, of an enrollment token, the
  paging of the action log and the decision of the plugin-token IP list.
\<close>

section \<open>Example data\<close>

definition example_agent :: AgentRecord where
  "example_agent = \<lparr>ag_Hostname = ''web1'', ag_PublicKeyPEM = ''K1'', ag_TokenJTI = ''j1'',
     ag_EnrolledAt = 100, ag_LastSeen = 100, ag_Status = ''connected'', ag_Suspended = True,
     ag_Vars = JObj [(''env'', JStr ''prod'')]\<rparr>"

definition example_store :: store where
  "example_store = empty_store\<lparr>agents := [example_agent]\<rparr>"

lemma example_store_ok [simp]: "healthy example_store" "store_inv example_store"
  by (simp_all add: example_store_def example_agent_def empty_store_def healthy_def store_inv_def)


section \<open>Integrity over histories\<close>

text \<open>Starting from an empty database, whatever methods are called, in any order, at any
  instants, and whichever SQL statements fail, the primary keys and unique columns stay unique,
  every agent's variables stay one JSON object without duplicate keys, and no use count is
  negative.\<close>

theorem store_integrity: "store_inv (store_history cs (empty_store\<lparr>db_faults := fs\<rparr>))"
  by (intro store_history_inv store_inv_empty)

section \<open>Agent variables\<close>

definition agent_vars :: "store \<Rightarrow> string \<Rightarrow> string \<Rightarrow> json option" where
  "agent_vars s h k = Option.bind (agent_map s h) (\<lambda>r. mget (vars_of r) k)"

lemma agent_vars_set:
  assumes "healthy s" "store_inv s" "agent_map s h \<noteq> None"
  shows "agent_vars (snd (run_state (SetAgentVar h k v) s)) =
     (agent_vars s)(h := (agent_vars s h)(k \<mapsto> v))"
proof -
  from assms(3) obtain r where "agent_map s h = Some r" by auto
  with assms show ?thesis
    by (auto simp: SetAgentVar_run agent_vars_def agent_map_update on_agent_def fun_eq_iff
        vars_of_def)
qed

lemma agent_vars_delete:
  assumes "healthy s" "store_inv s" "agent_map s h = Some r" "mget (vars_of r) k \<noteq> None"
  shows "agent_vars (snd (run_state (DeleteAgentVar h k) s)) =
     (agent_vars s)(h := (agent_vars s h)(k := None))"
  using assms
  by (auto simp: DeleteAgentVar_run agent_vars_def agent_map_update on_agent_def fun_eq_iff
      vars_of_def)

text \<open>Setting a variable of a known agent succeeds and writes that key of that agent and
  nothing else; deleting it afterwards reports success and leaves the agent's other variables and
  every other agent's as they were before; the enrollment data of every agent is untouched.\<close>

theorem agent_var_roundtrip:
  assumes "healthy s" and "store_inv s" and "agent_map s h = Some r"
  shows "fst (run_state (SetAgentVar h k v) s) = Inr ()
    \<and> agent_vars (snd (run_state (SetAgentVar h k v) s)) =
        (agent_vars s)(h := (agent_vars s h)(k \<mapsto> v))
    \<and> fst (run_state (DeleteAgentVar h k) (snd (run_state (SetAgentVar h k v) s))) = Inr True
    \<and> agent_vars (snd (run_state (DeleteAgentVar h k) (snd (run_state (SetAgentVar h k v) s)))) =
        (agent_vars s)(h := (agent_vars s h)(k := None))
    \<and> map_option ag_PublicKeyPEM (agent_map (snd (run_state (SetAgentVar h k v) s)) h')
        = map_option ag_PublicKeyPEM (agent_map s h')"
proof -
  let ?s = "snd (run_state (SetAgentVar h k v) s)"
  have ok: "healthy ?s" "store_inv ?s"
    using assms by (simp add: SetAgentVar_run) (rule keepsD [OF keeps_vars_ops(1) assms(2)])
  from assms obtain r' where r': "agent_map ?s h = Some r'" "mget (vars_of r') k = Some v"
    by (auto simp: SetAgentVar_run agent_map_update on_agent_def vars_of_def)
  with ok have "fst (run_state (DeleteAgentVar h k) ?s) = Inr True"
    by (simp add: DeleteAgentVar_run)
  moreover have "agent_vars (snd (run_state (DeleteAgentVar h k) ?s)) =
      (agent_vars s)(h := (agent_vars s h)(k := None))"
    using agent_vars_delete [OF ok r'(1)] r'(2) assms agent_vars_set [OF assms(1,2)]
    by (simp add: fun_eq_iff)
  moreover have "agent_vars ?s = (agent_vars s)(h := (agent_vars s h)(k \<mapsto> v))"
    using agent_vars_set [OF assms(1,2)] assms(3) by simp
  moreover have "map_option ag_PublicKeyPEM (agent_map ?s h') = map_option ag_PublicKeyPEM (agent_map s h')"
    using assms by (simp add: SetAgentVar_run agent_map_update on_agent_def)
  ultimately show ?thesis
    using assms by (simp add: SetAgentVar_run)
qed

lemma agent_var_roundtrip_witness:
  "fst (run_state (SetAgentVar ''web1'' ''role'' (JNum 7)) example_store) = Inr ()
   \<and> agent_vars (snd (run_state (SetAgentVar ''web1'' ''role'' (JNum 7)) example_store)) ''web1'' ''env''
       = Some (JStr ''prod'')"
proof -
  have "agent_map example_store ''web1'' = Some example_agent"
    by (simp add: agent_map_def example_store_def example_agent_def empty_store_def)
  from agent_var_roundtrip [OF example_store_ok this, of "''role''" "JNum 7"] this
  show ?thesis by (simp add: agent_vars_def vars_of_def example_agent_def)
qed

section \<open>Blacklist\<close>

definition blacklisted :: "store \<Rightarrow> string \<Rightarrow> bool" where
  "blacklisted s j \<longleftrightarrow> fst (run_state (IsJTIBlacklisted j) s) = Inr True"

definition blacklist_expiry :: "store \<Rightarrow> string \<Rightarrow> int option" where
  "blacklist_expiry s j = map_option bl_ExpiresAt (row_find bl_JTI j (blacklist s))"

lemma row_find_rows_delete:
  "unique_key key rows \<Longrightarrow> row_find key k (rows_delete P rows) =
    (case row_find key k rows of None \<Rightarrow> None | Some r \<Rightarrow> if P r then None else Some r)"
proof (induction rows)
  case (Cons r rows)
  have "key r = k \<Longrightarrow> row_find key k rows = None"
    using Cons.prems by (auto simp: row_find_None_iff)
  with Cons show ?case by (auto simp: rows_delete_def)
qed (simp add: rows_delete_def)

text \<open>Blacklisting a token id is idempotent (the first entry for an id stays), and after a
  purge at an instant \<open>now'\<close> a token id is blacklisted exactly when its entry expires after
  \<open>now'\<close>: the purge removes neither a live entry nor keeps a dead one.\<close>

lemma blacklist_lifetime:
  assumes "healthy s" and "store_inv s"
  shows "blacklisted (snd (run_state (PurgeExpiredBlacklist now')
           (snd (run_state (AddToBlacklist now j h e reason) s)))) j' \<longleftrightarrow>
     (case blacklist_expiry s j' of
        Some e' \<Rightarrow> nowISO now' < e'
      | None \<Rightarrow> j' = j \<and> nowISO now' < e)"
  using assms
  by (auto simp: blacklisted_def IsJTIBlacklisted_def PurgeExpiredBlacklist_def AddToBlacklist_def
      blacklist_expiry_def row_find_rows_delete store_inv_def unique_key_upsert row_find_upsert
      split: option.splits if_splits)

lemma blacklist_lifetime_example:
  "\<not> blacklisted (snd (run_state (PurgeExpiredBlacklist 9000000000)
      (snd (run_state (AddToBlacklist 1000000000 ''j1'' ''web1'' 9 None) example_store)))) ''j1''
   \<and> blacklisted (snd (run_state (PurgeExpiredBlacklist 8999999999)
      (snd (run_state (AddToBlacklist 1000000000 ''j1'' ''web1'' 9 None) example_store)))) ''j1''"
  unfolding blacklist_lifetime [OF example_store_ok]
  by (simp add: blacklist_expiry_def example_store_def empty_store_def nowISO_def unix_sec_def)

section \<open>Enrollment tokens\<close>

definition stored_token :: "EnrollmentToken \<Rightarrow> EnrollmentToken" where
  "stored_token t = t\<lparr>en_UseCount := 0, en_LastUsedAt := None,
     en_CreatedAt := from_unix (unix_sec (en_CreatedAt t)),
     en_ExpiresAt := map_option (from_unix \<circ> unix_sec) (en_ExpiresAt t)\<rparr>"

lemma scan_enrollment_row_of: "scanEnrollmentToken (enrollment_row_of t) = stored_token t"
  by (cases t) (simp add: scanEnrollmentToken_def enrollment_row_of_def stored_token_def
      option.map_comp)

definition consume_times :: "time \<Rightarrow> string \<Rightarrow> nat \<Rightarrow> store \<Rightarrow> store" where
  "consume_times now i n = (\<lambda>s. snd (run_state (ConsumeEnrollmentToken now i) s)) ^^ n"

lemma consume_times_rows:
  "healthy s \<Longrightarrow> consume_times now i n s =
     s\<lparr>enrollment_tokens := rows_update (\<lambda>r. et_id r = i)
        (\<lambda>r. if n = 0 then r else r\<lparr>et_use_count := et_use_count r + int n,
            et_last_used_at := Some (unix_sec now)\<rparr>) (enrollment_tokens s)\<rparr>"
proof (induction n)
  case 0
  then show ?case by (simp add: consume_times_def rows_update_def cong: map_cong)
next
  case (Suc n)
  then show ?case
    by (auto simp: consume_times_def ConsumeEnrollmentToken_def rows_update_def o_def)
qed

lemma rows_delete_fresh:
  "row_find key k rows = None \<Longrightarrow> row_find key k (rows_delete P rows) = None"
  by (auto simp: row_find_None_iff rows_delete_def)

lemma row_find_delete_snoc:
  "row_find key (key r) rows = None \<Longrightarrow>
   row_find key (key r) (rows_delete P (rows @ [r])) = (if P r then None else Some r)"
  using rows_delete_fresh [of key "key r" rows P] by (simp add: rows_delete_def row_find_append)

lemma rows_update_absent:
  "row_find key k rows = None \<Longrightarrow> rows_update (\<lambda>r. key r = k) f rows = rows"
  by (induction rows) (auto simp: rows_update_def split: if_splits)

lemma rows_update_append: "rows_update P f (xs @ ys) = rows_update P f xs @ rows_update P f ys"
  by (simp add: rows_update_def)

text \<open>A token created under a fresh id and hash can be read back by either, with its instants
  cut to the second and its usage reset whatever the caller passed; creating it twice is refused;
  after \<open>n\<close> uses its use count is \<open>n\<close>, and a purge of used one-shot tokens then removes it exactly
  when it is one-shot and was used.\<close>

theorem enrollment_token_roundtrip:
  assumes "healthy s"
    and "row_find et_id (en_ID t) (enrollment_tokens s) = None"
    and "row_find et_token_hash (en_TokenHash t) (enrollment_tokens s) = None"
    and "s' = snd (run_state (CreateEnrollmentToken t) s)"
    and "used = consume_times now (en_ID t) n s'"
  shows "fst (run_state (CreateEnrollmentToken t) s) = Inr ()
    \<and> fst (run_state (CreateEnrollmentToken t) s') = Inl DbError
    \<and> fst (run_state (GetEnrollmentTokenByHash (en_TokenHash t)) s') = Inr (Some (stored_token t))
    \<and> fst (run_state (GetEnrollmentTokenByID (en_ID t)) s') = Inr (Some (stored_token t))
    \<and> (\<exists>u. fst (run_state (GetEnrollmentTokenByID (en_ID t)) used) = Inr (Some u)
           \<and> en_UseCount u = int n)
    \<and> (fst (run_state (GetEnrollmentTokenByID (en_ID t))
            (snd (run_state PurgeUsedOneShotEnrollmentTokens used))) = Inr None
         \<longleftrightarrow> \<not> en_Reusable t \<and> 0 < n)"
proof -
  let ?r = "enrollment_row_of t"
  let ?u = "if n = 0 then ?r else ?r\<lparr>et_use_count := int n, et_last_used_at := Some (unix_sec now)\<rparr>"
  have r: "et_id ?r = en_ID t" "et_token_hash ?r = en_TokenHash t" "et_use_count ?r = 0"
      "et_reusable ?r = (if en_Reusable t then 1 else 0)"
    by (simp_all add: enrollment_row_of_def)
  have u: "et_id ?u = en_ID t" "et_use_count ?u = int n"
      "used_one_shot ?u \<longleftrightarrow> \<not> en_Reusable t \<and> 0 < n"
    using r by (auto simp: used_one_shot_def)
  have created: "run_state (CreateEnrollmentToken t) s =
      (Inr (), s\<lparr>enrollment_tokens := enrollment_tokens s @ [?r]\<rparr>)"
    using assms(1-3) by (simp add: CreateEnrollmentToken_def)
  have other: "rows_update (\<lambda>r. et_id r = en_ID t) f (enrollment_tokens s) = enrollment_tokens s" for f
    by (rule rows_update_absent [OF assms(2)])
  have used: "enrollment_tokens used = enrollment_tokens s @ [?u]" "healthy used"
    using assms(1,4,5) created r
    by (simp_all add: consume_times_rows rows_update_append other) (simp_all add: rows_update_def)
  have "row_find et_id (en_ID t) (rows_delete used_one_shot (enrollment_tokens used)) =
      (if used_one_shot ?u then None else Some ?u)"
    using row_find_delete_snoc [of et_id ?u "enrollment_tokens s" used_one_shot] assms(2) u(1) used(1)
    by simp
  moreover have "en_UseCount (scanEnrollmentToken ?u) = int n"
    using u(2) by (simp add: scanEnrollmentToken_def)
  ultimately show ?thesis
    using assms(1-4) created used u r
    by (simp add: CreateEnrollmentToken_def GetEnrollmentTokenByHash_def
        GetEnrollmentTokenByID_def PurgeUsedOneShotEnrollmentTokens_def row_find_append
        scan_enrollment_row_of)
qed

definition example_token :: EnrollmentToken where
  "example_token = \<lparr>en_ID = ''t1'', en_TokenHash = ''h1'', en_HostnamePattern = ''web[0-9]+'',
     en_Reusable = False, en_UseCount = 5, en_LastUsedAt = None, en_CreatedAt = 1500000000,
     en_ExpiresAt = Some 9999999999, en_CreatedBy = ''ops''\<rparr>"

lemma enrollment_token_roundtrip_witness:
  "fst (run_state (GetEnrollmentTokenByHash ''h1'')
     (snd (run_state (CreateEnrollmentToken example_token) example_store))) =
     Inr (Some (example_token\<lparr>en_UseCount := 0, en_CreatedAt := 1000000000,
       en_ExpiresAt := Some 9000000000\<rparr>))"
  using enrollment_token_roundtrip [of example_store example_token _ _ 0 0, OF _ _ _ refl refl]
  by (simp add: example_store_def empty_store_def healthy_def example_token_def stored_token_def
      from_unix_def unix_sec_def)

section \<open>Action log\<close>

definition log_match :: "ActionLogFilter \<Rightarrow> ActionLogEntry \<Rightarrow> bool" where
  "log_match f e \<longleftrightarrow> (lf_Event f = [] \<or> le_Event e = lf_Event f)
     \<and> (lf_Hostname f = [] \<or> le_Hostname e = lf_Hostname f)"

lemma clamp_limit_bounds: "1 \<le> clamp_limit n" "clamp_limit n \<le> 200"
  by (simp_all add: clamp_limit_def Let_def)

lemma sorted_take_drop:
  "sorted (map f xs) \<Longrightarrow> x \<in> set (take n xs) \<Longrightarrow> y \<in> set (drop n xs) \<Longrightarrow> f x \<le> f y"
proof -
  assume a: "sorted (map f xs)" "x \<in> set (take n xs)" "y \<in> set (drop n xs)"
  have "sorted (map f (take n xs) @ map f (drop n xs))"
    using a(1) by (simp flip: map_append)
  with a show ?thesis by (auto simp: sorted_append)
qed

text \<open>A page of the action log holds at most 200 entries (50 when no limit is asked), all
  matching the filter, newest first; a matching entry left out is no newer than any entry of the
  page and is left out only when the page is full.\<close>

theorem action_log_page:
  assumes "healthy s"
  shows "\<exists>page. run_state (ListActionLogs f) s = (Inr page, s)
    \<and> length page \<le> nat (clamp_limit (lf_Limit f)) \<and> clamp_limit (lf_Limit f) \<le> 200
    \<and> (lf_Limit f \<le> 0 \<longrightarrow> length page \<le> 50)
    \<and> sorted (map (\<lambda>e. - le_ExecutedAt e) page)
    \<and> (\<forall>e\<in>set page. log_match f e)
    \<and> (\<forall>e\<in>scan_action_row ` set (action_log s) - set page. log_match f e \<longrightarrow>
          length page = nat (clamp_limit (lf_Limit f))
        \<and> (\<forall>e'\<in>set page. le_ExecutedAt e \<le> le_ExecutedAt e'))"
proof -
  let ?ok = "\<lambda>r. (lf_Event f \<noteq> [] \<longrightarrow> al_event r = lf_Event f)
    \<and> (lf_Hostname f \<noteq> [] \<longrightarrow> al_hostname r = lf_Hostname f)"
  let ?n = "nat (clamp_limit (lf_Limit f))"
  define rows where "rows = sort_key (\<lambda>r. - al_executed_at r) (filter ?ok (action_log s))"
  let ?page = "map scan_action_row (take ?n rows)"
  have ok: "log_match f (scan_action_row r) \<longleftrightarrow> ?ok r" for r
    by (auto simp: log_match_def scan_action_row_def)
  have rows: "set rows = {r \<in> set (action_log s). ?ok r}" "sorted (map (\<lambda>r. - al_executed_at r) rows)"
    by (simp_all add: rows_def)
  have ex: "le_ExecutedAt (scan_action_row r) = al_executed_at r * 1000000000" for r
    by (simp add: scan_action_row_def from_unix_def)
  have "sorted (map (\<lambda>e. - le_ExecutedAt e) ?page)"
    using sorted_wrt_take [OF rows(2), of ?n]
    by (simp add: sorted_map ex take_map sorted_wrt_map)
  moreover have "length ?page = ?n \<and> (\<forall>e'\<in>set ?page. le_ExecutedAt e \<le> le_ExecutedAt e')"
    if "e \<in> scan_action_row ` set (action_log s) - set ?page" "log_match f e" for e
  proof -
    from that(1) obtain r where r0: "e = scan_action_row r" "r \<in> set (action_log s)"
        "r \<notin> set (take ?n rows)"
      by auto
    with that(2) have r: "e = scan_action_row r" "r \<in> set rows" "r \<notin> set (take ?n rows)"
      by (simp_all add: ok rows)
    then have "r \<in> set (drop ?n rows)"
      by (metis UnE append_take_drop_id set_append)
    moreover from this have "?n \<le> length rows" by (cases "?n \<le> length rows") auto
    ultimately show ?thesis
      using sorted_take_drop [OF rows(2)] by (fastforce simp: r(1) ex)
  qed
  moreover have "\<forall>e\<in>set ?page. log_match f e"
    using rows(1) by (auto simp: ok dest: in_set_takeD)
  moreover have "run_state (ListActionLogs f) s = (Inr ?page, s)"
    using assms by (simp add: ListActionLogs_def rows_def)
  ultimately show ?thesis
    using clamp_limit_bounds [of "lf_Limit f"]
    by (intro exI [of _ ?page]) (auto simp: clamp_limit_def)
qed

lemma action_log_page_witness:
  "\<exists>page. run_state (ListActionLogs \<lparr>lf_Event = [], lf_Hostname = ''web1'', lf_Limit = 500\<rparr>)
      example_store = (Inr page, example_store) \<and> length page \<le> 200"
  using action_log_page [OF example_store_ok(1), of "\<lparr>lf_Event = [], lf_Hostname = ''web1'', lf_Limit = 500\<rparr>"]
  by (auto simp: clamp_limit_def)

section \<open>The IP list of a plugin token\<close>

definition skips :: "(string \<Rightarrow> ('ip \<Rightarrow> bool) option) \<Rightarrow> 'ip \<Rightarrow> string \<Rightarrow> bool" where
  "skips cidr_contains ip c \<longleftrightarrow> TrimSpace c = [] \<or>
     (case cidr_contains (TrimSpace c) of None \<Rightarrow> False | Some net \<Rightarrow> \<not> net ip)"

definition admits :: "(string \<Rightarrow> ('ip \<Rightarrow> bool) option) \<Rightarrow> 'ip \<Rightarrow> string \<Rightarrow> bool" where
  "admits cidr_contains ip c \<longleftrightarrow> TrimSpace c \<noteq> [] \<and>
     (case cidr_contains (TrimSpace c) of None \<Rightarrow> False | Some net \<Rightarrow> net ip)"

lemma check_cidrs_True:
  "check_cidrs cc ip cs = Some True \<longleftrightarrow>
    (\<exists>before c after. cs = before @ c # after \<and> (\<forall>b\<in>set before. skips cc ip b) \<and> admits cc ip c)"
proof (induction cs)
  case (Cons c cs)
  show ?case (is "?L \<longleftrightarrow> ?R")
  proof
    assume ?L
    then consider "admits cc ip c" | "skips cc ip c" "check_cidrs cc ip cs = Some True"
      by (auto simp: admits_def skips_def split: if_splits option.splits)
    then show ?R
    proof cases
      case 1
      then show ?thesis by (intro exI [of _ "[]"] exI [of _ c] exI [of _ cs]) simp
    next
      case 2
      with Cons.IH obtain b x a where "cs = b @ x # a" "\<forall>y\<in>set b. skips cc ip y" "admits cc ip x"
        by blast
      with 2 show ?thesis by (intro exI [of _ "c # b"]) simp
    qed
  next
    assume ?R
    then obtain b x a where *: "c # cs = b @ x # a" "\<forall>y\<in>set b. skips cc ip y" "admits cc ip x"
      by blast
    show ?L
    proof (cases b)
      case Nil
      with * show ?thesis by (auto simp: admits_def split: option.splits)
    next
      case (Cons y b')
      with * Cons.IH have "skips cc ip c" "check_cidrs cc ip cs = Some True" by auto
      then show ?thesis by (auto simp: skips_def split: option.splits)
    qed
  qed
qed simp

text \<open>A plugin token's IP list lets an address through exactly when the list is empty, or the
  address parses and some entry of the list contains it with every entry before it blank or a
  well-formed network that does not: a malformed entry makes the whole check fail for every
  address an earlier entry has not admitted, and never widens it.\<close>

theorem plugin_ip_check_exact:
  "PluginTokenCheckIP parse_ip cidr_contains allowed remote = Some True \<longleftrightarrow>
     allowed = [] \<or>
     (\<exists>ip before c after.
        parse_ip (case SplitHostPort remote of None \<Rightarrow> remote | Some (h, _) \<Rightarrow> h) = Some ip
      \<and> split_on CHR '','' allowed = before @ c # after
      \<and> (\<forall>b\<in>set before. skips cidr_contains ip b) \<and> admits cidr_contains ip c)"
  by (cases "parse_ip (case SplitHostPort remote of None \<Rightarrow> remote | Some (h, _) \<Rightarrow> h)")
    (auto simp: PluginTokenCheckIP_def Let_def check_cidrs_True)

lemma plugin_ip_check_exact_witness:
  "PluginTokenCheckIP (\<lambda>s. if s = ''7'' then Some (10::nat) else None)
     (\<lambda>c. if c = ''10/8'' then Some (\<lambda>ip. ip = 10) else None) ''x,10/8'' ''7'' \<noteq> Some True"
proof -
  have "TrimSpace ''x'' = ''x''" "TrimSpace ''10/8'' = ''10/8''" by (simp_all add: TrimSpace_id)
  then show ?thesis
    unfolding plugin_ip_check_exact
    by (auto simp: SplitHostPort_def last_index_of_def index_of_def skips_def admits_def
        Cons_eq_append_conv)
qed

end
