(* ===== verification/Hub.thy ===== *)
theory Hub
  imports GoJson
begin

text \<open>
  The WebSocket hub of the relay (\<open>internal/ws/handler.go\<close>): the registry of agent connections,
  the futures of the tasks in flight, the stdout buffers, and the operations on them. The package's
  global maps are the fields of \<open>hub\<close>; connections and channels live in heaps of their own and the
  maps hold their identities, so that a future and the map entry that names it can come apart as
  they do in the code. Every operation runs under the package's locks and is one step here.
\<close>

section \<open>Messages and connections\<close>

record Message =
  ms_TaskID :: string
  ms_Type :: string
  ms_RC :: int
  ms_Stdout :: string
  ms_Stderr :: string
  ms_Truncated :: bool
  ms_Data :: string
  ms_Error :: string
  ms_Chunk :: string

definition zero_Message :: Message where
  "zero_Message = \<lparr>ms_TaskID = [], ms_Type = [], ms_RC = 0, ms_Stdout = [], ms_Stderr = [],
     ms_Truncated = False, ms_Data = [], ms_Error = [], ms_Chunk = []\<rparr>"

text \<open>\<open>ReadJSON(&msg)\<close>: \<open>None\<close> is the decoding error.\<close>

definition decode_Message :: "json \<Rightarrow> Message option" where
  "decode_Message j =
     (case obj_pairs j of
        None \<Rightarrow> None
      | Some ps \<Rightarrow>
          (case (string_field ''task_id'' ps, string_field ''type'' ps, int_field ''rc'' ps,
                 string_field ''stdout'' ps, string_field ''stderr'' ps) of
             (Some t, Some ty, Some rc, Some out, Some err) \<Rightarrow>
               (case (bool_field ''truncated'' ps, string_field ''data'' ps,
                      string_field ''error'' ps, string_field ''chunk'' ps) of
                  (Some tr, Some d, Some e, Some c) \<Rightarrow>
                    Some \<lparr>ms_TaskID = t, ms_Type = ty, ms_RC = rc, ms_Stdout = out,
                      ms_Stderr = err, ms_Truncated = tr, ms_Data = d, ms_Error = e,
                      ms_Chunk = c\<rparr>
                | _ \<Rightarrow> None)
           | _ \<Rightarrow> None))"

text \<open>What was written to a connection: a JSON text message or a close frame.\<close>

datatype frame = TextFrame json | CloseFrame int string

text \<open>
  A connection remembers the frames written to it, in order. \<open>cn_Broken\<close> is the error its writes
  return, if any: the transport's, or the one of a closed connection. \<open>cn_Reading\<close> says whether the
  handler that serves it is still in its read loop (frames received before a local \<open>Close\<close> may
  still be read after it).
\<close>

record AgentConnection =
  cn_Hostname :: string
  cn_Sent :: "frame list"
  cn_Broken :: "string option"
  cn_Reading :: bool

definition closed_error :: string where
  "closed_error = ''use of closed network connection''"

record hub =
  conns :: "(nat, AgentConnection) gomap"
  wsConnections :: "(string, nat) gomap"
  chans :: "(nat, Message list) gomap"
  pendingTasks :: "(string, nat) gomap"
  stdoutBuffers :: "(string, string) gomap"
  taskHostnames :: "(string, string) gomap"
  stdoutMaxBytes :: nat
  dispatch_set :: bool
  dispatched :: "(string \<times> string \<times> string) list"
  next_id :: nat

definition init_hub :: "bool \<Rightarrow> hub" where
  "init_hub dispatch = \<lparr>conns = [], wsConnections = [], chans = [], pendingTasks = [],
     stdoutBuffers = [], taskHostnames = [], stdoutMaxBytes = 5 * 1024 * 1024,
     dispatch_set = dispatch, dispatched = [], next_id = 0\<rparr>"

text \<open>Writing to and closing a connection of the heap.\<close>

definition conn_write :: "nat \<Rightarrow> frame \<Rightarrow> hub \<Rightarrow> string option \<times> hub" where
  "conn_write c f h =
     (case mget (conns h) c of
        None \<Rightarrow> (Some closed_error, h)
      | Some cn \<Rightarrow>
          (case cn_Broken cn of
             Some e \<Rightarrow> (Some e, h)
           | None \<Rightarrow> (None, h\<lparr>conns := mput c (cn\<lparr>cn_Sent := cn_Sent cn @ [f]\<rparr>) (conns h)\<rparr>)))"

definition conn_fail :: "nat \<Rightarrow> string \<Rightarrow> hub \<Rightarrow> hub" where
  "conn_fail c e h =
     (case mget (conns h) c of
        None \<Rightarrow> h
      | Some cn \<Rightarrow> h\<lparr>conns := mput c (cn\<lparr>cn_Broken := Some e\<rparr>) (conns h)\<rparr>)"

definition conn_close :: "nat \<Rightarrow> hub \<Rightarrow> hub" where
  "conn_close c h = conn_fail c closed_error h"

definition DispatchFunc :: "string \<Rightarrow> string \<Rightarrow> string \<Rightarrow> hub \<Rightarrow> hub" where
  "DispatchFunc event hostname status h =
     (if dispatch_set h then h\<lparr>dispatched := dispatched h @ [(event, hostname, status)]\<rparr> else h)"

section \<open>Channels\<close>

text \<open>A channel of capacity one; a send with a \<open>default\<close> branch drops the value when it is full.\<close>

definition make_chan :: "hub \<Rightarrow> nat \<times> hub" where
  "make_chan h = (next_id h, h\<lparr>chans := mput (next_id h) [] (chans h), next_id := Suc (next_id h)\<rparr>)"

definition try_send :: "nat \<Rightarrow> Message \<Rightarrow> hub \<Rightarrow> hub" where
  "try_send ch m h =
     (case mget (chans h) ch of
        Some [] \<Rightarrow> h\<lparr>chans := mput ch [m] (chans h)\<rparr>
      | _ \<Rightarrow> h)"

definition try_receive :: "nat \<Rightarrow> hub \<Rightarrow> Message option \<times> hub" where
  "try_receive ch h =
     (case mget (chans h) ch of
        Some (m # ms) \<Rightarrow> (Some m, h\<lparr>chans := mput ch ms (chans h)\<rparr>)
      | _ \<Rightarrow> (None, h))"

section \<open>Futures\<close>

definition RegisterFuture :: "string \<Rightarrow> string \<Rightarrow> hub \<Rightarrow> nat \<times> hub" where
  "RegisterFuture taskID hostname h =
     (let (ch, h) = make_chan h;
          h = h\<lparr>pendingTasks := mput taskID ch (pendingTasks h)\<rparr>;
          h = h\<lparr>taskHostnames := mput taskID hostname (taskHostnames h)\<rparr>
      in (ch, h))"

definition UnregisterFuture :: "string \<Rightarrow> hub \<Rightarrow> hub" where
  "UnregisterFuture taskID h =
     h\<lparr>pendingTasks := mdel taskID (pendingTasks h),
       taskHostnames := mdel taskID (taskHostnames h),
       stdoutBuffers := mdel taskID (stdoutBuffers h)\<rparr>"

definition resolve_with_error :: "string \<Rightarrow> string \<Rightarrow> hub \<Rightarrow> hub" where
  "resolve_with_error errorMsg taskID h =
     (let h = (case mget (pendingTasks h) taskID of
                 None \<Rightarrow> h
               | Some ch \<Rightarrow> try_send ch (zero_Message\<lparr>ms_TaskID := taskID, ms_Error := errorMsg\<rparr>) h)
      in h\<lparr>pendingTasks := mdel taskID (pendingTasks h),
           stdoutBuffers := mdel taskID (stdoutBuffers h),
           taskHostnames := mdel taskID (taskHostnames h)\<rparr>)"

definition tasks_of :: "string \<Rightarrow> hub \<Rightarrow> string list" where
  "tasks_of hostname h = map fst (filter (\<lambda>(t, x). x = hostname) (taskHostnames h))"

definition ResolveFuturesForHostname :: "string \<Rightarrow> string \<Rightarrow> hub \<Rightarrow> hub" where
  "ResolveFuturesForHostname hostname errorMsg h =
     fold (resolve_with_error errorMsg) (tasks_of hostname h) h"

text \<open>
  The \<open>select\<close> on the result and the timer: the result if one is there, otherwise the timer's
  error once it fires. Waiting is the steps other goroutines take in between.
\<close>

definition WaitForResult :: "nat \<Rightarrow> hub \<Rightarrow> (string + Message) \<times> hub" where
  "WaitForResult ch h =
     (case try_receive ch h of
        (Some m, h) \<Rightarrow> (Inr m, h)
      | (None, h) \<Rightarrow> (Inl ''timeout waiting for task result'', h))"

section \<open>Connections\<close>

definition RegisterConnection :: "string \<Rightarrow> nat \<Rightarrow> hub \<Rightarrow> hub" where
  "RegisterConnection hostname c h =
     (let h = (case mget (wsConnections h) hostname of
                 Some old \<Rightarrow> conn_close old h
               | None \<Rightarrow> h);
          h = h\<lparr>wsConnections := mput hostname c (wsConnections h)\<rparr>
      in DispatchFunc ''host.up'' hostname ''connected'' h)"

definition UnregisterConnection :: "string \<Rightarrow> hub \<Rightarrow> hub" where
  "UnregisterConnection hostname h =
     (let h = h\<lparr>wsConnections := mdel hostname (wsConnections h)\<rparr>;
          h = DispatchFunc ''host.down'' hostname ''disconnected'' h
      in ResolveFuturesForHostname hostname ''agent_disconnected'' h)"

definition GetConnection :: "string \<Rightarrow> hub \<Rightarrow> string + nat" where
  "GetConnection hostname h =
     (case mget (wsConnections h) hostname of
        None \<Rightarrow> Inl ''agent_offline''
      | Some c \<Rightarrow> Inr c)"

text \<open>\<open>message["task_id"].(string)\<close> on the Go map behind a message, whose keys are distinct.\<close>

definition message_task_id :: "json \<Rightarrow> string option" where
  "message_task_id j =
     (case j of
        JObj ps \<Rightarrow> (case map_of ps ''task_id'' of Some (JStr t) \<Rightarrow> Some t | _ \<Rightarrow> None)
      | _ \<Rightarrow> None)"

definition SendToAgent :: "string \<Rightarrow> json \<Rightarrow> hub \<Rightarrow> string option \<times> hub" where
  "SendToAgent hostname message h =
     (case GetConnection hostname h of
        Inl e \<Rightarrow> (Some e, h)
      | Inr c \<Rightarrow>
          (let h = (case message_task_id message of
                      Some t \<Rightarrow> h\<lparr>taskHostnames := mput t hostname (taskHostnames h)\<rparr>
                    | None \<Rightarrow> h)
           in conn_write c (TextFrame message) h))"

definition CloseAgent :: "string \<Rightarrow> int \<Rightarrow> string \<Rightarrow> hub \<Rightarrow> bool \<times> hub" where
  "CloseAgent hostname code reason h =
     (case mget (wsConnections h) hostname of
        None \<Rightarrow> (False, h)
      | Some c \<Rightarrow>
          (let h = h\<lparr>wsConnections := mdel hostname (wsConnections h)\<rparr>;
               h = snd (conn_write c (CloseFrame code reason) h);
               h = conn_close c h
           in (True, ResolveFuturesForHostname hostname ''agent_revoked'' h)))"

definition GetConnectedCount :: "hub \<Rightarrow> nat" where
  "GetConnectedCount h = length (wsConnections h)"

definition GetPendingTaskCount :: "hub \<Rightarrow> nat" where
  "GetPendingTaskCount h = length (pendingTasks h)"

definition GetConnectedHostnames :: "hub \<Rightarrow> string list" where
  "GetConnectedHostnames h = mkeys (wsConnections h)"

section \<open>Messages from an agent\<close>

text \<open>The loop that drops the last code point while the text is longer than the limit.\<close>

function shrink_runes :: "nat \<Rightarrow> nat list \<Rightarrow> nat list" where
  "shrink_runes limit runes =
     (if limit < length (string_of_runes runes) then shrink_runes limit (butlast runes) else runes)"
  by pat_completeness auto
termination
proof (relation "measure (length \<circ> snd)")
  fix limit and runes :: "nat list"
  assume "limit < length (string_of_runes runes)"
  then have "runes \<noteq> []" by (auto simp: string_of_runes_def)
  then show "((limit, butlast runes), (limit, runes)) \<in> measure (length \<circ> snd)"
    by (cases runes rule: rev_cases) auto
qed simp

declare shrink_runes.simps [simp del]

definition cap_stdout :: "nat \<Rightarrow> string \<Rightarrow> string" where
  "cap_stdout limit combined =
     (if limit < length combined then string_of_runes (shrink_runes limit (runes_of combined))
      else combined)"

definition handle_stdout :: "Message \<Rightarrow> hub \<Rightarrow> hub" where
  "handle_stdout msg h =
     (let buf = mget_or [] (stdoutBuffers h) (ms_TaskID msg);
          combined = cap_stdout (stdoutMaxBytes h) (buf @ ms_Chunk msg)
      in h\<lparr>stdoutBuffers := mput (ms_TaskID msg) combined (stdoutBuffers h)\<rparr>)"

definition handle_result :: "Message \<Rightarrow> hub \<Rightarrow> hub" where
  "handle_result msg h =
     (let acc = mget_or [] (stdoutBuffers h) (ms_TaskID msg);
          msg = (if ms_Stdout msg = [] \<and> acc \<noteq> [] then msg\<lparr>ms_Stdout := acc\<rparr> else msg);
          h = (case mget (pendingTasks h) (ms_TaskID msg) of
                 Some ch \<Rightarrow> try_send ch msg h
               | None \<Rightarrow> h)
      in h\<lparr>pendingTasks := mdel (ms_TaskID msg) (pendingTasks h),
           stdoutBuffers := mdel (ms_TaskID msg) (stdoutBuffers h),
           taskHostnames := mdel (ms_TaskID msg) (taskHostnames h)\<rparr>)"

definition HandleMessage :: "Message \<Rightarrow> string \<Rightarrow> hub \<Rightarrow> hub" where
  "HandleMessage msg hostname h =
     (if ms_TaskID msg = [] \<or> ms_Type msg = [] then h
      else if ms_Type msg = ''ack'' then h
      else if ms_Type msg = ''stdout'' then handle_stdout msg h
      else if ms_Type msg = ''result'' then handle_result msg h
      else h)"

section \<open>The connection handler\<close>

text \<open>
  \<open>AgentHandler\<close> after authentication and upgrade: the connection enters the heap and the
  registry, a connection authenticated with the previous secret gets its rekey message
  (\<open>rekey\<close> is \<open>RekeyFunc\<close>, \<open>None\<close> when it is not set), and then each iteration of the read loop
  handles one frame, or leaves the loop on a read error and runs the deferred clean-up.
\<close>

definition agent_open :: "(string \<Rightarrow> hub \<Rightarrow> bool \<times> hub) option \<Rightarrow> string \<Rightarrow> bool \<Rightarrow> hub \<Rightarrow> nat \<times> hub" where
  "agent_open rekey hostname usedPrevious h =
     (let c = next_id h;
          h = h\<lparr>conns := mput c \<lparr>cn_Hostname = hostname, cn_Sent = [], cn_Broken = None,
                  cn_Reading = True\<rparr> (conns h),
                next_id := Suc c\<rparr>;
          h = RegisterConnection hostname c h
      in if usedPrevious then
           (let (sent, h) = (case rekey of None \<Rightarrow> (False, h) | Some f \<Rightarrow> f hostname h)
            in (c, if sent then h
                   else snd (conn_write c (TextFrame (JObj [(''type'', JStr ''rekey'')])) h)))
         else (c, h))"

definition agent_exit :: "nat \<Rightarrow> string \<Rightarrow> hub \<Rightarrow> hub" where
  "agent_exit c hostname h =
     (let h = UnregisterConnection hostname h;
          h = conn_close c h
      in (case mget (conns h) c of
            None \<Rightarrow> h
          | Some cn \<Rightarrow> h\<lparr>conns := mput c (cn\<lparr>cn_Reading := False\<rparr>) (conns h)\<rparr>))"

text \<open>
  One iteration: an input \<open>None\<close> is a transport error; the result says whether the loop goes on.
\<close>

definition agent_read :: "nat \<Rightarrow> json option \<Rightarrow> hub \<Rightarrow> bool \<times> hub" where
  "agent_read c input h =
     (case mget (conns h) c of
        None \<Rightarrow> (False, h)
      | Some cn \<Rightarrow>
          if \<not> cn_Reading cn then (False, h)
          else (case Option.bind input decode_Message of
                  None \<Rightarrow> (False, agent_exit c (cn_Hostname cn) h)
                | Some msg \<Rightarrow> (True, HandleMessage msg (cn_Hostname cn) h)))"

text \<open>The frames that end a loop leave the rest of the input unread.\<close>

fun agent_loop :: "nat \<Rightarrow> json option list \<Rightarrow> hub \<Rightarrow> hub" where
  "agent_loop c [] h = h"
| "agent_loop c (i # is) h =
     (let (go, h) = agent_read c i h in if go then agent_loop c is h else h)"

lemmas hub_operations [hub_defs] = conn_write_def conn_fail_def conn_close_def DispatchFunc_def
  make_chan_def try_send_def try_receive_def RegisterFuture_def UnregisterFuture_def
  resolve_with_error_def RegisterConnection_def UnregisterConnection_def GetConnection_def
  SendToAgent_def handle_stdout_def handle_result_def HandleMessage_def

end
