(* ===== verification/HubSpec.thy ===== *)
theory HubSpec
  imports Hub
begin

text \<open>
  The hub as a state machine: every operation the rest of the server or an agent can perform on it
  is an event, \<open>hub_step\<close> its effect, \<open>hub_reachable\<close> the states any interleaving of events leads
  to, and \<open>hub_inv\<close> the invariant of those states. The properties say what happens to a task's
  result, to the tasks of a lost agent, to the stdout of a task and to a connection that is
  replaced.
\<close>

section \<open>The state machine\<close>

datatype hub_event =
    EvOpen string bool "json option"  \<comment> \<open>a connection opens; the rekey message if \<open>RekeyFunc\<close> is set\<close>
  | EvRead nat "json option"          \<comment> \<open>the handler of a connection reads a frame or an error\<close>
  | EvLinkDown nat string             \<comment> \<open>the transport of a connection starts to fail\<close>
  | EvRegisterFuture string string
  | EvSend string json
  | EvUnregisterFuture string
  | EvReceive nat                     \<comment> \<open>a waiter takes from its channel\<close>
  | EvCloseAgent string int string

definition rekey_by :: "json \<Rightarrow> string \<Rightarrow> hub \<Rightarrow> bool \<times> hub" where
  "rekey_by message hostname h =
     (case SendToAgent hostname message h of (e, h) \<Rightarrow> (e = None, h))"

fun hub_step :: "hub_event \<Rightarrow> hub \<Rightarrow> hub" where
  "hub_step (EvOpen hostname prev rk) h = snd (agent_open (map_option rekey_by rk) hostname prev h)"
| "hub_step (EvRead c i) h = snd (agent_read c i h)"
| "hub_step (EvLinkDown c e) h = conn_fail c e h"
| "hub_step (EvRegisterFuture t hostname) h = snd (RegisterFuture t hostname h)"
| "hub_step (EvSend hostname m) h = snd (SendToAgent hostname m h)"
| "hub_step (EvUnregisterFuture t) h = UnregisterFuture t h"
| "hub_step (EvReceive ch) h = snd (try_receive ch h)"
| "hub_step (EvCloseAgent hostname code reason) h = snd (CloseAgent hostname code reason h)"

inductive hub_reachable :: "hub \<Rightarrow> bool" where
  start: "hub_reachable (init_hub d)"
| step: "hub_reachable h \<Longrightarrow> hub_reachable (hub_step e h)"

section \<open>The invariant\<close>

definition futures_inv :: "hub \<Rightarrow> bool" where
  "futures_inv h \<longleftrightarrow>
     distinct (mkeys (pendingTasks h)) \<and> distinct (mkeys (taskHostnames h))
   \<and> distinct (mkeys (stdoutBuffers h))
   \<and> (\<forall>t ch. mget (pendingTasks h) t = Some ch \<longrightarrow>
        mget (chans h) ch = Some [] \<and> mget (taskHostnames h) t \<noteq> None
      \<and> (\<forall>t'. mget (pendingTasks h) t' = Some ch \<longrightarrow> t' = t))
   \<and> (\<forall>ch ms. mget (chans h) ch = Some ms \<longrightarrow> ch < next_id h \<and> length ms \<le> 1)
   \<and> (\<forall>t buf. mget (stdoutBuffers h) t = Some buf \<longrightarrow> length buf \<le> stdoutMaxBytes h)"

definition conns_inv :: "hub \<Rightarrow> bool" where
  "conns_inv h \<longleftrightarrow>
     distinct (mkeys (wsConnections h))
   \<and> (\<forall>c cn. mget (conns h) c = Some cn \<longrightarrow> c < next_id h)
   \<and> (\<forall>hostname c. mget (wsConnections h) hostname = Some c \<longrightarrow>
        (\<exists>cn. mget (conns h) c = Some cn \<and> cn_Hostname cn = hostname))"

definition hub_inv :: "hub \<Rightarrow> bool" where
  "hub_inv h \<longleftrightarrow> futures_inv h \<and> conns_inv h"

lemma hub_inv_init: "hub_inv (init_hub d)"
  by (simp add: hub_inv_def futures_inv_def conns_inv_def init_hub_def)

text \<open>The two halves depend on disjoint parts of the hub.\<close>

lemma futures_inv_conns [simp]:
  "futures_inv (h\<lparr>conns := x\<rparr>) = futures_inv h"
  "futures_inv (h\<lparr>wsConnections := y\<rparr>) = futures_inv h"
  "futures_inv (h\<lparr>dispatched := z\<rparr>) = futures_inv h"
  by (simp_all add: futures_inv_def)

lemma conns_inv_futures [simp]:
  "conns_inv (h\<lparr>pendingTasks := p\<rparr>) = conns_inv h"
  "conns_inv (h\<lparr>taskHostnames := t\<rparr>) = conns_inv h"
  "conns_inv (h\<lparr>stdoutBuffers := b\<rparr>) = conns_inv h"
  "conns_inv (h\<lparr>chans := c\<rparr>) = conns_inv h"
  "conns_inv (h\<lparr>dispatched := d\<rparr>) = conns_inv h"
  by (simp_all add: conns_inv_def)

lemma conns_inv_update:
  "conns_inv h \<Longrightarrow> mget (conns h) c = Some cn \<Longrightarrow> cn_Hostname cn' = cn_Hostname cn \<Longrightarrow>
   conns_inv (h\<lparr>conns := mput c cn' (conns h)\<rparr>)"
  unfolding conns_inv_def by (auto split: if_splits) (metis option.inject)

lemma conns_inv_remove: "conns_inv h \<Longrightarrow> conns_inv (h\<lparr>wsConnections := mdel x (wsConnections h)\<rparr>)"
  unfolding conns_inv_def by auto

lemma conn_write_inv [inv_intros]: "hub_inv h \<Longrightarrow> hub_inv (snd (conn_write c f h))"
  by (auto simp: conn_write_def hub_inv_def conns_inv_update split: option.split)

lemma conn_fail_inv [inv_intros]: "hub_inv h \<Longrightarrow> hub_inv (conn_fail c e h)"
  by (auto simp: conn_fail_def hub_inv_def conns_inv_update split: option.split)

lemma conn_close_inv [inv_intros]: "hub_inv h \<Longrightarrow> hub_inv (conn_close c h)"
  unfolding conn_close_def by (rule conn_fail_inv)

lemma DispatchFunc_inv [inv_intros]: "hub_inv h \<Longrightarrow> hub_inv (DispatchFunc e x s h)"
  by (simp add: DispatchFunc_def hub_inv_def)

text \<open>Removing a task from the three maps, after delivering to its channel or not.\<close>

definition forget :: "string \<Rightarrow> hub \<Rightarrow> hub" where
  "forget t h = h\<lparr>pendingTasks := mdel t (pendingTasks h), stdoutBuffers := mdel t (stdoutBuffers h),
     taskHostnames := mdel t (taskHostnames h)\<rparr>"

definition settle :: "string \<Rightarrow> Message \<Rightarrow> hub \<Rightarrow> hub" where
  "settle t m h = forget t
     (case mget (pendingTasks h) t of None \<Rightarrow> h | Some ch \<Rightarrow> try_send ch m h)"

lemma pending_facts:
  assumes "hub_inv h" "mget (pendingTasks h) t = Some ch"
  shows "mget (chans h) ch = Some []" "mget (taskHostnames h) t \<noteq> None" "ch < next_id h"
    "mget (pendingTasks h) t' = Some ch \<Longrightarrow> t' = t"
proof -
  from assms have *: "mget (chans h) ch = Some [] \<and> mget (taskHostnames h) t \<noteq> None
      \<and> (\<forall>t'. mget (pendingTasks h) t' = Some ch \<longrightarrow> t' = t)"
    and **: "\<And>ch ms. mget (chans h) ch = Some ms \<Longrightarrow> ch < next_id h"
    unfolding hub_inv_def futures_inv_def by blast+
  show "mget (chans h) ch = Some []" "mget (taskHostnames h) t \<noteq> None"
    "mget (pendingTasks h) t' = Some ch \<Longrightarrow> t' = t" using * by blast+
  then show "ch < next_id h" using ** by blast
qed

lemma forget_inv: "hub_inv h \<Longrightarrow> hub_inv (forget t h)"
  unfolding forget_def hub_inv_def
  by (auto simp: futures_inv_def conns_inv_def)

lemma UnregisterFuture_forget: "UnregisterFuture t h = forget t h"
  by (simp add: UnregisterFuture_def forget_def)

lemma resolve_with_error_settle:
  "resolve_with_error e t h = settle t (zero_Message\<lparr>ms_TaskID := t, ms_Error := e\<rparr>) h"
  by (simp add: resolve_with_error_def settle_def forget_def Let_def split: option.split)

definition with_stdout :: "Message \<Rightarrow> hub \<Rightarrow> Message" where
  "with_stdout m h =
     (let acc = mget_or [] (stdoutBuffers h) (ms_TaskID m)
      in if ms_Stdout m = [] \<and> acc \<noteq> [] then m\<lparr>ms_Stdout := acc\<rparr> else m)"

lemma with_stdout_id [simp]: "ms_TaskID (with_stdout m h) = ms_TaskID m"
  by (simp add: with_stdout_def Let_def)

lemma handle_result_settle: "handle_result m h = settle (ms_TaskID m) (with_stdout m h) h"
  by (simp add: handle_result_def settle_def forget_def with_stdout_def Let_def split: option.split)

text \<open>What settling a task does, in a state where the futures are well formed.\<close>

lemma settle_pending:
  assumes "hub_inv h" "mget (pendingTasks h) t = Some ch"
  shows "settle t m h = forget t (h\<lparr>chans := mput ch [m] (chans h)\<rparr>)"
  using assms by (auto simp: settle_def try_send_def hub_inv_def futures_inv_def)

lemma settle_absent: "mget (pendingTasks h) t = None \<Longrightarrow> settle t m h = forget t h"
  by (simp add: settle_def)

lemma settle_inv: "hub_inv h \<Longrightarrow> hub_inv (settle t m h)"
proof (cases "mget (pendingTasks h) t")
  case None
  then show "hub_inv h \<Longrightarrow> ?thesis" by (simp add: settle_absent forget_inv)
next
  case (Some ch)
  assume inv: "hub_inv h"
  then have "\<forall>t'. mget (pendingTasks h) t' = Some ch \<longrightarrow> t' = t" "ch < next_id h"
    using Some by (auto simp: hub_inv_def futures_inv_def)
  with inv Some show ?thesis
    unfolding settle_pending [OF inv Some] forget_def hub_inv_def
    by (auto simp: futures_inv_def conns_inv_def)
qed

lemma ResolveFutures_inv [inv_intros]: "hub_inv h \<Longrightarrow> hub_inv (ResolveFuturesForHostname x e h)"
proof -
  have "hub_inv h \<Longrightarrow> hub_inv (fold (resolve_with_error e) ts h)" for ts h
    by (induction ts arbitrary: h) (auto simp: resolve_with_error_settle settle_inv)
  then show "hub_inv h \<Longrightarrow> ?thesis" by (simp add: ResolveFuturesForHostname_def)
qed

lemma UnregisterConnection_inv [inv_intros]: "hub_inv h \<Longrightarrow> hub_inv (UnregisterConnection x h)"
  unfolding UnregisterConnection_def Let_def
  by (intro inv_intros) (simp add: hub_inv_def conns_inv_remove)

lemma RegisterConnection_inv:
  assumes "hub_inv h" "mget (conns h) c = Some cn" "cn_Hostname cn = x"
  shows "hub_inv (RegisterConnection x c h)"
proof -
  have "\<exists>cn. mget (conns (conn_close o' h)) c = Some cn \<and> cn_Hostname cn = x" for o'
    using assms(2,3) by (auto simp: conn_close_def conn_fail_def split: option.split)
  then show ?thesis
    using assms conn_close_inv [OF assms(1)]
    unfolding RegisterConnection_def Let_def
    by (intro inv_intros) (auto simp: hub_inv_def conns_inv_def split: option.split if_splits)
qed

lemma RegisterFuture_inv [inv_intros]: "hub_inv h \<Longrightarrow> hub_inv (snd (RegisterFuture t x h))"
proof -
  assume inv: "hub_inv h"
  then have fresh: "mget (chans h) (next_id h) = None"
    unfolding hub_inv_def futures_inv_def by (cases "mget (chans h) (next_id h)") auto
  then have new: "mget (pendingTasks h) t' \<noteq> Some (next_id h)" for t'
    using inv by (auto simp: hub_inv_def futures_inv_def)
  have "futures_inv (snd (RegisterFuture t x h))"
    using inv new unfolding futures_inv_def hub_inv_def RegisterFuture_def make_chan_def Let_def
    by (auto simp: less_Suc_eq)
  moreover have "conns_inv (snd (RegisterFuture t x h))"
    using inv unfolding conns_inv_def hub_inv_def RegisterFuture_def make_chan_def Let_def
    by (auto simp: less_Suc_eq)
  ultimately show ?thesis by (simp add: hub_inv_def)
qed

lemma SendToAgent_inv [inv_intros]: "hub_inv h \<Longrightarrow> hub_inv (snd (SendToAgent x m h))"
  unfolding SendToAgent_def Let_def GetConnection_def
  by (auto intro!: conn_write_inv split: option.split sum.split)
    (auto simp: hub_inv_def futures_inv_def conns_inv_def)

lemma try_receive_inv [inv_intros]: "hub_inv h \<Longrightarrow> hub_inv (snd (try_receive ch h))"
  unfolding try_receive_def
  by (auto simp: hub_inv_def futures_inv_def conns_inv_def split: option.split list.split) fastforce+

section \<open>Capping stdout\<close>

lemma shrink_runes_prefix: "prefix (shrink_runes limit rs) rs"
proof (induction limit rs rule: shrink_runes.induct)
  case (1 limit rs)
  then show ?case
    by (subst shrink_runes.simps) (auto intro: prefix_order.trans [OF _ prefixeq_butlast])
qed

lemma shrink_runes_bound: "length (string_of_runes (shrink_runes limit rs)) \<le> limit"
proof (induction limit rs rule: shrink_runes.induct)
  case (1 limit rs)
  then show ?case by (subst shrink_runes.simps) auto
qed

lemma shrink_runes_maximal:
  "prefix qs rs \<Longrightarrow> length (string_of_runes qs) \<le> limit \<Longrightarrow> prefix qs (shrink_runes limit rs)"
proof (induction limit rs rule: shrink_runes.induct)
  case (1 limit rs)
  show ?case
  proof (cases "limit < length (string_of_runes rs)")
    case True
    with 1 have "qs \<noteq> rs" by auto
    with 1(2) have "prefix qs (butlast rs)"
      by (cases rs rule: rev_cases) (auto simp: prefix_snoc)
    with 1 True show ?thesis by (subst shrink_runes.simps) auto
  next
    case False
    with 1 show ?thesis by (subst shrink_runes.simps) auto
  qed
qed

lemma cap_stdout_bound: "length (cap_stdout limit s) \<le> limit"
  by (simp add: cap_stdout_def shrink_runes_bound)

lemma HandleMessage_inv [inv_intros]: "hub_inv h \<Longrightarrow> hub_inv (HandleMessage m x h)"
  unfolding HandleMessage_def
  by (auto simp: handle_result_settle settle_inv)
    (auto simp: handle_stdout_def Let_def hub_inv_def futures_inv_def conns_inv_def cap_stdout_bound)

lemma CloseAgent_inv [inv_intros]: "hub_inv h \<Longrightarrow> hub_inv (snd (CloseAgent x code reason h))"
  unfolding CloseAgent_def Let_def
  by (auto intro!: inv_intros split: option.split) (simp add: hub_inv_def conns_inv_remove)

lemma agent_exit_inv [inv_intros]: "hub_inv h \<Longrightarrow> hub_inv (agent_exit c x h)"
proof -
  assume "hub_inv h"
  then have "hub_inv (conn_close c (UnregisterConnection x h))" by (intro inv_intros)
  then show ?thesis
    by (auto simp: agent_exit_def Let_def hub_inv_def conns_inv_update split: option.split)
qed

lemma agent_read_inv [inv_intros]: "hub_inv h \<Longrightarrow> hub_inv (snd (agent_read c i h))"
  unfolding agent_read_def by (auto intro!: inv_intros split: option.split)

lemma rekey_by_inv: "hub_inv h \<Longrightarrow> hub_inv (snd (rekey_by m x h))"
  using SendToAgent_inv [of h x m] by (cases "SendToAgent x m h") (simp add: rekey_by_def)

lemma fresh_conn_inv:
  "hub_inv h \<Longrightarrow> hub_inv (h\<lparr>conns := mput (next_id h) cn (conns h), next_id := Suc (next_id h)\<rparr>)"
  unfolding hub_inv_def
  by (auto simp: futures_inv_def conns_inv_def less_Suc_eq split: if_splits) force+

lemma agent_open_inv [inv_intros]:
  assumes "hub_inv h" "\<And>f h. rekey = Some f \<Longrightarrow> hub_inv h \<Longrightarrow> hub_inv (snd (f x h))"
  shows "hub_inv (snd (agent_open rekey x prev h))"
proof -
  let ?h = "RegisterConnection x (next_id h) (h\<lparr>conns := mput (next_id h)
      \<lparr>cn_Hostname = x, cn_Sent = [], cn_Broken = None, cn_Reading = True\<rparr> (conns h),
      next_id := Suc (next_id h)\<rparr>)"
  have "hub_inv ?h" by (rule RegisterConnection_inv [OF fresh_conn_inv [OF assms(1)]]) auto
  with assms(2) [of _ ?h] show ?thesis
    by (auto simp: agent_open_def Let_def intro: conn_write_inv split: option.split prod.split)
qed

lemma hub_step_inv: "hub_inv h \<Longrightarrow> hub_inv (hub_step e h)"
proof (cases e)
  case (EvOpen x prev rk)
  then show "hub_inv h \<Longrightarrow> ?thesis" by (auto intro!: agent_open_inv rekey_by_inv)
qed (auto intro: inv_intros simp: UnregisterFuture_forget forget_inv)

lemma reachable_inv: "hub_reachable h \<Longrightarrow> hub_inv h"
  by (induction rule: hub_reachable.induct) (auto intro: hub_inv_init hub_step_inv)

section \<open>Resolving all the tasks of a host\<close>

lemma forget_simps [simp]:
  "mget (pendingTasks (forget t h)) t' = (if t' = t then None else mget (pendingTasks h) t')"
  "mget (taskHostnames (forget t h)) t' = (if t' = t then None else mget (taskHostnames h) t')"
  "mget (stdoutBuffers (forget t h)) t' = (if t' = t then None else mget (stdoutBuffers h) t')"
  "chans (forget t h) = chans h" "conns (forget t h) = conns h"
  "wsConnections (forget t h) = wsConnections h"
  by (simp_all add: forget_def)

abbreviation error_message :: "string \<Rightarrow> string \<Rightarrow> Message" where
  "error_message t e \<equiv> zero_Message\<lparr>ms_TaskID := t, ms_Error := e\<rparr>"

lemma settle_maps:
  "mget (pendingTasks (settle t m h)) t' = (if t' = t then None else mget (pendingTasks h) t')"
  "mget (taskHostnames (settle t m h)) t' = (if t' = t then None else mget (taskHostnames h) t')"
  "mget (stdoutBuffers (settle t m h)) t' = (if t' = t then None else mget (stdoutBuffers h) t')"
  "conns (settle t m h) = conns h" "wsConnections (settle t m h) = wsConnections h"
  by (auto simp: settle_def try_send_def split: option.split list.split)

lemma settle_chans:
  assumes "hub_inv h"
  shows "mget (chans (settle t m h)) ch =
    (if mget (pendingTasks h) t = Some ch then Some [m] else mget (chans h) ch)"
proof (cases "mget (pendingTasks h) t")
  case None
  then show ?thesis by (simp add: settle_absent)
next
  case (Some ch')
  then show ?thesis by (auto simp: settle_pending [OF assms Some])
qed

lemma resolve_all_maps:
  "mget (pendingTasks (fold (resolve_with_error e) ts h)) t =
     (if t \<in> set ts then None else mget (pendingTasks h) t)"
  "mget (taskHostnames (fold (resolve_with_error e) ts h)) t =
     (if t \<in> set ts then None else mget (taskHostnames h) t)"
  "wsConnections (fold (resolve_with_error e) ts h) = wsConnections h"
  "conns (fold (resolve_with_error e) ts h) = conns h"
  by (induction ts arbitrary: h) (auto simp: resolve_with_error_settle settle_maps)

lemma resolve_all_other:
  "hub_inv h \<Longrightarrow> (\<And>t. t \<in> set ts \<Longrightarrow> mget (pendingTasks h) t \<noteq> Some ch) \<Longrightarrow>
   mget (chans (fold (resolve_with_error e) ts h)) ch = mget (chans h) ch"
proof (induction ts arbitrary: h)
  case (Cons t0 ts)
  then have "mget (chans (fold (resolve_with_error e) ts (settle t0 (error_message t0 e) h))) ch =
      mget (chans (settle t0 (error_message t0 e) h)) ch"
    by (intro Cons.IH) (auto simp: settle_inv settle_maps)
  with Cons.prems show ?case
    by (simp add: settle_chans resolve_with_error_settle [of e t0 h])
qed simp

lemma resolve_all_delivers:
  "hub_inv h \<Longrightarrow> t \<in> set ts \<Longrightarrow> mget (pendingTasks h) t = Some ch \<Longrightarrow>
   mget (chans (fold (resolve_with_error e) ts h)) ch = Some [error_message t e]"
proof (induction ts arbitrary: h)
  case (Cons t0 ts)
  let ?h = "settle t0 (error_message t0 e) h"
  have inv: "hub_inv ?h" using Cons.prems by (simp add: settle_inv)
  have own: "mget (pendingTasks h) t' = Some ch \<Longrightarrow> t' = t" for t'
    using Cons.prems by (auto simp: hub_inv_def futures_inv_def)
  show ?case
  proof (cases "t0 = t")
    case True
    have "mget (chans (fold (resolve_with_error e) ts ?h)) ch = mget (chans ?h) ch"
      using own True by (intro resolve_all_other inv) (auto simp: settle_maps)
    with Cons.prems True show ?thesis
      by (simp add: settle_chans resolve_with_error_settle [of e t h])
  next
    case False
    then show ?thesis
      using Cons.IH [OF inv] Cons.prems by (simp add: settle_maps resolve_with_error_settle [of e t0 h])
  qed
qed simp

lemma tasks_of_iff:
  "hub_inv h \<Longrightarrow> t \<in> set (tasks_of x h) \<longleftrightarrow> mget (taskHostnames h) t = Some x"
  by (auto simp: tasks_of_def hub_inv_def futures_inv_def image_iff split: prod.splits)

lemma tasks_of_distinct: "hub_inv h \<Longrightarrow> distinct (tasks_of x h)"
  unfolding tasks_of_def hub_inv_def futures_inv_def by (auto intro: distinct_map_filter)

lemma WaitForResult_ready: "mget (chans h) ch = Some [m] \<Longrightarrow> fst (WaitForResult ch h) = Inr m"
  by (simp add: WaitForResult_def try_receive_def)

lemma WaitForResult_empty:
  "mget (chans h) ch = Some [] \<Longrightarrow> WaitForResult ch h = (Inl ''timeout waiting for task result'', h)"
  by (simp add: WaitForResult_def try_receive_def)

section \<open>Properties\<close>

text \<open>C9: In every state the hub can reach, whatever agents, callers and links do: each pending
  task has a channel of its own, still empty (so the one result sent to it is never dropped), and a
  known host; no channel holds more than its capacity; every stdout buffer is within the limit;
  and each registered connection is one of the host it is registered under.\<close>

theorem hub_invariant: "hub_reachable h \<Longrightarrow> hub_inv h"
  by (rule reachable_inv)

lemma hub_invariant_witness:
  "hub_inv (hub_step (EvRegisterFuture ''t1'' ''web1'') (hub_step (EvOpen ''web1'' False None) (init_hub True)))"
  by (rule hub_invariant) (intro hub_reachable.intros)

text \<open>C12: When a result for a pending task arrives, its waiter gets that message, with the
  accumulated stdout if the message carries none, whichever host's connection it came from; the
  task is forgotten, no later message for it reaches anybody, and no other task or channel
  changes.\<close>

theorem result_reaches_its_waiter:
  assumes "hub_reachable h" and "mget (pendingTasks h) t = Some ch"
    and "ms_TaskID m = t" "ms_Type m = ''result''" "t \<noteq> []"
    and "h' = HandleMessage m x h"
  shows "fst (WaitForResult ch h') = Inr (with_stdout m h)
    \<and> mget (pendingTasks h') t = None \<and> mget (stdoutBuffers h') t = None
    \<and> (ms_TaskID m' = t \<longrightarrow> chans (HandleMessage m' x' h') = chans h')
    \<and> (t' \<noteq> t \<longrightarrow> mget (pendingTasks h') t' = mget (pendingTasks h) t'
          \<and> mget (stdoutBuffers h') t' = mget (stdoutBuffers h) t')
    \<and> (ch' \<noteq> ch \<longrightarrow> mget (chans h') ch' = mget (chans h) ch')"
proof -
  have inv: "hub_inv h" by (rule reachable_inv [OF assms(1)])
  have h': "h' = settle t (with_stdout m h) h"
    using assms(3-6) by (simp add: HandleMessage_def handle_result_settle)
  have "chans (HandleMessage m' x' h') = chans h'" if "ms_TaskID m' = t"
    using that h' by (simp add: HandleMessage_def handle_result_settle settle_absent settle_maps
        handle_stdout_def Let_def)
  with inv assms(2) show ?thesis
    by (auto simp: h' settle_maps settle_chans intro: WaitForResult_ready)
qed

definition example_hub :: hub where
  "example_hub = hub_step (EvRegisterFuture ''t1'' ''web1'')
     (hub_step (EvOpen ''web1'' False None) (init_hub True))"

lemma example_hub_reachable: "hub_reachable example_hub"
  unfolding example_hub_def by (intro hub_reachable.intros)

lemma example_hub_pending: "mget (pendingTasks example_hub) ''t1'' = Some 1"
  "mget (taskHostnames example_hub) ''t1'' = Some ''web1''"
  by (simp_all add: example_hub_def init_hub_def agent_open_def RegisterConnection_def
      DispatchFunc_def RegisterFuture_def make_chan_def)

lemma result_reaches_its_waiter_witness:
  "fst (WaitForResult 1 (HandleMessage
     (zero_Message\<lparr>ms_TaskID := ''t1'', ms_Type := ''result'', ms_Stdout := ''ok''\<rparr>) ''other'' example_hub))
   = Inr (zero_Message\<lparr>ms_TaskID := ''t1'', ms_Type := ''result'', ms_Stdout := ''ok''\<rparr>)"
  using result_reaches_its_waiter [OF example_hub_reachable example_hub_pending(1) _ _ _ refl,
      of "zero_Message\<lparr>ms_TaskID := ''t1'', ms_Type := ''result'', ms_Stdout := ''ok''\<rparr>" "''other''"]
  by (simp add: with_stdout_def Let_def)

text \<open>C21: The text kept for a task after a chunk never exceeds the limit; it is the old text with
  the chunk when that fits, and otherwise the longest run of whole characters of it that fits, as
  valid UTF-8: no character is cut in two.\<close>

theorem stdout_capped:
  assumes "ms_TaskID m \<noteq> []" "ms_Type m = ''stdout''"
    and "combined = mget_or [] (stdoutBuffers h) (ms_TaskID m) @ ms_Chunk m"
    and "kept = mget_or [] (stdoutBuffers (HandleMessage m x h)) (ms_TaskID m)"
  shows "length kept \<le> stdoutMaxBytes h
    \<and> (length combined \<le> stdoutMaxBytes h \<longrightarrow> kept = combined)
    \<and> (stdoutMaxBytes h < length combined \<longrightarrow>
         valid_utf8 kept
       \<and> (\<exists>n. kept = string_of_runes (take n (runes_of combined))
            \<and> (\<forall>k. length (string_of_runes (take k (runes_of combined))) \<le> stdoutMaxBytes h \<longrightarrow>
                 prefix (string_of_runes (take k (runes_of combined))) kept)))"
proof -
  let ?max = "stdoutMaxBytes h"
  have kept: "kept = cap_stdout ?max combined"
    using assms by (simp add: HandleMessage_def handle_stdout_def mget_or_def)
  let ?rs = "shrink_runes ?max (runes_of combined)"
  obtain rest where rest: "runes_of combined = ?rs @ rest"
    using shrink_runes_prefix [of ?max "runes_of combined"] by (auto simp: prefix_def)
  then have n: "?rs = take (length ?rs) (runes_of combined)"
    by (metis append_eq_conv_conj)
  have "valid_utf8 (string_of_runes ?rs)"
    using valid_runes_of [of combined] n by (intro valid_utf8_string_of_runes) (metis in_set_takeD)
  moreover have "prefix (string_of_runes (take k (runes_of combined))) (string_of_runes ?rs)"
    if "length (string_of_runes (take k (runes_of combined))) \<le> ?max" for k
    using shrink_runes_maximal [OF take_is_prefix that] by (auto simp: prefix_def string_of_runes_append)
  moreover have "\<exists>n. string_of_runes ?rs = string_of_runes (take n (runes_of combined))"
    using n by metis
  ultimately show ?thesis
    using kept cap_stdout_bound [of ?max combined] by (auto simp: cap_stdout_def)
qed

text \<open>C19: When the handler of a host's connection unregisters it, the host has no connection and no
  task any more, every pending task of that host gets the error \<open>agent_disconnected\<close>, and the
  tasks of every other host stay pending and unresolved.\<close>

theorem lost_agent_fails_its_tasks:
  assumes "hub_reachable h" and "mget (pendingTasks h) t = Some ch"
    and "h' = UnregisterConnection x h"
  shows "GetConnection x h' = Inl ''agent_offline'' \<and> tasks_of x h' = []
    \<and> (if mget (taskHostnames h) t = Some x
       then fst (WaitForResult ch h') = Inr (error_message t ''agent_disconnected'')
          \<and> mget (pendingTasks h') t = None
       else mget (pendingTasks h') t = Some ch \<and> mget (chans h') ch = Some [])"
proof -
  define h0 where "h0 = DispatchFunc ''host.down'' x ''disconnected''
    (h\<lparr>wsConnections := mdel x (wsConnections h)\<rparr>)"
  have inv: "hub_inv h" by (rule reachable_inv [OF assms(1)])
  then have inv0: "hub_inv h0"
    unfolding h0_def by (intro inv_intros) (simp add: hub_inv_def conns_inv_remove)
  have same: "pendingTasks h0 = pendingTasks h" "taskHostnames h0 = taskHostnames h"
      "chans h0 = chans h" "wsConnections h0 = mdel x (wsConnections h)"
    by (simp_all add: h0_def DispatchFunc_def)
  have h': "h' = fold (resolve_with_error ''agent_disconnected'') (tasks_of x h0) h0"
    by (simp add: assms(3) UnregisterConnection_def ResolveFuturesForHostname_def h0_def Let_def)
  have inv': "hub_inv h'" using assms(3) UnregisterConnection_inv [OF inv] by simp
  have mem: "u \<in> set (tasks_of x h0) \<longleftrightarrow> mget (taskHostnames h) u = Some x" for u
    using tasks_of_iff [OF inv0] same by simp
  have "u \<notin> set (tasks_of x h')" for u
    using mem tasks_of_iff [OF inv'] by (auto simp: h' resolve_all_maps same split: if_splits)
  then have "tasks_of x h' = []"
    by (cases "tasks_of x h'") auto
  moreover have "mget (chans h') ch = Some []" if "mget (taskHostnames h) t \<noteq> Some x"
  proof -
    have "mget (pendingTasks h0) u \<noteq> Some ch" if "u \<in> set (tasks_of x h0)" for u
      using pending_facts(4) [OF inv assms(2)] mem that \<open>mget (taskHostnames h) t \<noteq> Some x\<close>
      by (metis same(1))
    from resolve_all_other [OF inv0 this] pending_facts(1) [OF inv assms(2)] show ?thesis
      by (simp add: h' same)
  qed
  moreover have "mget (chans h') ch = Some [error_message t ''agent_disconnected'']"
    if "mget (taskHostnames h) t = Some x"
    using resolve_all_delivers [OF inv0, of t _ ch] that mem assms(2) by (simp add: h' same)
  ultimately show ?thesis
    using assms(2) mem
    by (auto simp: h' resolve_all_maps same GetConnection_def intro: WaitForResult_ready)
qed

lemma lost_agent_fails_its_tasks_witness:
  "fst (WaitForResult 1 (UnregisterConnection ''web1'' example_hub)) =
     Inr (error_message ''t1'' ''agent_disconnected'')"
  using lost_agent_fails_its_tasks [OF example_hub_reachable example_hub_pending(1) refl, of "''web1''"]
    example_hub_pending(2) by simp

lemma stdout_capped_witness:
  "length (mget_or [] (stdoutBuffers (HandleMessage (zero_Message\<lparr>ms_TaskID := ''t1'',
      ms_Type := ''stdout'', ms_Chunk := ''abcdef''\<rparr>) ''web1'' (example_hub\<lparr>stdoutMaxBytes := 4\<rparr>))) ''t1'') \<le> 4"
  using stdout_capped [of "zero_Message\<lparr>ms_TaskID := ''t1'', ms_Type := ''stdout'', ms_Chunk := ''abcdef''\<rparr>",
      OF _ _ refl refl, of "''web1''" "example_hub\<lparr>stdoutMaxBytes := 4\<rparr>"]
  by simp

text \<open>C38: An agent that reconnects while its previous connection is still registered loses its
  registration: opening the new connection closes the old one, the old handler then leaves its read
  loop, and its deferred clean-up removes the host's entry, which by now is the new connection. The
  new handler still reads from a healthy connection, but the host counts as offline and a task sent
  to it in between is failed.\<close>

theorem reconnect_evicts_new_connection:
  assumes "hub_reachable h" and "GetConnection x h = Inr old"
    and "mget (conns h) old = Some cn" "cn_Reading cn"
    and "agent_open None x False h = (new, h1)"
    and "RegisterFuture t x h1 = (ch, h2)"
    and "agent_read old None h2 = (go, h3)"
  shows "GetConnection x h1 = Inr new \<and> \<not> go \<and> GetConnection x h3 = Inl ''agent_offline''
    \<and> (\<exists>cn'. mget (conns h3) new = Some cn' \<and> cn_Reading cn' \<and> cn_Broken cn' = None)
    \<and> fst (WaitForResult ch h3) = Inr (error_message t ''agent_disconnected'')"
proof -
  have inv: "hub_inv h" by (rule reachable_inv [OF assms(1)])
  have cur: "mget (wsConnections h) x = Some old"
    using assms(2) by (auto simp: GetConnection_def split: option.splits)
  with inv assms(3) have host: "cn_Hostname cn = x" "old < next_id h"
    unfolding hub_inv_def conns_inv_def by (metis option.inject)+
  have inv2: "hub_inv h2"
    using agent_open_inv [OF inv, of None x False] RegisterFuture_inv [of h1 t x] assms(5,6) by simp
  have h1: "new = next_id h" "mget (wsConnections h1) x = Some new"
      "mget (conns h1) new = Some \<lparr>cn_Hostname = x, cn_Sent = [], cn_Broken = None, cn_Reading = True\<rparr>"
      "mget (conns h1) old = Some (cn\<lparr>cn_Broken := Some closed_error\<rparr>)"
    using assms(3,5) cur host(2)
    by (auto simp: agent_open_def Let_def RegisterConnection_def DispatchFunc_def conn_close_def
        conn_fail_def)
  have h2: "conns h2 = conns h1" "wsConnections h2 = wsConnections h1"
      "mget (pendingTasks h2) t = Some ch" "mget (taskHostnames h2) t = Some x"
    using assms(6) by (auto simp: RegisterFuture_def make_chan_def Let_def)
  have h3: "\<not> go" "h3 = agent_exit old x h2"
    using assms(4,7) host(1) by (auto simp: agent_read_def h1(4) h2(1))
  define u where "u = UnregisterConnection x h2"
  have u: "conns u = conns h2" "wsConnections u = mdel x (wsConnections h2)"
    by (simp_all add: u_def UnregisterConnection_def ResolveFuturesForHostname_def Let_def
        resolve_all_maps DispatchFunc_def)
  have sent: "mget (chans u) ch = Some [error_message t ''agent_disconnected'']"
    unfolding u_def UnregisterConnection_def ResolveFuturesForHostname_def Let_def
    using h2(3,4) inv2
    by (intro resolve_all_delivers)
      (auto simp: tasks_of_def DispatchFunc_def hub_inv_def conns_inv_remove image_iff
        dest!: map_of_SomeD)
  have "chans h3 = chans u" "wsConnections h3 = wsConnections u"
      "mget (conns h3) new = mget (conns u) new"
    using h1(1) host(2)
    by (auto simp: h3(2) agent_exit_def u_def [symmetric] Let_def conn_close_def conn_fail_def
        split: option.split)
  with sent u h1 h2 h3 show ?thesis
    by (auto simp: GetConnection_def intro: WaitForResult_ready)
qed

lemma reconnect_evicts_new_connection_witness:
  "GetConnection ''web1'' (snd (agent_read 0 None (snd (RegisterFuture ''t2'' ''web1''
     (snd (agent_open None ''web1'' False example_hub)))))) = Inl ''agent_offline''"
proof -
  obtain new h1 where 1: "agent_open None ''web1'' False example_hub = (new, h1)" by fastforce
  obtain ch h2 where 2: "RegisterFuture ''t2'' ''web1'' h1 = (ch, h2)" by fastforce
  obtain go h3 where 3: "agent_read 0 None h2 = (go, h3)" by fastforce
  have "GetConnection ''web1'' example_hub = Inr 0"
    "mget (conns example_hub) 0 = Some \<lparr>cn_Hostname = ''web1'', cn_Sent = [], cn_Broken = None,
       cn_Reading = True\<rparr>"
    by (simp_all add: example_hub_def init_hub_def agent_open_def RegisterConnection_def
        DispatchFunc_def RegisterFuture_def make_chan_def GetConnection_def)
  from reconnect_evicts_new_connection [OF example_hub_reachable this _ 1 2 3] show ?thesis
    by (simp add: 1 2 3)
qed

text \<open>Registering a second future under a task id that is still pending orphans the first: a
  result for the id goes to the second waiter only, the first waits until its timeout, and when its
  timeout clean-up runs before the result does, the second waiter never gets it either.\<close>

theorem duplicate_task_id_orphans:
  assumes "hub_reachable h" and "mget (pendingTasks h) t = Some first"
    and "RegisterFuture t y h = (second, h')"
    and "ms_TaskID m = t" "ms_Type m = ''result''" "t \<noteq> []"
  shows "fst (WaitForResult second (HandleMessage m x h')) = Inr (with_stdout m h)
    \<and> fst (WaitForResult first (HandleMessage m x h')) = Inl ''timeout waiting for task result''
    \<and> fst (WaitForResult second (HandleMessage m x (UnregisterFuture t h')))
        = Inl ''timeout waiting for task result''"
proof -
  have inv: "hub_inv h" by (rule reachable_inv [OF assms(1)])
  then have inv': "hub_inv h'" using RegisterFuture_inv [of h t y] assms(3) by simp
  have h': "mget (pendingTasks h') t = Some second" "second = next_id h"
      "mget (chans h') first = Some []" "stdoutBuffers h' = stdoutBuffers h"
      "mget (chans h') second = Some []"
    using assms(3) pending_facts(1,3) [OF inv assms(2)]
    by (auto simp: RegisterFuture_def make_chan_def Let_def)
  have ne: "first \<noteq> second" using pending_facts(3) [OF inv assms(2)] h'(2) by simp
  have msg: "HandleMessage m x g = settle t (with_stdout m g) g" for g
    using assms(4-6) by (simp add: HandleMessage_def handle_result_settle)
  have "mget (chans (settle t (with_stdout m h') h')) second = Some [with_stdout m h]"
    "mget (chans (settle t (with_stdout m h') h')) first = Some []"
    using h' ne by (simp_all add: settle_chans [OF inv'] with_stdout_def)
  moreover have "mget (chans (HandleMessage m x (UnregisterFuture t h'))) second = Some []"
    using h'(5) by (simp add: msg UnregisterFuture_forget settle_absent)
  ultimately show ?thesis
    by (simp add: msg WaitForResult_ready WaitForResult_empty)
qed

lemma duplicate_task_id_orphans_witness:
  "fst (WaitForResult 1 (HandleMessage (zero_Message\<lparr>ms_TaskID := ''t1'', ms_Type := ''result''\<rparr>) ''web1''
     (snd (RegisterFuture ''t1'' ''web1'' example_hub)))) = Inl ''timeout waiting for task result''"
proof -
  obtain ch h2 where 2: "RegisterFuture ''t1'' ''web1'' example_hub = (ch, h2)" by fastforce
  from duplicate_task_id_orphans [OF example_hub_reachable example_hub_pending(1) 2,
      of "zero_Message\<lparr>ms_TaskID := ''t1'', ms_Type := ''result''\<rparr>" "''web1''"] 2
  show ?thesis by simp
qed

end
