(* ===== verification/Http.thy ===== *)
theory Http
  imports GoJson
begin

text \<open>
  What the handlers see of \<open>net/http\<close>: a request with its headers, path values, query and JSON body
  (\<open>None\<close>: the body does not decode), and the response they write. A Go panic in a handler is
  recovered by the server, which drops the connection: \<open>Aborted\<close>.
\<close>

record request =
  rq_Method :: string
  rq_Header :: "(string, string) gomap"
  rq_RemoteAddr :: string
  rq_PathValue :: "(string, string) gomap"
  rq_Query :: "(string, string) gomap"
  rq_Body :: "json option"

definition Header_Get :: "request \<Rightarrow> string \<Rightarrow> string" where
  "Header_Get r name = mget_or [] (rq_Header r) name"

definition PathValue :: "request \<Rightarrow> string \<Rightarrow> string" where
  "PathValue r name = mget_or [] (rq_PathValue r) name"

definition Query_Get :: "request \<Rightarrow> string \<Rightarrow> string" where
  "Query_Get r name = mget_or [] (rq_Query r) name"

datatype response = Reply int json | Aborted

definition error_json :: "string \<Rightarrow> json" where
  "error_json e = JObj [(''error'', JStr e)]"

abbreviation reply_error :: "int \<Rightarrow> string \<Rightarrow> response" where
  "reply_error code e \<equiv> Reply code (error_json e)"

fun status :: "response \<Rightarrow> int" where
  "status (Reply code _) = code"
| "status Aborted = 0"

text \<open>\<open>strings.Contains\<close>.\<close>

definition Contains :: "string \<Rightarrow> string \<Rightarrow> bool" where
  "Contains s sub \<longleftrightarrow> (\<exists>n\<in>{0..length s}. HasPrefix (drop n s) sub)"

lemma Contains_iff: "Contains s sub \<longleftrightarrow> sublist sub s"
proof
  assume "Contains s sub"
  then obtain n where "prefix sub (drop n s)" by (auto simp: Contains_def HasPrefix_iff)
  then obtain zs where "drop n s = sub @ zs" by (auto simp: prefix_def)
  then have "s = take n s @ sub @ zs" by (metis append_take_drop_id)
  then show "sublist sub s" by (auto simp: sublist_def)
next
  assume "sublist sub s"
  then obtain xs zs where "s = xs @ sub @ zs" by (auto simp: sublist_def)
  then show "Contains s sub"
    by (auto simp: Contains_def HasPrefix_iff intro!: bexI [of _ "length xs"])
qed

end
