(* ===== verification/GoBase64.thy ===== *)
theory GoBase64
  imports GoText
begin

text \<open>
  \<open>encoding/base64\<close>: \<open>StdEncoding\<close> and \<open>RawStdEncoding\<close>, with the decoder of the standard
  library: carriage returns and line feeds are ignored anywhere, padding ends the input, the unused
  bits of a final group are not checked, and anything else is an error (\<open>None\<close>).
\<close>

definition b64_char :: "nat \<Rightarrow> char" where
  "b64_char n = char_of (if n < 26 then 65 + n else if n < 52 then 71 + n
     else if n < 62 then n - 4 else if n = 62 then 43 else 47)"

definition b64_val :: "char \<Rightarrow> nat option" where
  "b64_val c = (let n = (of_char c :: nat) in
     if 65 \<le> n \<and> n \<le> 90 then Some (n - 65)
     else if 97 \<le> n \<and> n \<le> 122 then Some (n - 71)
     else if 48 \<le> n \<and> n \<le> 57 then Some (n + 4)
     else if n = 43 then Some 62 else if n = 47 then Some 63 else None)"

lemma b64_val_char: "n < 64 \<Longrightarrow> b64_val (b64_char n) = Some n"
  by (auto simp: b64_val_def b64_char_def Let_def)

lemma b64_val_pad [simp]: "b64_val CHR ''='' = None"
  by (simp add: b64_val_def)

lemma b64_char_not_pad [simp]: "n < 64 \<Longrightarrow> b64_char n \<noteq> CHR ''=''"
  using b64_val_char [of n] by auto

fun encode_bytes :: "nat list \<Rightarrow> char list" where
  "encode_bytes (a # b # c # bs) =
     b64_char (a div 4) # b64_char (a mod 4 * 16 + b div 16) # b64_char (b mod 16 * 4 + c div 64)
       # b64_char (c mod 64) # encode_bytes bs"
| "encode_bytes [a, b] =
     [b64_char (a div 4), b64_char (a mod 4 * 16 + b div 16), b64_char (b mod 16 * 4), CHR ''='']"
| "encode_bytes [a] = [b64_char (a div 4), b64_char (a mod 4 * 16), CHR ''='', CHR ''='']"
| "encode_bytes [] = []"

definition EncodeToString :: "string \<Rightarrow> string" where
  "EncodeToString s = encode_bytes (map of_char s)"

text \<open>The bytes of a group of two, three or four values.\<close>

definition group2 :: "nat \<Rightarrow> nat \<Rightarrow> nat" where
  "group2 va vb = va * 4 + vb div 16"

definition group3 :: "nat \<Rightarrow> nat \<Rightarrow> nat" where
  "group3 vb vc = vb mod 16 * 16 + vc div 4"

definition group4 :: "nat \<Rightarrow> nat \<Rightarrow> nat" where
  "group4 vc vd = vc mod 4 * 64 + vd"

fun decode_std :: "char list \<Rightarrow> nat list option" where
  "decode_std [] = Some []"
| "decode_std (a # b # c # d # rest) =
     (case (b64_val a, b64_val b) of
        (Some va, Some vb) \<Rightarrow>
          if c = CHR ''='' then
            (if d = CHR ''='' \<and> rest = [] then Some [group2 va vb] else None)
          else (case b64_val c of
                  None \<Rightarrow> None
                | Some vc \<Rightarrow>
                    if d = CHR ''='' then
                      (if rest = [] then Some [group2 va vb, group3 vb vc] else None)
                    else (case (b64_val d, decode_std rest) of
                            (Some vd, Some bs) \<Rightarrow>
                              Some (group2 va vb # group3 vb vc # group4 vc vd # bs)
                          | _ \<Rightarrow> None))
      | _ \<Rightarrow> None)"
| "decode_std _ = None"

fun decode_raw :: "char list \<Rightarrow> nat list option" where
  "decode_raw [] = Some []"
| "decode_raw [a] = None"
| "decode_raw [a, b] =
     (case (b64_val a, b64_val b) of (Some va, Some vb) \<Rightarrow> Some [group2 va vb] | _ \<Rightarrow> None)"
| "decode_raw [a, b, c] =
     (case (b64_val a, b64_val b, b64_val c) of
        (Some va, Some vb, Some vc) \<Rightarrow> Some [group2 va vb, group3 vb vc] | _ \<Rightarrow> None)"
| "decode_raw (a # b # c # d # rest) =
     (case (b64_val a, b64_val b, b64_val c, b64_val d, decode_raw rest) of
        (Some va, Some vb, Some vc, Some vd, Some bs) \<Rightarrow>
          Some (group2 va vb # group3 vb vc # group4 vc vd # bs)
      | _ \<Rightarrow> None)"

definition newline :: "char \<Rightarrow> bool" where
  "newline c \<longleftrightarrow> c = char_of (10::nat) \<or> c = char_of (13::nat)"

definition skip_newlines :: "string \<Rightarrow> string" where
  "skip_newlines s = filter (\<lambda>c. \<not> newline c) s"

definition DecodeString :: "string \<Rightarrow> string option" where
  "DecodeString s = map_option (map char_of) (decode_std (skip_newlines s))"

definition RawDecodeString :: "string \<Rightarrow> string option" where
  "RawDecodeString s = map_option (map char_of) (decode_raw (skip_newlines s))"

lemma groups:
  assumes "a < 256" "b < 256" "c < 256"
  shows "group2 (a div 4) (a mod 4 * 16 + b div 16) = a"
    and "group2 (a div 4) (a mod 4 * 16) = a"
    and "group3 (a mod 4 * 16 + b div 16) (b mod 16 * 4 + c div 64) = b"
    and "group3 (a mod 4 * 16 + b div 16) (b mod 16 * 4) = b"
    and "group4 (b mod 16 * 4 + c div 64) (c mod 64) = c"
proof -
  have "b div 16 < 16" "c div 64 < 4" using assms by simp_all
  then show "group2 (a div 4) (a mod 4 * 16 + b div 16) = a" "group2 (a div 4) (a mod 4 * 16) = a"
    "group3 (a mod 4 * 16 + b div 16) (b mod 16 * 4 + c div 64) = b"
    "group3 (a mod 4 * 16 + b div 16) (b mod 16 * 4) = b"
    "group4 (b mod 16 * 4 + c div 64) (c mod 64) = c"
    by (auto simp: group2_def group3_def group4_def)
qed

lemma sextets:
  assumes "a < 256" "b < 256" "c < (256::nat)"
  shows "a div 4 < 64" "a mod 4 * 16 + b div 16 < 64" "a mod 4 * 16 < 64"
    "b mod 16 * 4 + c div 64 < 64" "b mod 16 * 4 < 64" "c mod 64 < 64"
proof -
  have "b div 16 < 16" "c div 64 < 4" "a mod 4 < 4" "b mod 16 < 16" using assms by simp_all
  then show "a div 4 < 64" "a mod 4 * 16 + b div 16 < 64" "a mod 4 * 16 < 64"
    "b mod 16 * 4 + c div 64 < 64" "b mod 16 * 4 < 64" "c mod 64 < 64"
    using assms(1) by linarith+
qed

lemma decode_encode_bytes:
  "\<forall>b\<in>set bs. b < 256 \<Longrightarrow> decode_std (encode_bytes bs) = Some bs"
proof (induction bs rule: encode_bytes.induct)
  case (1 a b c bs)
  then show ?case using sextets [of a b c] groups [of a b c] by (simp add: b64_val_char)
next
  case (2 a b)
  then show ?case using sextets [of a b 0] groups [of a b 0] by (simp add: b64_val_char)
next
  case (3 a)
  then show ?case using sextets [of a 0 0] groups [of a 0 0] by (simp add: b64_val_char)
qed simp

lemma newline_val: "newline c \<Longrightarrow> (of_char c :: nat) = 10 \<or> (of_char c :: nat) = 13"
  by (auto simp: newline_def)

lemma b64_clean [simp]: "n < 64 \<Longrightarrow> \<not> newline (b64_char n)" "\<not> newline CHR ''=''"
proof -
  show "\<not> newline (b64_char n)" if "n < 64"
    using b64_val_char [OF that] newline_val [of "b64_char n"] by (auto simp: b64_val_def)
  show "\<not> newline CHR ''=''" using newline_val [of "CHR ''=''"] by auto
qed

lemma encode_bytes_clean:
  "\<forall>b\<in>set bs. b < 256 \<Longrightarrow> c \<in> set (encode_bytes bs) \<Longrightarrow> \<not> newline c"
proof (induction bs rule: encode_bytes.induct)
  case (1 a b d bs)
  with sextets [of a b d] show ?case by auto
next
  case (2 a b)
  with sextets [of a b 0] show ?case by auto
next
  case (3 a)
  with sextets [of a 0 0] show ?case by auto
qed simp

lemma char_bytes: "\<forall>b\<in>set (map of_char s :: nat list). b < 256"
  by simp

lemma DecodeString_EncodeToString: "DecodeString (EncodeToString s) = Some s"
proof -
  have "skip_newlines (EncodeToString s) = EncodeToString s"
    using encode_bytes_clean [OF char_bytes] by (auto simp: skip_newlines_def EncodeToString_def filter_id_conv)
  then show ?thesis
    using decode_encode_bytes [OF char_bytes [of s]]
    by (simp add: DecodeString_def EncodeToString_def comp_def)
qed

end
