(* ===== verification/Jwt.thy ===== *)
theory Jwt
  imports Storage Http GoBase64
begin

text \<open>
  Agent tokens: the two copies of the dual-key validation, \<open>internal/ws/jwt.go\<close> for WebSocket
  connections and \<open>internal/auth/jwt.go\<close> for the \<open>JWTService\<close>, and the extraction of the host name
  from a WebSocket request. The JWT library is the parameter \<open>jwt_parse\<close> (\<open>jwt.Parse\<close> with the
  accepted methods, the HMAC key, the clock and the token; \<open>Inl\<close> is its error) and \<open>jwt_sign\<close>
  (\<open>SignedString\<close> with HS256). A deadline that is the zero \<open>time.Time\<close> is \<open>None\<close>.
\<close>

type_synonym claims = "(string, json) gomap"
type_synonym jwt_parser = "string list \<Rightarrow> string \<Rightarrow> time \<Rightarrow> string \<Rightarrow> string + claims"
type_synonym jwt_signer = "string \<Rightarrow> claims \<Rightarrow> string"

record secrets =
  sc_current :: string
  sc_previous :: string
  sc_deadline :: "time option"

definition claim_string :: "string \<Rightarrow> claims \<Rightarrow> string" where
  "claim_string k c = (case mget c k of Some (JStr s) \<Rightarrow> s | _ \<Rightarrow> [])"

definition Before_deadline :: "time \<Rightarrow> time option \<Rightarrow> bool" where
  "Before_deadline now d = (case d of None \<Rightarrow> False | Some t \<Rightarrow> now < t)"

section \<open>Package ws\<close>

definition parseJWT :: "jwt_parser \<Rightarrow> time \<Rightarrow> string \<Rightarrow> string \<Rightarrow> string + claims" where
  "parseJWT jwt_parse now tokenStr secret = jwt_parse [''HS256''] secret now tokenStr"

definition validateJWTDualKey ::
  "jwt_parser \<Rightarrow> secrets option \<Rightarrow> time \<Rightarrow> string \<Rightarrow> string + claims \<times> bool" where
  "validateJWTDualKey jwt_parse JWTSecretsFunc now tokenStr =
     (case JWTSecretsFunc of
        None \<Rightarrow> Inl ''jwt_secrets_not_configured''
      | Some s \<Rightarrow>
          if sc_current s = [] then Inl ''jwt_secret_not_configured''
          else (case parseJWT jwt_parse now tokenStr (sc_current s) of
                  Inr claims \<Rightarrow> Inr (claims, False)
                | Inl err \<Rightarrow>
                    if sc_previous s \<noteq> [] \<and> Before_deadline now (sc_deadline s) then
                      (case parseJWT jwt_parse now tokenStr (sc_previous s) of
                         Inr claims \<Rightarrow> Inr (claims, True)
                       | Inl _ \<Rightarrow> Inl (''invalid_token: '' @ err))
                    else Inl (''invalid_token: '' @ err)))"

definition ExtractJWTClaims ::
  "jwt_parser \<Rightarrow> secrets option \<Rightarrow> time \<Rightarrow> string \<Rightarrow> string + claims \<times> bool" where
  "ExtractJWTClaims jwt_parse JWTSecretsFunc now authHeader =
     (if \<not> HasPrefix authHeader ''Bearer '' \<or> length authHeader \<le> 7
      then Inl ''missing_bearer_token''
      else validateJWTDualKey jwt_parse JWTSecretsFunc now (drop 7 authHeader))"

text \<open>\<open>json.Unmarshal\<close> of a text into a map; \<open>json_parse\<close> is the parser of JSON text.\<close>

definition extractSubFromJWTUnsafe :: "(string \<Rightarrow> json option) \<Rightarrow> string \<Rightarrow> string" where
  "extractSubFromJWTUnsafe json_parse tokenStr =
     (let parts = split_on CHR ''.'' tokenStr
      in if length parts \<noteq> 3 then []
         else
           let part = parts ! 1;
               padded = (if length part mod 4 = 2 then part @ ''==''
                         else if length part mod 4 = 3 then part @ ''='' else part)
           in case (case DecodeString padded of Some d \<Rightarrow> Some d | None \<Rightarrow> RawDecodeString part) of
                None \<Rightarrow> []
              | Some decoded \<Rightarrow>
                  (case Option.bind (json_parse decoded) unmarshal_map of
                     Some (MapOf payload) \<Rightarrow> claim_string ''sub'' payload
                   | _ \<Rightarrow> []))"

definition extractHostnameFromRequest ::
  "jwt_parser \<Rightarrow> (string \<Rightarrow> json option) \<Rightarrow> secrets option \<Rightarrow> time \<Rightarrow> request \<Rightarrow> string + string \<times> bool" where
  "extractHostnameFromRequest jwt_parse json_parse JWTSecretsFunc now r =
     (let authHeader = Header_Get r ''Authorization'' in
      if JWTSecretsFunc \<noteq> None \<and> HasPrefix authHeader ''Bearer '' then
        (case ExtractJWTClaims jwt_parse JWTSecretsFunc now authHeader of
           Inl e \<Rightarrow> Inl (''jwt_invalid: '' @ e)
         | Inr (claims, prev) \<Rightarrow>
             (let sub = claim_string ''sub'' claims
              in if sub = [] then Inl ''jwt_missing_sub'' else Inr (sub, prev)))
      else
        let sub = (if HasPrefix authHeader ''Bearer '' \<and> 7 < length authHeader
                   then extractSubFromJWTUnsafe json_parse (drop 7 authHeader) else [])
        in if sub \<noteq> [] then Inr (sub, False)
           else let h = Query_Get r ''hostname''
                in if h \<noteq> [] then Inr (h, False) else Inl ''missing_hostname'')"

section \<open>Package auth\<close>

record JWTService =
  js_secrets :: secrets
  js_ttl :: int

definition New_JWTService :: "secrets \<Rightarrow> int \<Rightarrow> JWTService" where
  "New_JWTService s ttl = \<lparr>js_secrets = s, js_ttl = (if ttl = 0 then 3600 * 1000000000 else ttl)\<rparr>"

definition agent_claims :: "string \<Rightarrow> string \<Rightarrow> time \<Rightarrow> int \<Rightarrow> claims" where
  "agent_claims hostname jti now ttl =
     [(''sub'', JStr hostname), (''role'', JStr ''agent''), (''jti'', JStr jti),
      (''iat'', JNum (unix_sec now)), (''exp'', JNum (unix_sec (now + ttl)))]"

definition auth_Sign :: "jwt_signer \<Rightarrow> JWTService \<Rightarrow> string \<Rightarrow> time \<Rightarrow> string \<Rightarrow> string + string \<times> string" where
  "auth_Sign jwt_sign s uuid now hostname =
     (if sc_current (js_secrets s) = [] then Inl ''jwt_secret_not_configured''
      else Inr (jwt_sign (sc_current (js_secrets s)) (agent_claims hostname uuid now (js_ttl s)), uuid))"

definition auth_parseJWT :: "jwt_parser \<Rightarrow> time \<Rightarrow> string \<Rightarrow> string \<Rightarrow> string + claims" where
  "auth_parseJWT jwt_parse now tokenStr secret = jwt_parse [''HS256''] secret now tokenStr"

definition auth_Verify :: "jwt_parser \<Rightarrow> JWTService \<Rightarrow> time \<Rightarrow> string \<Rightarrow> string + claims \<times> bool" where
  "auth_Verify jwt_parse s now tokenStr =
     (let current = sc_current (js_secrets s);
          previous = sc_previous (js_secrets s);
          deadline = sc_deadline (js_secrets s)
      in if current = [] then Inl ''jwt_secret_not_configured''
         else (case auth_parseJWT jwt_parse now tokenStr current of
                 Inr c \<Rightarrow> Inr (c, False)
               | Inl err \<Rightarrow>
                   (case (if previous \<noteq> [] \<and> Before_deadline now deadline
                          then Some (auth_parseJWT jwt_parse now tokenStr previous) else None) of
                      Some (Inr c2) \<Rightarrow> Inr (c2, True)
                    | _ \<Rightarrow> Inl (''invalid_token: '' @ err))))"

definition auth_ExtractSub :: "jwt_parser \<Rightarrow> JWTService \<Rightarrow> time \<Rightarrow> string \<Rightarrow> string + string \<times> bool" where
  "auth_ExtractSub jwt_parse s now tokenStr =
     (case auth_Verify jwt_parse s now tokenStr of
        Inl e \<Rightarrow> Inl e
      | Inr (claims, prev) \<Rightarrow>
          (let sub = claim_string ''sub'' claims
           in if sub = [] then Inl ''jwt_missing_sub'' else Inr (sub, prev)))"

section \<open>The contract of dual-key validation\<close>

text \<open>
  \<open>check\<close> accepts a token under the current secret, or during the grace period under the previous
  one, and says which; \<open>parse\<close> is the check under one secret.
\<close>

locale dual_key =
  fixes parse :: "time \<Rightarrow> string \<Rightarrow> string \<Rightarrow> string + claims"
    and check :: "secrets \<Rightarrow> time \<Rightarrow> string \<Rightarrow> string + claims \<times> bool"
  assumes unset: "sc_current s = [] \<Longrightarrow> \<exists>e. check s now t = Inl e"
    and current: "sc_current s \<noteq> [] \<Longrightarrow> parse now t (sc_current s) = Inr c \<Longrightarrow> check s now t = Inr (c, False)"
    and previous: "sc_current s \<noteq> [] \<Longrightarrow> parse now t (sc_current s) = Inl e \<Longrightarrow> sc_previous s \<noteq> [] \<Longrightarrow>
      Before_deadline now (sc_deadline s) \<Longrightarrow> parse now t (sc_previous s) = Inr c \<Longrightarrow> check s now t = Inr (c, True)"
    and reject: "sc_current s \<noteq> [] \<Longrightarrow> parse now t (sc_current s) = Inl e \<Longrightarrow>
      sc_previous s = [] \<or> \<not> Before_deadline now (sc_deadline s) \<or> isl (parse now t (sc_previous s)) \<Longrightarrow>
      check s now t = Inl (''invalid_token: '' @ e)"
begin

lemma accepts_iff:
  "check s now t = Inr (c, prev) \<longleftrightarrow> sc_current s \<noteq> [] \<and>
     (if prev then isl (parse now t (sc_current s)) \<and> sc_previous s \<noteq> []
        \<and> Before_deadline now (sc_deadline s) \<and> parse now t (sc_previous s) = Inr c
      else parse now t (sc_current s) = Inr c)"
proof (cases "sc_current s = []")
  case True
  then show ?thesis using unset [of s now t] by auto
next
  case False
  show ?thesis
  proof (cases "parse now t (sc_current s)")
    case (Inl e)
    then show ?thesis
      using False previous [of s now t e] reject [of s now t e]
      by (cases "parse now t (sc_previous s)"; auto; force)
  next
    case (Inr c')
    then show ?thesis using False current [of s now t c'] by auto
  qed
qed

lemma after_grace:
  "\<not> Before_deadline now (sc_deadline s) \<Longrightarrow> check s now t = Inr (c, prev) \<Longrightarrow>
   \<not> prev \<and> parse now t (sc_current s) = Inr c"
  by (auto simp: accepts_iff split: if_splits)

lemma unknown_key_rejected:
  assumes "isl (parse now t (sc_current s))" "isl (parse now t (sc_previous s))"
  shows "isl (check s now t)"
proof (rule ccontr)
  assume "\<not> isl (check s now t)"
  then obtain c prev where "check s now t = Inr (c, prev)" by (cases "check s now t") auto
  with assms show False by (auto simp: accepts_iff split: if_splits)
qed

end

interpretation ws_jwt: dual_key "parseJWT jp" "\<lambda>s. validateJWTDualKey jp (Some s)" for jp
  by unfold_locales (auto simp: validateJWTDualKey_def split: sum.split)

interpretation auth_jwt: dual_key "auth_parseJWT jp" "\<lambda>s. auth_Verify jp (New_JWTService s ttl)" for jp ttl
  by unfold_locales (auto simp: auth_Verify_def New_JWTService_def Let_def split: sum.split)

section \<open>The token library\<close>

text \<open>
  The documented behaviour of the library the relay relies on, for the secrets \<open>K\<close> in use: an agent
  token signed under one of them parses, under that one and no other, until it expires.
\<close>

definition jwt_laws :: "string set \<Rightarrow> jwt_signer \<Rightarrow> jwt_parser \<Rightarrow> bool" where
  "jwt_laws K jwt_sign jwt_parse \<longleftrightarrow>
     (\<forall>k\<in>K. \<forall>k'\<in>K. \<forall>h j iat ttl now r.
        jwt_parse [''HS256''] k' now (jwt_sign k (agent_claims h j iat ttl)) = Inr r \<longleftrightarrow>
          k' = k \<and> unix_sec now < unix_sec (iat + ttl) \<and> r = agent_claims h j iat ttl)"

text \<open>A concrete library that satisfies it: the token spells out the key and the claims.\<close>

definition spell :: "string \<Rightarrow> string" where
  "spell s = replicate (length s) CHR ''n'' @ CHR ''.'' # s"

definition unspell :: "string \<Rightarrow> string \<times> string" where
  "unspell s = (let n = length (takeWhile (\<lambda>c. c = CHR ''n'') s); rest = drop (Suc n) s
     in (take n rest, drop n rest))"

definition spell_int :: "int \<Rightarrow> string" where
  "spell_int n = spell (replicate (nat n) CHR ''+'' @ replicate (nat (- n)) CHR ''-'')"

definition read_int :: "string \<Rightarrow> int" where
  "read_int s = (if CHR ''-'' \<in> set s then - int (length s) else int (length s))"

definition toy_sign :: jwt_signer where
  "toy_sign k c =
     (case (mget c ''iat'', mget c ''exp'') of
        (Some (JNum iat), Some (JNum e)) \<Rightarrow>
          spell k @ spell (claim_string ''sub'' c) @ spell (claim_string ''jti'' c)
            @ spell_int iat @ spell_int e
      | _ \<Rightarrow> [])"

definition toy_parse :: jwt_parser where
  "toy_parse methods k now tok =
     (let (k', t) = unspell tok; (h, t) = unspell t; (j, t) = unspell t; (i, t) = unspell t;
          (e, t) = unspell t
      in if k' = k \<and> unix_sec now < read_int e
         then Inr [(''sub'', JStr h), (''role'', JStr ''agent''), (''jti'', JStr j),
                   (''iat'', JNum (read_int i)), (''exp'', JNum (read_int e))]
         else Inl ''token is expired or the signature is invalid'')"

lemma takeWhile_replicate: "takeWhile (\<lambda>c. c = x) (replicate n x @ y # s) = (if x = y then replicate n x @ takeWhile (\<lambda>c. c = x) (y # s) else replicate n x)"
  by (induction n) auto

lemma unspell_spell [simp]: "unspell (spell s @ t) = (s, t)" "unspell (spell s) = (s, [])"
  using takeWhile_replicate [of "CHR ''n''" "length s" "CHR ''.''"]
  by (simp_all add: unspell_def spell_def Let_def)

lemma read_spell_int: "unspell (spell_int n @ t) = (replicate (nat n) CHR ''+'' @ replicate (nat (- n)) CHR ''-'', t)"
    "unspell (spell_int n) = (replicate (nat n) CHR ''+'' @ replicate (nat (- n)) CHR ''-'', [])"
    "read_int (replicate (nat n) CHR ''+'' @ replicate (nat (- n)) CHR ''-'') = n"
  by (simp_all add: spell_int_def read_int_def)

lemma toy_jwt_laws: "jwt_laws K toy_sign toy_parse"
  by (auto simp: jwt_laws_def toy_sign_def toy_parse_def agent_claims_def claim_string_def
      read_spell_int)

section \<open>Properties\<close>

text \<open>The WebSocket validator and the JWT service are the same decision procedure: on the same
  secrets, clock and token they return the same claims, the same key indication or the same error,
  whatever the token library does.\<close>

theorem ws_and_auth_agree:
  "validateJWTDualKey jwt_parse (Some s) now t = auth_Verify jwt_parse (New_JWTService s ttl) now t"
  by (auto simp: validateJWTDualKey_def auth_Verify_def New_JWTService_def parseJWT_def
      auth_parseJWT_def Let_def split: sum.split)

lemma Before_deadline_simps [simp]: "Before_deadline now None = False" "Before_deadline now (Some d) = (now < d)"
  by (simp_all add: Before_deadline_def)

lemma ExtractSub_iff:
  "hostname \<noteq> [] \<Longrightarrow> auth_ExtractSub jp js now tok = Inr (hostname, b) \<longleftrightarrow>
     (\<exists>cl. auth_Verify jp js now tok = Inr (cl, b) \<and> claim_string ''sub'' cl = hostname)"
  by (auto simp: auth_ExtractSub_def Let_def split: sum.split prod.split if_splits)

lemma ExtractSub_isl: "isl (auth_Verify jp js now tok) \<Longrightarrow> isl (auth_ExtractSub jp js now tok)"
  by (auto simp: auth_ExtractSub_def isl_def)

text \<open>The service's own tokens: a token signed for a host under the current secret is accepted
  for that host exactly until its expiry, as a current-key token; after the secret has been rotated
  it is accepted exactly while both the grace period and its lifetime last, and is then reported as
  signed with the previous key; after a second rotation it is refused at once.\<close>

theorem token_through_rotation:
  assumes "jwt_laws {k, k', k''} jwt_sign jwt_parse" and "k \<noteq> []" "k' \<noteq> []" "k'' \<noteq> []"
    and "k' \<noteq> k" "k'' \<noteq> k" and "hostname \<noteq> []"
    and "auth_Sign jwt_sign (New_JWTService \<lparr>sc_current = k, sc_previous = p, sc_deadline = None\<rparr> ttl)
           uuid issued hostname = Inr (tok, jti)"
    and "expiry = unix_sec (issued + (if ttl = 0 then 3600000000000 else ttl))"
  shows "(auth_ExtractSub jwt_parse (New_JWTService \<lparr>sc_current = k, sc_previous = p, sc_deadline = None\<rparr> ttl)
            now tok = Inr (hostname, False) \<longleftrightarrow> unix_sec now < expiry)
    \<and> (auth_ExtractSub jwt_parse (New_JWTService \<lparr>sc_current = k', sc_previous = k, sc_deadline = Some dl\<rparr> ttl)
            now tok = Inr (hostname, True) \<longleftrightarrow> now < dl \<and> unix_sec now < expiry)
    \<and> isl (auth_ExtractSub jwt_parse (New_JWTService \<lparr>sc_current = k'', sc_previous = k', sc_deadline = Some dl\<rparr> ttl)
            now tok)"
proof -
  let ?c = "agent_claims hostname uuid issued (if ttl = 0 then 3600000000000 else ttl)"
  have tok: "tok = jwt_sign k ?c"
    using assms(2,8) by (auto simp: auth_Sign_def New_JWTService_def)
  have c: "claim_string ''sub'' ?c = hostname"
    by (simp add: agent_claims_def claim_string_def)
  have parse: "auth_parseJWT jwt_parse now tok x = Inr r \<longleftrightarrow> x = k \<and> unix_sec now < expiry \<and> r = ?c"
    if "x \<in> {k, k', k''}" for x r
    using assms(1) that unfolding jwt_laws_def tok auth_parseJWT_def assms(9) by blast
  have other: "isl (auth_parseJWT jwt_parse now tok x)" if "x \<in> {k', k''}" for x
    using parse [of x] that assms(5,6) by (cases "auth_parseJWT jwt_parse now tok x") auto
  have "isl (auth_Verify jwt_parse (New_JWTService \<lparr>sc_current = k'', sc_previous = k', sc_deadline = Some dl\<rparr> ttl) now tok)"
    by (rule auth_jwt.unknown_key_rejected) (simp_all add: other)
  with assms(2,3,7) c parse [of k] other [of k'] show ?thesis
    by (auto simp: ExtractSub_iff auth_jwt.accepts_iff intro!: ExtractSub_isl)
qed

lemma token_through_rotation_witness:
  "auth_ExtractSub toy_parse (New_JWTService \<lparr>sc_current = ''k2'', sc_previous = ''k1'',
       sc_deadline = Some 9000000000\<rparr> 5000000000) 4000000000
     (toy_sign ''k1'' (agent_claims ''web1'' ''j'' 0 5000000000)) = Inr (''web1'', True)"
proof -
  have "auth_Sign toy_sign (New_JWTService \<lparr>sc_current = ''k1'', sc_previous = [], sc_deadline = None\<rparr>
      5000000000) ''j'' 0 ''web1'' = Inr (toy_sign ''k1'' (agent_claims ''web1'' ''j'' 0 5000000000), ''j'')"
    by (simp add: auth_Sign_def New_JWTService_def)
  from token_through_rotation [OF toy_jwt_laws _ _ _ _ _ _ this refl, of "''k2''" "''k3''" 4000000000 9000000000]
  show ?thesis by (simp add: unix_sec_def)
qed

end
