(* ===== verification/World.thy ===== *)
theory World
  imports TokenStore Jwt Hub
begin

text \<open>
  The state the HTTP handlers share (the database, the hub, the server's keys and secrets, the
  pending nonces, the task results) and the functions outside the repository they call: hashing,
  RSA-OAEP, AES-GCM, PEM, regular expressions, addresses, the token library and the random source.
  A handler is a computation in the state monad over \<open>world\<close>; the clock does not move while it
  runs, and each use of the random source takes the next value.
\<close>

section \<open>External functions\<close>

text \<open>
  A key is named by its DER encoding. \<open>parse_rsa_public\<close> and \<open>parse_rsa_private\<close> are the \<open>x509\<close>
  parsers followed by the type assertion, \<open>format_time\<close> and \<open>parse_time\<close> use RFC 3339 in UTC,
  \<open>rsa_public\<close> is \<open>MarshalPKIXPublicKey\<close> of the public half.
  The last argument of \<open>oaep_encrypt\<close>, \<open>aes_seal\<close>, \<open>gen_rsa\<close>, \<open>rand_bytes\<close> and \<open>new_uuid\<close> is the
  draw from the random source; \<open>None\<close> is an error result.
\<close>

record ext =
  sha256 :: "string \<Rightarrow> string"
  jwt_signer :: jwt_signer
  jwt_parser :: jwt_parser
  json_parser :: "string \<Rightarrow> json option"
  pem_encode :: "string \<Rightarrow> string \<Rightarrow> string"
  pem_decode :: "string \<Rightarrow> string option"
  parse_rsa_public :: "string \<Rightarrow> string option"
  parse_rsa_private :: "string \<Rightarrow> string option"
  rsa_public :: "string \<Rightarrow> string"
  gen_rsa :: "nat \<Rightarrow> string option"
  oaep_encrypt :: "string \<Rightarrow> string \<Rightarrow> nat \<Rightarrow> string option"
  oaep_decrypt :: "string \<Rightarrow> string \<Rightarrow> string option"
  aes_seal :: "string \<Rightarrow> string \<Rightarrow> string \<Rightarrow> string"
  aes_open :: "string \<Rightarrow> string \<Rightarrow> string \<Rightarrow> string option"
  rand_bytes :: "nat \<Rightarrow> nat \<Rightarrow> string option"
  new_uuid :: "nat \<Rightarrow> string"
  match_regexp :: "string \<Rightarrow> string \<Rightarrow> bool option"
  parse_ip :: "string \<Rightarrow> nat list option"
  cidr_contains :: "string \<Rightarrow> (nat list \<Rightarrow> bool) option"
  getenv :: "string \<Rightarrow> string"
  format_time :: "time \<Rightarrow> string"
  parse_time :: "string \<Rightarrow> time option"
  parse_duration :: "string \<Rightarrow> int option"

text \<open>\<open>hex.EncodeToString\<close> and \<open>%x\<close>.\<close>

definition hex_digit :: "nat \<Rightarrow> char" where
  "hex_digit n = char_of (if n < 10 then 48 + n else 87 + n)"

definition hex_encode :: "string \<Rightarrow> string" where
  "hex_encode s = concat (map (\<lambda>c. let n = (of_char c :: nat) in [hex_digit (n div 16), hex_digit (n mod 16)]) s)"

definition sha256Hex :: "ext \<Rightarrow> string \<Rightarrow> string" where
  "sha256Hex X s = hex_encode (sha256 X s)"

section \<open>The shared state\<close>

record ServerState =
  sv_PrivateKey :: "string option"
  sv_PublicPEM :: string
  sv_PreviousPrivateKey :: "string option"
  sv_JWTSecret :: string
  sv_JWTPreviousSecret :: string
  sv_KeyRotationDeadline :: "time option"
  sv_AdminToken :: string
  sv_JWTttl :: int

record pendingNonce =
  pn_nonce :: string
  pn_token :: string
  pn_expiresAt :: time

record world =
  db :: store
  adminStore_set :: bool
  registerStore_set :: bool
  server :: ServerState
  pendingNonces :: "(string, pendingNonce) gomap"
  hb :: hub
  completedResults :: "(string, json) gomap"
  dispatcher_set :: bool
  hook_events :: "(string \<times> string \<times> string \<times> time option) list"
  clock :: time
  entropy :: nat

definition GetJWTSecrets :: "ServerState \<Rightarrow> secrets" where
  "GetJWTSecrets s = \<lparr>sc_current = sv_JWTSecret s, sc_previous = sv_JWTPreviousSecret s,
     sc_deadline = sv_KeyRotationDeadline s\<rparr>"

definition GetServerJWTSecrets :: "world \<Rightarrow> secrets" where
  "GetServerJWTSecrets w = GetJWTSecrets (server w)"

section \<open>Running parts of the world\<close>

type_synonym 'a io = "(world, 'a) state"

definition on_store :: "'a db \<Rightarrow> (store_error + 'a) io" where
  "on_store m = State (\<lambda>w. case run_state m (db w) of (r, s) \<Rightarrow> (r, w\<lparr>db := s\<rparr>))"

definition on_hub :: "(hub \<Rightarrow> 'a \<times> hub) \<Rightarrow> 'a io" where
  "on_hub f = State (\<lambda>w. case f (hb w) of (r, h) \<Rightarrow> (r, w\<lparr>hb := h\<rparr>))"

definition draw :: "nat io" where
  "draw = State (\<lambda>w. (entropy w, w\<lparr>entropy := Suc (entropy w)\<rparr>))"

lemma run_on_store [simp]:
  "run_state (on_store m) w = (fst (run_state m (db w)), w\<lparr>db := snd (run_state m (db w))\<rparr>)"
  by (simp add: on_store_def split: prod.split)

lemma run_on_hub [simp]:
  "run_state (on_hub f) w = (fst (f (hb w)), w\<lparr>hb := snd (f (hb w))\<rparr>)"
  by (simp add: on_hub_def split: prod.split)

lemma run_draw [simp]: "run_state draw w = (entropy w, w\<lparr>entropy := Suc (entropy w)\<rparr>)"
  by (simp add: draw_def)

abbreviation reply :: "response \<Rightarrow> response io" where
  "reply r \<equiv> State_Monad.return r"

text \<open>\<open>GlobalDispatcher.Dispatch\<close>, a no-op while there is no dispatcher.\<close>

definition dispatch_hook :: "string \<Rightarrow> string \<Rightarrow> string \<Rightarrow> time option \<Rightarrow> unit io" where
  "dispatch_hook event hostname st enrolledAt =
     modify (\<lambda>w. if dispatcher_set w
                 then w\<lparr>hook_events := hook_events w @ [(event, hostname, st, enrolledAt)]\<rparr> else w)"

definition newTaskID :: "ext \<Rightarrow> string io" where
  "newTaskID X = State_Monad.bind draw (\<lambda>n. State_Monad.return (new_uuid X n))"

text \<open>\<open>encryptWithPublicKey\<close>: PEM, \<open>x509\<close>, RSA-OAEP with SHA-256, base64.\<close>

definition encryptWithPublicKey :: "ext \<Rightarrow> string \<Rightarrow> string \<Rightarrow> string option io" where
  "encryptWithPublicKey X plaintext publicKeyPEM =
     (case Option.bind (pem_decode X publicKeyPEM) (parse_rsa_public X) of
        None \<Rightarrow> State_Monad.return None
      | Some key \<Rightarrow>
          State_Monad.bind draw (\<lambda>n.
            State_Monad.return (map_option EncodeToString (oaep_encrypt X key plaintext n))))"

text \<open>A handler only ever moves the random source forward.\<close>

lemma newTaskID_run [simp]:
  "run_state (newTaskID X) w = (new_uuid X (entropy w), w\<lparr>entropy := Suc (entropy w)\<rparr>)"
  by (simp add: newTaskID_def)

definition seal_for :: "ext \<Rightarrow> string \<Rightarrow> string \<Rightarrow> nat \<Rightarrow> string option" where
  "seal_for X plaintext publicKeyPEM n =
     Option.bind (pem_decode X publicKeyPEM) (\<lambda>der. Option.bind (parse_rsa_public X der)
       (\<lambda>key. map_option EncodeToString (oaep_encrypt X key plaintext n)))"

definition draws_for :: "ext \<Rightarrow> string \<Rightarrow> nat" where
  "draws_for X publicKeyPEM =
     (if Option.bind (pem_decode X publicKeyPEM) (parse_rsa_public X) = None then 0 else 1)"

lemma encryptWithPublicKey_run [simp]:
  "run_state (encryptWithPublicKey X p pk) w =
     (seal_for X p pk (entropy w), w\<lparr>entropy := entropy w + draws_for X pk\<rparr>)"
proof (cases "pem_decode X pk")
  case (Some der)
  then show ?thesis
    by (cases "parse_rsa_public X der")
      (simp_all add: encryptWithPublicKey_def seal_for_def draws_for_def)
qed (simp add: encryptWithPublicKey_def seal_for_def draws_for_def)

end
