(* ===== verification/Examples.thy ===== *)
theory Examples
  imports World StoreProps HubSpec
begin

text \<open>
  A concrete instance of the external functions (spelled-out tokens and ciphertexts that name their
  key) and a small state, on which the properties with hypotheses are applied.
\<close>

definition example_ext :: ext where
  "example_ext = \<lparr>sha256 = (\<lambda>s. CHR ''#'' # s), jwt_signer = toy_sign, jwt_parser = toy_parse,
     json_parser = (\<lambda>_. None), pem_encode = (\<lambda>t b. spell t @ b),
     pem_decode = (\<lambda>s. Some (snd (unspell s))), parse_rsa_public = Some, parse_rsa_private = Some,
     rsa_public = (\<lambda>d. CHR ''P'' # d), gen_rsa = (\<lambda>n. Some (replicate n CHR ''k'')),
     oaep_encrypt = (\<lambda>key p n. Some (spell key @ p)),
     oaep_decrypt = (\<lambda>priv c. if fst (unspell c) = CHR ''P'' # priv then Some (snd (unspell c)) else None),
     aes_seal = (\<lambda>key nonce p. spell key @ spell nonce @ p),
     aes_open = (\<lambda>key nonce c. if fst (unspell c) = key \<and> fst (unspell (snd (unspell c))) = nonce
        then Some (snd (unspell (snd (unspell c)))) else None),
     rand_bytes = (\<lambda>len n. Some (replicate len (char_of n))),
     new_uuid = (\<lambda>n. CHR ''u'' # replicate n CHR ''x''),
     match_regexp = (\<lambda>p s. Some (p = ''^'' @ s @ ''$'' \<or> p = ''^.*$'')),
     parse_ip = (\<lambda>s. Some (map of_char s)), cidr_contains = (\<lambda>_. Some (\<lambda>_. True)),
     getenv = (\<lambda>_. []), format_time = (\<lambda>t. spell_int (unix_sec t)),
     parse_time = (\<lambda>s. Some (from_unix (read_int (fst (unspell s))))),
     parse_duration = (\<lambda>_. None)\<rparr>"

definition example_plugin_row :: plugin_row where
  "example_plugin_row = \<lparr>pt_id = ''p1'', pt_token_hash = hex_encode ''#secret'', pt_description = None,
     pt_role = ''plugin'', pt_allowed_ips = None, pt_allowed_hostname_pattern = Some ''ctl'',
     pt_created_at = 0, pt_expires_at = Some 100, pt_last_used_at = None, pt_last_used_ip = None,
     pt_revoked = 0\<rparr>"

definition example_server :: ServerState where
  "example_server = \<lparr>sv_PrivateKey = Some ''S'', sv_PublicPEM = spell ''PUBLIC KEY'' @ ''PS'',
     sv_PreviousPrivateKey = None, sv_JWTSecret = ''k1'', sv_JWTPreviousSecret = [],
     sv_KeyRotationDeadline = None, sv_AdminToken = ''adm'', sv_JWTttl = 3600000000000\<rparr>"

definition example_world :: world where
  "example_world = \<lparr>db = example_store\<lparr>plugin_tokens := [example_plugin_row],
       enrollment_tokens := [enrollment_row_of (example_token\<lparr>en_TokenHash := hex_encode ''#tok'',
         en_HostnamePattern := ''web2''\<rparr>)]\<rparr>,
     adminStore_set = True, registerStore_set = True, server = example_server, pendingNonces = [],
     hb = example_hub, completedResults = [], dispatcher_set = True, hook_events = [],
     clock = 5000000000, entropy = 0\<rparr>"

definition example_request :: request where
  "example_request = \<lparr>rq_Method = ''POST'', rq_Header = [(''Authorization'', ''Bearer secret''),
     (''X-Relay-Client-Host'', ''ctl'')], rq_RemoteAddr = ''10.0.0.1:5000'',
     rq_PathValue = [(''hostname'', ''web1'')], rq_Query = [], rq_Body = None\<rparr>"

lemma example_db [simp]:
  "healthy (db example_world)" "store_inv (db example_world)" "\<not> faulty (db example_world)"
  "adminStore_set example_world" "registerStore_set example_world"
  by (simp_all add: example_world_def example_store_def empty_store_def healthy_def store_inv_def
      faulty_def enrollment_row_of_def example_plugin_row_def example_token_def example_agent_def)

lemma example_conn:
  "GetConnection ''web1'' example_hub = Inr 0"
  "mget (conns example_hub) 0 = Some \<lparr>cn_Hostname = ''web1'', cn_Sent = [], cn_Broken = None, cn_Reading = True\<rparr>"
  "mget (stdoutBuffers example_hub) t = None" "stdoutMaxBytes example_hub = 5242880" "next_id example_hub = 2"
  by (simp_all add: example_hub_def init_hub_def agent_open_def RegisterConnection_def DispatchFunc_def
      RegisterFuture_def make_chan_def GetConnection_def)

lemma example_hub_of_world: "hb example_world = example_hub" "entropy example_world = 0" "clock example_world = 5000000000"
  by (simp_all add: example_world_def)

end
