(* ===== verification/PluginAuth.thy ===== *)
theory PluginAuth
  imports Examples
begin

text \<open>
  Authentication of the Ansible plugins (\<open>handlers/plugin_auth.go\<close>): the bearer token is looked up by
  its hash and checked for revocation, expiry, client address and client host name, in that order;
  a refusal is the response already written (\<open>Inl\<close>).
\<close>

definition stripPort :: "string \<Rightarrow> string" where
  "stripPort addr = (case SplitHostPort addr of None \<Rightarrow> addr | Some (host, _) \<Rightarrow> host)"

definition extractClientIP :: "request \<Rightarrow> string" where
  "extractClientIP r =
     (let xff = Header_Get r ''X-Forwarded-For'';
          ip = TrimSpace (hd (split_on CHR '','' xff))
      in if xff \<noteq> [] \<and> ip \<noteq> [] then stripPort ip else stripPort (rq_RemoteAddr r))"

record PluginAuthResult =
  pa_Token :: PluginToken
  pa_ClientIP :: string

definition check_plugin_ip :: "ext \<Rightarrow> PluginToken \<Rightarrow> string \<Rightarrow> response option" where
  "check_plugin_ip X tok clientIP =
     (if pl_AllowedIPs tok = [] then None
      else case PluginTokenCheckIP (parse_ip X) (cidr_contains X) (pl_AllowedIPs tok) clientIP of
             None \<Rightarrow> Some (reply_error 403 ''ip_validation_error'')
           | Some False \<Rightarrow> Some (reply_error 403 ''ip_not_allowed'')
           | Some True \<Rightarrow> None)"

definition check_plugin_hostname :: "ext \<Rightarrow> PluginToken \<Rightarrow> string \<Rightarrow> response option" where
  "check_plugin_hostname X tok clientHostname =
     (if pl_AllowedHostnamePattern tok = [] then None
      else case PluginTokenCheckHostname (match_regexp X) (pl_AllowedHostnamePattern tok) clientHostname of
             None \<Rightarrow> Some (reply_error 403 ''hostname_validation_error'')
           | Some False \<Rightarrow> Some (reply_error 403 ''hostname_not_allowed'')
           | Some True \<Rightarrow> None)"

definition expired :: "time \<Rightarrow> time option \<Rightarrow> bool" where
  "expired now e = (case e of None \<Rightarrow> False | Some t \<Rightarrow> t < now)"

definition requirePluginAuth :: "ext \<Rightarrow> request \<Rightarrow> (response + PluginAuthResult) io" where
  "requirePluginAuth X r =
     (let authHeader = Header_Get r ''Authorization'' in
      if \<not> HasPrefix authHeader ''Bearer '' \<or> drop 7 authHeader = [] then
        State_Monad.return (Inl (reply_error 401 ''missing_authorization''))
      else do {
        have_store \<leftarrow> gets adminStore_set;
        if \<not> have_store then State_Monad.return (Inl (reply_error 500 ''store_not_initialized''))
        else do {
          found \<leftarrow> on_store (GetPluginTokenByHash (sha256Hex X (drop 7 authHeader)));
          now \<leftarrow> gets clock;
          case found of
            Inl _ \<Rightarrow> State_Monad.return (Inl (reply_error 500 ''db_error''))
          | Inr None \<Rightarrow> State_Monad.return (Inl (reply_error 403 ''token_not_found''))
          | Inr (Some tok) \<Rightarrow>
              if pl_Revoked tok then State_Monad.return (Inl (reply_error 403 ''token_revoked''))
              else if expired now (pl_ExpiresAt tok) then
                State_Monad.return (Inl (reply_error 403 ''token_expired''))
              else
                let clientIP = extractClientIP r in
                case check_plugin_ip X tok clientIP of
                  Some e \<Rightarrow> State_Monad.return (Inl e)
                | None \<Rightarrow>
                    (case check_plugin_hostname X tok (Header_Get r ''X-Relay-Client-Host'') of
                       Some e \<Rightarrow> State_Monad.return (Inl e)
                     | None \<Rightarrow> do {
                         _ \<leftarrow> on_store (TouchPluginToken now (pl_ID tok) clientIP);
                         State_Monad.return (Inr \<lparr>pa_Token = tok, pa_ClientIP = clientIP\<rparr>)
                       })
        }
      })"

section \<open>What authentication guarantees\<close>

text \<open>The conditions under which a token row lets a request through.\<close>

definition plugin_allows :: "ext \<Rightarrow> time \<Rightarrow> request \<Rightarrow> PluginToken \<Rightarrow> bool" where
  "plugin_allows X now r tok \<longleftrightarrow>
     \<not> pl_Revoked tok \<and> \<not> expired now (pl_ExpiresAt tok)
   \<and> (pl_AllowedIPs tok = [] \<or>
       PluginTokenCheckIP (parse_ip X) (cidr_contains X) (pl_AllowedIPs tok) (extractClientIP r) = Some True)
   \<and> (pl_AllowedHostnamePattern tok = [] \<or>
       match_regexp X (''^'' @ pl_AllowedHostnamePattern tok @ ''$'') (Header_Get r ''X-Relay-Client-Host'')
         = Some True)"

lemma check_plugin_ip_None:
  "check_plugin_ip X tok ip = None \<longleftrightarrow> pl_AllowedIPs tok = [] \<or>
     PluginTokenCheckIP (parse_ip X) (cidr_contains X) (pl_AllowedIPs tok) ip = Some True"
  by (auto simp: check_plugin_ip_def split: option.split bool.split)

lemma check_plugin_hostname_None:
  "check_plugin_hostname X tok h = None \<longleftrightarrow> pl_AllowedHostnamePattern tok = [] \<or>
     match_regexp X (''^'' @ pl_AllowedHostnamePattern tok @ ''$'') h = Some True"
  by (auto simp: check_plugin_hostname_def PluginTokenCheckHostname_def split: option.split bool.split)

definition presented :: "ext \<Rightarrow> request \<Rightarrow> string option" where
  "presented X r = (let a = Header_Get r ''Authorization'' in
     if HasPrefix a ''Bearer '' \<and> drop 7 a \<noteq> [] then Some (sha256Hex X (drop 7 a)) else None)"

definition refusal :: "ext \<Rightarrow> time \<Rightarrow> request \<Rightarrow> PluginToken \<Rightarrow> response option" where
  "refusal X now r tok =
     (if pl_Revoked tok then Some (reply_error 403 ''token_revoked'')
      else if expired now (pl_ExpiresAt tok) then Some (reply_error 403 ''token_expired'')
      else case check_plugin_ip X tok (extractClientIP r) of
             Some e \<Rightarrow> Some e
           | None \<Rightarrow> check_plugin_hostname X tok (Header_Get r ''X-Relay-Client-Host''))"

lemma refusal_None: "refusal X now r tok = None \<longleftrightarrow> plugin_allows X now r tok"
  using check_plugin_ip_None [of X tok "extractClientIP r"]
    check_plugin_hostname_None [of X tok "Header_Get r ''X-Relay-Client-Host''"]
  by (auto simp: refusal_def plugin_allows_def split: option.split)

lemma refusal_403: "refusal X now r tok = Some e \<Longrightarrow> status e = 403"
  by (auto simp: refusal_def check_plugin_ip_def check_plugin_hostname_def
      split: if_splits option.splits bool.splits)

lemma requirePluginAuth_run:
  "run_state (requirePluginAuth X r) w =
    (case presented X r of
       None \<Rightarrow> (Inl (reply_error 401 ''missing_authorization''), w)
     | Some h \<Rightarrow>
         if \<not> adminStore_set w then (Inl (reply_error 500 ''store_not_initialized''), w)
         else
           let w1 = w\<lparr>db := tick (db w)\<rparr> in
           if faulty (db w) then (Inl (reply_error 500 ''db_error''), w1)
           else case row_find pt_token_hash h (plugin_tokens (db w)) of
                  None \<Rightarrow> (Inl (reply_error 403 ''token_not_found''), w1)
                | Some row \<Rightarrow>
                    (case refusal X (clock w) r (scanPluginToken row) of
                       Some e \<Rightarrow> (Inl e, w1)
                     | None \<Rightarrow>
                         (Inr \<lparr>pa_Token = scanPluginToken row, pa_ClientIP = extractClientIP r\<rparr>,
                          w\<lparr>db := snd (run_state (TouchPluginToken (clock w) (pt_id row) (extractClientIP r))
                                     (tick (db w)))\<rparr>)))"
proof (cases "presented X r")
  case None
  then show ?thesis
    by (auto simp: requirePluginAuth_def presented_def Let_def split: if_splits)
next
  case (Some h)
  then have a: "HasPrefix (Header_Get r ''Authorization'') ''Bearer ''"
    "drop 7 (Header_Get r ''Authorization'') \<noteq> []" "h = sha256Hex X (drop 7 (Header_Get r ''Authorization''))"
    by (auto simp: presented_def Let_def split: if_splits)
  show ?thesis
  proof (cases "row_find pt_token_hash h (plugin_tokens (db w))")
    case None
    with a Some show ?thesis
      by (simp add: requirePluginAuth_def GetPluginTokenByHash_def Let_def)
  next
    case (Some row)
    have i: "pl_ID (scanPluginToken row) = pt_id row" by (simp add: scanPluginToken_def)
    from a Some \<open>presented X r = Some h\<close> show ?thesis
      by (simp add: requirePluginAuth_def GetPluginTokenByHash_def refusal_def Let_def i
          run_case_option split: option.split)
  qed
qed

text \<open>C10: A request passes plugin authentication exactly when the database answers and the request
  carries a bearer token whose hash names a row that is not revoked, not expired, whose IP list
  admits the client address and whose pattern admits the client host name; what passes is that row.
  Every other request is refused with 401, 403 or 500 and changes nothing (a failed or successful
  query apart, which only advances the fault schedule).\<close>

theorem plugin_auth_exact:
  assumes "adminStore_set w"
  shows "case run_state (requirePluginAuth X r) w of
      (Inr res, w') \<Rightarrow> \<not> faulty (db w) \<and>
        (\<exists>h row. presented X r = Some h \<and> row_find pt_token_hash h (plugin_tokens (db w)) = Some row
           \<and> plugin_allows X (clock w) r (scanPluginToken row) \<and> pa_Token res = scanPluginToken row)
    | (Inl e, w') \<Rightarrow> status e \<in> {401, 403, 500} \<and> w' = w\<lparr>db := (db w)\<lparr>db_faults := db_faults (db w')\<rparr>\<rparr>
        \<and> (faulty (db w) \<or>
           \<not> (\<exists>h row. presented X r = Some h \<and> row_find pt_token_hash h (plugin_tokens (db w)) = Some row
                \<and> plugin_allows X (clock w) r (scanPluginToken row)))"
proof -
  have same: "w = w\<lparr>db := (db w)\<lparr>db_faults := db_faults (db w)\<rparr>\<rparr>"
    "w\<lparr>db := tick (db w)\<rparr> = w\<lparr>db := (db w)\<lparr>db_faults := db_faults (tick (db w))\<rparr>\<rparr>"
    by (simp_all add: tick_def)
  show ?thesis
    using assms refusal_403 [of X "clock w" r] same
    by (auto simp: requirePluginAuth_run Let_def refusal_None [symmetric] split: option.split)
qed

lemma example_presented: "presented example_ext example_request = Some (hex_encode ''#secret'')"
  by (simp add: sha256Hex_def presented_def example_ext_def example_request_def Header_Get_def mget_or_def HasPrefix_def)

lemma example_row: "row_find pt_token_hash (hex_encode ''#secret'') (plugin_tokens (db example_world)) = Some example_plugin_row"
  by (simp add: example_world_def example_plugin_row_def)

lemma example_allows: "plugin_allows example_ext (clock example_world) example_request (scanPluginToken example_plugin_row)"
  by (simp add: plugin_allows_def scanPluginToken_def example_plugin_row_def null_string_def expired_def
      from_unix_def example_world_def example_ext_def example_request_def Header_Get_def mget_or_def)

lemma plugin_auth_exact_witness:
  "\<exists>res w'. run_state (requirePluginAuth example_ext example_request) example_world = (Inr res, w')
     \<and> pl_ID (pa_Token res) = ''p1''"
  using plugin_auth_exact [of example_world example_ext example_request] example_presented example_row
    example_allows
  by (auto simp: scanPluginToken_def example_plugin_row_def split: prod.splits sum.splits)

text \<open>
  A revoked row stays revoked under every method of the store: nothing writes the flag back.
\<close>

definition hash_dead :: "string \<Rightarrow> store \<Rightarrow> bool" where
  "hash_dead h s \<longleftrightarrow> (\<forall>row\<in>set (plugin_tokens s). pt_token_hash row = h \<longrightarrow> pt_revoked row \<noteq> 0)"

lemma hash_dead_other [simp]:
  "hash_dead h (s\<lparr>agents := a\<rparr>) = hash_dead h s"
  "hash_dead h (s\<lparr>authorized_keys := k\<rparr>) = hash_dead h s"
  "hash_dead h (s\<lparr>blacklist := b\<rparr>) = hash_dead h s"
  "hash_dead h (s\<lparr>server_config := c\<rparr>) = hash_dead h s"
  "hash_dead h (s\<lparr>enrollment_tokens := e\<rparr>) = hash_dead h s"
  "hash_dead h (s\<lparr>action_log := l\<rparr>) = hash_dead h s"
  "hash_dead h (tick s) = hash_dead h s"
  by (simp_all add: hash_dead_def)

lemmas store_writes = store_RegisterAgent_def DeleteAgent_def UpdateLastSeen_def UpdateAgentStatus_def
  UpdateTokenJTI_def SetSuspended_def SetAgentVar_def DeleteAgentVar_def GetAgentVars_def
  AddAuthorizedKey_def RevokeKey_def AddToBlacklist_def PurgeExpiredBlacklist_def ConfigSet_def
  ConfigDelete_def CreateEnrollmentToken_def ConsumeEnrollmentToken_def DeleteEnrollmentToken_def
  PurgeExpiredEnrollmentTokens_def PurgeUsedOneShotEnrollmentTokens_def CreateActionLog_def
  update_agent_def

lemma hash_dead_call:
  assumes "hash_dead h s" "\<And>t. c = CCreatePluginToken t \<Longrightarrow> pl_TokenHash t \<noteq> h"
  shows "hash_dead h (store_call now c s)"
proof (cases c)
  case (CCreatePluginToken t)
  with assms show ?thesis
    by (auto simp: CreatePluginToken_def hash_dead_def plugin_row_of_def split: sum.split)
next
  case (CRevokePluginToken i)
  with assms show ?thesis
    by (auto simp: RevokePluginToken_def hash_dead_def dest!: set_rows_update split: sum.split)
next
  case (CDeletePluginToken i)
  with assms show ?thesis
    by (auto simp: DeletePluginToken_def hash_dead_def dest!: set_rows_delete split: sum.split)
next
  case (CTouchPluginToken i ip)
  with assms show ?thesis
    by (auto simp: TouchPluginToken_def hash_dead_def dest!: set_rows_update split: sum.split)
qed (use assms in \<open>auto simp: store_writes Let_def split: sum.split option.split gomap_value.split\<close>)

lemma hash_dead_history:
  "hash_dead h s \<Longrightarrow> (\<And>now t. (now, CCreatePluginToken t) \<in> set cs \<Longrightarrow> pl_TokenHash t \<noteq> h) \<Longrightarrow>
   hash_dead h (store_history cs s)"
proof (induction cs s rule: store_history.induct)
  case (2 now c cs s)
  have "hash_dead h (store_call now c s)"
    by (rule hash_dead_call) (use 2 in auto)
  with 2 show ?case by auto
qed simp

text \<open>Revocation is final: once a plugin token's row is revoked, a request carrying the token is
  refused after every later history of store calls, whichever of them fail, short of the creation of
  a new token with the same hash.\<close>

theorem plugin_revocation_final:
  assumes "store_inv (db w)" and "row_find pt_token_hash h (plugin_tokens (db w)) = Some row"
    and "fst (run_state (RevokePluginToken (pt_id row)) (db w)) = Inr b"
    and "\<forall>(now, c)\<in>set cs. \<forall>t. c = CCreatePluginToken t \<longrightarrow> pl_TokenHash t \<noteq> h"
    and "w' = w\<lparr>db := store_history cs (snd (run_state (RevokePluginToken (pt_id row)) (db w))), clock := later\<rparr>"
    and "presented X r = Some h"
  shows "isl (fst (run_state (requirePluginAuth X r) w'))"
proof -
  have u: "x = row" if "x \<in> set (plugin_tokens (db w))" "pt_token_hash x = h" for x
    using row_find_unique [OF _ that(1), of pt_token_hash] assms(1,2) that(2) by (simp add: store_inv_def)
  have "hash_dead h (snd (run_state (RevokePluginToken (pt_id row)) (db w)))"
    using assms(3) u
    by (auto simp: RevokePluginToken_def hash_dead_def rows_update_def split: if_splits)
  then have "hash_dead h (db w')"
    using assms(4,5) by (auto intro!: hash_dead_history)
  then have "pl_Revoked (scanPluginToken x)" if "row_find pt_token_hash h (plugin_tokens (db w')) = Some x" for x
    using row_find_SomeD [OF that] by (auto simp: hash_dead_def scanPluginToken_def)
  then show ?thesis
    using assms(6) by (auto simp: requirePluginAuth_run Let_def refusal_def split: option.split)
qed

lemma plugin_revocation_final_witness:
  "isl (fst (run_state (requirePluginAuth example_ext example_request)
     (example_world\<lparr>db := store_history [(6000000000, CTouchPluginToken ''p1'' ''10.0.0.1'')]
        (snd (run_state (RevokePluginToken ''p1'') (db example_world))), clock := 7000000000\<rparr>)))"
proof -
  have id: "pt_id example_plugin_row = ''p1''" by (simp add: example_plugin_row_def)
  have ran: "fst (run_state (RevokePluginToken (pt_id example_plugin_row)) (db example_world)) = Inr True"
    by (simp add: RevokePluginToken_def rows_affected_def example_world_def example_plugin_row_def
        example_db [unfolded example_world_def, simplified])
  show ?thesis
    by (rule plugin_revocation_final [OF example_db(2) example_row ran _ _ example_presented,
          where cs = "[(6000000000, CTouchPluginToken ''p1'' ''10.0.0.1'')]" and later = 7000000000])
      (simp_all add: id)
qed

end
