(* ===== verification/Keys.thy ===== *)
theory Keys
  imports World
begin

text \<open>
  The server's keys: AES-GCM protection of stored keys (\<open>internal/crypto/aes.go\<close>), the RSA key
  encoding, and the loading of keys and secrets at startup (\<open>handlers/register.go\<close>). Errors are the
  message prefix the code wraps them with.
\<close>

section \<open>AES-GCM\<close>

definition EncryptAESGCM :: "ext \<Rightarrow> string \<Rightarrow> string \<Rightarrow> (string + string) io" where
  "EncryptAESGCM X plaintext masterKey =
     (let key = sha256 X masterKey in
      do {
        n \<leftarrow> draw;
        case rand_bytes X 12 n of
          None \<Rightarrow> State_Monad.return (Inl ''nonce generation'')
        | Some nonce \<Rightarrow>
            State_Monad.return (Inr (EncodeToString (nonce @ aes_seal X key nonce plaintext)))
      })"

definition DecryptAESGCM :: "ext \<Rightarrow> string \<Rightarrow> string \<Rightarrow> string + string" where
  "DecryptAESGCM X encoded masterKey =
     (case DecodeString encoded of
        None \<Rightarrow> Inl ''base64 decode''
      | Some data \<Rightarrow>
          if length data < 12 then Inl ''ciphertext too short''
          else (case aes_open X (sha256 X masterKey) (take 12 data) (drop 12 data) of
                  None \<Rightarrow> Inl ''gcm.Open''
                | Some plaintext \<Rightarrow> Inr plaintext))"

section \<open>RSA keys\<close>

definition encodeRSAKeyPair :: "ext \<Rightarrow> string \<Rightarrow> string \<times> string" where
  "encodeRSAKeyPair X priv =
     (pem_encode X ''PRIVATE KEY'' priv, pem_encode X ''PUBLIC KEY'' (rsa_public X priv))"

definition decodeRSAPrivateKey :: "ext \<Rightarrow> string \<Rightarrow> string + string \<times> string" where
  "decodeRSAPrivateKey X privPEM =
     (case pem_decode X privPEM of
        None \<Rightarrow> Inl ''invalid PEM block''
      | Some der \<Rightarrow>
          (case parse_rsa_private X der of
             None \<Rightarrow> Inl ''not an RSA private key''
           | Some key \<Rightarrow> Inr (key, pem_encode X ''PUBLIC KEY'' (rsa_public X key))))"

text \<open>\<open>None\<close> is the flag \<open>false\<close>: the variable is unset or empty.\<close>

definition rsaMasterKey :: "ext \<Rightarrow> string option" where
  "rsaMasterKey X = (let v = getenv X ''RSA_MASTER_KEY'' in if v = [] then None else Some v)"

definition persistRSAKey :: "ext \<Rightarrow> string \<Rightarrow> string \<Rightarrow> (string + unit) io" where
  "persistRSAKey X configKey privPEM = do {
     now \<leftarrow> gets clock;
     toStore \<leftarrow> (case rsaMasterKey X of
        None \<Rightarrow> State_Monad.return (Inr privPEM)
      | Some masterKey \<Rightarrow> do {
          r \<leftarrow> EncryptAESGCM X privPEM masterKey;
          State_Monad.return (case r of Inl e \<Rightarrow> Inl (''encrypt '' @ configKey)
                                      | Inr enc \<Rightarrow> Inr (''enc:'' @ enc)) });
     case toStore of
       Inl e \<Rightarrow> State_Monad.return (Inl e)
     | Inr v \<Rightarrow> do {
         r \<leftarrow> on_store (ConfigSet now configKey v);
         State_Monad.return (case r of Inl _ \<Rightarrow> Inl ''db'' | Inr _ \<Rightarrow> Inr ())
       }
   }"

definition loadRSAKey :: "ext \<Rightarrow> string \<Rightarrow> (string + string) io" where
  "loadRSAKey X configKey = do {
     r \<leftarrow> on_store (ConfigGet configKey);
     State_Monad.return
       (case r of
          Inl _ \<Rightarrow> Inl ''db''
        | Inr stored \<Rightarrow>
            if stored = [] then Inr []
            else if 4 < length stored \<and> take 4 stored = ''enc:'' then
              (case rsaMasterKey X of
                 None \<Rightarrow> Inl (''RSA_MASTER_KEY required to decrypt '' @ configKey)
               | Some masterKey \<Rightarrow>
                   (case DecryptAESGCM X (drop 4 stored) masterKey of
                      Inl e \<Rightarrow> Inl (''decrypt '' @ configKey)
                    | Inr plaintext \<Rightarrow> Inr plaintext))
            else Inr stored)
   }"

section \<open>Startup\<close>

text \<open>The environment's secret and admin token, before the database is read (\<open>init\<close>).\<close>

definition init_server :: "ext \<Rightarrow> ServerState option" where
  "init_server X =
     (if getenv X ''ADMIN_TOKEN'' = [] then None
      else if getenv X ''JWT_SECRET_KEY'' = [] then None
      else Some \<lparr>sv_PrivateKey = None, sv_PublicPEM = [], sv_PreviousPrivateKey = None,
             sv_JWTSecret = getenv X ''JWT_SECRET_KEY'', sv_JWTPreviousSecret = [],
             sv_KeyRotationDeadline = None, sv_AdminToken = getenv X ''ADMIN_TOKEN'',
             sv_JWTttl = 3600 * 1000000000\<rparr>)"

abbreviation set_server :: "(ServerState \<Rightarrow> ServerState) \<Rightarrow> unit io" where
  "set_server f \<equiv> modify (\<lambda>w. w\<lparr>server := f (server w)\<rparr>)"

definition init_jwt_secret :: "ext \<Rightarrow> (string + unit) io" where
  "init_jwt_secret X = do {
     now \<leftarrow> gets clock;
     cur \<leftarrow> on_store (ConfigGet ''jwt_secret_current'');
     case cur of
       Inl _ \<Rightarrow> State_Monad.return (Inl ''ConfigGet jwt_secret_current'')
     | Inr jwtCurrent \<Rightarrow>
         if jwtCurrent = [] then do {
           secret \<leftarrow> gets (\<lambda>w. sv_JWTSecret (server w));
           r \<leftarrow> on_store (ConfigSet now ''jwt_secret_current'' secret);
           State_Monad.return (case r of Inl _ \<Rightarrow> Inl ''ConfigSet jwt_secret_current'' | Inr _ \<Rightarrow> Inr ())
         }
         else do {
           _ \<leftarrow> set_server (\<lambda>s. s\<lparr>sv_JWTSecret := jwtCurrent\<rparr>);
           State_Monad.return (Inr ())
         }
   }"

definition init_rotation :: "ext \<Rightarrow> (string + unit) io" where
  "init_rotation X = do {
     prev \<leftarrow> on_store (ConfigGet ''jwt_secret_previous'');
     case prev of
       Inl _ \<Rightarrow> State_Monad.return (Inl ''ConfigGet jwt_secret_previous'')
     | Inr jwtPrev \<Rightarrow> do {
         _ \<leftarrow> set_server (\<lambda>s. s\<lparr>sv_JWTPreviousSecret := jwtPrev\<rparr>);
         d \<leftarrow> on_store (ConfigGet ''key_rotation_deadline'');
         case d of
           Inl _ \<Rightarrow> State_Monad.return (Inl ''ConfigGet key_rotation_deadline'')
         | Inr deadlineStr \<Rightarrow> do {
             _ \<leftarrow> (if deadlineStr = [] then State_Monad.return ()
                  else case parse_time X deadlineStr of
                         None \<Rightarrow> State_Monad.return ()
                       | Some t \<Rightarrow> set_server (\<lambda>s. s\<lparr>sv_KeyRotationDeadline := Some t\<rparr>));
             State_Monad.return (Inr ())
           }
       }
   }"

definition init_current_key :: "ext \<Rightarrow> (string + unit) io" where
  "init_current_key X = do {
     cur \<leftarrow> loadRSAKey X ''rsa_key_current'';
     case cur of
       Inl _ \<Rightarrow> State_Monad.return (Inl ''load rsa_key_current'')
     | Inr rsaCurrentPEM \<Rightarrow>
         if rsaCurrentPEM = [] then do {
           n \<leftarrow> draw;
           case gen_rsa X n of
             None \<Rightarrow> State_Monad.return (Inl ''RSA key generation'')
           | Some privKey \<Rightarrow> do {
               r \<leftarrow> persistRSAKey X ''rsa_key_current'' (fst (encodeRSAKeyPair X privKey));
               case r of
                 Inl _ \<Rightarrow> State_Monad.return (Inl ''persist rsa_key_current'')
               | Inr _ \<Rightarrow> do {
                   _ \<leftarrow> set_server (\<lambda>s. s\<lparr>sv_PrivateKey := Some privKey,
                          sv_PublicPEM := snd (encodeRSAKeyPair X privKey)\<rparr>);
                   State_Monad.return (Inr ())
                 }
             }
         }
         else (case decodeRSAPrivateKey X rsaCurrentPEM of
                 Inl _ \<Rightarrow> State_Monad.return (Inl ''decode rsa_key_current'')
               | Inr (privKey, pubPEM) \<Rightarrow> do {
                   _ \<leftarrow> set_server (\<lambda>s. s\<lparr>sv_PrivateKey := Some privKey, sv_PublicPEM := pubPEM\<rparr>);
                   State_Monad.return (Inr ())
                 })
   }"

text \<open>A previous key that cannot be loaded is only logged.\<close>

definition init_previous_key :: "ext \<Rightarrow> unit io" where
  "init_previous_key X = do {
     prev \<leftarrow> loadRSAKey X ''rsa_key_previous'';
     case prev of
       Inl _ \<Rightarrow> State_Monad.return ()
     | Inr rsaPrevPEM \<Rightarrow>
         if rsaPrevPEM = [] then State_Monad.return ()
         else (case decodeRSAPrivateKey X rsaPrevPEM of
                 Inl _ \<Rightarrow> State_Monad.return ()
               | Inr (prevKey, _) \<Rightarrow> set_server (\<lambda>s. s\<lparr>sv_PreviousPrivateKey := Some prevKey\<rparr>))
   }"

definition InitServerState :: "ext \<Rightarrow> (string + unit) io" where
  "InitServerState X = do {
     r \<leftarrow> init_jwt_secret X;
     case r of
       Inl e \<Rightarrow> State_Monad.return (Inl e)
     | Inr _ \<Rightarrow> do {
         r \<leftarrow> init_rotation X;
         case r of
           Inl e \<Rightarrow> State_Monad.return (Inl e)
         | Inr _ \<Rightarrow> do {
             r \<leftarrow> init_current_key X;
             case r of
               Inl e \<Rightarrow> State_Monad.return (Inl e)
             | Inr _ \<Rightarrow> do {
                 _ \<leftarrow> init_previous_key X;
                 State_Monad.return (Inr ())
               }
           }
       }
   }"

end
