(* ===== verification/Register.thy ===== *)
theory Register
  imports Keys
begin

text \<open>
  Enrollment of agents (\<open>handlers/register.go\<close>): the pending-nonce store, the validation of an
  enrollment token, the two phases of the challenge-response flow, the legacy flow over
  pre-authorized keys, the pre-authorization itself and the token refresh.
\<close>

section \<open>Pending nonces\<close>

definition nonceTTL :: int where
  "nonceTTL = 60 * 1000000000"

definition storePendingNonce :: "string \<Rightarrow> string \<Rightarrow> string \<Rightarrow> unit io" where
  "storePendingNonce hostname nonce token =
     modify (\<lambda>w. w\<lparr>pendingNonces := mput hostname
       \<lparr>pn_nonce = nonce, pn_token = token, pn_expiresAt = clock w + nonceTTL\<rparr> (pendingNonces w)\<rparr>)"

definition consumePendingNonce :: "string \<Rightarrow> (string \<times> string) option io" where
  "consumePendingNonce hostname = do {
     p \<leftarrow> gets (\<lambda>w. mget (pendingNonces w) hostname);
     case p of
       None \<Rightarrow> State_Monad.return None
     | Some n \<Rightarrow> do {
         _ \<leftarrow> modify (\<lambda>w. w\<lparr>pendingNonces := mdel hostname (pendingNonces w)\<rparr>);
         now \<leftarrow> gets clock;
         State_Monad.return
           (if pn_expiresAt n < now then None else Some (pn_nonce n, pn_token n))
       }
   }"

section \<open>Enrollment tokens\<close>

definition after :: "time \<Rightarrow> time option \<Rightarrow> bool" where
  "after now e = (case e of None \<Rightarrow> False | Some t \<Rightarrow> t < now)"

definition validateEnrollmentToken :: "ext \<Rightarrow> string \<Rightarrow> string \<Rightarrow> (string + EnrollmentToken) io" where
  "validateEnrollmentToken X tokenPlain hostname = do {
     found \<leftarrow> on_store (GetEnrollmentTokenByHash (sha256Hex X tokenPlain));
     now \<leftarrow> gets clock;
     State_Monad.return
       (case found of
          Inl _ \<Rightarrow> Inl ''db_error''
        | Inr None \<Rightarrow> Inl ''token_not_found''
        | Inr (Some tok) \<Rightarrow>
            if after now (en_ExpiresAt tok) then Inl ''token_expired''
            else if \<not> en_Reusable tok \<and> 0 < en_UseCount tok then Inl ''token_already_used''
            else if PluginTokenCheckHostname (match_regexp X) (en_HostnamePattern tok) hostname \<noteq> Some True
            then Inl ''hostname_not_allowed''
            else Inr tok)
   }"

section \<open>Requests\<close>

record RegisterRequest =
  rr_Hostname :: string
  rr_PublicKeyPEM :: string
  rr_EnrollmentToken :: string
  rr_ChallengeResponse :: string

definition decode_RegisterRequest :: "json \<Rightarrow> RegisterRequest option" where
  "decode_RegisterRequest j =
     (case obj_pairs j of
        None \<Rightarrow> None
      | Some ps \<Rightarrow>
          (case (string_field ''hostname'' ps, string_field ''public_key_pem'' ps,
                 string_field ''enrollment_token'' ps, string_field ''challenge_response'' ps) of
             (Some h, Some k, Some t, Some c) \<Rightarrow>
               Some \<lparr>rr_Hostname = h, rr_PublicKeyPEM = k, rr_EnrollmentToken = t,
                 rr_ChallengeResponse = c\<rparr>
           | _ \<Rightarrow> None))"

definition RegisterResponse :: "string \<Rightarrow> string \<Rightarrow> string \<Rightarrow> json" where
  "RegisterResponse token jwt pub =
     JObj [(''token_encrypted'', JStr token), (''jwt_encrypted'', JStr jwt),
           (''server_public_key_pem'', JStr pub)]"

definition ChallengeResponse :: "string \<Rightarrow> string \<Rightarrow> json" where
  "ChallengeResponse challenge pub =
     JObj [(''challenge'', JStr challenge), (''server_public_key_pem'', JStr pub)]"

text \<open>The token the server issues: the claims the handlers build, signed with a secret.\<close>

definition signed_for :: "ext \<Rightarrow> string \<Rightarrow> string \<Rightarrow> string \<Rightarrow> time \<Rightarrow> int \<Rightarrow> string" where
  "signed_for X secret hostname jti now ttl = jwt_signer X secret (agent_claims hostname jti now ttl)"

section \<open>The challenge-response flow\<close>

definition register_phase1 :: "ext \<Rightarrow> RegisterRequest \<Rightarrow> response io" where
  "register_phase1 X req = do {
     n \<leftarrow> draw;
     case rand_bytes X 16 n of
       None \<Rightarrow> reply (reply_error 500 ''nonce_generation_failed'')
     | Some nonce \<Rightarrow> do {
         sealed \<leftarrow> encryptWithPublicKey X nonce (rr_PublicKeyPEM req);
         case sealed of
           None \<Rightarrow> reply (reply_error 400 ''invalid_public_key'')
         | Some challengeEncrypted \<Rightarrow> do {
             _ \<leftarrow> storePendingNonce (rr_Hostname req) nonce (rr_EnrollmentToken req);
             pubPEM \<leftarrow> gets (\<lambda>w. sv_PublicPEM (server w));
             reply (Reply 200 (ChallengeResponse challengeEncrypted pubPEM))
           }
       }
   }"

text \<open>The response decrypted with the server's key, or the error code of the step that failed.\<close>

definition open_response :: "ext \<Rightarrow> string \<Rightarrow> string \<Rightarrow> string + string" where
  "open_response X serverPrivKey challengeResponse =
     (case DecodeString challengeResponse of
        None \<Rightarrow> Inl ''challenge_response_invalid_encoding''
      | Some bytes \<Rightarrow>
          (case oaep_decrypt X serverPrivKey bytes of
             None \<Rightarrow> Inl ''challenge_response_decryption_failed''
           | Some decrypted \<Rightarrow> Inr decrypted))"

definition finalize_enrollment :: "ext \<Rightarrow> RegisterRequest \<Rightarrow> EnrollmentToken \<Rightarrow> response io" where
  "finalize_enrollment X req tok = do {
     srv \<leftarrow> gets server;
     now \<leftarrow> gets clock;
     jti \<leftarrow> newTaskID X;
     let rawJWT = signed_for X (sv_JWTSecret srv) (rr_Hostname req) jti now (sv_JWTttl srv);
     sealed \<leftarrow> encryptWithPublicKey X rawJWT (rr_PublicKeyPEM req);
     case sealed of
       None \<Rightarrow> reply (reply_error 400 ''invalid_public_key'')
     | Some tokenEncrypted \<Rightarrow> do {
         consumed \<leftarrow> on_store (ConsumeEnrollmentToken now (en_ID tok));
         case consumed of
           Inl _ \<Rightarrow> reply (reply_error 500 ''db_error'')
         | Inr _ \<Rightarrow> do {
             _ \<leftarrow> on_store (AddAuthorizedKey now (rr_Hostname req) (rr_PublicKeyPEM req)
                    (''enrollment_token:'' @ en_ID tok));
             registered \<leftarrow> on_store (store_RegisterAgent now (rr_Hostname req) (rr_PublicKeyPEM req) jti);
             case registered of
               Inl _ \<Rightarrow> reply (reply_error 500 ''db_error'')
             | Inr _ \<Rightarrow> do {
                 _ \<leftarrow> dispatch_hook ''host.new'' (rr_Hostname req) ''disconnected'' (Some now);
                 reply (Reply 200 (RegisterResponse tokenEncrypted tokenEncrypted (sv_PublicPEM srv)))
               }
           }
       }
   }"

definition register_phase2 :: "ext \<Rightarrow> string \<Rightarrow> RegisterRequest \<Rightarrow> EnrollmentToken \<Rightarrow> response io" where
  "register_phase2 X serverPrivKey req tok = do {
     pending \<leftarrow> consumePendingNonce (rr_Hostname req);
     case pending of
       None \<Rightarrow> reply (reply_error 403 ''challenge_expired_or_not_issued'')
     | Some (pendingNonce, pendingToken) \<Rightarrow>
         (case open_response X serverPrivKey (rr_ChallengeResponse req) of
            Inl code \<Rightarrow> reply (reply_error 403 code)
          | Inr decrypted \<Rightarrow>
              if decrypted \<noteq> pendingNonce @ pendingToken
              then reply (reply_error 403 ''challenge_response_mismatch'')
              else finalize_enrollment X req tok)
   }"

definition registerAgentWithToken :: "ext \<Rightarrow> RegisterRequest \<Rightarrow> response io" where
  "registerAgentWithToken X req = do {
     checked \<leftarrow> validateEnrollmentToken X (rr_EnrollmentToken req) (rr_Hostname req);
     case checked of
       Inl errCode \<Rightarrow> reply (reply_error (if errCode = ''db_error'' then 500 else 403) errCode)
     | Inr tok \<Rightarrow> do {
         key \<leftarrow> gets (\<lambda>w. sv_PrivateKey (server w));
         case key of
           None \<Rightarrow> reply (reply_error 500 ''server_key_not_initialized'')
         | Some serverPrivKey \<Rightarrow>
             if rr_ChallengeResponse req \<noteq> [] then register_phase2 X serverPrivKey req tok
             else register_phase1 X req
       }
   }"

section \<open>The legacy flow\<close>

definition registerAgentLegacy :: "ext \<Rightarrow> RegisterRequest \<Rightarrow> response io" where
  "registerAgentLegacy X req = do {
     found \<leftarrow> on_store (GetAuthorizedKey (rr_Hostname req));
     case found of
       Inl _ \<Rightarrow> reply (reply_error 500 ''db_error'')
     | Inr None \<Rightarrow> reply (reply_error 403 ''unauthorized_hostname'')
     | Inr (Some authKey) \<Rightarrow>
         if TrimSpace (ak_PublicKeyPEM authKey) \<noteq> rr_PublicKeyPEM req
         then reply (reply_error 403 ''public_key_mismatch'')
         else do {
           srv \<leftarrow> gets server;
           now \<leftarrow> gets clock;
           jti \<leftarrow> newTaskID X;
           let rawJWT = signed_for X (sv_JWTSecret srv) (rr_Hostname req) jti now (sv_JWTttl srv);
           sealed \<leftarrow> encryptWithPublicKey X rawJWT (rr_PublicKeyPEM req);
           case sealed of
             None \<Rightarrow> reply (reply_error 400 ''invalid_public_key'')
           | Some tokenEncrypted \<Rightarrow> do {
               registered \<leftarrow> on_store (store_RegisterAgent now (rr_Hostname req) (rr_PublicKeyPEM req) jti);
               case registered of
                 Inl _ \<Rightarrow> reply (reply_error 500 ''db_error'')
               | Inr _ \<Rightarrow> reply (Reply 200 (RegisterResponse tokenEncrypted [] (sv_PublicPEM srv)))
             }
         }
   }"

text \<open>\<open>POST /api/register\<close>\<close>

definition RegisterAgent :: "ext \<Rightarrow> request \<Rightarrow> response io" where
  "RegisterAgent X r =
     (if rq_Method r \<noteq> ''POST'' then reply (Reply 405 (JStr ''Method not allowed''))
      else case Option.bind (rq_Body r) decode_RegisterRequest of
        None \<Rightarrow> reply (reply_error 400 ''invalid_request'')
      | Some req0 \<Rightarrow>
          let req = req0\<lparr>rr_Hostname := TrimSpace (rr_Hostname req0),
                         rr_PublicKeyPEM := TrimSpace (rr_PublicKeyPEM req0)\<rparr> in
          if rr_Hostname req = [] \<or> rr_PublicKeyPEM req = [] then
            reply (reply_error 400 ''missing_fields'')
          else do {
            have_store \<leftarrow> gets registerStore_set;
            if \<not> have_store then reply (reply_error 500 ''store_not_initialized'')
            else if rr_EnrollmentToken req \<noteq> [] then registerAgentWithToken X req
            else registerAgentLegacy X req
          })"

section \<open>Pre-authorization and refresh\<close>

definition decode_AdminAuthorizeRequest :: "json \<Rightarrow> (string \<times> string \<times> string) option" where
  "decode_AdminAuthorizeRequest j =
     (case obj_pairs j of
        None \<Rightarrow> None
      | Some ps \<Rightarrow>
          (case (string_field ''hostname'' ps, string_field ''public_key_pem'' ps,
                 string_field ''approved_by'' ps) of
             (Some h, Some k, Some a) \<Rightarrow> Some (h, k, a) | _ \<Rightarrow> None))"

text \<open>\<open>POST /api/admin/authorize\<close>\<close>

definition AdminAuthorize :: "ext \<Rightarrow> request \<Rightarrow> response io" where
  "AdminAuthorize X r =
     (let authHeader = Header_Get r ''Authorization'' in
      if rq_Method r \<noteq> ''POST'' then reply (Reply 405 (JStr ''Method not allowed''))
      else if authHeader = [] \<or> length authHeader < 7 \<or> \<not> HasPrefix authHeader ''Bearer '' then
        reply (reply_error 401 ''missing_authorization'')
      else do {
        srv \<leftarrow> gets server;
        if drop 7 authHeader \<noteq> sv_AdminToken srv then reply (reply_error 401 ''invalid_admin_token'')
        else case Option.bind (rq_Body r) decode_AdminAuthorizeRequest of
          None \<Rightarrow> reply (reply_error 400 ''invalid_request'')
        | Some (hostname, publicKeyPEM, approvedBy) \<Rightarrow>
            if TrimSpace hostname = [] \<or> TrimSpace publicKeyPEM = [] \<or> TrimSpace approvedBy = [] then
              reply (reply_error 400 ''missing_fields'')
            else do {
              have_store \<leftarrow> gets registerStore_set;
              if \<not> have_store then reply (reply_error 500 ''store_not_initialized'')
              else do {
                now \<leftarrow> gets clock;
                added \<leftarrow> on_store (AddAuthorizedKey now hostname publicKeyPEM approvedBy);
                case added of
                  Inl _ \<Rightarrow> reply (reply_error 500 ''db_error'')
                | Inr _ \<Rightarrow> reply (Reply 201 (JObj [(''hostname'', JStr hostname), (''status'', JStr ''authorized'')]))
              }
            }
      })"

definition decode_TokenRefreshRequest :: "json \<Rightarrow> (string \<times> string) option" where
  "decode_TokenRefreshRequest j =
     (case obj_pairs j of
        None \<Rightarrow> None
      | Some ps \<Rightarrow>
          (case (string_field ''hostname'' ps, string_field ''challenge_encrypted'' ps) of
             (Some h, Some c) \<Rightarrow> Some (h, c) | _ \<Rightarrow> None))"

text \<open>\<open>POST /api/token/refresh\<close>\<close>

definition TokenRefresh :: "ext \<Rightarrow> request \<Rightarrow> response io" where
  "TokenRefresh X r =
     (if rq_Method r \<noteq> ''POST'' then reply (Reply 405 (JStr ''Method not allowed''))
      else case Option.bind (rq_Body r) decode_TokenRefreshRequest of
        None \<Rightarrow> reply (reply_error 400 ''invalid_request'')
      | Some (hostname, challengeEncrypted) \<Rightarrow> do {
          srv \<leftarrow> gets server;
          case sv_PrivateKey srv of
            None \<Rightarrow> reply (reply_error 500 ''server_key_not_initialized'')
          | Some privKey \<Rightarrow>
              (case Option.bind (DecodeString challengeEncrypted) (oaep_decrypt X privKey) of
                 None \<Rightarrow> reply (reply_error 403 ''challenge_decryption_failed'')
               | Some _ \<Rightarrow> do {
                   now \<leftarrow> gets clock;
                   newJTI \<leftarrow> newTaskID X;
                   let rawJWT = signed_for X (sv_JWTSecret srv) hostname newJTI now (sv_JWTttl srv);
                   have_store \<leftarrow> gets registerStore_set;
                   if \<not> have_store then reply (reply_error 500 ''store_not_initialized'')
                   else do {
                     found \<leftarrow> on_store (GetAgent hostname);
                     case found of
                       Inl _ \<Rightarrow> reply (reply_error 500 ''db_error'')
                     | Inr None \<Rightarrow> reply (reply_error 403 ''agent_not_found'')
                     | Inr (Some agent) \<Rightarrow> do {
                         sealed \<leftarrow> encryptWithPublicKey X rawJWT (ag_PublicKeyPEM agent);
                         case sealed of
                           None \<Rightarrow> reply (reply_error 500 ''encryption_failed'')
                         | Some tokenEncrypted \<Rightarrow> do {
                             _ \<leftarrow> on_store (UpdateTokenJTI hostname newJTI);
                             reply (Reply 200 (JObj [(''token_encrypted'', JStr tokenEncrypted),
                               (''server_public_key_pem'', JStr (sv_PublicPEM srv))]))
                           }
                       }
                   }
                 })
        })"

end
