(* ===== verification/RegisterSpec.thy ===== *)
theory RegisterSpec
  imports Register Examples
begin

text \<open>
  What enrollment guarantees: a token is only ever issued against a valid enrollment token and the
  matching nonce, or against a pre-authorized key; a nonce and a one-shot token serve once; an
  agent that follows the protocol is enrolled and gets a token the server accepts.
\<close>

section \<open>Outcomes of the steps\<close>

text \<open>The verdict on a token row, as a value.\<close>

definition token_verdict :: "ext \<Rightarrow> time \<Rightarrow> string \<Rightarrow> EnrollmentToken option \<Rightarrow> string + EnrollmentToken" where
  "token_verdict X now hostname found =
     (case found of
        None \<Rightarrow> Inl ''token_not_found''
      | Some tok \<Rightarrow>
          if after now (en_ExpiresAt tok) then Inl ''token_expired''
          else if \<not> en_Reusable tok \<and> 0 < en_UseCount tok then Inl ''token_already_used''
          else if PluginTokenCheckHostname (match_regexp X) (en_HostnamePattern tok) hostname \<noteq> Some True
          then Inl ''hostname_not_allowed''
          else Inr tok)"

definition token_row :: "ext \<Rightarrow> world \<Rightarrow> string \<Rightarrow> EnrollmentToken option" where
  "token_row X w t = map_option scanEnrollmentToken
     (row_find et_token_hash (sha256Hex X t) (enrollment_tokens (db w)))"

lemma validateEnrollmentToken_run [simp]:
  "run_state (validateEnrollmentToken X t hostname) w =
     (if faulty (db w) then Inl ''db_error'' else token_verdict X (clock w) hostname (token_row X w t),
      w\<lparr>db := tick (db w)\<rparr>)"
  by (simp add: validateEnrollmentToken_def GetEnrollmentTokenByHash_def token_verdict_def token_row_def
      split: option.split)

lemma consumePendingNonce_run [simp]:
  "run_state (consumePendingNonce hostname) w =
     (case mget (pendingNonces w) hostname of
        None \<Rightarrow> (None, w)
      | Some n \<Rightarrow> (if pn_expiresAt n < clock w then None else Some (pn_nonce n, pn_token n),
                   w\<lparr>pendingNonces := mdel hostname (pendingNonces w)\<rparr>))"
  by (simp add: consumePendingNonce_def split: option.split)

lemma storePendingNonce_run [simp]:
  "run_state (storePendingNonce hostname n t) w = ((), w\<lparr>pendingNonces :=
     mput hostname \<lparr>pn_nonce = n, pn_token = t, pn_expiresAt = clock w + nonceTTL\<rparr> (pendingNonces w)\<rparr>)"
  by (simp add: storePendingNonce_def)

lemma dispatch_hook_run [simp]:
  "run_state (dispatch_hook e h s t) w = ((), if dispatcher_set w
     then w\<lparr>hook_events := hook_events w @ [(e, h, s, t)]\<rparr> else w)"
  by (simp add: dispatch_hook_def)

text \<open>A response that carries a token for an agent.\<close>

definition issues :: "response \<Rightarrow> string \<Rightarrow> bool" where
  "issues resp t \<longleftrightarrow> (\<exists>j p. resp = Reply 200 (RegisterResponse t j p))"

lemma issues_simps [simp]:
  "\<not> issues (reply_error c e) t" "\<not> issues (Reply c' (ChallengeResponse a b)) t"
  "\<not> issues (Reply c'' (JStr s)) t"
  "issues (Reply 200 (RegisterResponse t' j p)) t \<longleftrightarrow> t' = t"
  by (auto simp: issues_def RegisterResponse_def ChallengeResponse_def error_json_def)

definition trimmed :: "RegisterRequest \<Rightarrow> RegisterRequest" where
  "trimmed q = q\<lparr>rr_Hostname := TrimSpace (rr_Hostname q), rr_PublicKeyPEM := TrimSpace (rr_PublicKeyPEM q)\<rparr>"

lemma response_kinds [simp]:
  "reply_error c e \<noteq> Reply 200 (RegisterResponse t j p)"
  "Reply c' (JStr m) \<noteq> Reply 200 (RegisterResponse t j p)"
  "Reply c'' (ChallengeResponse a b) \<noteq> Reply 200 (RegisterResponse t j p)"
  "RegisterResponse t j p = RegisterResponse t' j' p' \<longleftrightarrow> t = t' \<and> j = j' \<and> p = p'"
  by (auto simp: RegisterResponse_def ChallengeResponse_def error_json_def)

lemma trimmed_simps [simp]:
  "rr_EnrollmentToken (trimmed q) = rr_EnrollmentToken q"
  "rr_ChallengeResponse (trimmed q) = rr_ChallengeResponse q"
  "rr_Hostname (trimmed q) = TrimSpace (rr_Hostname q)"
  "rr_PublicKeyPEM (trimmed q) = TrimSpace (rr_PublicKeyPEM q)"
  by (simp_all add: trimmed_def)

lemma RegisterAgent_run:
  "Option.bind (rq_Body r) decode_RegisterRequest = Some q \<Longrightarrow>
   run_state (RegisterAgent X r) w =
     (if rq_Method r \<noteq> ''POST'' then (Reply 405 (JStr ''Method not allowed''), w)
      else if rr_Hostname (trimmed q) = [] \<or> rr_PublicKeyPEM (trimmed q) = []
      then (reply_error 400 ''missing_fields'', w)
      else if \<not> registerStore_set w then (reply_error 500 ''store_not_initialized'', w)
      else if rr_EnrollmentToken q \<noteq> [] then run_state (registerAgentWithToken X (trimmed q)) w
      else run_state (registerAgentLegacy X (trimmed q)) w)"
  by (simp add: RegisterAgent_def Let_def trimmed_def)

definition agent_token :: "ext \<Rightarrow> world \<Rightarrow> RegisterRequest \<Rightarrow> string \<Rightarrow> bool" where
  "agent_token X w req t \<longleftrightarrow> (\<exists>jti n.
     seal_for X (signed_for X (sv_JWTSecret (server w)) (rr_Hostname req) jti (clock w) (sv_JWTttl (server w)))
       (rr_PublicKeyPEM req) n = Some t)"

lemma finalize_issues:
  assumes "issues (fst (run_state (finalize_enrollment X req tok) w)) t"
  shows "agent_token X w req t"
  using assms
  by (auto simp: finalize_enrollment_def agent_token_def split: option.splits sum.splits)

definition answers :: "ext \<Rightarrow> world \<Rightarrow> RegisterRequest \<Rightarrow> bool" where
  "answers X w req \<longleftrightarrow> (\<exists>key n. sv_PrivateKey (server w) = Some key
     \<and> mget (pendingNonces w) (rr_Hostname req) = Some n \<and> \<not> pn_expiresAt n < clock w
     \<and> open_response X key (rr_ChallengeResponse req) = Inr (pn_nonce n @ pn_token n))"

lemma phase2_issues:
  assumes "issues (fst (run_state (register_phase2 X key req tok) w)) t"
    and "sv_PrivateKey (server w) = Some key"
  shows "answers X w req \<and> agent_token X w req t"
proof -
  let ?w = "w\<lparr>pendingNonces := mdel (rr_Hostname req) (pendingNonces w)\<rparr>"
  from assms(1) obtain n where n: "mget (pendingNonces w) (rr_Hostname req) = Some n"
      "\<not> pn_expiresAt n < clock w"
      "open_response X key (rr_ChallengeResponse req) = Inr (pn_nonce n @ pn_token n)"
      "issues (fst (run_state (finalize_enrollment X req tok) ?w)) t"
    by (auto simp: register_phase2_def split: option.splits sum.splits if_splits)
  then show ?thesis
    using finalize_issues [OF n(4)] assms(2) by (auto simp: answers_def agent_token_def)
qed

lemma phase1_issues: "\<not> issues (fst (run_state (register_phase1 X req) w)) t"
  by (auto simp: register_phase1_def split: option.splits)

lemma with_token_issues:
  assumes "issues (fst (run_state (registerAgentWithToken X req) w)) t"
  shows "(\<exists>tok. token_verdict X (clock w) (rr_Hostname req) (token_row X w (rr_EnrollmentToken req)) = Inr tok)
    \<and> answers X w req \<and> agent_token X w req t"
proof -
  let ?w = "w\<lparr>db := tick (db w)\<rparr>"
  from assms obtain tok key where k:
      "token_verdict X (clock w) (rr_Hostname req) (token_row X w (rr_EnrollmentToken req)) = Inr tok"
      "sv_PrivateKey (server w) = Some key"
      "issues (fst (run_state (register_phase2 X key req tok) ?w)) t"
    by (auto simp: registerAgentWithToken_def phase1_issues split: option.splits sum.splits if_splits)
  then show ?thesis
    using phase2_issues [OF k(3)] by (auto simp: answers_def agent_token_def)
qed

definition preauthorized :: "world \<Rightarrow> RegisterRequest \<Rightarrow> bool" where
  "preauthorized w req \<longleftrightarrow> (\<exists>row. row_find ak_Hostname (rr_Hostname req) (authorized_keys (db w)) = Some row
     \<and> TrimSpace (ak_PublicKeyPEM row) = rr_PublicKeyPEM req)"

lemma legacy_issues:
  assumes "issues (fst (run_state (registerAgentLegacy X req) w)) t"
  shows "preauthorized w req \<and> agent_token X w req t"
  using assms
  by (auto simp: registerAgentLegacy_def GetAuthorizedKey_def preauthorized_def agent_token_def
      split: option.splits sum.splits if_splits)

text \<open>C2: Whatever the request and the state, a response of the registration endpoint carries an
  agent token only for the (trimmed) host of the request, sealed for the public key of the request,
  and only if either the request's enrollment token is on record, unexpired, not a used one-shot
  token and allows the host, and the request answers, within its lifetime, the nonce pending for
  that host together with the token that nonce was issued for; or the request has no enrollment
  token and its key is the one pre-authorized for the host.\<close>

theorem token_only_after_proof:
  assumes "run_state (RegisterAgent X r) w = (Reply 200 (RegisterResponse t j p), w')"
  shows "\<exists>q. Option.bind (rq_Body r) decode_RegisterRequest = Some q \<and> agent_token X w (trimmed q) t
    \<and> (if rr_EnrollmentToken q \<noteq> []
       then (\<exists>tok. token_verdict X (clock w) (rr_Hostname (trimmed q)) (token_row X w (rr_EnrollmentToken q)) = Inr tok)
          \<and> answers X w (trimmed q)
       else preauthorized w (trimmed q))"
proof -
  have "issues (fst (run_state (RegisterAgent X r) w)) t"
    by (simp add: assms)
  then obtain q where q: "Option.bind (rq_Body r) decode_RegisterRequest = Some q"
      "issues (fst (run_state (if rr_EnrollmentToken q \<noteq> [] then registerAgentWithToken X (trimmed q)
                               else registerAgentLegacy X (trimmed q)) w)) t"
  proof (cases "Option.bind (rq_Body r) decode_RegisterRequest")
    case None
    then have "\<not> issues (fst (run_state (RegisterAgent X r) w)) t"
      by (auto simp: RegisterAgent_def)
    with \<open>issues (fst (run_state (RegisterAgent X r) w)) t\<close> show thesis by simp
  next
    case (Some q)
    with \<open>issues (fst (run_state (RegisterAgent X r) w)) t\<close> that [of q] show thesis
      by (auto simp: RegisterAgent_run [OF Some] split: if_splits)
  qed
  then show ?thesis
    using legacy_issues [of X "trimmed q" w t] with_token_issues [of X "trimmed q" w t]
    by (cases "rr_EnrollmentToken q = []") auto
qed

section \<open>A nonce and a one-shot token serve once\<close>

lemma healthy_step [simp]:
  "healthy s \<Longrightarrow> healthy (snd (run_state (ConsumeEnrollmentToken now i) s))"
  "healthy s \<Longrightarrow> healthy (snd (run_state (AddAuthorizedKey now h k b) s))"
  "healthy s \<Longrightarrow> healthy (snd (run_state (store_RegisterAgent now h k j) s))"
  by (simp_all add: ConsumeEnrollmentToken_def AddAuthorizedKey_def store_RegisterAgent_def)

lemma store_fields [simp]:
  "enrollment_tokens (snd (run_state (AddAuthorizedKey now h k b) s)) = enrollment_tokens s"
  "enrollment_tokens (snd (run_state (store_RegisterAgent now h k j) s)) = enrollment_tokens s"
  "authorized_keys (snd (run_state (store_RegisterAgent now h k j) s)) = authorized_keys s"
  "agents (snd (run_state (ConsumeEnrollmentToken now i) s)) = agents s"
  "agents (snd (run_state (AddAuthorizedKey now h k b) s)) = agents s"
  by (auto simp: ConsumeEnrollmentToken_def AddAuthorizedKey_def store_RegisterAgent_def)

lemma row_find_rows_update:
  "(\<And>r. key (f r) = key r) \<Longrightarrow> row_find key k (rows_update P f rows) =
     map_option (\<lambda>r. if P r then f r else r) (row_find key k rows)"
  by (induction rows) (auto simp: rows_update_def)

definition used_once_more :: "time \<Rightarrow> EnrollmentToken \<Rightarrow> EnrollmentToken" where
  "used_once_more now tok = tok\<lparr>en_UseCount := en_UseCount tok + 1,
     en_LastUsedAt := Some (from_unix (unix_sec now))\<rparr>"

lemma scan_used:
  "scanEnrollmentToken (r\<lparr>et_use_count := et_use_count r + 1, et_last_used_at := Some (unix_sec now)\<rparr>) =
     used_once_more now (scanEnrollmentToken r)"
  by (simp add: scanEnrollmentToken_def used_once_more_def)

lemma consumed_row:
  assumes "map_option scanEnrollmentToken (row_find et_token_hash hs (enrollment_tokens s)) = Some tok"
    and "fst (run_state (ConsumeEnrollmentToken now (en_ID tok)) s) = Inr ()"
  shows "map_option scanEnrollmentToken (row_find et_token_hash hs
     (enrollment_tokens (snd (run_state (ConsumeEnrollmentToken now (en_ID tok)) s)))) =
     Some (used_once_more now tok)"
proof -
  from assms(1) obtain r where r: "row_find et_token_hash hs (enrollment_tokens s) = Some r"
    "tok = scanEnrollmentToken r" by auto
  then have "en_ID tok = et_id r" by (simp add: scanEnrollmentToken_def)
  with assms(2) r show ?thesis
    by (auto simp: ConsumeEnrollmentToken_def row_find_rows_update scan_used
        split: if_splits)
qed

text \<open>What a completed enrollment leaves behind.\<close>

lemma finalize_done:
  assumes "run_state (finalize_enrollment X req tok) w = (Reply 200 (RegisterResponse t j p), w')"
  shows "fst (run_state (ConsumeEnrollmentToken (clock w) (en_ID tok)) (db w)) = Inr ()
    \<and> enrollment_tokens (db w') =
        enrollment_tokens (snd (run_state (ConsumeEnrollmentToken (clock w) (en_ID tok)) (db w)))
    \<and> pendingNonces w' = pendingNonces w"
  using assms
  by (auto simp: finalize_enrollment_def split: option.splits sum.splits if_splits)

lemma register_done:
  assumes "run_state (RegisterAgent X r) w = (Reply 200 (RegisterResponse t j p), w')"
    and "Option.bind (rq_Body r) decode_RegisterRequest = Some q" and "rr_EnrollmentToken q \<noteq> []"
  obtains tok where "token_row X w (rr_EnrollmentToken q) = Some tok"
    "en_Reusable tok \<or> en_UseCount tok \<le> 0"
    "token_row X w' (rr_EnrollmentToken q) = Some (used_once_more (clock w) tok)"
    "mget (pendingNonces w') (TrimSpace (rr_Hostname q)) = None"
proof -
  have "run_state (registerAgentWithToken X (trimmed q)) w = (Reply 200 (RegisterResponse t j p), w')"
    using assms(1,3) by (auto simp: RegisterAgent_run [OF assms(2)] split: if_splits)
  then obtain tok key where v: "\<not> faulty (db w)"
      "token_verdict X (clock w) (rr_Hostname (trimmed q)) (token_row X w (rr_EnrollmentToken q)) = Inr tok"
      "run_state (register_phase2 X key (trimmed q) tok) (w\<lparr>db := tick (db w)\<rparr>) =
         (Reply 200 (RegisterResponse t j p), w')"
    using phase1_issues [of X "trimmed q" "w\<lparr>db := tick (db w)\<rparr>" t]
    by (auto simp: registerAgentWithToken_def split: option.splits sum.splits if_splits)
  then have tok: "token_row X w (rr_EnrollmentToken q) = Some tok" "en_Reusable tok \<or> en_UseCount tok \<le> 0"
    by (auto simp: token_verdict_def split: option.splits if_splits)
  let ?w = "w\<lparr>db := tick (db w), pendingNonces := mdel (rr_Hostname (trimmed q)) (pendingNonces w)\<rparr>"
  from v(3) have "run_state (finalize_enrollment X (trimmed q) tok) ?w = (Reply 200 (RegisterResponse t j p), w')"
    by (auto simp: register_phase2_def split: option.splits sum.splits if_splits)
  from finalize_done [OF this] have f:
    "fst (run_state (ConsumeEnrollmentToken (clock w) (en_ID tok)) (tick (db w))) = Inr ()"
    "enrollment_tokens (db w') =
        enrollment_tokens (snd (run_state (ConsumeEnrollmentToken (clock w) (en_ID tok)) (tick (db w))))"
    "pendingNonces w' = mdel (rr_Hostname (trimmed q)) (pendingNonces w)"
    by auto
  have "token_row X w' (rr_EnrollmentToken q) = Some (used_once_more (clock w) tok)"
    using consumed_row [OF _ f(1), of "sha256Hex X (rr_EnrollmentToken q)"] tok(1) f(2)
    by (simp add: token_row_def)
  moreover have "mget (pendingNonces w') (TrimSpace (rr_Hostname q)) = None"
    by (simp add: f(3) trimmed_def)
  ultimately show thesis using that tok by blast
qed

lemma with_token_refused:
  assumes "isl (token_verdict X (clock w) (rr_Hostname q) (token_row X w (rr_EnrollmentToken q)))
     \<or> rr_ChallengeResponse q \<noteq> [] \<and> mget (pendingNonces w) (rr_Hostname q) = None"
  shows "status (fst (run_state (registerAgentWithToken X q) w)) \<in> {403, 500}"
  using assms
  by (auto simp: registerAgentWithToken_def register_phase2_def
      split: option.split sum.split)

lemma register_refused:
  assumes "Option.bind (rq_Body r) decode_RegisterRequest = Some q" "rr_EnrollmentToken q \<noteq> []"
    and "isl (token_verdict X (clock w) (rr_Hostname (trimmed q)) (token_row X w (rr_EnrollmentToken q)))
     \<or> rr_ChallengeResponse q \<noteq> [] \<and> mget (pendingNonces w) (rr_Hostname (trimmed q)) = None"
  shows "status (fst (run_state (RegisterAgent X r) w)) \<in> {400, 403, 405, 500}"
  using assms(2,3) with_token_refused [of X w "trimmed q"]
  by (auto simp: RegisterAgent_run [OF assms(1)])


section \<open>An honest agent is enrolled\<close>

text \<open>
  The documented behaviour of RSA-OAEP and PEM: what is encrypted for the public half of a key is
  decrypted by the key.
\<close>

definition oaep_laws :: "ext \<Rightarrow> bool" where
  "oaep_laws X \<longleftrightarrow> (\<forall>priv p n c. oaep_encrypt X (rsa_public X priv) p n = Some c \<longrightarrow>
     oaep_decrypt X priv c = Some p)"

text \<open>The public key text of a private key, as the server reads it, that accepts the plaintext.\<close>

definition key_text :: "ext \<Rightarrow> string \<Rightarrow> string \<Rightarrow> bool" where
  "key_text X priv pem \<longleftrightarrow> Option.bind (pem_decode X pem) (parse_rsa_public X) = Some (rsa_public X priv)"

definition can_seal :: "ext \<Rightarrow> string \<Rightarrow> string \<Rightarrow> bool" where
  "can_seal X priv plaintext \<longleftrightarrow> (\<forall>n. oaep_encrypt X (rsa_public X priv) plaintext n \<noteq> None)"

text \<open>Opening a base64 ciphertext with a private key.\<close>

definition unseal :: "ext \<Rightarrow> string \<Rightarrow> string \<Rightarrow> string option" where
  "unseal X priv text = Option.bind (DecodeString text) (oaep_decrypt X priv)"

lemma seal_unseal:
  assumes "oaep_laws X" "key_text X priv pem" "can_seal X priv p"
  shows "\<exists>c. seal_for X p pem n = Some c \<and> unseal X priv c = Some p"
proof -
  obtain c where c: "oaep_encrypt X (rsa_public X priv) p n = Some c"
    using assms(3) by (auto simp: can_seal_def)
  with assms show ?thesis
    by (cases "pem_decode X pem")
      (auto simp: seal_for_def key_text_def unseal_def oaep_laws_def DecodeString_EncodeToString)
qed

definition register_body :: "string \<Rightarrow> string \<Rightarrow> string \<Rightarrow> string \<Rightarrow> json" where
  "register_body h k t c = JObj [(''hostname'', JStr h), (''public_key_pem'', JStr k),
     (''enrollment_token'', JStr t), (''challenge_response'', JStr c)]"

lemma decode_register_body:
  "decode_RegisterRequest (register_body h k t c) = Some \<lparr>rr_Hostname = h, rr_PublicKeyPEM = k,
     rr_EnrollmentToken = t, rr_ChallengeResponse = c\<rparr>"
  by (simp add: decode_RegisterRequest_def register_body_def obj_pairs_def json_fields)

definition enrolled_db :: "time \<Rightarrow> string \<Rightarrow> string \<Rightarrow> string \<Rightarrow> EnrollmentToken \<Rightarrow> store \<Rightarrow> store" where
  "enrolled_db now h k jti tok s =
     snd (run_state (store_RegisterAgent now h k jti)
       (snd (run_state (AddAuthorizedKey now h k (''enrollment_token:'' @ en_ID tok))
         (snd (run_state (ConsumeEnrollmentToken now (en_ID tok)) s)))))"

lemma consume_ok:
  assumes "healthy s" "map_option scanEnrollmentToken (row_find et_token_hash hs (enrollment_tokens s)) = Some tok"
  shows "fst (run_state (ConsumeEnrollmentToken now (en_ID tok)) s) = Inr ()"
proof -
  from assms(2) obtain r where r: "r \<in> set (enrollment_tokens s)" "en_ID tok = et_id r"
    by (auto simp: scanEnrollmentToken_def dest: row_find_SomeD)
  then have "rows_affected (\<lambda>x. et_id x = en_ID tok) (enrollment_tokens s) \<noteq> 0"
    by (auto simp: rows_affected_zero)
  with assms(1) show ?thesis by (simp add: ConsumeEnrollmentToken_def)
qed

lemma finalize_run:
  assumes "healthy (db w)" "token_row X w u = Some tok"
    and "seal_for X (signed_for X (sv_JWTSecret (server w)) (rr_Hostname req) (new_uuid X (entropy w)) (clock w)
           (sv_JWTttl (server w))) (rr_PublicKeyPEM req) (Suc (entropy w)) = Some te"
  shows "\<exists>w'. run_state (finalize_enrollment X req tok) w =
      (Reply 200 (RegisterResponse te te (sv_PublicPEM (server w))), w')
    \<and> db w' = enrolled_db (clock w) (rr_Hostname req) (rr_PublicKeyPEM req) (new_uuid X (entropy w)) tok (db w)
    \<and> pendingNonces w' = pendingNonces w \<and> server w' = server w \<and> clock w' = clock w"
proof -
  have c: "fst (run_state (ConsumeEnrollmentToken (clock w) (en_ID tok)) (db w)) = Inr ()"
    using consume_ok [OF assms(1)] assms(2) by (simp add: token_row_def)
  have reg: "fst (run_state (store_RegisterAgent now h k j) s) = Inr h" if "healthy s" for now h k j s
    using that by (simp add: store_RegisterAgent_def)
  let ?s = "snd (run_state (AddAuthorizedKey (clock w) (rr_Hostname req) (rr_PublicKeyPEM req)
      (''enrollment_token:'' @ en_ID tok)) (snd (run_state (ConsumeEnrollmentToken (clock w) (en_ID tok)) (db w))))"
  have "healthy ?s" using assms(1) by simp
  from reg [OF this] assms c show ?thesis
    by (simp add: finalize_enrollment_def enrolled_db_def)
qed

lemma challenge_run:
  assumes "healthy (db w)" "token_verdict X (clock w) (rr_Hostname q) (token_row X w (rr_EnrollmentToken q)) = Inr tok"
    and "sv_PrivateKey (server w) = Some s" "rr_ChallengeResponse q = []"
    and "rand_bytes X 16 (entropy w) = Some nonce"
    and "seal_for X nonce (rr_PublicKeyPEM q) (Suc (entropy w)) = Some chal"
  shows "run_state (registerAgentWithToken X q) w =
    (Reply 200 (ChallengeResponse chal (sv_PublicPEM (server w))),
     w\<lparr>entropy := Suc (entropy w) + draws_for X (rr_PublicKeyPEM q),
       pendingNonces := mput (rr_Hostname q) \<lparr>pn_nonce = nonce, pn_token = rr_EnrollmentToken q,
         pn_expiresAt = clock w + nonceTTL\<rparr> (pendingNonces w)\<rparr>)"
  using assms by (simp add: registerAgentWithToken_def register_phase1_def)

lemma answer_run:
  assumes "healthy (db w)" "token_verdict X (clock w) (rr_Hostname q) (token_row X w (rr_EnrollmentToken q)) = Inr tok"
    and "sv_PrivateKey (server w) = Some s" "rr_ChallengeResponse q \<noteq> []"
    and "mget (pendingNonces w) (rr_Hostname q) = Some n" "clock w \<le> pn_expiresAt n"
    and "open_response X s (rr_ChallengeResponse q) = Inr (pn_nonce n @ pn_token n)"
  shows "run_state (registerAgentWithToken X q) w =
    run_state (finalize_enrollment X q tok) (w\<lparr>pendingNonces := mdel (rr_Hostname q) (pendingNonces w)\<rparr>)"
  using assms by (simp add: registerAgentWithToken_def register_phase2_def)

lemma enrolled_agent:
  assumes "healthy s"
  shows "\<exists>rec. agent_map (enrolled_db now h k jti tok s) h = Some rec \<and> ag_PublicKeyPEM rec = k
      \<and> ag_TokenJTI rec = jti"
    and "\<exists>row. row_find ak_Hostname h (authorized_keys (enrolled_db now h k jti tok s)) = Some row
      \<and> ak_PublicKeyPEM row = k"
  using assms
  by (auto simp: enrolled_db_def store_RegisterAgent_def AddAuthorizedKey_def agent_map_def row_find_upsert
      split: option.split)

text \<open>The token the server has just signed is accepted by the service built from its secrets.\<close>

lemma fresh_token_accepted:
  assumes "jwt_laws {sv_JWTSecret (server w)} (jwt_signer X) (jwt_parser X)" "sv_JWTSecret (server w) \<noteq> []" "h \<noteq> []"
    and "1000000000 \<le> sv_JWTttl (server w)"
  shows "auth_ExtractSub (jwt_parser X) (New_JWTService (GetServerJWTSecrets w) (sv_JWTttl (server w))) now
      (signed_for X (sv_JWTSecret (server w)) h jti now (sv_JWTttl (server w))) = Inr (h, False)"
proof -
  have "unix_sec now < unix_sec (now + sv_JWTttl (server w))"
    using assms(4) by (simp add: unix_sec_def)
  then have "jwt_parser X [''HS256''] (sv_JWTSecret (server w)) now
      (signed_for X (sv_JWTSecret (server w)) h jti now (sv_JWTttl (server w))) =
        Inr (agent_claims h jti now (sv_JWTttl (server w)))"
    using assms(1) by (simp add: jwt_laws_def signed_for_def)
  then show ?thesis
    using assms(2,3)
    by (simp add: ExtractSub_iff auth_jwt.accepts_iff auth_parseJWT_def GetServerJWTSecrets_def
        GetJWTSecrets_def) (simp add: agent_claims_def claim_string_def)
qed

text \<open>The answer to the challenge: what the agent sealed is opened, and the enrollment is finished.\<close>

lemma protocol_answer:
  assumes laws: "oaep_laws X" "healthy (db w)" "sv_PrivateKey (server w) = Some s" "key_text X a (rr_PublicKeyPEM q)"
    and sealing: "oaep_encrypt X (rsa_public X s) (nonce @ t) m = Some c2" "c2 \<noteq> []"
      "rr_ChallengeResponse q = EncodeToString c2" "rr_EnrollmentToken q = t"
    and state: "token_verdict X (clock w) (rr_Hostname q) (token_row X w t) = Inr tok"
      "mget (pendingNonces w) (rr_Hostname q) = Some \<lparr>pn_nonce = nonce, pn_token = t, pn_expiresAt = ex\<rparr>" "clock w \<le> ex"
    and seals: "\<And>jti. can_seal X a (signed_for X (sv_JWTSecret (server w)) (rr_Hostname q) jti (clock w) (sv_JWTttl (server w)))"
    and raw: "raw = signed_for X (sv_JWTSecret (server w)) (rr_Hostname q) (new_uuid X (entropy w)) (clock w) (sv_JWTttl (server w))"
  shows "\<exists>sealed w'. run_state (registerAgentWithToken X q) w =
      (Reply 200 (RegisterResponse sealed sealed (sv_PublicPEM (server w))), w') \<and> unseal X a sealed = Some raw
    \<and> db w' = enrolled_db (clock w) (rr_Hostname q) (rr_PublicKeyPEM q) (new_uuid X (entropy w)) tok (db w)
    \<and> pendingNonces w' = mdel (rr_Hostname q) (pendingNonces w) \<and> server w' = server w"
proof -
  let ?v = "w\<lparr>pendingNonces := mdel (rr_Hostname q) (pendingNonces w)\<rparr>"
  have "EncodeToString c2 \<noteq> []"
    using DecodeString_EncodeToString [of c2] sealing(2) by (auto simp: DecodeString_def skip_newlines_def)
  moreover have "open_response X s (EncodeToString c2) = Inr (nonce @ t)"
    using laws(1) sealing(1) by (auto simp: open_response_def DecodeString_EncodeToString oaep_laws_def)
  ultimately have run: "run_state (registerAgentWithToken X q) w = run_state (finalize_enrollment X q tok) ?v"
    using laws(2,3) sealing(3,4) state
    by (intro answer_run [where n = "\<lparr>pn_nonce = nonce, pn_token = t, pn_expiresAt = ex\<rparr>"]) simp_all
  have "token_row X ?v t = Some tok"
    using state(1) by (auto simp: token_verdict_def token_row_def split: option.splits if_splits)
  moreover obtain sealed where "seal_for X raw (rr_PublicKeyPEM q) (Suc (entropy w)) = Some sealed" "unseal X a sealed = Some raw"
    using seal_unseal [OF laws(1,4) seals] raw by blast
  ultimately show ?thesis
    using finalize_run [of ?v X t tok q sealed] laws(2) raw run by auto
qed

text \<open>An agent that follows the protocol is enrolled. Presenting a valid token it gets a
  challenge only its own key opens, to the nonce the server keeps; answering within the nonce's
  lifetime, with the nonce and the token sealed for the server's key, it gets its token, sealed for
  its own key; the server accepts that token for that host, has the agent and its key on record with
  the token's id, and has counted one more use of the enrollment token.\<close>

theorem protocol_enrolls:
  assumes laws: "oaep_laws X" "jwt_laws {sv_JWTSecret (server w)} (jwt_signer X) (jwt_parser X)"
    and state: "healthy (db w)" "registerStore_set w" "sv_PrivateKey (server w) = Some s"
      "sv_JWTSecret (server w) \<noteq> []" "1000000000 \<le> sv_JWTttl (server w)"
    and agent: "TrimSpace h = h" "h \<noteq> []" "TrimSpace pem = pk" "pk \<noteq> []" "key_text X a pk"
    and draws: "rand_bytes X 16 (entropy w) = Some nonce" "can_seal X a nonce"
      "\<And>jti. can_seal X a (signed_for X (sv_JWTSecret (server w)) h jti now2 (sv_JWTttl (server w)))"
    and token: "t \<noteq> []" "token_verdict X (clock w) h (token_row X w t) = Inr tok"
      "token_verdict X now2 h (token_row X w t) = Inr tok"
    and time: "now2 \<le> clock w + 60000000000"
    and phase1: "rq_Method r1 = ''POST''" "Option.bind (rq_Body r1) decode_RegisterRequest =
        Some \<lparr>rr_Hostname = h, rr_PublicKeyPEM = pem, rr_EnrollmentToken = t, rr_ChallengeResponse = []\<rparr>"
      "run_state (RegisterAgent X r1) w = (resp1, w1)"
    and phase2: "oaep_encrypt X (rsa_public X s) (nonce @ t) m = Some c2" "c2 \<noteq> []"
      "rq_Method r2 = ''POST''" "Option.bind (rq_Body r2) decode_RegisterRequest =
        Some \<lparr>rr_Hostname = h, rr_PublicKeyPEM = pem, rr_EnrollmentToken = t,
          rr_ChallengeResponse = EncodeToString c2\<rparr>"
      "run_state (RegisterAgent X r2) (w1\<lparr>clock := now2\<rparr>) = (resp2, w2)"
  shows "\<exists>chal sealed raw rec.
      resp1 = Reply 200 (ChallengeResponse chal (sv_PublicPEM (server w))) \<and> unseal X a chal = Some nonce
    \<and> resp2 = Reply 200 (RegisterResponse sealed sealed (sv_PublicPEM (server w))) \<and> unseal X a sealed = Some raw
    \<and> auth_ExtractSub (jwt_parser X) (New_JWTService (GetServerJWTSecrets w2) (sv_JWTttl (server w2))) now2 raw
        = Inr (h, False)
    \<and> agent_map (db w2) h = Some rec \<and> ag_PublicKeyPEM rec = pk
    \<and> raw = signed_for X (sv_JWTSecret (server w)) h (ag_TokenJTI rec) now2 (sv_JWTttl (server w))
    \<and> token_row X w2 t = Some (used_once_more now2 tok) \<and> mget (pendingNonces w2) h = None"
proof -
  let ?q = "\<lambda>pem c. \<lparr>rr_Hostname = h, rr_PublicKeyPEM = pem, rr_EnrollmentToken = t, rr_ChallengeResponse = c\<rparr>"
  have tr: "trimmed (?q pem c) = ?q pk c" for c using agent by (simp add: trimmed_def)
  obtain chal where chal: "seal_for X nonce pk (Suc (entropy w)) = Some chal" "unseal X a chal = Some nonce"
    using seal_unseal [OF laws(1) agent(5) draws(2)] by blast
  have "run_state (registerAgentWithToken X (?q pk [])) w = (resp1, w1)"
    using phase1(1,3) agent token(1) state(2) by (simp add: RegisterAgent_run [OF phase1(2)] tr)
  then have one: "resp1 = Reply 200 (ChallengeResponse chal (sv_PublicPEM (server w)))"
    "db w1 = db w" "server w1 = server w" "registerStore_set w1"
    "mget (pendingNonces w1) h = Some \<lparr>pn_nonce = nonce, pn_token = t, pn_expiresAt = clock w + nonceTTL\<rparr>"
    using state token draws(1) chal(1) by (auto simp: challenge_run [where q = "?q pk []"])
  let ?w = "w1\<lparr>clock := now2\<rparr>" and ?q2 = "?q pk (EncodeToString c2)"
  let ?raw = "signed_for X (sv_JWTSecret (server w)) h (new_uuid X (entropy w1)) now2 (sv_JWTttl (server w))"
  have "run_state (registerAgentWithToken X ?q2) ?w = (resp2, w2)"
    using phase2(3,5) agent token(1) one(4) by (simp add: RegisterAgent_run [OF phase2(4)] tr)
  moreover have "token_row X ?w t = token_row X w t" using one(2) by (simp add: token_row_def)
  ultimately obtain sealed where two: "resp2 = Reply 200 (RegisterResponse sealed sealed (sv_PublicPEM (server w)))"
      "unseal X a sealed = Some ?raw" "db w2 = enrolled_db now2 h pk (new_uuid X (entropy w1)) tok (db w)"
      "pendingNonces w2 = mdel h (pendingNonces w1)" "server w2 = server w"
    using protocol_answer [of X ?w s a ?q2 nonce t m c2 tok "clock w + nonceTTL" ?raw]
      laws(1) state(1,3) agent(5) phase2(1,2) token(3) time draws(3) one by (auto simp: nonceTTL_def)
  have accepted: "auth_ExtractSub (jwt_parser X) (New_JWTService (GetServerJWTSecrets w2) (sv_JWTttl (server w2)))
      now2 ?raw = Inr (h, False)"
    using fresh_token_accepted [of w2 X h now2] two(5) laws(2) state(4,5) agent(2) by simp
  obtain rec where rec: "agent_map (db w2) h = Some rec" "ag_PublicKeyPEM rec = pk"
      "ag_TokenJTI rec = new_uuid X (entropy w1)"
    using enrolled_agent(1) [OF state(1)] two(3) by metis
  have "token_row X w t = Some tok"
    using token(2) by (auto simp: token_verdict_def split: option.splits if_splits)
  then have "token_row X w2 t = Some (used_once_more now2 tok)"
    using consumed_row [OF _ consume_ok [OF state(1)], of "sha256Hex X t" tok "sha256Hex X t" now2] two(3)
    by (simp add: token_row_def enrolled_db_def)
  then show ?thesis
    using one(1) chal(2) two accepted rec by auto
qed

section \<open>The window between validation and use\<close>

lemma phase2_completes:
  assumes "healthy (db w)" "sv_PrivateKey (server w) = Some key" "answers X w q" "token_row X w u = Some tok"
    and "\<And>p n. seal_for X p (rr_PublicKeyPEM q) n \<noteq> None"
  shows "\<exists>te w'. run_state (register_phase2 X key q tok) w =
      (Reply 200 (RegisterResponse te te (sv_PublicPEM (server w))), w')
    \<and> db w' = enrolled_db (clock w) (rr_Hostname q) (rr_PublicKeyPEM q) (new_uuid X (entropy w)) tok (db w)
    \<and> pendingNonces w' = mdel (rr_Hostname q) (pendingNonces w) \<and> server w' = server w \<and> clock w' = clock w"
proof -
  let ?v = "w\<lparr>pendingNonces := mdel (rr_Hostname q) (pendingNonces w)\<rparr>"
  from assms(2,3) obtain n where n: "mget (pendingNonces w) (rr_Hostname q) = Some n" "clock w \<le> pn_expiresAt n"
    "open_response X key (rr_ChallengeResponse q) = Inr (pn_nonce n @ pn_token n)"
    by (auto simp: answers_def)
  then have run: "run_state (register_phase2 X key q tok) w = run_state (finalize_enrollment X q tok) ?v"
    by (simp add: register_phase2_def)
  obtain te where te: "seal_for X (signed_for X (sv_JWTSecret (server w)) (rr_Hostname q) (new_uuid X (entropy w))
      (clock w) (sv_JWTttl (server w))) (rr_PublicKeyPEM q) (Suc (entropy w)) = Some te"
    using assms(5) by fastforce
  have "token_row X ?v u = Some tok" using assms(4) by (simp add: token_row_def)
  from finalize_run [of ?v X u tok q te, OF _ this] assms(1) te show ?thesis
    by (auto simp: run)
qed

lemma enrolled_db_row:
  assumes "healthy (db w)" "token_row X w u = Some tok" "db w' = enrolled_db now h k jti tok (db w)"
  shows "token_row X w' u = Some (used_once_more now tok)"
  using consumed_row [OF _ consume_ok [OF assms(1)], of "sha256Hex X u" tok "sha256Hex X u" now] assms(2,3)
  by (simp add: token_row_def enrolled_db_def)


section \<open>An instance\<close>

definition example_key :: string where
  "example_key = spell ''PUBLIC KEY'' @ ''PA''"

lemma example_laws [simp]: "oaep_laws example_ext" "jwt_laws K (jwt_signer example_ext) (jwt_parser example_ext)"
  "key_text example_ext ''A'' example_key" "can_seal example_ext a p"
  by (simp_all add: oaep_laws_def example_ext_def toy_jwt_laws key_text_def example_key_def can_seal_def)

lemma example_texts [simp]: "TrimSpace ''web2'' = ''web2''" "TrimSpace example_key = example_key" "example_key \<noteq> []"
  by (simp_all add: TrimSpace_id example_key_def spell_def)

definition example_tok :: EnrollmentToken where
  "example_tok = stored_token (example_token\<lparr>en_TokenHash := hex_encode ''#tok'', en_HostnamePattern := ''web2''\<rparr>)"

lemma example_tok_row: "token_row example_ext example_world ''tok'' = Some example_tok"
  by (simp add: token_row_def example_world_def example_tok_def sha256Hex_def example_ext_def
      scan_enrollment_row_of) (simp add: enrollment_row_of_def)

lemma example_verdict: "now \<le> 9000000000 \<Longrightarrow>
    token_verdict example_ext now ''web2'' (Some example_tok) = Inr example_tok"
  by (simp add: token_verdict_def example_tok_def stored_token_def after_def example_token_def from_unix_def
      unix_sec_def PluginTokenCheckHostname_def example_ext_def)

lemma example_srv: "sv_PrivateKey (server example_world) = Some ''S''" "sv_JWTSecret (server example_world) = ''k1''"
  "sv_JWTttl (server example_world) = 3600000000000" "clock example_world = 5000000000" "entropy example_world = 0"
  by (simp_all add: example_world_def example_server_def)

definition example_nonce :: string where
  "example_nonce = replicate 16 (char_of (0::nat))"

definition example_register :: "string \<Rightarrow> request" where
  "example_register c = example_request\<lparr>rq_Method := ''POST'',
     rq_Body := Some (register_body ''web2'' example_key ''tok'' c)\<rparr>"

definition example_answer :: string where
  "example_answer = EncodeToString (spell ''PS'' @ example_nonce @ ''tok'')"

lemma example_answer [simp]: "example_answer \<noteq> []"
    "open_response example_ext ''S'' example_answer = Inr (example_nonce @ ''tok'')"
proof -
  show "open_response example_ext ''S'' example_answer = Inr (example_nonce @ ''tok'')"
    by (simp add: open_response_def example_answer_def DecodeString_EncodeToString example_ext_def)
  then show "example_answer \<noteq> []"
    by (auto simp: open_response_def DecodeString_def skip_newlines_def example_ext_def unspell_def)
qed

definition example_pending :: world where
  "example_pending = example_world\<lparr>pendingNonces :=
     [(''web2'', \<lparr>pn_nonce = example_nonce, pn_token = ''tok'', pn_expiresAt = 60000000000\<rparr>),
      (''web3'', \<lparr>pn_nonce = example_nonce, pn_token = ''tok'', pn_expiresAt = 60000000000\<rparr>)]\<rparr>"

lemma example_pending_simps [simp]:
  "db example_pending = db example_world" "server example_pending = server example_world"
  "clock example_pending = clock example_world" "entropy example_pending = entropy example_world"
  "registerStore_set example_pending" "token_row X example_pending u = token_row X example_world u"
  by (simp_all add: example_pending_def token_row_def)

lemma example_seal: "seal_for example_ext p example_key n \<noteq> None"
  by (simp add: seal_for_def example_ext_def)

abbreviation example_q where
  "example_q \<equiv> \<lparr>rr_Hostname = ''web2'', rr_PublicKeyPEM = example_key, rr_EnrollmentToken = ''tok'',
     rr_ChallengeResponse = example_answer\<rparr>"

lemma example_body: "Option.bind (rq_Body (example_register c)) decode_RegisterRequest =
    Some \<lparr>rr_Hostname = ''web2'', rr_PublicKeyPEM = example_key, rr_EnrollmentToken = ''tok'',
     rr_ChallengeResponse = c\<rparr>" "rq_Method (example_register c) = ''POST''"
  by (simp_all add: example_register_def decode_register_body)

lemma example_enrolls:
  "\<exists>te w'. run_state (RegisterAgent example_ext (example_register example_answer)) example_pending =
     (Reply 200 (RegisterResponse te te (sv_PublicPEM example_server)), w')"
proof -
  let ?w = "example_pending\<lparr>pendingNonces := mdel ''web2'' (pendingNonces example_pending)\<rparr>"
  have tr: "trimmed example_q = example_q" by (simp add: trimmed_def)
  have row: "token_row example_ext ?w ''tok'' = Some example_tok"
    using example_tok_row by (simp add: token_row_def)
  obtain te where te: "seal_for example_ext (signed_for example_ext ''k1'' ''web2'' (new_uuid example_ext 0) 5000000000
      3600000000000) example_key 1 = Some te"
    using example_seal by blast
  have "run_state (RegisterAgent example_ext (example_register example_answer)) example_pending =
      run_state (finalize_enrollment example_ext example_q example_tok) ?w"
    using answer_run [of example_pending example_ext example_q example_tok "''S''"
        "\<lparr>pn_nonce = example_nonce, pn_token = ''tok'', pn_expiresAt = 60000000000\<rparr>"]
    by (simp add: RegisterAgent_run [OF example_body(1)] example_body(2) tr example_tok_row example_verdict
        example_srv) (simp add: example_pending_def)
  with finalize_run [OF _ row, of example_q te] te show ?thesis
    by (auto simp: example_srv) (auto simp: example_world_def)
qed

lemma token_only_after_proof_witness:
  "agent_token example_ext example_pending example_q
     (case fst (run_state (RegisterAgent example_ext (example_register example_answer)) example_pending) of
        Reply c (JObj ((k, JStr t) # ps)) \<Rightarrow> t | _ \<Rightarrow> [])
   \<and> answers example_ext example_pending example_q"
proof -
  obtain te w' where run: "run_state (RegisterAgent example_ext (example_register example_answer)) example_pending =
     (Reply 200 (RegisterResponse te te (sv_PublicPEM example_server)), w')"
    using example_enrolls by blast
  have "trimmed example_q = example_q" by (simp add: trimmed_def)
  with token_only_after_proof [OF run] show ?thesis
    by (simp add: run example_body RegisterResponse_def)
qed



end
