(* ===== verification/Exec.thy ===== *)
theory Exec
  imports PluginAuth
begin

text \<open>
  Running tasks on agents (\<open>handlers/exec.go\<close>): the three endpoints that send a task over the agent's
  connection and wait for its result, and the results kept for polling. While a handler waits, other
  goroutines move the hub; what they do before the result is taken or the timer fires is the
  argument \<open>env\<close>, a list of hub events.
\<close>

section \<open>Requests\<close>

record ExecRequest =
  ex_TaskID :: "string option"
  ex_Cmd :: string
  ex_Stdin :: "string option"
  ex_Timeout :: int
  ex_Become :: bool
  ex_BecomeMethod :: string

definition decode_ExecRequest :: "json \<Rightarrow> ExecRequest option" where
  "decode_ExecRequest j =
     (case obj_pairs j of
        None \<Rightarrow> None
      | Some ps \<Rightarrow>
          (case (string_ptr_field ''task_id'' ps, string_field ''cmd'' ps, string_ptr_field ''stdin'' ps,
                 int_field ''timeout'' ps, bool_field ''become'' ps, string_field ''become_method'' ps) of
             (Some t, Some c, Some i, Some n, Some b, Some m) \<Rightarrow>
               Some \<lparr>ex_TaskID = t, ex_Cmd = c, ex_Stdin = i, ex_Timeout = n, ex_Become = b,
                 ex_BecomeMethod = m\<rparr>
           | _ \<Rightarrow> None))"

record UploadRequest =
  up_TaskID :: "string option"
  up_Dest :: string
  up_Data :: string
  up_Mode :: string

definition decode_UploadRequest :: "json \<Rightarrow> UploadRequest option" where
  "decode_UploadRequest j =
     (case obj_pairs j of
        None \<Rightarrow> None
      | Some ps \<Rightarrow>
          (case (string_ptr_field ''task_id'' ps, string_field ''dest'' ps, string_field ''data'' ps,
                 string_field ''mode'' ps) of
             (Some t, Some d, Some b, Some m) \<Rightarrow>
               Some \<lparr>up_TaskID = t, up_Dest = d, up_Data = b, up_Mode = m\<rparr>
           | _ \<Rightarrow> None))"

record FetchRequest =
  fe_TaskID :: "string option"
  fe_Src :: string

definition decode_FetchRequest :: "json \<Rightarrow> FetchRequest option" where
  "decode_FetchRequest j =
     (case obj_pairs j of
        None \<Rightarrow> None
      | Some ps \<Rightarrow>
          (case (string_ptr_field ''task_id'' ps, string_field ''src'' ps) of
             (Some t, Some s) \<Rightarrow> Some \<lparr>fe_TaskID = t, fe_Src = s\<rparr> | _ \<Rightarrow> None))"

definition fileMaxBytes :: nat where
  "fileMaxBytes = 500 * 1024"

definition timeoutMarginSec :: int where
  "timeoutMarginSec = 5"

text \<open>The validators return the error, or the request with its defaults filled in.\<close>

definition validateExecRequest :: "ExecRequest \<Rightarrow> string + ExecRequest" where
  "validateExecRequest req =
     (if TrimSpace (ex_Cmd req) = [] then Inl ''cmd must not be empty''
      else Inr (req\<lparr>ex_Timeout := (if ex_Timeout req \<le> 0 then 30 else ex_Timeout req),
                    ex_BecomeMethod := (if ex_BecomeMethod req = [] then ''sudo'' else ex_BecomeMethod req)\<rparr>))"

definition validateUploadRequest :: "UploadRequest \<Rightarrow> string + UploadRequest" where
  "validateUploadRequest req =
     (if TrimSpace (up_Dest req) = [] then Inl ''dest must not be empty''
      else if TrimSpace (up_Data req) = [] then Inl ''data must not be empty''
      else Inr (req\<lparr>up_Mode := (if up_Mode req = [] then ''0644'' else up_Mode req)\<rparr>))"

definition validateFetchRequest :: "FetchRequest \<Rightarrow> string + FetchRequest" where
  "validateFetchRequest req =
     (if TrimSpace (fe_Src req) = [] then Inl ''src must not be empty'' else Inr req)"

definition checkAgentOnline :: "string \<Rightarrow> hub \<Rightarrow> string option" where
  "checkAgentOnline hostname h =
     (if hostname = [] then Some ''hostname must not be empty''
      else case GetConnection hostname h of Inl _ \<Rightarrow> Some ''agent_offline'' | Inr _ \<Rightarrow> None)"

text \<open>A caller-supplied task id that is missing or empty is replaced by a new one.\<close>

definition choose_task_id :: "ext \<Rightarrow> string option \<Rightarrow> string io" where
  "choose_task_id X given =
     (case given of
        Some t \<Rightarrow> if t = [] then newTaskID X else State_Monad.return t
      | None \<Rightarrow> newTaskID X)"

section \<open>Sending a task and waiting\<close>

text \<open>
  The wait in nanoseconds, in 64-bit arithmetic. A timer of a non-positive duration fires at once.
\<close>

definition totalTimeout :: "int \<Rightarrow> int" where
  "totalTimeout timeout = wrap64 (wrap64 (timeout + timeoutMarginSec) * 1000000000)"

definition sendTaskAndWait ::
  "hub_event list \<Rightarrow> string \<Rightarrow> string \<Rightarrow> json \<Rightarrow> int \<Rightarrow> hub \<Rightarrow> (string + Message) \<times> hub" where
  "sendTaskAndWait env hostname taskID message timeout h =
     (let (ch, h) = RegisterFuture taskID hostname h
      in case SendToAgent hostname message h of
           (Some e, h) \<Rightarrow> (Inl (''send_failed: '' @ e), UnregisterFuture taskID h)
         | (None, h) \<Rightarrow>
             (let h = fold hub_step (if 0 < totalTimeout timeout then env else []) h
              in case WaitForResult ch h of
                   (Inr m, h) \<Rightarrow> (Inr m, h)
                 | (Inl _, h) \<Rightarrow> (Inl ''timeout'', UnregisterFuture taskID h)))"

definition writeAgentError :: "string \<Rightarrow> response" where
  "writeAgentError errStr =
     (if errStr = ''agent_disconnected'' then reply_error 503 ''agent_disconnected''
      else if errStr = ''agent_busy'' then reply_error 429 ''agent_busy''
      else reply_error 500 errStr)"

text \<open>What the three handlers do with the outcome; \<open>body\<close> is the success response.\<close>

definition task_response :: "(Message \<Rightarrow> json) \<Rightarrow> string + Message \<Rightarrow> response" where
  "task_response body outcome =
     (case outcome of
        Inl err \<Rightarrow>
          if Contains err ''timeout'' then reply_error 504 ''task_timeout'' else reply_error 503 err
      | Inr result \<Rightarrow>
          if ms_Error result \<noteq> [] then writeAgentError (ms_Error result)
          else Reply 200 (body result))"

section \<open>The endpoints\<close>

definition exec_message :: "string \<Rightarrow> ExecRequest \<Rightarrow> time \<Rightarrow> json" where
  "exec_message taskID req now =
     JObj ([(''task_id'', JStr taskID), (''type'', JStr ''exec''), (''cmd'', JStr (ex_Cmd req)),
        (''timeout'', JNum (ex_Timeout req)), (''become'', JBool (ex_Become req)),
        (''become_method'', JStr (ex_BecomeMethod req)),
        (''expires_at'', JNum (wrap64 (unix_sec now + ex_Timeout req)))]
      @ (case ex_Stdin req of None \<Rightarrow> [] | Some i \<Rightarrow> [(''stdin'', JStr i)]))"

definition exec_body :: "Message \<Rightarrow> json" where
  "exec_body m = JObj [(''rc'', JNum (ms_RC m)), (''stdout'', JStr (ms_Stdout m)),
     (''stderr'', JStr (ms_Stderr m)), (''truncated'', JBool (ms_Truncated m))]"

text \<open>\<open>POST /api/exec/{hostname}\<close>\<close>

definition ExecCommand :: "ext \<Rightarrow> hub_event list \<Rightarrow> request \<Rightarrow> response io" where
  "ExecCommand X env r = do {
     auth \<leftarrow> requirePluginAuth X r;
     case auth of
       Inl e \<Rightarrow> reply e
     | Inr _ \<Rightarrow>
         (let hostname = PathValue r ''hostname'' in
          case Option.bind (rq_Body r) decode_ExecRequest of
            None \<Rightarrow> reply (reply_error 400 ''invalid_json'')
          | Some req0 \<Rightarrow>
              (case validateExecRequest req0 of
                 Inl e \<Rightarrow> reply (reply_error 400 e)
               | Inr req \<Rightarrow> do {
                   h \<leftarrow> gets hb;
                   if checkAgentOnline hostname h \<noteq> None then reply (reply_error 503 ''agent_offline'')
                   else do {
                     taskID \<leftarrow> choose_task_id X (ex_TaskID req);
                     now \<leftarrow> gets clock;
                     outcome \<leftarrow> on_hub (sendTaskAndWait env hostname taskID
                       (exec_message taskID req now) (ex_Timeout req));
                     reply (task_response exec_body outcome)
                   }
                 }))
   }"

definition upload_message :: "string \<Rightarrow> UploadRequest \<Rightarrow> json" where
  "upload_message taskID req =
     JObj [(''task_id'', JStr taskID), (''type'', JStr ''put_file''), (''dest'', JStr (up_Dest req)),
       (''data'', JStr (up_Data req)), (''mode'', JStr (up_Mode req))]"

text \<open>\<open>POST /api/upload/{hostname}\<close>\<close>

definition UploadFile :: "ext \<Rightarrow> hub_event list \<Rightarrow> request \<Rightarrow> response io" where
  "UploadFile X env r = do {
     auth \<leftarrow> requirePluginAuth X r;
     case auth of
       Inl e \<Rightarrow> reply e
     | Inr _ \<Rightarrow>
         (let hostname = PathValue r ''hostname'' in
          case Option.bind (rq_Body r) decode_UploadRequest of
            None \<Rightarrow> reply (reply_error 400 ''invalid_json'')
          | Some req0 \<Rightarrow>
              (case validateUploadRequest req0 of
                 Inl e \<Rightarrow> reply (reply_error 400 e)
               | Inr req \<Rightarrow>
                   (case DecodeString (up_Data req) of
                      None \<Rightarrow> reply (reply_error 400 ''invalid_base64'')
                    | Some decoded \<Rightarrow>
                        if fileMaxBytes < length decoded then
                          reply (Reply 413 (JObj [(''error'', JStr ''payload_too_large''),
                            (''max_bytes'', JNum (int fileMaxBytes))]))
                        else do {
                          h \<leftarrow> gets hb;
                          if checkAgentOnline hostname h \<noteq> None then reply (reply_error 503 ''agent_offline'')
                          else do {
                            taskID \<leftarrow> choose_task_id X (up_TaskID req);
                            outcome \<leftarrow> on_hub (sendTaskAndWait env hostname taskID
                              (upload_message taskID req) 60);
                            reply (task_response (\<lambda>m. JObj [(''rc'', JNum (ms_RC m))]) outcome)
                          }
                        })))
   }"

definition fetch_message :: "string \<Rightarrow> FetchRequest \<Rightarrow> json" where
  "fetch_message taskID req =
     JObj [(''task_id'', JStr taskID), (''type'', JStr ''fetch_file''), (''src'', JStr (fe_Src req))]"

text \<open>\<open>POST /api/fetch/{hostname}\<close>\<close>

definition FetchFile :: "ext \<Rightarrow> hub_event list \<Rightarrow> request \<Rightarrow> response io" where
  "FetchFile X env r = do {
     auth \<leftarrow> requirePluginAuth X r;
     case auth of
       Inl e \<Rightarrow> reply e
     | Inr _ \<Rightarrow>
         (let hostname = PathValue r ''hostname'' in
          case Option.bind (rq_Body r) decode_FetchRequest of
            None \<Rightarrow> reply (reply_error 400 ''invalid_json'')
          | Some req0 \<Rightarrow>
              (case validateFetchRequest req0 of
                 Inl e \<Rightarrow> reply (reply_error 400 e)
               | Inr req \<Rightarrow> do {
                   h \<leftarrow> gets hb;
                   if checkAgentOnline hostname h \<noteq> None then reply (reply_error 503 ''agent_offline'')
                   else do {
                     taskID \<leftarrow> choose_task_id X (fe_TaskID req);
                     outcome \<leftarrow> on_hub (sendTaskAndWait env hostname taskID (fetch_message taskID req) 60);
                     reply (task_response
                       (\<lambda>m. JObj [(''rc'', JNum (ms_RC m)), (''data'', JStr (ms_Data m))]) outcome)
                   }
                 }))
   }"

text \<open>\<open>GET /api/async_status/{task_id}\<close> and the cache it reads.\<close>

definition result_field :: "string \<Rightarrow> (string \<times> json) list \<Rightarrow> json" where
  "result_field k result = mget_or JNull result k"

definition StoreResult :: "string \<Rightarrow> (string \<times> json) list \<Rightarrow> unit io" where
  "StoreResult taskID result =
     modify (\<lambda>w. w\<lparr>completedResults := mput taskID
       (JObj [(''rc'', result_field ''rc'' result), (''stdout'', result_field ''stdout'' result),
              (''stderr'', result_field ''stderr'' result), (''truncated'', result_field ''truncated'' result),
              (''status'', JStr ''finished'')]) (completedResults w)\<rparr>)"

definition AsyncStatus :: "request \<Rightarrow> response io" where
  "AsyncStatus r = do {
     let taskID = PathValue r ''task_id'';
     cached \<leftarrow> gets (\<lambda>w. mget (completedResults w) taskID);
     reply (case cached of
       Some (JObj result) \<Rightarrow>
         Reply 200 (JObj [(''task_id'', JStr taskID), (''status'', JStr ''finished''),
           (''rc'', result_field ''rc'' result), (''stdout'', result_field ''stdout'' result),
           (''stderr'', result_field ''stderr'' result), (''truncated'', result_field ''truncated'' result)])
     | _ \<Rightarrow> reply_error 404 ''task_not_found'')
   }"

end
