(* ===== verification/ExecSpec.thy ===== *)
theory ExecSpec
  imports Exec
begin

text \<open>
  What the task endpoints guarantee: nothing is sent for a request that is not authenticated or not
  valid, the first message delivered for a task decides its response, a handler leaves no future
  behind, and what the handlers do not look at.
\<close>

section \<open>One step of the hub and one task\<close>

definition same_future :: "string \<Rightarrow> hub \<Rightarrow> hub \<Rightarrow> bool" where
  "same_future t h h' \<longleftrightarrow> mget (pendingTasks h') t = None \<or> mget (pendingTasks h') t = mget (pendingTasks h) t"

lemma same_future_refl [simp]: "same_future t h h"
  by (simp add: same_future_def)

lemma same_future_trans: "same_future t h h' \<Longrightarrow> same_future t h' h'' \<Longrightarrow> same_future t h h''"
  by (auto simp: same_future_def)

lemma pending_conn_ops [simp]:
  "pendingTasks (snd (conn_write c f h)) = pendingTasks h"
  "pendingTasks (conn_fail c e h) = pendingTasks h"
  "pendingTasks (conn_close c h) = pendingTasks h"
  "pendingTasks (DispatchFunc e x s h) = pendingTasks h"
  "pendingTasks (RegisterConnection x c h) = pendingTasks h"
  "pendingTasks (snd (SendToAgent x m h)) = pendingTasks h"
  "pendingTasks (snd (try_receive ch h)) = pendingTasks h"
  by (auto simp: conn_write_def conn_fail_def conn_close_def DispatchFunc_def RegisterConnection_def
      SendToAgent_def GetConnection_def try_receive_def Let_def split: option.split sum.split list.split)

lemma chans_conn_ops [simp]:
  "chans (snd (conn_write c f h)) = chans h"
  "chans (conn_fail c e h) = chans h"
  "chans (conn_close c h) = chans h"
  "chans (DispatchFunc e x s h) = chans h"
  "chans (RegisterConnection x c h) = chans h"
  "chans (snd (SendToAgent x m h)) = chans h"
  by (auto simp: conn_write_def conn_fail_def conn_close_def DispatchFunc_def RegisterConnection_def
      SendToAgent_def GetConnection_def Let_def split: option.split sum.split)

lemma resolve_same_future: "same_future t h (ResolveFuturesForHostname x e h)"
  by (simp add: same_future_def ResolveFuturesForHostname_def resolve_all_maps)

lemma rekey_by_maps:
  "pendingTasks (snd (rekey_by m x h)) = pendingTasks h" "chans (snd (rekey_by m x h)) = chans h"
  using pending_conn_ops(6) [of x m h] chans_conn_ops(6) [of x m h]
  by (simp_all add: rekey_by_def split_beta)

lemma agent_open_maps:
  "pendingTasks (snd (agent_open (map_option rekey_by rk) x prev h)) = pendingTasks h"
  "chans (snd (agent_open (map_option rekey_by rk) x prev h)) = chans h"
  by (cases rk; simp add: agent_open_def Let_def split_beta rekey_by_maps)+

lemma UnregisterConnection_future: "same_future t h (UnregisterConnection x h)"
  using resolve_same_future [of t "DispatchFunc ''host.down'' x ''disconnected''
      (h\<lparr>wsConnections := mdel x (wsConnections h)\<rparr>)" x "''agent_disconnected''"]
  by (simp add: UnregisterConnection_def Let_def same_future_def)

lemma agent_exit_future: "same_future t h (agent_exit c x h)"
  using UnregisterConnection_future [of t h x]
  by (auto simp: agent_exit_def Let_def same_future_def split: option.split)

lemma HandleMessage_future: "same_future t h (HandleMessage m x h)"
  by (auto simp: HandleMessage_def same_future_def handle_result_settle settle_maps handle_stdout_def Let_def)

lemma CloseAgent_future: "same_future t h (snd (CloseAgent x code reason h))"
proof (cases "mget (wsConnections h) x")
  case (Some c)
  then show ?thesis
    using resolve_same_future [of t "conn_close c (snd (conn_write c (CloseFrame code reason)
        (h\<lparr>wsConnections := mdel x (wsConnections h)\<rparr>)))" x "''agent_revoked''"]
    by (simp add: CloseAgent_def Let_def same_future_def)
qed (simp add: CloseAgent_def)

lemma step_future:
  assumes "\<And>x. e \<noteq> EvRegisterFuture t x"
  shows "same_future t h (hub_step e h)"
proof (cases e)
  case (EvOpen x prev rk)
  then show ?thesis by (simp add: same_future_def agent_open_maps)
next
  case (EvRead c i)
  then show ?thesis
    by (auto simp: agent_read_def agent_exit_future HandleMessage_future split: option.split)
next
  case (EvRegisterFuture t' x)
  with assms show ?thesis
    by (auto simp: RegisterFuture_def make_chan_def Let_def same_future_def)
next
  case (EvCloseAgent x code reason)
  then show ?thesis by (simp add: CloseAgent_future)
qed (auto simp: same_future_def UnregisterFuture_forget)

lemma steps_future:
  "(\<And>e x. e \<in> set es \<Longrightarrow> e \<noteq> EvRegisterFuture t x) \<Longrightarrow> same_future t h (fold hub_step es h)"
proof (induction es arbitrary: h)
  case (Cons e es)
  then have "same_future t h (hub_step e h)" by (intro step_future) auto
  moreover have "same_future t (hub_step e h) (fold hub_step es (hub_step e h))"
    using Cons by auto
  ultimately show ?case using same_future_trans by simp
qed simp

lemma reachable_fold: "hub_reachable h \<Longrightarrow> hub_reachable (fold hub_step es h)"
  by (induction es arbitrary: h) (auto intro: hub_reachable.step)

section \<open>Sending\<close>

text \<open>The parts of a send: the future, the outcome of the write, and the state the wait starts in.\<close>

definition sent :: "string \<Rightarrow> string \<Rightarrow> json \<Rightarrow> hub \<Rightarrow> nat \<times> string option \<times> hub" where
  "sent x t m h = (let (ch, h) = RegisterFuture t x h; (e, h) = SendToAgent x m h in (ch, e, h))"

lemma sent_run:
  "sent x t m h = (fst (RegisterFuture t x h), fst (SendToAgent x m (snd (RegisterFuture t x h))),
     snd (SendToAgent x m (snd (RegisterFuture t x h))))"
  by (simp add: sent_def split_beta)

lemma sent_facts:
  assumes "hub_reachable h" "sent x t m h = (ch, e, h')"
  shows "hub_reachable h'" "mget (pendingTasks h') t = Some ch" "mget (chans h') ch = Some []"
proof -
  have "hub_reachable (hub_step (EvSend x m) (hub_step (EvRegisterFuture t x) h))"
    using assms(1) by (intro hub_reachable.step)
  then show "hub_reachable h'" using assms(2) by (simp add: sent_run)
  have h': "h' = snd (SendToAgent x m (snd (RegisterFuture t x h)))" "ch = fst (RegisterFuture t x h)"
    using assms(2) by (simp_all add: sent_run)
  show "mget (pendingTasks h') t = Some ch" "mget (chans h') ch = Some []"
    unfolding h' pending_conn_ops chans_conn_ops by (simp_all add: RegisterFuture_def make_chan_def Let_def)
qed

lemma sendTaskAndWait_sent:
  assumes "sent x t m h = (ch, e, h1)"
  shows "sendTaskAndWait env x t m n h =
    (case e of
       Some err \<Rightarrow> (Inl (''send_failed: '' @ err), UnregisterFuture t h1)
     | None \<Rightarrow>
         (let h2 = fold hub_step (if 0 < totalTimeout n then env else []) h1
          in case try_receive ch h2 of
               (Some r, h3) \<Rightarrow> (Inr r, h3)
             | (None, h3) \<Rightarrow> (Inl ''timeout'', UnregisterFuture t h3)))"
  using assms
  by (auto simp: sendTaskAndWait_def sent_def WaitForResult_def Let_def split: prod.splits option.splits)

text \<open>C22: A handler that sends a task leaves no future behind: whether the write fails, the result
  comes or the timer fires, and whatever else happens on the hub meanwhile (short of another
  registration of the same task id), the task is no longer pending afterwards, a failed or timed-out
  task has no host and no buffer either, and the hub is again in a reachable state.\<close>

theorem task_leaves_no_future:
  assumes "hub_reachable h" and "\<forall>e\<in>set env. \<forall>y. e \<noteq> EvRegisterFuture t y"
    and "sendTaskAndWait env x t m n h = (outcome, h')"
  shows "hub_reachable h' \<and> mget (pendingTasks h') t = None
    \<and> (isl outcome \<longrightarrow> mget (taskHostnames h') t = None \<and> mget (stdoutBuffers h') t = None)"
proof -
  obtain ch e h1 where s: "sent x t m h = (ch, e, h1)" by (cases "sent x t m h") auto
  note h1 = sent_facts [OF assms(1) s]
  have un: "hub_reachable (UnregisterFuture t g)" if "hub_reachable g" for g
    using hub_reachable.step [OF that, of "EvUnregisterFuture t"] by simp
  show ?thesis
  proof (cases e)
    case (Some err)
    with assms(3) un [OF h1(1)] show ?thesis
      by (auto simp: sendTaskAndWait_sent [OF s] UnregisterFuture_forget)
  next
    case None
    define h2 where "h2 = fold hub_step (if 0 < totalTimeout n then env else []) h1"
    have r2: "hub_reachable h2" unfolding h2_def by (rule reachable_fold [OF h1(1)])
    have "same_future t h1 h2"
      unfolding h2_def by (rule steps_future) (use assms(2) in \<open>auto split: if_splits\<close>)
    then have p2: "mget (pendingTasks h2) t = None \<or> mget (pendingTasks h2) t = Some ch"
      using h1(2) by (simp add: same_future_def)
    have r3: "hub_reachable (snd (try_receive ch h2))"
      using hub_reachable.step [OF r2, of "EvReceive ch"] by simp
    show ?thesis
    proof (cases "fst (try_receive ch h2)")
      case None
      then obtain h3 where 3: "try_receive ch h2 = (None, h3)" by (cases "try_receive ch h2") auto
      with assms(3) \<open>e = None\<close> un [of h3] r3 show ?thesis
        by (auto simp: sendTaskAndWait_sent [OF s] h2_def [symmetric] UnregisterFuture_forget)
    next
      case (Some r)
      then obtain h3 where 3: "try_receive ch h2 = (Some r, h3)" by (cases "try_receive ch h2") auto
      then have "mget (chans h2) ch \<noteq> Some []" by (auto simp: try_receive_def)
      then have "mget (pendingTasks h2) t = None"
        using p2 pending_facts(1) [OF reachable_inv [OF r2]] by blast
      moreover have "pendingTasks h3 = pendingTasks h2" using pending_conn_ops(7) [of ch h2] 3 by simp
      ultimately show ?thesis
        using assms(3) \<open>e = None\<close> 3 r3
        by (auto simp: sendTaskAndWait_sent [OF s] h2_def [symmetric])
    qed
  qed
qed

section \<open>The first message wins\<close>

text \<open>The first message to reach a channel along a list of events.\<close>

fun first_delivery :: "nat \<Rightarrow> hub_event list \<Rightarrow> hub \<Rightarrow> Message option" where
  "first_delivery ch [] h = (case mget (chans h) ch of Some (m # _) \<Rightarrow> Some m | _ \<Rightarrow> None)"
| "first_delivery ch (e # es) h =
     (case mget (chans h) ch of
        Some (m # _) \<Rightarrow> Some m
      | _ \<Rightarrow> first_delivery ch es (hub_step e h))"

lemma full_not_pending:
  "hub_inv h \<Longrightarrow> mget (chans h) ch = Some [m] \<Longrightarrow> mget (pendingTasks h) t \<noteq> Some ch"
  using pending_facts(1) by fastforce

lemma chans_resolve_full:
  "hub_inv h \<Longrightarrow> mget (chans h) ch = Some [m] \<Longrightarrow> mget (chans (ResolveFuturesForHostname x e h)) ch = Some [m]"
  unfolding ResolveFuturesForHostname_def
  by (subst resolve_all_other) (auto dest: full_not_pending)

lemma chans_upd [simp]:
  "mget (chans (h\<lparr>conns := cs\<rparr>)) ch = mget (chans h) ch"
  by simp

lemma UnregisterConnection_full:
  assumes "hub_inv h" "mget (chans h) ch = Some [m]"
  shows "mget (chans (UnregisterConnection x h)) ch = Some [m]"
  unfolding UnregisterConnection_def Let_def
  using assms by (intro chans_resolve_full DispatchFunc_inv) (auto simp: hub_inv_def conns_inv_remove)

lemma agent_exit_full:
  "hub_inv h \<Longrightarrow> mget (chans h) ch = Some [m] \<Longrightarrow> mget (chans (agent_exit c x h)) ch = Some [m]"
  using UnregisterConnection_full by (simp add: agent_exit_def Let_def split: option.split)

lemma HandleMessage_full:
  "hub_inv h \<Longrightarrow> mget (chans h) ch = Some [m] \<Longrightarrow> mget (chans (HandleMessage msg x h)) ch = Some [m]"
  using full_not_pending
  by (auto simp: HandleMessage_def handle_result_settle settle_chans handle_stdout_def Let_def)

lemma step_full:
  assumes "hub_inv h" "mget (chans h) ch = Some [m]" "e \<noteq> EvReceive ch"
  shows "mget (chans (hub_step e h)) ch = Some [m]"
proof (cases e)
  case (EvOpen x prev rk)
  with assms show ?thesis by (simp add: agent_open_maps)
next
  case (EvRead c i)
  with assms show ?thesis
    by (auto simp: agent_read_def agent_exit_full HandleMessage_full split: option.split)
next
  case (EvRegisterFuture t x)
  with assms show ?thesis
    by (auto simp: RegisterFuture_def make_chan_def Let_def hub_inv_def futures_inv_def)
next
  case (EvUnregisterFuture t)
  with assms show ?thesis by (simp add: UnregisterFuture_forget)
next
  case (EvReceive ch')
  with assms show ?thesis by (auto simp: try_receive_def split: option.split list.split)
next
  case (EvCloseAgent x code reason)
  have "hub_inv (h\<lparr>wsConnections := mdel x (wsConnections h)\<rparr>)"
    using assms(1) by (simp add: hub_inv_def conns_inv_remove)
  with assms EvCloseAgent show ?thesis
    by (auto simp: CloseAgent_def Let_def split: option.split
        intro!: chans_resolve_full conn_close_inv conn_write_inv)
qed (use assms in auto)

lemma steps_full:
  "hub_inv h \<Longrightarrow> mget (chans h) ch = Some [m] \<Longrightarrow> EvReceive ch \<notin> set es \<Longrightarrow>
   mget (chans (fold hub_step es h)) ch = Some [m]"
proof (induction es arbitrary: h)
  case (Cons e es)
  then have "mget (chans (hub_step e h)) ch = Some [m]" by (intro step_full) auto
  with Cons show ?case by (simp add: hub_step_inv)
qed simp

lemma first_delivery_received:
  "hub_inv h \<Longrightarrow> EvReceive ch \<notin> set es \<Longrightarrow>
   fst (try_receive ch (fold hub_step es h)) = first_delivery ch es h"
proof (induction es arbitrary: h)
  case Nil
  then show ?case by (auto simp: try_receive_def split: option.split list.split)
next
  case (Cons e es)
  show ?case
  proof (cases "\<exists>m ms. mget (chans h) ch = Some (m # ms)")
    case True
    then obtain m ms where m: "mget (chans h) ch = Some (m # ms)" by blast
    then have "length (m # ms) \<le> 1"
      using Cons.prems(1) unfolding hub_inv_def futures_inv_def by blast
    with m have "mget (chans h) ch = Some [m]" by simp
    from steps_full [OF Cons.prems(1) this Cons.prems(2)] this show ?thesis
      by (simp add: try_receive_def)
  next
    case False
    then have "first_delivery ch (e # es) h = first_delivery ch es (hub_step e h)"
      by (cases "mget (chans h) ch") (auto split: list.split)
    with Cons show ?thesis by (simp add: hub_step_inv)
  qed
qed

text \<open>Once a task has been written to the agent's connection, its outcome is the first message
  that reaches its channel before the timer fires, whatever other events come before or after it;
  if none does, the outcome is the timeout. A wait that 64-bit arithmetic turns non-positive times
  out at once.\<close>

theorem first_message_decides:
  assumes "hub_reachable h" and "sent x t m h = (ch, None, h1)" and "EvReceive ch \<notin> set env"
  shows "fst (sendTaskAndWait env x t m n h) =
    (case first_delivery ch (if 0 < totalTimeout n then env else []) h1 of
       Some r \<Rightarrow> Inr r
     | None \<Rightarrow> Inl ''timeout'')"
proof -
  define es where "es = (if 0 < totalTimeout n then env else [])"
  have "fst (try_receive ch (fold hub_step es h1)) = first_delivery ch es h1"
    by (rule first_delivery_received [OF reachable_inv [OF sent_facts(1) [OF assms(1,2)]]])
      (use assms(3) in \<open>simp add: es_def\<close>)
  moreover have "fst (sendTaskAndWait env x t m n h) =
      (case fst (try_receive ch (fold hub_step es h1)) of Some r \<Rightarrow> Inr r | None \<Rightarrow> Inl ''timeout'')"
    unfolding sendTaskAndWait_sent [OF assms(2)] Let_def es_def [symmetric]
    by (auto split: prod.split option.split)
  ultimately show ?thesis by (simp add: es_def)
qed

section \<open>What the endpoints do and do not check\<close>

definition task_id_of :: "ext \<Rightarrow> string option \<Rightarrow> nat \<Rightarrow> string \<times> nat" where
  "task_id_of X given n =
     (case given of
        Some t \<Rightarrow> if t = [] then (new_uuid X n, Suc n) else (t, n)
      | None \<Rightarrow> (new_uuid X n, Suc n))"

lemma choose_task_id_run [simp]:
  "run_state (choose_task_id X given) w =
     (fst (task_id_of X given (entropy w)), w\<lparr>entropy := snd (task_id_of X given (entropy w))\<rparr>)"
  by (simp add: choose_task_id_def task_id_of_def split: option.split)

text \<open>A handler behind authentication: refused, or continued from the state with the audit written.\<close>

lemma after_auth:
  assumes "adminStore_set w"
  shows "(\<exists>e w1. run_state (requirePluginAuth X r) w = (Inl e, w1) \<and> hb w1 = hb w \<and> status e \<in> {401, 403, 500})
    \<or> (\<exists>res d h row. run_state (requirePluginAuth X r) w = (Inr res, w\<lparr>db := d\<rparr>)
        \<and> presented X r = Some h \<and> row_find pt_token_hash h (plugin_tokens (db w)) = Some row
        \<and> plugin_allows X (clock w) r (scanPluginToken row))"
proof (cases "presented X r")
  case (Some h)
  show ?thesis
  proof (cases "row_find pt_token_hash h (plugin_tokens (db w))")
    case None
    with Some assms show ?thesis by (simp add: requirePluginAuth_run Let_def)
  next
    case (Some row)
    with \<open>presented X r = Some h\<close> assms show ?thesis
      using refusal_403 [of X "clock w" r "scanPluginToken row"] refusal_None [of X "clock w" r "scanPluginToken row"]
      by (cases "refusal X (clock w) r (scanPluginToken row)") (auto simp: requirePluginAuth_run Let_def)
  qed
qed (use assms in \<open>simp add: requirePluginAuth_run\<close>)

text \<open>The three endpoints as one function, for statements about all of them.\<close>

datatype task_endpoint = Exec | Upload | Fetch

fun run_endpoint :: "task_endpoint \<Rightarrow> ext \<Rightarrow> hub_event list \<Rightarrow> request \<Rightarrow> response io" where
  "run_endpoint Exec = ExecCommand"
| "run_endpoint Upload = UploadFile"
| "run_endpoint Fetch = FetchFile"

lemma endpoint_refused:
  "run_state (requirePluginAuth X r) w = (Inl e, w1) \<Longrightarrow> run_state (run_endpoint k X env r) w = (e, w1)"
  by (cases k) (simp_all add: ExecCommand_def UploadFile_def FetchFile_def)

text \<open>The hub only moves, so a task only reaches an agent, for a request that passes plugin
  authentication: when the token is missing, unknown, revoked, expired or not allowed from there,
  every task endpoint answers 401, 403 or 500 and leaves the hub as it was.\<close>

theorem no_task_without_auth:
  assumes "adminStore_set w"
    and "\<not> (\<exists>h row. presented X r = Some h \<and> row_find pt_token_hash h (plugin_tokens (db w)) = Some row
           \<and> plugin_allows X (clock w) r (scanPluginToken row))"
    and "run_state (run_endpoint k X env r) w = (resp, w')"
  shows "hb w' = hb w \<and> status resp \<in> {401, 403, 500}"
  using after_auth [OF assms(1), of X r] assms(2,3) endpoint_refused [of X r w _ _ k env] by auto

text \<open>What the endpoints read of the state besides authentication: the hub, the clock, the draws.\<close>

definition alike :: "world \<Rightarrow> world \<Rightarrow> bool" where
  "alike w w' \<longleftrightarrow> hb w = hb w' \<and> entropy w = entropy w' \<and> clock w = clock w' \<and> completedResults w = completedResults w'"

lemma endpoint_alike:
  assumes "run_state (requirePluginAuth X r) w = (Inr a, v)" "run_state (requirePluginAuth X r) w' = (Inr a', v')"
    and "alike v v'"
  shows "fst (run_state (run_endpoint k X env r) w) = fst (run_state (run_endpoint k X env r) w')
    \<and> alike (snd (run_state (run_endpoint k X env r) w)) (snd (run_state (run_endpoint k X env r) w'))
    \<and> completedResults (snd (run_state (run_endpoint k X env r) w)) = completedResults v"
  using assms
  by (cases k) (auto simp: ExecCommand_def UploadFile_def FetchFile_def alike_def Let_def split: option.split sum.split)

lemma auth_with_agents:
  "run_state (requirePluginAuth X r) (w\<lparr>db := (db w)\<lparr>agents := as\<rparr>\<rparr>) =
     (let (res, v) = run_state (requirePluginAuth X r) w in (res, v\<lparr>db := (db v)\<lparr>agents := as\<rparr>\<rparr>))"
  by (auto simp: requirePluginAuth_run Let_def tick_def faulty_def TouchPluginToken_def
      split: option.split sum.split)

text \<open>C40: The task endpoints never look at the agents table: for every request, state and course of
  events, changing the table, the suspended flags included, changes neither the response nor what
  happens on the hub. A suspended agent runs tasks like any other.\<close>

theorem suspension_has_no_effect:
  "fst (run_state (run_endpoint k X env r) (w\<lparr>db := (db w)\<lparr>agents := as\<rparr>\<rparr>)) =
     fst (run_state (run_endpoint k X env r) w)
   \<and> hb (snd (run_state (run_endpoint k X env r) (w\<lparr>db := (db w)\<lparr>agents := as\<rparr>\<rparr>))) =
     hb (snd (run_state (run_endpoint k X env r) w))"
proof -
  let ?w' = "w\<lparr>db := (db w)\<lparr>agents := as\<rparr>\<rparr>"
  obtain res v where v: "run_state (requirePluginAuth X r) w = (res, v)" by fastforce
  then have v': "run_state (requirePluginAuth X r) ?w' = (res, v\<lparr>db := (db v)\<lparr>agents := as\<rparr>\<rparr>)"
    by (simp add: auth_with_agents)
  show ?thesis
  proof (cases res)
    case (Inl e)
    with v v' show ?thesis by (simp add: endpoint_refused)
  next
    case (Inr a)
    have "alike (v\<lparr>db := (db v)\<lparr>agents := as\<rparr>\<rparr>) v" by (simp add: alike_def)
    from endpoint_alike [OF v' [unfolded Inr] v [unfolded Inr] this, of k env] show ?thesis
      by (simp add: alike_def)
  qed
qed

text \<open>No task ever becomes visible to polling: the endpoints leave the cache of completed
  results as it was, so from a server whose cache is empty the status of every task, finished or
  not, is 404.\<close>

theorem async_status_never_finished:
  assumes "completedResults w = []"
    and "w' = fold (\<lambda>(k, env, r) w. snd (run_state (run_endpoint k X env r) w)) calls w"
  shows "run_state (AsyncStatus q) w' = (reply_error 404 ''task_not_found'', w')"
proof -
  have keep: "completedResults (snd (run_state (run_endpoint k X env r) w)) = completedResults w" for k env r w
  proof -
    obtain res v where v: "run_state (requirePluginAuth X r) w = (res, v)" by fastforce
    have cv: "completedResults v = completedResults w"
      using v by (auto simp: requirePluginAuth_run Let_def split: option.splits if_splits)
    show ?thesis
    proof (cases res)
      case (Inl e)
      with v cv show ?thesis by (simp add: endpoint_refused)
    next
      case (Inr a)
      with v endpoint_alike [of X r w a v w a v k env] cv show ?thesis by (simp add: alike_def)
    qed
  qed
  have "completedResults (fold (\<lambda>(k, env, r) w. snd (run_state (run_endpoint k X env r) w)) calls w) =
      completedResults w"
    by (induction calls arbitrary: w) (auto simp: keep)
  then show ?thesis using assms by (simp add: AsyncStatus_def Let_def)
qed

text \<open>A file is sent to an agent only if its content is valid base64 of at most 512000 bytes:
  for every other upload the hub does not move and the response is an error.\<close>

theorem upload_size_enforced:
  assumes "run_state (UploadFile X env r) w = (resp, w')" and "hb w' \<noteq> hb w"
  shows "\<exists>req d. Option.bind (rq_Body r) decode_UploadRequest = Some req
    \<and> DecodeString (up_Data req) = Some d \<and> length d \<le> 512000"
proof -
  obtain res v where v: "run_state (requirePluginAuth X r) w = (res, v)" by fastforce
  have hv: "hb v = hb w"
    using v by (auto simp: requirePluginAuth_run Let_def split: option.splits if_splits)
  show ?thesis
  proof (cases res)
    case (Inl e)
    with assms v hv show ?thesis by (simp add: UploadFile_def)
  next
    case (Inr a)
    with assms v hv show ?thesis
      by (auto simp: UploadFile_def fileMaxBytes_def validateUploadRequest_def Let_def
          split: option.splits sum.splits if_splits)
  qed
qed

section \<open>A command from request to response\<close>

text \<open>The agent streams output, then reports: the messages as the hub handles them.\<close>

definition streams :: "string \<Rightarrow> json \<Rightarrow> string \<Rightarrow> bool" where
  "streams t j chunk \<longleftrightarrow> (\<exists>m. decode_Message j = Some m \<and> ms_TaskID m = t \<and> ms_Type m = ''stdout'' \<and> ms_Chunk m = chunk)"

lemma read_message:
  assumes "mget (conns h) c = Some cn" "cn_Reading cn" "decode_Message j = Some m"
  shows "hub_step (EvRead c (Some j)) h = HandleMessage m (cn_Hostname cn) h"
  using assms by (simp add: agent_read_def)

lemma HandleMessage_conns [simp]: "conns (HandleMessage m x h) = conns h"
  "stdoutMaxBytes (HandleMessage m x h) = stdoutMaxBytes h"
  by (auto simp: HandleMessage_def handle_result_settle settle_def forget_def try_send_def handle_stdout_def
      Let_def split: option.split list.split)

lemma stdout_read:
  assumes "mget (conns h) c = Some cn" "cn_Reading cn" "streams t j chunk" "t \<noteq> []"
    and "length (mget_or [] (stdoutBuffers h) t @ chunk) \<le> stdoutMaxBytes h"
  defines "h' \<equiv> hub_step (EvRead c (Some j)) h"
  shows "conns h' = conns h" "stdoutMaxBytes h' = stdoutMaxBytes h" "pendingTasks h' = pendingTasks h"
    "mget_or [] (stdoutBuffers h') t = mget_or [] (stdoutBuffers h) t @ chunk"
proof -
  obtain m where m: "decode_Message j = Some m" "ms_TaskID m = t" "ms_Type m = ''stdout''" "ms_Chunk m = chunk"
    using assms(3) by (auto simp: streams_def)
  have "h' = HandleMessage m (cn_Hostname cn) h"
    unfolding h'_def by (rule read_message [OF assms(1,2) m(1)])
  with m assms(4,5) show "conns h' = conns h" "stdoutMaxBytes h' = stdoutMaxBytes h" "pendingTasks h' = pendingTasks h"
    "mget_or [] (stdoutBuffers h') t = mget_or [] (stdoutBuffers h) t @ chunk"
    by (simp_all add: HandleMessage_def handle_stdout_def Let_def mget_or_def cap_stdout_def)
qed

lemma stream_reads:
  assumes "list_all2 (streams t) js chunks" "t \<noteq> []" "mget (conns h) c = Some cn" "cn_Reading cn"
    and "length (mget_or [] (stdoutBuffers h) t @ concat chunks) \<le> stdoutMaxBytes h"
  defines "h' \<equiv> fold hub_step (map (\<lambda>j. EvRead c (Some j)) js) h"
  shows "conns h' = conns h \<and> pendingTasks h' = pendingTasks h
    \<and> mget_or [] (stdoutBuffers h') t = mget_or [] (stdoutBuffers h) t @ concat chunks"
  using assms(1,3,5) unfolding h'_def
proof (induction js chunks arbitrary: h rule: list_all2_induct)
  case (Cons j js chunk chunks)
  note step = stdout_read [OF Cons.prems(1) assms(4) Cons.hyps(1) assms(2)]
  have "length (mget_or [] (stdoutBuffers h) t @ chunk) \<le> stdoutMaxBytes h" using Cons.prems(2) by simp
  note step = step [OF this]
  from Cons.IH [of "hub_step (EvRead c (Some j)) h"] Cons.prems step show ?case by simp
qed simp

text \<open>C1: An authenticated command for an online agent, under a task id the hub knows nothing of,
  whose agent streams its output in chunks within the limit and then reports without repeating the
  output: the caller gets 200 with the agent's return code and stderr and, as stdout, exactly the
  concatenation of the chunks; and the hub has forgotten the task.\<close>

theorem command_end_to_end:
  assumes "run_state (requirePluginAuth X r) w = (Inr a, v)" and "hub_reachable (hb w)"
    and "Option.bind (rq_Body r) decode_ExecRequest = Some req0" "validateExecRequest req0 = Inr req"
    and "x = PathValue r ''hostname''" "x \<noteq> []" "GetConnection x (hb w) = Inr c"
    and "mget (conns (hb w)) c = Some cn" "cn_Reading cn" "cn_Broken cn = None"
    and "t = fst (task_id_of X (ex_TaskID req) (entropy v))" "t \<noteq> []" "mget (stdoutBuffers (hb w)) t = None"
    and "0 < totalTimeout (ex_Timeout req)"
    and "list_all2 (streams t) js chunks" "length (concat chunks) \<le> stdoutMaxBytes (hb w)"
    and "decode_Message j = Some m" "ms_TaskID m = t" "ms_Type m = ''result''" "ms_Stdout m = []" "ms_Error m = []"
    and "env = map (\<lambda>j. EvRead c (Some j)) js @ [EvRead c (Some j)]"
    and "run_state (ExecCommand X env r) w = (resp, w')"
  shows "resp = Reply 200 (exec_body (m\<lparr>ms_Stdout := concat chunks\<rparr>))
    \<and> mget (pendingTasks (hb w')) t = None \<and> mget (stdoutBuffers (hb w')) t = None"
proof -
  have hv: "hb v = hb w"
    using assms(1) by (auto simp: requirePluginAuth_run Let_def split: option.splits if_splits)
  let ?msg = "exec_message t req (clock v)"
  obtain ch e h1 where s: "sent x t ?msg (hb w) = (ch, e, h1)" by (cases "sent x t ?msg (hb w)") auto
  have e: "e = None" and h1: "stdoutBuffers h1 = stdoutBuffers (hb w)" "stdoutMaxBytes h1 = stdoutMaxBytes (hb w)"
      "\<exists>cn'. mget (conns h1) c = Some cn' \<and> cn_Reading cn'"
    using s assms(7-10)
    by (auto simp: sent_run RegisterFuture_def make_chan_def SendToAgent_def GetConnection_def conn_write_def
        Let_def split: option.splits)
  then obtain cn' where cn': "mget (conns h1) c = Some cn'" "cn_Reading cn'" by blast
  define h2 where "h2 = fold hub_step (map (\<lambda>j. EvRead c (Some j)) js) h1"
  have buf: "mget_or [] (stdoutBuffers h1) t = []" using h1(1) assms(13) by (simp add: mget_or_def)
  have h2: "conns h2 = conns h1" "pendingTasks h2 = pendingTasks h1" "mget_or [] (stdoutBuffers h2) t = concat chunks"
    using stream_reads [OF assms(15,12) cn', folded h2_def] buf h1(2) assms(16) by auto
  have r2: "hub_reachable h2"
    unfolding h2_def by (rule reachable_fold [OF sent_facts(1) [OF assms(2) s]])
  let ?m = "with_stdout m h2"
  have m: "?m = m\<lparr>ms_Stdout := concat chunks\<rparr>"
    using h2(3) assms(18,20) by (cases m) (simp add: with_stdout_def Let_def)
  define h3 where "h3 = hub_step (EvRead c (Some j)) h2"
  have h3: "h3 = settle t ?m h2"
    unfolding h3_def using read_message [OF cn' [folded h2(1)] assms(17)] assms(12,18,19)
    by (simp add: HandleMessage_def handle_result_settle)
  have p2: "mget (pendingTasks h2) t = Some ch" using sent_facts(2) [OF assms(2) s] h2(2) by simp
  have full: "mget (chans h3) ch = Some [?m]"
    using p2 by (simp add: h3 settle_chans [OF reachable_inv [OF r2]])
  obtain h4 where h4: "try_receive ch h3 = (Some ?m, h4)" "pendingTasks h4 = pendingTasks h3"
      "stdoutBuffers h4 = stdoutBuffers h3"
    using full by (simp add: try_receive_def)
  have env: "fold hub_step env h1 = h3" by (simp add: assms(22) h2_def h3_def)
  have run: "sendTaskAndWait env x t ?msg (ex_Timeout req) (hb w) = (Inr ?m, h4)"
    using assms(14) e env h4(1) by (simp add: sendTaskAndWait_sent [OF s])
  have "checkAgentOnline x (hb w) = None" using assms(6,7) by (simp add: checkAgentOnline_def)
  then have "resp = task_response exec_body (Inr ?m)" "hb w' = h4"
    using assms(1,3-5,11,23) hv run by (auto simp: ExecCommand_def Let_def)
  then show ?thesis
    using m assms(21) h4(2,3) by (simp add: task_response_def h3 settle_maps)
qed

section \<open>An instance\<close>

lemma task_leaves_no_future_witness:
  "mget (pendingTasks (snd (sendTaskAndWait [EvRead 0 None] ''web1'' ''t9'' (JObj []) 30 example_hub))) ''t9'' = None"
proof -
  obtain out h' where 1: "sendTaskAndWait [EvRead 0 None] ''web1'' ''t9'' (JObj []) 30 example_hub = (out, h')"
    by fastforce
  from task_leaves_no_future [OF example_hub_reachable _ 1] 1 show ?thesis by simp
qed

lemma example_timeout: "0 < totalTimeout 30"
  by (simp add: totalTimeout_def wrap64_def timeoutMarginSec_def)

lemma first_message_decides_witness:
  "fst (sendTaskAndWait [] ''web1'' ''t9'' (JObj []) 30 example_hub) = Inl ''timeout''"
proof -
  obtain ch e h1 where s: "sent ''web1'' ''t9'' (JObj []) example_hub = (ch, e, h1)"
    by (cases "sent ''web1'' ''t9'' (JObj []) example_hub") auto
  have "e = None"
    using s example_conn(1,2)
    by (auto simp: sent_run RegisterFuture_def make_chan_def SendToAgent_def GetConnection_def conn_write_def
        message_task_id_def Let_def split: option.splits)
  with s first_message_decides [OF example_hub_reachable, of "''web1''" "''t9''" "JObj []" ch h1 "[]" 30]
  show ?thesis using sent_facts(3) [OF example_hub_reachable s] by (simp add: example_timeout)
qed

lemma no_task_without_auth_example:
  "hb (snd (run_state (run_endpoint Upload example_ext [EvRead 0 None] (example_request\<lparr>rq_Header := []\<rparr>))
     example_world)) = hb example_world"
proof -
  have none: "presented example_ext (example_request\<lparr>rq_Header := []\<rparr>) = None"
    by (simp add: presented_def Header_Get_def mget_or_def HasPrefix_def)
  show ?thesis
    by (rule no_task_without_auth [THEN conjunct1, OF _ _ surjective_pairing]) (simp_all add: none)
qed

lemma async_status_never_finished_witness:
  "fst (run_state (AsyncStatus example_request)
     (snd (run_state (run_endpoint Exec example_ext [] example_request) example_world)))
   = reply_error 404 ''task_not_found''"
  using async_status_never_finished [of example_world _ example_ext "[(Exec, [], example_request)]" example_request]
  by (simp add: example_world_def)

lemma example_auth:
  "\<exists>a d. run_state (requirePluginAuth example_ext (example_request\<lparr>rq_Body := b\<rparr>)) example_world =
     (Inr a, example_world\<lparr>db := d\<rparr>)"
proof -
  have hd: "Header_Get (example_request\<lparr>rq_Body := b\<rparr>) = Header_Get example_request"
    "rq_RemoteAddr (example_request\<lparr>rq_Body := b\<rparr>) = rq_RemoteAddr example_request"
    by (simp_all add: fun_eq_iff Header_Get_def)
  then have ip: "extractClientIP (example_request\<lparr>rq_Body := b\<rparr>) = extractClientIP example_request"
    unfolding extractClientIP_def by (simp only: hd)
  have same: "presented example_ext (example_request\<lparr>rq_Body := b\<rparr>) = presented example_ext example_request"
    "refusal example_ext now (example_request\<lparr>rq_Body := b\<rparr>) tok = refusal example_ext now example_request tok" for now tok
    unfolding presented_def refusal_def hd ip by (rule refl)+
  have "refusal example_ext (clock example_world) example_request (scanPluginToken example_plugin_row) = None"
    using example_allows by (simp add: refusal_None)
  then show ?thesis
    by (auto simp: requirePluginAuth_run same example_presented example_row Let_def)
qed

definition example_upload :: request where
  "example_upload = example_request\<lparr>rq_Body := Some (JObj [(''dest'', JStr ''/tmp/f''), (''data'', JStr ''QUJD'')])\<rparr>"

lemma upload_size_enforced_witness:
  "\<exists>req d. Option.bind (rq_Body example_upload) decode_UploadRequest = Some req \<and> DecodeString (up_Data req) = Some d
     \<and> length d \<le> 512000"
proof -
  let ?q = "\<lparr>up_TaskID = None, up_Dest = ''/tmp/f'', up_Data = ''QUJD'', up_Mode = []\<rparr>"
  have q: "Option.bind (rq_Body example_upload) decode_UploadRequest = Some ?q"
    by (simp add: example_upload_def decode_UploadRequest_def obj_pairs_def json_fields)
  have d: "DecodeString ''QUJD'' = Some ''ABC''" by code_simp
  have t: "TrimSpace ''/tmp/f'' = ''/tmp/f''" "TrimSpace ''QUJD'' = ''QUJD''" by (simp_all add: TrimSpace_id)
  obtain a v where a: "run_state (requirePluginAuth example_ext example_upload) example_world = (Inr a, example_world\<lparr>db := v\<rparr>)"
    using example_auth unfolding example_upload_def by blast
  have host: "PathValue example_upload ''hostname'' = ''web1''"
    by (simp add: example_upload_def PathValue_def mget_or_def example_request_def)
  have on: "checkAgentOnline ''web1'' example_hub = None" by (simp add: checkAgentOnline_def example_conn(1))
  obtain out h' where h': "sendTaskAndWait [] ''web1'' (fst (task_id_of example_ext None 0))
      (upload_message (fst (task_id_of example_ext None 0)) (?q\<lparr>up_Mode := ''0644''\<rparr>)) 60 example_hub = (out, h')" by fastforce
  have run: "run_state (UploadFile example_ext [] example_upload) example_world =
      (task_response (\<lambda>m. JObj [(''rc'', JNum (ms_RC m))]) out,
       example_world\<lparr>db := v, entropy := 1, hb := h'\<rparr>)"
    using a q d t host on h'
    by (simp add: UploadFile_def Let_def validateUploadRequest_def fileMaxBytes_def example_hub_of_world task_id_of_def)
  have "next_id h' = Suc (next_id example_hub)"
    using h' example_conn(1,2)
    by (auto simp: sendTaskAndWait_def RegisterFuture_def make_chan_def SendToAgent_def GetConnection_def
        conn_write_def WaitForResult_def try_receive_def UnregisterFuture_def upload_message_def
        message_task_id_def Let_def split: option.splits)
  then have "hb (example_world\<lparr>db := v, entropy := 1, hb := h'\<rparr>) \<noteq> hb example_world"
    by (auto simp: example_hub_of_world)
  from upload_size_enforced [OF run this] show ?thesis .
qed

definition example_command :: request where
  "example_command = example_request\<lparr>rq_Body := Some (JObj [(''cmd'', JStr ''ls''), (''task_id'', JStr ''t9'')])\<rparr>"

definition example_chunk :: "string \<Rightarrow> json" where
  "example_chunk s = JObj [(''task_id'', JStr ''t9''), (''type'', JStr ''stdout''), (''chunk'', JStr s)]"

definition example_result :: json where
  "example_result = JObj [(''task_id'', JStr ''t9''), (''type'', JStr ''result''), (''rc'', JNum 3)]"

lemma example_streams: "streams ''t9'' (example_chunk s) s"
  by (simp add: streams_def example_chunk_def decode_Message_def obj_pairs_def json_fields)

lemma command_end_to_end_witness:
  "fst (run_state (ExecCommand example_ext (map (\<lambda>j. EvRead 0 (Some j)) [example_chunk ''a'', example_chunk ''b'']
      @ [EvRead 0 (Some example_result)]) example_command) example_world) =
   Reply 200 (JObj [(''rc'', JNum 3), (''stdout'', JStr ''ab''), (''stderr'', JStr []), (''truncated'', JBool False)])"
proof -
  let ?env = "map (\<lambda>j. EvRead 0 (Some j)) [example_chunk ''a'', example_chunk ''b''] @ [EvRead 0 (Some example_result)]"
  let ?q = "\<lparr>ex_TaskID = Some ''t9'', ex_Cmd = ''ls'', ex_Stdin = None, ex_Timeout = 0, ex_Become = False,
      ex_BecomeMethod = []\<rparr>"
  have q: "Option.bind (rq_Body example_command) decode_ExecRequest = Some ?q"
    "validateExecRequest ?q = Inr (?q\<lparr>ex_Timeout := 30, ex_BecomeMethod := ''sudo''\<rparr>)"
    by (simp_all add: example_command_def decode_ExecRequest_def obj_pairs_def json_fields validateExecRequest_def
        TrimSpace_id)
  obtain a v where a: "run_state (requirePluginAuth example_ext example_command) example_world = (Inr a, example_world\<lparr>db := v\<rparr>)"
    using example_auth unfolding example_command_def by blast
  have host: "''web1'' = PathValue example_command ''hostname''"
    by (simp add: example_command_def PathValue_def mget_or_def example_request_def)
  have m: "decode_Message example_result = Some (zero_Message\<lparr>ms_TaskID := ''t9'', ms_Type := ''result'', ms_RC := 3\<rparr>)"
    by (simp add: example_result_def decode_Message_def obj_pairs_def json_fields zero_Message_def)
  obtain resp w' where run: "run_state (ExecCommand example_ext ?env example_command) example_world = (resp, w')" by fastforce
  have st: "list_all2 (streams ''t9'') [example_chunk ''a'', example_chunk ''b''] [''a'', ''b'']"
    by (simp add: example_streams)
  have "resp = Reply 200 (exec_body (zero_Message\<lparr>ms_TaskID := ''t9'', ms_Type := ''result'', ms_RC := 3,
      ms_Stdout := concat [''a'', ''b'']\<rparr>))"
    by (rule command_end_to_end [where c = 0
          and cn = "\<lparr>cn_Hostname = ''web1'', cn_Sent = [], cn_Broken = None, cn_Reading = True\<rparr>",
          THEN conjunct1, OF a _ q host _ _ _ _ _ _ _ _ _ st _ m _ _ _ _ refl run])
      (simp_all add: example_hub_of_world example_hub_reachable example_conn task_id_of_def example_timeout zero_Message_def)
  then show ?thesis unfolding run by (simp add: exec_body_def zero_Message_def)
qed

end
