(* ===== verification/Security.thy ===== *)
theory Security
  imports Register
begin

text \<open>
  The security endpoints of the administrator (\<open>handlers/security.go\<close>): rotation of the JWT secret and
  of the RSA key, the rekey message that gives a connected agent a token under the new secret, the
  rotation status, and the listing and purging of tokens and of the blacklist.
\<close>

section \<open>The administrator's token\<close>

definition requireAdminAuth :: "ServerState \<Rightarrow> request \<Rightarrow> response option" where
  "requireAdminAuth srv r =
     (let authHeader = Header_Get r ''Authorization'' in
      if \<not> HasPrefix authHeader ''Bearer '' then Some (reply_error 401 ''missing_authorization'')
      else if drop 7 authHeader \<noteq> sv_AdminToken srv then Some (reply_error 401 ''invalid_admin_token'')
      else None)"

text \<open>The two guards every administration handler starts with.\<close>

definition admin_only :: "request \<Rightarrow> response io \<Rightarrow> response io" where
  "admin_only r body = do {
     srv \<leftarrow> gets server;
     case requireAdminAuth srv r of
       Some e \<Rightarrow> reply e
     | None \<Rightarrow> body
   }"

definition with_store :: "response io \<Rightarrow> response io" where
  "with_store body = do {
     have_store \<leftarrow> gets adminStore_set;
     if \<not> have_store then reply (reply_error 500 ''store_not_initialized'') else body
   }"

abbreviation admin_with_store :: "request \<Rightarrow> response io \<Rightarrow> response io" where
  "admin_with_store r body \<equiv> admin_only r (with_store body)"

section \<open>Rekeying an agent\<close>

definition signAgentJWT :: "ext \<Rightarrow> string \<Rightarrow> string \<Rightarrow> int \<Rightarrow> (string \<times> string) io" where
  "signAgentJWT X hostname jwtSecret ttl = do {
     jti \<leftarrow> newTaskID X;
     now \<leftarrow> gets clock;
     let ttl = (if ttl = 0 then 3600 * 1000000000 else ttl);
     State_Monad.return (signed_for X jwtSecret hostname jti now ttl, jti)
   }"

definition rekey_message :: "string \<Rightarrow> json" where
  "rekey_message tokenEncrypted = JObj [(''type'', JStr ''rekey''), (''token_encrypted'', JStr tokenEncrypted)]"

definition sendRekeyToAgent :: "ext \<Rightarrow> string \<Rightarrow> string \<Rightarrow> int \<Rightarrow> bool io" where
  "sendRekeyToAgent X hostname jwtSecret jwtTTL = do {
     have_store \<leftarrow> gets adminStore_set;
     if \<not> have_store then State_Monad.return False
     else do {
       found \<leftarrow> on_store (GetAgent hostname);
       case found of
         Inl _ \<Rightarrow> State_Monad.return False
       | Inr None \<Rightarrow> State_Monad.return False
       | Inr (Some agent) \<Rightarrow> do {
           (rawJWT, newJTI) \<leftarrow> signAgentJWT X hostname jwtSecret jwtTTL;
           sealed \<leftarrow> encryptWithPublicKey X rawJWT (ag_PublicKeyPEM agent);
           case sealed of
             None \<Rightarrow> State_Monad.return False
           | Some tokenEncrypted \<Rightarrow> do {
               _ \<leftarrow> on_store (UpdateTokenJTI hostname newJTI);
               err \<leftarrow> on_hub (SendToAgent hostname (rekey_message tokenEncrypted));
               State_Monad.return (err = None)
             }
         }
     }
   }"

text \<open>The loop of the rotation over the connected hosts; the result counts the successes.\<close>

primrec rekey_agents :: "ext \<Rightarrow> string \<Rightarrow> int \<Rightarrow> string list \<Rightarrow> nat \<Rightarrow> nat io" where
  "rekey_agents X jwtSecret jwtTTL [] migrated = State_Monad.return migrated"
| "rekey_agents X jwtSecret jwtTTL (hostname # rest) migrated = do {
     ok \<leftarrow> sendRekeyToAgent X hostname jwtSecret jwtTTL;
     rekey_agents X jwtSecret jwtTTL rest (if ok then Suc migrated else migrated)
   }"

definition RekeyAgent :: "ext \<Rightarrow> string \<Rightarrow> bool io" where
  "RekeyAgent X hostname = do {
     srv \<leftarrow> gets server;
     sendRekeyToAgent X hostname (sv_JWTSecret srv) (sv_JWTttl srv)
   }"

section \<open>Opening an agent's connection\<close>

text \<open>
  \<open>AgentHandler\<close> up to its read loop, with \<open>JWTSecretsFunc\<close> and \<open>RekeyFunc\<close> as \<open>main.go\<close> sets them:
  the identity of the client, the upgrade (\<open>upgraded\<close> says whether the library accepts it, and it has
  answered if not), the registration and the rekey. The result is the new connection.
\<close>

definition AgentHandler :: "ext \<Rightarrow> bool \<Rightarrow> request \<Rightarrow> (response + nat) io" where
  "AgentHandler X upgraded r = do {
     w \<leftarrow> State_Monad.get;
     case extractHostnameFromRequest (jwt_parser X) (json_parser X) (Some (GetServerJWTSecrets w)) (clock w) r of
       Inl _ \<Rightarrow> State_Monad.return (Inl (reply_error 401 ''unauthorized''))
     | Inr (hostname, usedPrevious) \<Rightarrow>
         if \<not> upgraded then State_Monad.return (Inl Aborted)
         else do {
           c \<leftarrow> on_hub (agent_open None hostname False);
           sent \<leftarrow> (if usedPrevious then RekeyAgent X hostname else State_Monad.return True);
           _ \<leftarrow> (if sent then State_Monad.return ()
                else on_hub (\<lambda>h. ((), snd (conn_write c (TextFrame (JObj [(''type'', JStr ''rekey'')])) h))));
           State_Monad.return (Inr c)
         }
   }"

section \<open>Key rotation\<close>

text \<open>The optional body: undecodable or without \<open>grace\<close> means 24 hours; \<open>None\<close> is an invalid duration.\<close>

definition grace_duration :: "ext \<Rightarrow> json option \<Rightarrow> int option" where
  "grace_duration X body =
     (case Option.bind (Option.bind body obj_pairs) (string_field ''grace'') of
        None \<Rightarrow> Some (24 * 3600 * 1000000000)
      | Some grace \<Rightarrow> if grace = [] then Some (24 * 3600 * 1000000000) else parse_duration X grace)"

definition mustEncodeRSAPrivPEM :: "ext \<Rightarrow> string \<Rightarrow> string" where
  "mustEncodeRSAPrivPEM X privKey = fst (encodeRSAKeyPair X privKey)"

definition rotated :: "ServerState \<Rightarrow> string \<Rightarrow> string \<Rightarrow> string \<Rightarrow> time \<Rightarrow> ServerState" where
  "rotated s newJWTSecret newRSAKey newRSAPubPEM deadline =
     s\<lparr>sv_JWTPreviousSecret := sv_JWTSecret s, sv_JWTSecret := newJWTSecret,
       sv_PreviousPrivateKey := sv_PrivateKey s, sv_PrivateKey := Some newRSAKey,
       sv_PublicPEM := newRSAPubPEM, sv_KeyRotationDeadline := Some deadline\<rparr>"

text \<open>Every failed write is only logged.\<close>

definition persist_rotation :: "ext \<Rightarrow> ServerState \<Rightarrow> string \<Rightarrow> string \<Rightarrow> string \<Rightarrow> unit io" where
  "persist_rotation X old newJWTSecret newRSAPrivPEM deadlineStr = do {
     now \<leftarrow> gets clock;
     _ \<leftarrow> on_store (ConfigSet now ''jwt_secret_previous'' (sv_JWTSecret old));
     _ \<leftarrow> on_store (ConfigSet now ''jwt_secret_current'' newJWTSecret);
     _ \<leftarrow> on_store (ConfigSet now ''key_rotation_deadline'' deadlineStr);
     _ \<leftarrow> (case sv_PrivateKey old of
            None \<Rightarrow> State_Monad.return (Inr ())
          | Some oldRSAKey \<Rightarrow>
              (let oldPrivPEM = mustEncodeRSAPrivPEM X oldRSAKey in
               if oldPrivPEM = [] then State_Monad.return (Inr ())
               else persistRSAKey X ''rsa_key_previous'' oldPrivPEM));
     _ \<leftarrow> persistRSAKey X ''rsa_key_current'' newRSAPrivPEM;
     State_Monad.return ()
   }"

definition RotateKeysResponse :: "ext \<Rightarrow> string \<Rightarrow> string \<Rightarrow> string \<Rightarrow> nat \<Rightarrow> nat \<Rightarrow> json" where
  "RotateKeysResponse X newJWTSecret oldJWTSecret deadlineStr migrated connected =
     JObj [(''current_key_sha256'', JStr (sha256Hex X newJWTSecret)),
           (''previous_key_sha256'', JStr (sha256Hex X oldJWTSecret)),
           (''deadline'', JStr deadlineStr), (''agents_migrated'', JNum (int migrated)),
           (''agents_total'', JNum (int connected))]"

definition AdminRotateKeys :: "ext \<Rightarrow> request \<Rightarrow> response io" where
  "AdminRotateKeys X r = admin_with_store r
     (case grace_duration X (rq_Body r) of
        None \<Rightarrow> reply (reply_error 400 ''invalid_grace_duration'')
      | Some graceDuration \<Rightarrow> do {
          n \<leftarrow> draw;
          case rand_bytes X 32 n of
            None \<Rightarrow> reply (reply_error 500 ''key_generation_failed'')
          | Some newJWTBytes \<Rightarrow> do {
              let newJWTSecret = hex_encode newJWTBytes;
              n \<leftarrow> draw;
              case gen_rsa X n of
                None \<Rightarrow> reply (reply_error 500 ''key_generation_failed'')
              | Some newRSAKey \<Rightarrow> do {
                  let (newRSAPrivPEM, newRSAPubPEM) = encodeRSAKeyPair X newRSAKey;
                  now \<leftarrow> gets clock;
                  let deadline = now + graceDuration;
                  old \<leftarrow> gets server;
                  _ \<leftarrow> set_server (\<lambda>s. rotated s newJWTSecret newRSAKey newRSAPubPEM deadline);
                  let deadlineStr = format_time X deadline;
                  _ \<leftarrow> persist_rotation X old newJWTSecret newRSAPrivPEM deadlineStr;
                  connectedHosts \<leftarrow> gets (\<lambda>w. GetConnectedHostnames (hb w));
                  agentsMigrated \<leftarrow> rekey_agents X newJWTSecret (sv_JWTttl old) connectedHosts 0;
                  reply (Reply 200 (RotateKeysResponse X newJWTSecret (sv_JWTSecret old) deadlineStr
                    agentsMigrated (length connectedHosts)))
                }
            }
        })"

section \<open>Status, tokens and blacklist\<close>

definition AdminSecurityKeysStatus :: "ext \<Rightarrow> request \<Rightarrow> response io" where
  "AdminSecurityKeysStatus X r = admin_only r (do {
     srv \<leftarrow> gets server;
     now \<leftarrow> gets clock;
     h \<leftarrow> gets hb;
     let previous = sv_JWTPreviousSecret srv;
     let deadline = sv_KeyRotationDeadline srv;
     let rotationActive = (previous \<noteq> [] \<and> Before_deadline now deadline);
     reply (Reply 200 (JObj
       [(''current_key_sha256'', JStr (sha256Hex X (sv_JWTSecret srv))),
        (''previous_key_sha256'', JStr (if previous = [] then [] else sha256Hex X previous)),
        (''deadline'', JStr (case deadline of None \<Rightarrow> [] | Some d \<Rightarrow> format_time X d)),
        (''rotation_active'', JBool rotationActive),
        (''agents_total'', JNum (int (GetConnectedCount h)))]))
   })"

definition TokenInfo :: "ext \<Rightarrow> AgentRecord \<Rightarrow> json" where
  "TokenInfo X a = JObj
     [(''hostname'', JStr (ag_Hostname a)), (''jti'', JStr (ag_TokenJTI a)),
      (''enrolled_at'', JStr (format_time X (from_unix (ag_EnrolledAt a)))),
      (''last_seen'', JStr (format_time X (from_unix (ag_LastSeen a)))),
      (''status'', JStr (ag_Status a))]"

definition AdminSecurityTokens :: "ext \<Rightarrow> request \<Rightarrow> response io" where
  "AdminSecurityTokens X r = admin_with_store r (do {
     listed \<leftarrow> on_store (ListAgents False);
     reply (case listed of
              Inl _ \<Rightarrow> reply_error 500 ''db_error''
            | Inr as \<Rightarrow> Reply 200 (JArr (map (TokenInfo X) (filter (\<lambda>a. ag_TokenJTI a \<noteq> []) as))))
   })"

definition BlacklistEntryResponse :: "ext \<Rightarrow> BlacklistEntry \<Rightarrow> json" where
  "BlacklistEntryResponse X e = JObj
     [(''jti'', JStr (bl_JTI e)), (''hostname'', JStr (bl_Hostname e)),
      (''revoked_at'', JStr (format_time X (from_unix (bl_RevokedAt e)))),
      (''expires_at'', JStr (format_time X (from_unix (bl_ExpiresAt e)))),
      (''reason'', JStr (bl_Reason e))]"

definition AdminSecurityBlacklist :: "ext \<Rightarrow> request \<Rightarrow> response io" where
  "AdminSecurityBlacklist X r = admin_with_store r (do {
     listed \<leftarrow> on_store ListBlacklistEntries;
     reply (case listed of
              Inl _ \<Rightarrow> reply_error 500 ''db_error''
            | Inr es \<Rightarrow> Reply 200 (JArr (map (BlacklistEntryResponse X) es)))
   })"

definition AdminSecurityBlacklistPurge :: "request \<Rightarrow> response io" where
  "AdminSecurityBlacklistPurge r = admin_with_store r (do {
     now \<leftarrow> gets clock;
     purged \<leftarrow> on_store (PurgeExpiredBlacklist now);
     reply (case purged of
              Inl _ \<Rightarrow> reply_error 500 ''db_error''
            | Inr deleted \<Rightarrow> Reply 200 (JObj [(''deleted'', JNum (int deleted))]))
   })"

end
