(* ===== verification/SecuritySpec.thy ===== *)
theory SecuritySpec
  imports Security RegisterSpec
begin

text \<open>
  What key rotation guarantees: the administrator's guard, the two secrets in force during the grace
  period, the token a rekey message delivers, and the recovery of every key at the next start.
\<close>

section \<open>The guard\<close>

lemma admin_only_run [simp]:
  "run_state (admin_only r body) w =
    (case requireAdminAuth (server w) r of Some e \<Rightarrow> (e, w) | None \<Rightarrow> run_state body w)"
  by (simp add: admin_only_def run_case_option split: option.split)

lemma with_store_run [simp]:
  "run_state (with_store body) w =
    (if adminStore_set w then run_state body w else (reply_error 500 ''store_not_initialized'', w))"
  by (simp add: with_store_def)

lemma requireAdminAuth_None:
  "requireAdminAuth srv r = None \<longleftrightarrow> Header_Get r ''Authorization'' = ''Bearer '' @ sv_AdminToken srv"
proof -
  have "HasPrefix a ''Bearer '' \<and> drop 7 a = t \<longleftrightarrow> a = ''Bearer '' @ t" for a t
    by (auto simp: HasPrefix_iff prefix_def)
  then show ?thesis by (auto simp: requireAdminAuth_def Let_def)
qed

lemma requireAdminAuth_401: "requireAdminAuth srv r = Some e \<Longrightarrow> status e = 401"
  by (auto simp: requireAdminAuth_def Let_def split: if_splits)

section \<open>Rekeying\<close>

lemma SendToAgent_ok:
  assumes "SendToAgent x msg h = (None, h')"
  shows "\<exists>c cn. mget (wsConnections h) x = Some c \<and> mget (conns h') c = Some cn
     \<and> cn_Sent cn \<noteq> [] \<and> last (cn_Sent cn) = TextFrame msg"
  using assms
  by (auto simp: SendToAgent_def GetConnection_def conn_write_def Let_def split: option.splits if_splits)

lemma SendToAgent_registry: "wsConnections (snd (SendToAgent x msg h)) = wsConnections h"
  by (auto simp: SendToAgent_def GetConnection_def conn_write_def Let_def split: option.splits)

lemma sendRekeyToAgent_run:
  "run_state (sendRekeyToAgent X x secret ttl) w =
    (if \<not> adminStore_set w then (False, w)
     else let w1 = w\<lparr>db := tick (db w)\<rparr> in
       if faulty (db w) then (False, w1)
       else case row_find ag_Hostname x (agents (db w)) of
              None \<Rightarrow> (False, w1)
            | Some a \<Rightarrow>
                let jti = new_uuid X (entropy w);
                    raw = signed_for X secret x jti (clock w) (if ttl = 0 then 3600 * 1000000000 else ttl);
                    w2 = w1\<lparr>entropy := Suc (entropy w) + draws_for X (ag_PublicKeyPEM a)\<rparr>
                in case seal_for X raw (ag_PublicKeyPEM a) (Suc (entropy w)) of
                     None \<Rightarrow> (False, w2)
                   | Some t \<Rightarrow>
                       let (err, h) = SendToAgent x (rekey_message t) (hb w)
                       in (err = None, w2\<lparr>db := snd (run_state (UpdateTokenJTI x jti) (tick (db w))), hb := h\<rparr>))"
  by (auto simp: sendRekeyToAgent_def signAgentJWT_def GetAgent_def Let_def run_case_option
      split: option.split prod.split)


text \<open>What a rekey leaves alone.\<close>

lemma UpdateTokenJTI_frame:
  "server_config (snd (run_state (UpdateTokenJTI x j) s)) = server_config s"
  "healthy s \<Longrightarrow> healthy (snd (run_state (UpdateTokenJTI x j) s))"
  by (simp_all add: UpdateTokenJTI_def update_agent_def)

lemma sendRekeyToAgent_frame:
  assumes "run_state (sendRekeyToAgent X x secret ttl) w = (b, w')"
  shows "server w' = server w \<and> clock w' = clock w \<and> server_config (db w') = server_config (db w)
    \<and> (healthy (db w) \<longrightarrow> healthy (db w'))"
  using assms
  by (auto simp: sendRekeyToAgent_run Let_def UpdateTokenJTI_frame split: if_splits option.splits prod.splits)

lemma rekey_agents_frame:
  assumes "run_state (rekey_agents X secret ttl hosts n) w = (k, w')"
  shows "server w' = server w \<and> clock w' = clock w \<and> server_config (db w') = server_config (db w)
    \<and> (healthy (db w) \<longrightarrow> healthy (db w')) \<and> n \<le> k \<and> k \<le> n + length hosts"
  using assms
proof (induction hosts arbitrary: n w)
  case Nil
  then show ?case by simp
next
  case (Cons x hosts)
  obtain b w1 where s: "run_state (sendRekeyToAgent X x secret ttl) w = (b, w1)" by fastforce
  have r: "run_state (rekey_agents X secret ttl hosts (if b then Suc n else n)) w1 = (k, w')"
    using Cons.prems s by simp
  show ?case
    using sendRekeyToAgent_frame [OF s] Cons.IH [OF r] by (cases b) auto
qed

text \<open>Agents that reconnect with a token of the previous secret get a usable one: when a rekey
  reports success, the last frame on the agent's registered connection is a rekey message that the
  agent's private key opens to a token; that token is accepted for its host as a current-key token
  under the server's secrets for its whole lifetime, and (unless the update of the row failed) its
  id is the one recorded for the agent.\<close>

lemma rekey_delivers_token:
  assumes "run_state (RekeyAgent X hostname) w = (True, w')"
    and "row_find ag_Hostname hostname (agents (db w)) = Some a"
    and "oaep_laws X" and "key_text X priv (ag_PublicKeyPEM a)"
    and "jwt_laws {sv_JWTSecret (server w)} (jwt_signer X) (jwt_parser X)"
    and "sv_JWTSecret (server w) \<noteq> []"
    and "lifetime = (if sv_JWTttl (server w) = 0 then 3600 * 1000000000 else sv_JWTttl (server w))"
  shows "\<exists>c cn sealed token jti. mget (wsConnections (hb w)) hostname = Some c
      \<and> mget (conns (hb w')) c = Some cn \<and> cn_Sent cn \<noteq> [] \<and> last (cn_Sent cn) = TextFrame (rekey_message sealed)
      \<and> unseal X priv sealed = Some token
      \<and> token = signed_for X (sv_JWTSecret (server w)) hostname jti (clock w) lifetime
      \<and> (\<forall>now. unix_sec now < unix_sec (clock w + lifetime) \<longrightarrow>
           validateJWTDualKey (jwt_parser X) (Some (GetServerJWTSecrets w')) now token =
             Inr (agent_claims hostname jti (clock w) lifetime, False))
      \<and> (healthy (db w) \<longrightarrow> map_option ag_TokenJTI (row_find ag_Hostname hostname (agents (db w'))) = Some jti)"
proof -
  let ?s = "sv_JWTSecret (server w)"
  define jti where "jti = new_uuid X (entropy w)"
  define token where "token = signed_for X ?s hostname jti (clock w) lifetime"
  have run: "run_state (sendRekeyToAgent X hostname ?s (sv_JWTttl (server w))) w = (True, w')"
    using assms(1) by (simp add: RekeyAgent_def)
  have sv: "server w' = server w" using sendRekeyToAgent_frame [OF run] by simp
  obtain sealed h where t: "seal_for X token (ag_PublicKeyPEM a) (Suc (entropy w)) = Some sealed"
      and h: "SendToAgent hostname (rekey_message sealed) (hb w) = (None, h)"
      and w': "hb w' = h" "db w' = snd (run_state (UpdateTokenJTI hostname jti) (tick (db w)))"
    using run assms(2)
    by (auto simp: sendRekeyToAgent_run Let_def token_def jti_def assms(7) split: if_splits option.splits prod.splits)
  obtain c cn where c: "mget (wsConnections (hb w)) hostname = Some c" "mget (conns h) c = Some cn"
      "cn_Sent cn \<noteq> []" "last (cn_Sent cn) = TextFrame (rekey_message sealed)"
    using SendToAgent_ok [OF h] by blast
  have "unseal X priv sealed = Some token"
    using t assms(3,4)
    by (cases "pem_decode X (ag_PublicKeyPEM a)")
      (auto simp: seal_for_def key_text_def unseal_def oaep_laws_def DecodeString_EncodeToString)
  moreover have "validateJWTDualKey (jwt_parser X) (Some (GetServerJWTSecrets w')) now token =
      Inr (agent_claims hostname jti (clock w) lifetime, False)"
    if "unix_sec now < unix_sec (clock w + lifetime)" for now
  proof -
    have "parseJWT (jwt_parser X) now token ?s = Inr (agent_claims hostname jti (clock w) lifetime)"
      using assms(5) that by (simp add: jwt_laws_def parseJWT_def token_def signed_for_def)
    then show ?thesis
      using assms(6) by (simp add: ws_jwt.accepts_iff GetServerJWTSecrets_def GetJWTSecrets_def sv)
  qed
  moreover have "map_option ag_TokenJTI (row_find ag_Hostname hostname (agents (db w'))) = Some jti"
    if "healthy (db w)"
    using that assms(2) w'(2) row_find_SomeD [OF assms(2)]
    by (simp add: UpdateTokenJTI_def update_agent_def row_find_rows_update)
  ultimately show ?thesis
    using c w'(1) token_def by blast
qed

definition example_rekeyed :: world where
  "example_rekeyed = example_world\<lparr>db := (db example_world)\<lparr>agents := [example_agent\<lparr>ag_PublicKeyPEM := example_key\<rparr>]\<rparr>\<rparr>"

lemma example_rekeyed_simps [simp]:
  "db example_rekeyed = (db example_world)\<lparr>agents := [example_agent\<lparr>ag_PublicKeyPEM := example_key\<rparr>]\<rparr>"
  "hb example_rekeyed = hb example_world" "server example_rekeyed = server example_world"
  "adminStore_set example_rekeyed" "entropy example_rekeyed = 0" "clock example_rekeyed = 5000000000"
  by (simp_all add: example_rekeyed_def example_world_def)

lemma example_rekey: "\<exists>w'. run_state (RekeyAgent example_ext ''web1'') example_rekeyed = (True, w')"
proof -
  have "\<exists>t. seal_for example_ext p example_key n = Some t" for p n
    by (simp add: seal_for_def example_ext_def)
  then obtain t where "seal_for example_ext (signed_for example_ext ''k1'' ''web1'' (new_uuid example_ext 0)
      5000000000 3600000000000) example_key (Suc 0) = Some t"
    by blast
  then have "fst (run_state (RekeyAgent example_ext ''web1'') example_rekeyed)"
    by (simp add: RekeyAgent_def sendRekeyToAgent_run Let_def example_hub_of_world SendToAgent_def example_conn
        conn_write_def example_srv example_agent_def split: option.split)
  then show ?thesis by (metis prod.collapse)
qed

section \<open>Stored keys\<close>

text \<open>
  The documented behaviour of the libraries behind the key store: AES-GCM opens what it sealed, the
  random source delivers the bytes asked for, PEM text decodes to its bytes and never looks like an
  encrypted value, the keys in use parse back, and RFC 3339 keeps whole seconds.
\<close>

definition key_laws :: "ext \<Rightarrow> string set \<Rightarrow> bool" where
  "key_laws X keys \<longleftrightarrow>
     (\<forall>k nonce p. aes_open X k nonce (aes_seal X k nonce p) = Some p)
   \<and> (\<forall>len n. \<exists>b. rand_bytes X len n = Some b \<and> length b = len)
   \<and> (\<forall>t b. pem_decode X (pem_encode X t b) = Some b \<and> pem_encode X t b \<noteq> []
        \<and> \<not> HasPrefix (pem_encode X t b) ''enc:'')
   \<and> (\<forall>k\<in>keys. parse_rsa_private X k = Some k)
   \<and> (\<forall>t. format_time X t \<noteq> [] \<and> parse_time X (format_time X t) = Some (from_unix (unix_sec t)))"

definition cfg :: "string \<Rightarrow> store \<Rightarrow> string" where
  "cfg k s = (case row_find cf_key k (server_config s) of None \<Rightarrow> [] | Some r \<Rightarrow> cf_value r)"

lemma ConfigGet_run: "healthy s \<Longrightarrow> run_state (ConfigGet k) s = (Inr (cfg k s), s)"
  by (simp add: ConfigGet_def cfg_def)

lemma ConfigSet_run:
  assumes "healthy s"
  obtains s' where "run_state (ConfigSet now k v) s = (Inr (), s')" "healthy s'"
    "\<And>k'. cfg k' s' = (if k' = k then v else cfg k' s)"
proof -
  let ?s = "snd (run_state (ConfigSet now k v) s)"
  have "run_state (ConfigSet now k v) s = (Inr (), ?s)" "healthy ?s"
    "cfg k' ?s = (if k' = k then v else cfg k' s)" for k'
    using assms by (auto simp: ConfigSet_def cfg_def row_find_upsert split: option.splits)
  then show ?thesis by (rule that)
qed

lemma cfg_config: "server_config s = server_config s' \<Longrightarrow> cfg k s = cfg k s'"
  by (simp add: cfg_def)

text \<open>A stored text that \<open>loadRSAKey\<close> turns into the given PEM.\<close>

definition opens :: "ext \<Rightarrow> string \<Rightarrow> string \<Rightarrow> bool" where
  "opens X v pem \<longleftrightarrow> (\<forall>k u. healthy (db u) \<and> cfg k (db u) = v \<longrightarrow> run_state (loadRSAKey X k) u = (Inr pem, u))"

lemma enc_prefix: "HasPrefix s ''enc:'' \<longleftrightarrow> take 4 s = ''enc:''"
proof
  assume "take 4 s = ''enc:''"
  then have "s = ''enc:'' @ drop 4 s" by (metis append_take_drop_id)
  then show "HasPrefix s ''enc:''" unfolding HasPrefix_iff prefix_def by blast
qed (auto simp: HasPrefix_iff prefix_def)

lemma opens_plain: "rsaMasterKey X = None \<Longrightarrow> \<not> HasPrefix pem ''enc:'' \<Longrightarrow> opens X pem pem"
  by (auto simp: opens_def loadRSAKey_def ConfigGet_run enc_prefix)

lemma opens_sealed:
  assumes "rsaMasterKey X = Some m" "length nonce = 12" "aes_open X (sha256 X m) nonce (aes_seal X (sha256 X m) nonce pem) = Some pem"
  shows "opens X (''enc:'' @ EncodeToString (nonce @ aes_seal X (sha256 X m) nonce pem)) pem"
proof -
  have "DecodeString [] = Some []" by (simp add: DecodeString_EncodeToString [of "[]", simplified EncodeToString_def, simplified])
  then have "EncodeToString (nonce @ aes_seal X (sha256 X m) nonce pem) \<noteq> []"
    using assms(2) DecodeString_EncodeToString [of "nonce @ aes_seal X (sha256 X m) nonce pem"] by auto
  then show ?thesis
    using assms by (auto simp: opens_def loadRSAKey_def ConfigGet_run DecryptAESGCM_def DecodeString_EncodeToString)
qed

lemma persistRSAKey_run:
  assumes "key_laws X keys" "healthy (db w)" "\<not> HasPrefix pem ''enc:''"
  obtains d e where "run_state (persistRSAKey X k pem) w = (Inr (), w\<lparr>db := d, entropy := e\<rparr>)"
    "healthy d" "opens X (cfg k d) pem" "\<And>k'. k' \<noteq> k \<Longrightarrow> cfg k' d = cfg k' (db w)"
proof (cases "rsaMasterKey X")
  case None
  obtain d where d: "run_state (ConfigSet (clock w) k pem) (db w) = (Inr (), d)" "healthy d"
      "\<And>k'. cfg k' d = (if k' = k then pem else cfg k' (db w))"
    using ConfigSet_run [OF assms(2)] by metis
  have "run_state (persistRSAKey X k pem) w = (Inr (), w\<lparr>db := d, entropy := entropy w\<rparr>)"
    using None d(1) by (simp add: persistRSAKey_def)
  then show ?thesis by (rule that) (use d opens_plain [OF None assms(3)] in auto)
next
  case (Some m)
  obtain b where b: "rand_bytes X 12 (entropy w) = Some b" "length b = 12"
    using assms(1) unfolding key_laws_def by meson
  let ?v = "''enc:'' @ EncodeToString (b @ aes_seal X (sha256 X m) b pem)"
  obtain d where d: "run_state (ConfigSet (clock w) k ?v) (db w) = (Inr (), d)" "healthy d"
      "\<And>k'. cfg k' d = (if k' = k then ?v else cfg k' (db w))"
    using ConfigSet_run [OF assms(2)] by metis
  have "run_state (persistRSAKey X k pem) w = (Inr (), w\<lparr>db := d, entropy := Suc (entropy w)\<rparr>)"
    using Some b d(1) by (simp add: persistRSAKey_def EncryptAESGCM_def Let_def)
  then show ?thesis
  proof (rule that)
    show "opens X (cfg k d) pem"
      using opens_sealed [OF Some b(2)] assms(1) by (simp add: d(3) key_laws_def)
  qed (simp_all add: d)
qed

section \<open>Rotation\<close>

lemma persist_rotation_run:
  assumes "key_laws X keys" "healthy (db w)" "sv_PrivateKey old = Some k0" "newPEM = pem_encode X ''PRIVATE KEY'' k1"
  obtains d e where "run_state (persist_rotation X old secret newPEM dl) w = ((), w\<lparr>db := d, entropy := e\<rparr>)"
    "healthy d" "cfg ''jwt_secret_previous'' d = sv_JWTSecret old" "cfg ''jwt_secret_current'' d = secret"
    "cfg ''key_rotation_deadline'' d = dl" "opens X (cfg ''rsa_key_previous'' d) (pem_encode X ''PRIVATE KEY'' k0)"
    "opens X (cfg ''rsa_key_current'' d) newPEM"
proof -
  note pem = assms(1) [unfolded key_laws_def, THEN conjunct2, THEN conjunct2, THEN conjunct1, rule_format]
  obtain d1 where d1: "run_state (ConfigSet (clock w) ''jwt_secret_previous'' (sv_JWTSecret old)) (db w) = (Inr (), d1)"
      "healthy d1" "\<And>k'. cfg k' d1 = (if k' = ''jwt_secret_previous'' then sv_JWTSecret old else cfg k' (db w))"
    using ConfigSet_run [OF assms(2)] by metis
  obtain d2 where d2: "run_state (ConfigSet (clock w) ''jwt_secret_current'' secret) d1 = (Inr (), d2)"
      "healthy d2" "\<And>k'. cfg k' d2 = (if k' = ''jwt_secret_current'' then secret else cfg k' d1)"
    using ConfigSet_run [OF d1(2)] by metis
  obtain d3 where d3: "run_state (ConfigSet (clock w) ''key_rotation_deadline'' dl) d2 = (Inr (), d3)"
      "healthy d3" "\<And>k'. cfg k' d3 = (if k' = ''key_rotation_deadline'' then dl else cfg k' d2)"
    using ConfigSet_run [OF d2(2)] by metis
  obtain d4 e4 where d4: "run_state (persistRSAKey X ''rsa_key_previous'' (pem_encode X ''PRIVATE KEY'' k0)) (w\<lparr>db := d3\<rparr>)
        = (Inr (), w\<lparr>db := d3, db := d4, entropy := e4\<rparr>)" "healthy d4"
      "opens X (cfg ''rsa_key_previous'' d4) (pem_encode X ''PRIVATE KEY'' k0)"
      "\<And>k'. k' \<noteq> ''rsa_key_previous'' \<Longrightarrow> cfg k' d4 = cfg k' d3"
    by (rule persistRSAKey_run [OF assms(1), of "w\<lparr>db := d3\<rparr>" "pem_encode X ''PRIVATE KEY'' k0" "''rsa_key_previous''"])
      (use d3(2) pem in auto)
  obtain d5 e5 where d5: "run_state (persistRSAKey X ''rsa_key_current'' newPEM) (w\<lparr>db := d4, entropy := e4\<rparr>)
        = (Inr (), w\<lparr>db := d4, entropy := e4, db := d5, entropy := e5\<rparr>)" "healthy d5"
      "opens X (cfg ''rsa_key_current'' d5) newPEM"
      "\<And>k'. k' \<noteq> ''rsa_key_current'' \<Longrightarrow> cfg k' d5 = cfg k' d4"
    by (rule persistRSAKey_run [OF assms(1), of "w\<lparr>db := d4, entropy := e4\<rparr>" newPEM "''rsa_key_current''"])
      (use d4(2) pem assms(4) in auto)
  have "run_state (persist_rotation X old secret newPEM dl) w = ((), w\<lparr>db := d5, entropy := e5\<rparr>)"
    using d1(1) d2(1) d3(1) d4(1) d5(1) assms(3) pem [of "''PRIVATE KEY''" k0]
    by (simp add: persist_rotation_def mustEncodeRSAPrivPEM_def encodeRSAKeyPair_def Let_def)
  then show ?thesis
    by (rule that) (use d1 d2 d3 d4 d5 in auto)
qed

text \<open>Whatever fails, persisting touches only the database and the random source.\<close>

definition only_db :: "world \<Rightarrow> world \<Rightarrow> bool" where
  "only_db w w' \<longleftrightarrow> w' = w\<lparr>db := db w', entropy := entropy w'\<rparr>"

lemma only_dbI [intro, simp]: "only_db w (w\<lparr>db := d\<rparr>)" "only_db w (w\<lparr>entropy := e\<rparr>)"
    "only_db w (w\<lparr>entropy := e, db := d\<rparr>)" "only_db w w"
  by (simp_all add: only_db_def)

lemma only_db_trans [trans]: "only_db w w' \<Longrightarrow> only_db w' w'' \<Longrightarrow> only_db w w''"
  by (cases w; cases w'; cases w'') (simp add: only_db_def)

lemma only_dbD: "only_db w w' \<Longrightarrow> server w' = server w" "only_db w w' \<Longrightarrow> clock w' = clock w"
    "only_db w w' \<Longrightarrow> hb w' = hb w"
  by (cases w; cases w'; simp add: only_db_def)+

lemma persistRSAKey_frame: "only_db w (snd (run_state (persistRSAKey X k pem) w))"
  by (cases "rsaMasterKey X"; cases "rand_bytes X 12 (entropy w)")
    (simp_all add: persistRSAKey_def EncryptAESGCM_def Let_def)

lemma persist_rotation_frame: "only_db w (snd (run_state (persist_rotation X old secret pem dl) w))"
proof -
  have step: "only_db w w0 \<Longrightarrow> only_db w (snd (run_state (persistRSAKey X k p) w0))" for k p w0
    using only_db_trans [OF _ persistRSAKey_frame] by blast
  show ?thesis
    by (cases "sv_PrivateKey old") (simp_all add: persist_rotation_def Let_def step case_prod_beta)
qed

lemma AdminRotateKeys_run:
  assumes "requireAdminAuth (server w) r = None" "adminStore_set w" "grace_duration X (rq_Body r) = Some grace"
    and "rand_bytes X 32 (entropy w) = Some bytes" "gen_rsa X (Suc (entropy w)) = Some k1"
    and "w1 = w\<lparr>entropy := Suc (Suc (entropy w)), server := rotated (server w) (hex_encode bytes) k1
           (pem_encode X ''PUBLIC KEY'' (rsa_public X k1)) (clock w + grace)\<rparr>"
    and "w2 = snd (run_state (persist_rotation X (server w) (hex_encode bytes) (pem_encode X ''PRIVATE KEY'' k1)
           (format_time X (clock w + grace))) w1)"
    and "run_state (rekey_agents X (hex_encode bytes) (sv_JWTttl (server w)) (GetConnectedHostnames (hb w2)) 0) w2 = (n, w3)"
  shows "run_state (AdminRotateKeys X r) w = (Reply 200 (RotateKeysResponse X (hex_encode bytes)
      (sv_JWTSecret (server w)) (format_time X (clock w + grace)) n (length (GetConnectedHostnames (hb w2)))), w3)"
  using assms(1-5) assms(8) [unfolded assms(7,6)]
  by (simp add: AdminRotateKeys_def Let_def encodeRSAKeyPair_def case_prod_beta assms(6,7))

text \<open>The rotations that answer 200 are those that pass the guard and get their random values.\<close>

lemma rotation_200:
  assumes "run_state (AdminRotateKeys X r) w = (Reply 200 body, w')"
  obtains grace bytes k1 where "requireAdminAuth (server w) r = None" "adminStore_set w"
    "grace_duration X (rq_Body r) = Some grace" "rand_bytes X 32 (entropy w) = Some bytes"
    "gen_rsa X (Suc (entropy w)) = Some k1"
proof -
  have guard: "requireAdminAuth (server w) r = None" "adminStore_set w"
    using assms requireAdminAuth_401 [of "server w" r]
    by (auto simp: AdminRotateKeys_def split: option.splits if_splits)
  show ?thesis
    using assms that guard
    by (cases "grace_duration X (rq_Body r)"; cases "rand_bytes X 32 (entropy w)"; cases "gen_rsa X (Suc (entropy w))")
      (auto simp: AdminRotateKeys_def Let_def)
qed

lemma rotation_server:
  assumes "run_state (AdminRotateKeys X r) w = (Reply 200 body, w')"
  obtains bytes k1 grace where "rand_bytes X 32 (entropy w) = Some bytes" "gen_rsa X (Suc (entropy w)) = Some k1"
    "grace_duration X (rq_Body r) = Some grace" "clock w' = clock w"
    "server w' = rotated (server w) (hex_encode bytes) k1 (pem_encode X ''PUBLIC KEY'' (rsa_public X k1)) (clock w + grace)"
proof -
  obtain grace bytes k1 where g: "requireAdminAuth (server w) r = None" "adminStore_set w"
      "grace_duration X (rq_Body r) = Some grace" "rand_bytes X 32 (entropy w) = Some bytes"
      "gen_rsa X (Suc (entropy w)) = Some k1"
    using rotation_200 [OF assms] by blast
  define w1 where "w1 = w\<lparr>entropy := Suc (Suc (entropy w)), server := rotated (server w) (hex_encode bytes) k1
      (pem_encode X ''PUBLIC KEY'' (rsa_public X k1)) (clock w + grace)\<rparr>"
  define w2 where "w2 = snd (run_state (persist_rotation X (server w) (hex_encode bytes)
      (pem_encode X ''PRIVATE KEY'' k1) (format_time X (clock w + grace))) w1)"
  obtain n w3 where r: "run_state (rekey_agents X (hex_encode bytes) (sv_JWTttl (server w))
      (GetConnectedHostnames (hb w2)) 0) w2 = (n, w3)" by fastforce
  have "w' = w3" using AdminRotateKeys_run [OF g w1_def w2_def r] assms by simp
  moreover have "server w2 = server w1" "clock w2 = clock w1"
    using persist_rotation_frame [of w1 X "server w" "hex_encode bytes" "pem_encode X ''PRIVATE KEY'' k1"
        "format_time X (clock w + grace)", folded w2_def]
    by (simp_all add: only_dbD)
  ultimately show ?thesis
    using rekey_agents_frame [OF r] that [OF g(4,5,3)] by (simp add: w1_def)
qed

text \<open>C17: Rotation retires secrets gracefully: after a rotation that answers 200 a token signed for a
  host under the secret that was current is accepted exactly while the granted grace period and its
  own lifetime both last, as a previous-key token; a token under the new secret is accepted for its
  lifetime as a current-key token; and a token under any other secret, the one a former rotation had
  left in its own grace period included, is refused from now on.\<close>

theorem rotation_retires_secrets:
  assumes "run_state (AdminRotateKeys X r) w = (Reply 200 body, w')"
    and "grace_duration X (rq_Body r) = Some grace" "sv_JWTSecret (server w) \<noteq> []"
    and "new = sv_JWTSecret (server w')" "new \<noteq> []" "new \<noteq> sv_JWTSecret (server w)"
    and "jwt_laws {sv_JWTSecret (server w), new, k} (jwt_signer X) (jwt_parser X)"
    and "k \<noteq> new" "k \<noteq> sv_JWTSecret (server w)"
  shows "(validateJWTDualKey (jwt_parser X) (Some (GetServerJWTSecrets w')) now
            (signed_for X (sv_JWTSecret (server w)) x j issued ttl) = Inr (agent_claims x j issued ttl, True)
          \<longleftrightarrow> now < clock w + grace \<and> unix_sec now < unix_sec (issued + ttl))
    \<and> (validateJWTDualKey (jwt_parser X) (Some (GetServerJWTSecrets w')) now (signed_for X new x j issued ttl)
          = Inr (agent_claims x j issued ttl, False) \<longleftrightarrow> unix_sec now < unix_sec (issued + ttl))
    \<and> isl (validateJWTDualKey (jwt_parser X) (Some (GetServerJWTSecrets w')) now (signed_for X k x j issued ttl))"
proof -
  let ?s = "GetServerJWTSecrets w'" and ?old = "sv_JWTSecret (server w)"
  have s: "sc_current ?s = new" "sc_previous ?s = ?old" "sc_deadline ?s = Some (clock w + grace)"
    using rotation_server [OF assms(1)] assms(2,4)
    by (force simp: GetServerJWTSecrets_def GetJWTSecrets_def rotated_def)+
  have parse: "parseJWT (jwt_parser X) now (signed_for X a x j issued ttl) b = Inr c \<longleftrightarrow>
      b = a \<and> unix_sec now < unix_sec (issued + ttl) \<and> c = agent_claims x j issued ttl"
    if "a \<in> {?old, new, k}" "b \<in> {?old, new, k}" for a b c
    using assms(7) that unfolding jwt_laws_def parseJWT_def signed_for_def by blast
  have other: "isl (parseJWT (jwt_parser X) now (signed_for X a x j issued ttl) b)"
    if "a \<in> {?old, new, k}" "b \<in> {?old, new, k}" "a \<noteq> b" for a b
    using parse [OF that(1,2)] that(3) by (cases "parseJWT (jwt_parser X) now (signed_for X a x j issued ttl) b") auto
  show ?thesis
    using s assms(3,5,6,8,9) other [of ?old new]
    by (simp add: ws_jwt.accepts_iff parse ws_jwt.unknown_key_rejected other)
qed

section \<open>The previous RSA key\<close>

abbreviation with_previous :: "string option \<Rightarrow> world \<Rightarrow> world" where
  "with_previous k w \<equiv> w\<lparr>server := (server w)\<lparr>sv_PreviousPrivateKey := k\<rparr>\<rparr>"

text \<open>The RSA key that a rotation keeps as the previous one is never used: whichever value it has,
  a token refresh gets the same answer, so a challenge sealed to the key the agent knew is judged by
  the new key alone, during the grace period as after it.\<close>

theorem previous_rsa_key_unused:
  "fst (run_state (TokenRefresh X r) (with_previous k w)) = fst (run_state (TokenRefresh X r) w)"
  by (simp add: TokenRefresh_def Let_def GetAgent_def run_case_option case_prod_beta split: option.split)

section \<open>Restart\<close>

lemma hex_encode_nonempty: "s \<noteq> [] \<Longrightarrow> hex_encode s \<noteq> []"
  by (cases s) (simp_all add: hex_encode_def Let_def)

lemma set_server_run [simp]:
  "run_state (set_server f) w = ((), w\<lparr>server := f (server w)\<rparr>)"
  by simp

lemma InitServerState_run:
  assumes "healthy (db u)" "cfg ''jwt_secret_current'' (db u) = cur" "cur \<noteq> []"
    and "cfg ''jwt_secret_previous'' (db u) = prev"
    and "cfg ''key_rotation_deadline'' (db u) = dl" "dl \<noteq> []" "parse_time X dl = Some d"
    and "opens X (cfg ''rsa_key_current'' (db u)) pem1" "pem1 \<noteq> []" "decodeRSAPrivateKey X pem1 = Inr (k1, pub1)"
    and "opens X (cfg ''rsa_key_previous'' (db u)) pem0" "pem0 \<noteq> []" "decodeRSAPrivateKey X pem0 = Inr (k0, pub0)"
  shows "run_state (InitServerState X) u = (Inr (), u\<lparr>server := (server u)\<lparr>sv_JWTSecret := cur,
     sv_JWTPreviousSecret := prev, sv_KeyRotationDeadline := Some d, sv_PrivateKey := Some k1,
     sv_PublicPEM := pub1, sv_PreviousPrivateKey := Some k0\<rparr>\<rparr>)"
proof -
  have load: "run_state (loadRSAKey X ''rsa_key_current'') v = (Inr pem1, v)"
      "run_state (loadRSAKey X ''rsa_key_previous'') v = (Inr pem0, v)" if "db v = db u" for v
    using assms(1,8,11) that by (auto simp: opens_def)
  have jwt: "run_state (init_jwt_secret X) u = (Inr (), u\<lparr>server := (server u)\<lparr>sv_JWTSecret := cur\<rparr>\<rparr>)"
    using assms(1,2,3) by (simp add: init_jwt_secret_def ConfigGet_run)
  have rot: "run_state (init_rotation X) v = (Inr (), v\<lparr>server := (server v)\<lparr>sv_JWTPreviousSecret := prev,
      sv_KeyRotationDeadline := Some d\<rparr>\<rparr>)" if "db v = db u" for v
    using assms(1,4-7) that by (simp add: init_rotation_def ConfigGet_run)
  have key: "run_state (init_current_key X) v = (Inr (), v\<lparr>server := (server v)\<lparr>sv_PrivateKey := Some k1,
      sv_PublicPEM := pub1\<rparr>\<rparr>)" if "db v = db u" for v
    using assms(9,10) load(1) [OF that] by (simp add: init_current_key_def)
  have prev: "run_state (init_previous_key X) v = ((), v\<lparr>server := (server v)\<lparr>sv_PreviousPrivateKey := Some k0\<rparr>\<rparr>)"
    if "db v = db u" for v
    using assms(12,13) load(2) [OF that] by (simp add: init_previous_key_def)
  show ?thesis by (simp add: InitServerState_def jwt rot key prev)
qed

text \<open>What a rotation leaves: the new state of the server and, in the database, all it needs at a restart.\<close>

lemma rotation_result:
  assumes "run_state (AdminRotateKeys X r) w = (Reply 200 body, w')"
    and "healthy (db w)" "sv_PrivateKey (server w) = Some k0"
    and "key_laws X (insert k0 {k. \<exists>n. gen_rsa X n = Some k})"
  obtains grace bytes k1 n n' where "rand_bytes X 32 n = Some bytes" "gen_rsa X n' = Some k1" "healthy (db w')"
    "server w' = rotated (server w) (hex_encode bytes) k1 (pem_encode X ''PUBLIC KEY'' (rsa_public X k1)) (clock w + grace)"
    "cfg ''jwt_secret_previous'' (db w') = sv_JWTSecret (server w)" "cfg ''jwt_secret_current'' (db w') = hex_encode bytes"
    "cfg ''key_rotation_deadline'' (db w') = format_time X (clock w + grace)"
    "opens X (cfg ''rsa_key_previous'' (db w')) (pem_encode X ''PRIVATE KEY'' k0)"
    "opens X (cfg ''rsa_key_current'' (db w')) (pem_encode X ''PRIVATE KEY'' k1)"
proof -
  obtain grace bytes k1 where g: "requireAdminAuth (server w) r = None" "adminStore_set w"
      "grace_duration X (rq_Body r) = Some grace" "rand_bytes X 32 (entropy w) = Some bytes"
      "gen_rsa X (Suc (entropy w)) = Some k1"
    using rotation_200 [OF assms(1)] by blast
  let ?pem1 = "pem_encode X ''PRIVATE KEY'' k1" and ?pem0 = "pem_encode X ''PRIVATE KEY'' k0"
  let ?dl = "format_time X (clock w + grace)"
  define w1 where "w1 = w\<lparr>entropy := Suc (Suc (entropy w)), server := rotated (server w) (hex_encode bytes) k1
      (pem_encode X ''PUBLIC KEY'' (rsa_public X k1)) (clock w + grace)\<rparr>"
  define w2 where "w2 = snd (run_state (persist_rotation X (server w) (hex_encode bytes) ?pem1 ?dl) w1)"
  obtain n w3 where r: "run_state (rekey_agents X (hex_encode bytes) (sv_JWTttl (server w))
      (GetConnectedHostnames (hb w2)) 0) w2 = (n, w3)" by fastforce
  have w3: "w' = w3" using AdminRotateKeys_run [OF g w1_def w2_def r] assms(1) by simp
  obtain d2 e2 where p: "run_state (persist_rotation X (server w) (hex_encode bytes) ?pem1 ?dl) w1
        = ((), w1\<lparr>db := d2, entropy := e2\<rparr>)" "healthy d2"
      "cfg ''jwt_secret_previous'' d2 = sv_JWTSecret (server w)" "cfg ''jwt_secret_current'' d2 = hex_encode bytes"
      "cfg ''key_rotation_deadline'' d2 = ?dl" "opens X (cfg ''rsa_key_previous'' d2) ?pem0"
      "opens X (cfg ''rsa_key_current'' d2) ?pem1"
    by (rule persist_rotation_run [OF assms(4) _ assms(3) refl, of w1 "hex_encode bytes" k1 ?dl])
      (use assms(2) in \<open>auto simp: w1_def\<close>)
  have w2: "w2 = w1\<lparr>db := d2, entropy := e2\<rparr>" by (simp add: w2_def p(1))
  have frame: "server w' = server w1" "server_config (db w') = server_config d2" "healthy (db w')"
    using rekey_agents_frame [OF r] p(2) by (simp_all add: w2 w3)
  have cfg: "cfg k (db w') = cfg k d2" for k
    by (rule cfg_config [OF frame(2)])
  show thesis
    using frame p(3-) by (intro that [OF g(4,5)]) (simp_all add: w1_def cfg)
qed

text \<open>C13: A key rotation survives a restart: when the database answers and the random source
  delivers, a server started on the database a rotation left behind, with whatever secret its
  environment names, comes up with the secrets, the RSA keys and the public key text that were in
  force, and with the rotation deadline cut to the second.\<close>

theorem rotation_survives_restart:
  assumes "run_state (AdminRotateKeys X r) w = (Reply 200 body, w')"
    and "healthy (db w)" "sv_PrivateKey (server w) = Some k0"
    and "key_laws X (insert k0 {k. \<exists>n. gen_rsa X n = Some k})"
    and "init_server X = Some s0" "db u = db w'" "server u = s0"
    and "sv_KeyRotationDeadline (server w') = Some d"
  shows "\<exists>u'. run_state (InitServerState X) u = (Inr (), u') \<and> db u' = db w'
    \<and> server u' = (server w')\<lparr>sv_KeyRotationDeadline := Some (from_unix (unix_sec d)),
         sv_AdminToken := getenv X ''ADMIN_TOKEN'', sv_JWTttl := 3600 * 1000000000\<rparr>"
proof -
  obtain grace bytes k1 n n' where res: "rand_bytes X 32 n = Some bytes" "gen_rsa X n' = Some k1" "healthy (db w')"
    "server w' = rotated (server w) (hex_encode bytes) k1 (pem_encode X ''PUBLIC KEY'' (rsa_public X k1)) (clock w + grace)"
    "cfg ''jwt_secret_previous'' (db w') = sv_JWTSecret (server w)" "cfg ''jwt_secret_current'' (db w') = hex_encode bytes"
    "cfg ''key_rotation_deadline'' (db w') = format_time X (clock w + grace)"
    "opens X (cfg ''rsa_key_previous'' (db w')) (pem_encode X ''PRIVATE KEY'' k0)"
    "opens X (cfg ''rsa_key_current'' (db w')) (pem_encode X ''PRIVATE KEY'' k1)"
    by (rule rotation_result [OF assms(1-4)])
  have d: "d = clock w + grace" using assms(8) by (simp add: res(4) rotated_def)
  have decode: "decodeRSAPrivateKey X (pem_encode X ''PRIVATE KEY'' k) = Inr (k, pem_encode X ''PUBLIC KEY'' (rsa_public X k))"
    if "k \<in> {k0, k1}" for k
    using assms(4) res(2) that by (auto simp: key_laws_def decodeRSAPrivateKey_def)
  have laws: "pem_encode X t b \<noteq> []" "format_time X t' \<noteq> []" "parse_time X (format_time X t') = Some (from_unix (unix_sec t'))"
      "length bytes = 32" for t b t'
    using assms(4) res(1) unfolding key_laws_def by (blast, blast, blast, metis option.inject)
  have nonempty: "hex_encode bytes \<noteq> []" using laws(4) by (intro hex_encode_nonempty) auto
  have "run_state (InitServerState X) u = (Inr (), u\<lparr>server := (server u)\<lparr>sv_JWTSecret := hex_encode bytes,
     sv_JWTPreviousSecret := sv_JWTSecret (server w), sv_KeyRotationDeadline := Some (from_unix (unix_sec d)),
     sv_PrivateKey := Some k1, sv_PublicPEM := pem_encode X ''PUBLIC KEY'' (rsa_public X k1),
     sv_PreviousPrivateKey := Some k0\<rparr>\<rparr>)"
    by (rule InitServerState_run [OF _ _ nonempty _ _ laws(2) laws(3) [of d] _ laws(1) decode [of k1] _ laws(1) decode [of k0]])
      (use res(3,5-) assms(6) in \<open>simp_all add: d\<close>)
  moreover have "server u = \<lparr>sv_PrivateKey = None, sv_PublicPEM = [], sv_PreviousPrivateKey = None,
      sv_JWTSecret = getenv X ''JWT_SECRET_KEY'', sv_JWTPreviousSecret = [], sv_KeyRotationDeadline = None,
      sv_AdminToken = getenv X ''ADMIN_TOKEN'', sv_JWTttl = 3600 * 1000000000\<rparr>"
    using assms(5,7) by (auto simp: init_server_def split: if_splits)
  ultimately show ?thesis
    using assms(3,6) res(4) by (cases "server w") (simp add: rotated_def)
qed

section \<open>An instance\<close>

definition example_env :: ext where
  "example_env = example_ext\<lparr>getenv := (\<lambda>k. if k = ''ADMIN_TOKEN'' then ''adm''
     else if k = ''JWT_SECRET_KEY'' then ''env'' else if k = ''RSA_MASTER_KEY'' then ''mk'' else [])\<rparr>"

definition example_admin :: request where
  "example_admin = example_request\<lparr>rq_Header := [(''Authorization'', ''Bearer adm'')]\<rparr>"

lemma example_key_laws: "key_laws example_env keys"
proof -
  have "spell_int n \<noteq> []" for n by (simp add: spell_int_def spell_def)
  moreover have "\<not> HasPrefix (spell t @ b) ''enc:''" for t b
    by (cases "length t") (simp_all add: spell_def HasPrefix_def)
  ultimately show ?thesis
    by (simp add: key_laws_def example_env_def example_ext_def read_spell_int) (simp add: spell_def)
qed

lemma example_env_random: "rand_bytes example_env 32 n = Some (replicate 32 (char_of n))" "gen_rsa example_env n = Some (replicate n CHR ''k'')"
  by (simp_all add: example_env_def example_ext_def)

lemma example_rotation:
  obtains body w' where "run_state (AdminRotateKeys example_env example_admin) example_world = (Reply 200 body, w')"
    "sv_JWTSecret (server w') = hex_encode (replicate 32 (char_of (0::nat)))"
    "sv_KeyRotationDeadline (server w') = Some 86405000000000"
proof -
  have g: "requireAdminAuth (server example_world) example_admin = None" "adminStore_set example_world"
    "grace_duration example_env (rq_Body example_admin) = Some 86400000000000"
    by (simp_all add: requireAdminAuth_def example_admin_def Header_Get_def mget_or_def HasPrefix_def
        example_world_def example_server_def grace_duration_def example_request_def)
  obtain body w' where r: "run_state (AdminRotateKeys example_env example_admin) example_world = (Reply 200 body, w')"
    using AdminRotateKeys_run [OF g example_env_random refl refl surjective_pairing] by blast
  obtain bytes k1 grace where "rand_bytes example_env 32 (entropy example_world) = Some bytes"
      "grace_duration example_env (rq_Body example_admin) = Some grace"
      "server w' = rotated (server example_world) (hex_encode bytes) k1
        (pem_encode example_env ''PUBLIC KEY'' (rsa_public example_env k1)) (clock example_world + grace)"
    using rotation_server [OF r] by metis
  with r g(3) that show ?thesis by (simp add: example_env_random example_srv rotated_def)
qed

lemma rotation_survives_restart_witness:
  "\<exists>(w' :: world) u'. run_state (InitServerState example_env) (example_world\<lparr>db := db w', server := the (init_server example_env)\<rparr>) = (Inr (), u')
     \<and> sv_JWTPreviousSecret (server w') = ''k1''
     \<and> sv_JWTPreviousSecret (server u') = ''k1'' \<and> sv_KeyRotationDeadline (server u') = Some 86405000000000"
proof -
  obtain body w' where w': "run_state (AdminRotateKeys example_env example_admin) example_world = (Reply 200 body, w')"
      "sv_KeyRotationDeadline (server w') = Some 86405000000000"
    by (rule example_rotation)
  have prev: "sv_JWTPreviousSecret (server w') = ''k1''"
    by (rule rotation_server [OF w'(1)]) (simp add: rotated_def example_srv)
  have init: "init_server example_env = Some (the (init_server example_env))"
    by (simp add: init_server_def example_env_def)
  have "healthy (db example_world)" by simp
  from rotation_survives_restart [OF w'(1) this example_srv(1) example_key_laws init _ _ w'(2),
      of "example_world\<lparr>db := db w', server := the (init_server example_env)\<rparr>"]
  obtain u' where u': "run_state (InitServerState example_env)
        (example_world\<lparr>db := db w', server := the (init_server example_env)\<rparr>) = (Inr (), u')"
      "server u' = (server w')\<lparr>sv_KeyRotationDeadline := Some (from_unix (unix_sec 86405000000000)),
         sv_AdminToken := getenv example_env ''ADMIN_TOKEN'', sv_JWTttl := 3600 * 1000000000\<rparr>"
    by auto
  then have "sv_JWTPreviousSecret (server u') = ''k1''" "sv_KeyRotationDeadline (server u') = Some 86405000000000"
    using prev by (simp_all add: from_unix_def unix_sec_def)
  with u'(1) prev show ?thesis by blast
qed

lemma example_new_secret:
  "hex_encode (replicate 32 (char_of (0::nat))) = CHR ''0'' # CHR ''0'' # hex_encode (replicate 31 (char_of (0::nat)))"
proof -
  have "replicate 32 c = c # replicate 31 c" for c :: char
    using replicate_Suc [of 31 c] by simp
  moreover have "char_of (48 :: nat) = CHR ''0''" by code_simp
  ultimately show ?thesis by (simp add: hex_encode_def hex_digit_def)
qed

lemma rotation_retires_secrets_witness:
  "\<exists>w'. validateJWTDualKey (jwt_parser example_env) (Some (GetServerJWTSecrets w')) 6000000000
     (signed_for example_env ''k1'' ''web1'' ''j'' 0 3600000000000) = Inr (agent_claims ''web1'' ''j'' 0 3600000000000, True)
   \<and> isl (validateJWTDualKey (jwt_parser example_env) (Some (GetServerJWTSecrets w')) 6000000000
     (signed_for example_env ''old'' ''web1'' ''j'' 0 3600000000000))"
proof -
  obtain body w' where w': "run_state (AdminRotateKeys example_env example_admin) example_world = (Reply 200 body, w')"
      "sv_JWTSecret (server w') = hex_encode (replicate 32 (char_of (0::nat)))"
    by (rule example_rotation)
  have g: "grace_duration example_env (rq_Body example_admin) = Some 86400000000000"
    by (simp add: grace_duration_def example_admin_def example_request_def)
  have laws: "jwt_laws K (jwt_signer example_env) (jwt_parser example_env)" for K
    by (simp add: example_env_def)
  have "validateJWTDualKey (jwt_parser example_env) (Some (GetServerJWTSecrets w')) 6000000000
     (signed_for example_env ''k1'' ''web1'' ''j'' 0 3600000000000) = Inr (agent_claims ''web1'' ''j'' 0 3600000000000, True)
   \<and> isl (validateJWTDualKey (jwt_parser example_env) (Some (GetServerJWTSecrets w')) 6000000000
     (signed_for example_env ''old'' ''web1'' ''j'' 0 3600000000000))"
    using rotation_retires_secrets [OF w'(1) g _ refl _ _ laws, of "''old''" 6000000000 "''web1''" "''j''" 0 3600000000000]
    by (simp add: w'(2) example_new_secret example_srv unix_sec_def)
  then show ?thesis by blast
qed

end
