(* ===== verification/Admin.thy ===== *)
theory Admin
  imports Security PluginAuth GoNum
begin

text \<open>
  The administrator's endpoints for agents (\<open>handlers/admin.go\<close>) and the inventory
  (\<open>handlers/inventory.go\<close>): listing and inspecting agents, suspending them, forcing their status,
  editing their variables, revoking and deleting them, server status and statistics, and the log of
  hook actions.
\<close>

section \<open>Agents\<close>

definition found_host :: "string \<Rightarrow> response io \<Rightarrow> response io" where
  "found_host hostname body =
     (if hostname = [] then reply (reply_error 400 ''missing_hostname'') else body)"

abbreviation timestamp :: "ext \<Rightarrow> int \<Rightarrow> json" where
  "timestamp X t \<equiv> JStr (format_time X (from_unix t))"

definition MinionSummary :: "ext \<Rightarrow> string list \<Rightarrow> AgentRecord \<Rightarrow> json" where
  "MinionSummary X connected a = JObj
     [(''hostname'', JStr (ag_Hostname a)),
      (''status'', JStr (if ag_Hostname a \<in> set connected then ''connected'' else ag_Status a)),
      (''last_seen'', timestamp X (ag_LastSeen a)), (''suspended'', JBool (ag_Suspended a)),
      (''enrolled_at'', timestamp X (ag_EnrolledAt a))]"

definition AdminListMinions :: "ext \<Rightarrow> request \<Rightarrow> response io" where
  "AdminListMinions X r = admin_with_store r (do {
     listed \<leftarrow> on_store (ListAgents False);
     h \<leftarrow> gets hb;
     reply (case listed of
              Inl _ \<Rightarrow> reply_error 500 ''db_error''
            | Inr as \<Rightarrow> Reply 200 (JArr (map (MinionSummary X (GetConnectedHostnames h)) as)))
   })"

definition publicKeyFingerprint :: "string \<Rightarrow> string" where
  "publicKeyFingerprint pem =
     (case List.find (\<lambda>l. l \<noteq> [] \<and> \<not> HasPrefix l ''-----'') (split_on (char_of (10 :: nat)) pem) of
        None \<Rightarrow> []
      | Some l \<Rightarrow> if 16 < length l then take 16 l @ ''...'' else l)"

definition vars_json :: "json \<Rightarrow> json" where
  "vars_json vars = (case unmarshal_map vars of
     None \<Rightarrow> JObj [] | Some NilMap \<Rightarrow> JNull | Some (MapOf m) \<Rightarrow> JObj m)"

definition MinionDetail :: "ext \<Rightarrow> AgentRecord \<Rightarrow> json" where
  "MinionDetail X a = JObj
     [(''hostname'', JStr (ag_Hostname a)), (''status'', JStr (ag_Status a)),
      (''last_seen'', timestamp X (ag_LastSeen a)), (''suspended'', JBool (ag_Suspended a)),
      (''enrolled_at'', timestamp X (ag_EnrolledAt a)),
      (''key_fingerprint'', JStr (publicKeyFingerprint (ag_PublicKeyPEM a))),
      (''vars'', vars_json (ag_Vars a))]"

definition AdminGetMinion :: "ext \<Rightarrow> request \<Rightarrow> response io" where
  "AdminGetMinion X r =
     (let hostname = PathValue r ''hostname'' in
      admin_only r (found_host hostname (with_store (do {
        found \<leftarrow> on_store (GetAgent hostname);
        reply (case found of
                 Inl _ \<Rightarrow> reply_error 500 ''db_error''
               | Inr None \<Rightarrow> reply_error 404 ''agent_not_found''
               | Inr (Some agent) \<Rightarrow> Reply 200 (MinionDetail X agent))
      }))))"

definition host_status :: "string \<Rightarrow> string \<Rightarrow> json" where
  "host_status hostname st = JObj [(''hostname'', JStr hostname), (''status'', JStr st)]"

definition set_suspended :: "bool \<Rightarrow> string \<Rightarrow> request \<Rightarrow> response io" where
  "set_suspended flag st r =
     (let hostname = PathValue r ''hostname'' in
      admin_only r (found_host hostname (with_store (do {
        found \<leftarrow> on_store (SetSuspended hostname flag);
        reply (case found of
                 Inl _ \<Rightarrow> reply_error 500 ''db_error''
               | Inr False \<Rightarrow> reply_error 404 ''agent_not_found''
               | Inr True \<Rightarrow> Reply 200 (host_status hostname st))
      }))))"

definition AdminSuspendMinion :: "request \<Rightarrow> response io" where
  "AdminSuspendMinion r = set_suspended True ''suspended'' r"

definition AdminResumeMinion :: "request \<Rightarrow> response io" where
  "AdminResumeMinion r = set_suspended False ''active'' r"

definition decode_SetStateRequest :: "json \<Rightarrow> string option" where
  "decode_SetStateRequest j = Option.bind (obj_pairs j) (string_field ''status'')"

definition AdminSetMinionState :: "request \<Rightarrow> response io" where
  "AdminSetMinionState r =
     (let hostname = PathValue r ''hostname'' in
      admin_only r (found_host hostname
        (case Option.bind (rq_Body r) decode_SetStateRequest of
           None \<Rightarrow> reply (reply_error 400 ''invalid_json'')
         | Some st \<Rightarrow>
             if st \<noteq> ''connected'' \<and> st \<noteq> ''disconnected'' then reply (reply_error 400 ''invalid_status'')
             else with_store (do {
               now \<leftarrow> gets clock;
               updated \<leftarrow> on_store (UpdateAgentStatus now hostname st None);
               reply (case updated of
                        Inl _ \<Rightarrow> reply_error 500 ''db_error''
                      | Inr _ \<Rightarrow> Reply 200 (host_status hostname st))
             }))))"

section \<open>Variables\<close>

definition AdminGetMinionVars :: "request \<Rightarrow> response io" where
  "AdminGetMinionVars r =
     (let hostname = PathValue r ''hostname'' in
      admin_only r (found_host hostname (with_store (do {
        found \<leftarrow> on_store (GetAgentVars hostname);
        reply (case found of
                 Inl _ \<Rightarrow> reply_error 500 ''db_error''
               | Inr None \<Rightarrow> reply_error 404 ''agent_not_found''
               | Inr (Some vars) \<Rightarrow> Reply 200 (vars_json vars))
      }))))"

text \<open>The loop over the pairs of the body: \<open>None\<close> when all were stored.\<close>

primrec set_vars :: "string \<Rightarrow> (string \<times> json) list \<Rightarrow> response option io" where
  "set_vars hostname [] = State_Monad.return None"
| "set_vars hostname (kv # rest) = do {
     stored \<leftarrow> on_store (SetAgentVar hostname (fst kv) (snd kv));
     case stored of
       Inr _ \<Rightarrow> set_vars hostname rest
     | Inl e \<Rightarrow> State_Monad.return (Some
         (if e = NilMapPanic then Aborted
          else if e = AgentNotFound then reply_error 404 ''agent_not_found''
          else reply_error 500 ''db_error''))
   }"

definition AdminSetMinionVars :: "request \<Rightarrow> response io" where
  "AdminSetMinionVars r =
     (let hostname = PathValue r ''hostname'' in
      admin_only r (found_host hostname
        (case Option.bind (rq_Body r) unmarshal_map of
           None \<Rightarrow> reply (reply_error 400 ''invalid_json'')
         | Some kvPairs \<Rightarrow> with_store (do {
             failed \<leftarrow> set_vars hostname (case kvPairs of NilMap \<Rightarrow> [] | MapOf m \<Rightarrow> m);
             reply (case failed of Some e \<Rightarrow> e | None \<Rightarrow> Reply 200 (host_status hostname ''updated''))
           }))))"

definition AdminDeleteMinionVar :: "request \<Rightarrow> response io" where
  "AdminDeleteMinionVar r =
     (let hostname = PathValue r ''hostname''; key = PathValue r ''key'' in
      admin_only r
        (if hostname = [] \<or> key = [] then reply (reply_error 400 ''missing_params'')
         else with_store (do {
           deleted \<leftarrow> on_store (DeleteAgentVar hostname key);
           reply (case deleted of
                    Inl e \<Rightarrow> if e = AgentNotFound then reply_error 404 ''agent_not_found''
                             else reply_error 500 ''db_error''
                  | Inr False \<Rightarrow> reply_error 404 ''key_not_found''
                  | Inr True \<Rightarrow> Reply 200 (JObj [(''hostname'', JStr hostname), (''key'', JStr key),
                      (''status'', JStr ''deleted'')]))
         })))"

section \<open>Revocation and deletion\<close>

definition WSCloseRevoked :: int where "WSCloseRevoked = 4001"
definition WSCloseNormal :: int where "WSCloseNormal = 4000"

definition gone_body :: "string \<Rightarrow> string \<Rightarrow> bool \<Rightarrow> json" where
  "gone_body hostname st disconnected = JObj [(''hostname'', JStr hostname), (''status'', JStr st),
     (''ws_disconnected'', JBool disconnected)]"

definition AdminRevokeMinion :: "request \<Rightarrow> response io" where
  "AdminRevokeMinion r =
     (let hostname = PathValue r ''hostname'' in
      admin_only r (found_host hostname (with_store (do {
        found \<leftarrow> on_store (GetAgent hostname);
        case found of
          Inl _ \<Rightarrow> reply (reply_error 500 ''db_error'')
        | Inr None \<Rightarrow> reply (reply_error 404 ''agent_not_found'')
        | Inr (Some agent) \<Rightarrow> do {
            now \<leftarrow> gets clock;
            _ \<leftarrow> (if ag_TokenJTI agent = [] then State_Monad.return (Inr ())
                 else on_store (AddToBlacklist now (ag_TokenJTI agent) hostname
                   (unix_sec (now + 25 * 3600 * 1000000000)) (Some ''admin_revoke'')));
            wsDisconnected \<leftarrow> on_hub (CloseAgent hostname WSCloseRevoked ''token_revoked'');
            _ \<leftarrow> on_store (UpdateAgentStatus now hostname ''disconnected'' None);
            _ \<leftarrow> dispatch_hook ''host.revoked'' hostname ''revoked'' None;
            reply (Reply 200 (gone_body hostname ''revoked'' wsDisconnected))
          }
      }))))"

definition AdminDeleteMinion :: "request \<Rightarrow> response io" where
  "AdminDeleteMinion r =
     (let hostname = PathValue r ''hostname'' in
      admin_only r (found_host hostname (with_store (do {
        found \<leftarrow> on_store (GetAgent hostname);
        case found of
          Inl _ \<Rightarrow> reply (reply_error 500 ''db_error'')
        | Inr None \<Rightarrow> reply (reply_error 404 ''agent_not_found'')
        | Inr (Some agent) \<Rightarrow> do {
            wsDisconnected \<leftarrow> on_hub (CloseAgent hostname WSCloseNormal ''admin_delete'');
            deleted \<leftarrow> on_store (DeleteAgent hostname);
            case deleted of
              Inl _ \<Rightarrow> reply (reply_error 500 ''db_error'')
            | Inr False \<Rightarrow> reply (reply_error 404 ''agent_not_found'')
            | Inr True \<Rightarrow> do {
                _ \<leftarrow> dispatch_hook ''host.deleted'' hostname ''deleted'' None;
                reply (Reply 200 (gone_body hostname ''deleted'' wsDisconnected))
              }
          }
      }))))"

section \<open>Status and statistics\<close>

text \<open>\<open>health\<close> is \<open>NATSHealthCheck\<close> (\<open>None\<close>: not injected), \<open>started\<close> the start of the process.\<close>

definition AdminStatus :: "bool option \<Rightarrow> time \<Rightarrow> request \<Rightarrow> response io" where
  "AdminStatus health started r = admin_only r (do {
     have_store \<leftarrow> gets adminStore_set;
     dbStatus \<leftarrow> (if \<not> have_store then State_Monad.return ''uninitialized''
       else do {
         listed \<leftarrow> on_store (ListAgents False);
         State_Monad.return (case listed of Inl _ \<Rightarrow> ''error'' | Inr _ \<Rightarrow> ''ok'')
       });
     w \<leftarrow> State_Monad.get;
     reply (Reply 200 (JObj
       [(''nats'', JStr (if health = Some True then ''ok'' else ''unreachable'')),
        (''db'', JStr dbStatus),
        (''ws_connections'', JNum (int (GetConnectedCount (hb w)))),
        (''uptime'', JStr (show_nat (nat (unix_sec (clock w - started))) @ ''s''))]))
   })"

definition AdminStats :: "request \<Rightarrow> response io" where
  "AdminStats r = admin_only r (do {
     agentsConnected \<leftarrow> gets (\<lambda>w. GetConnectedCount (hb w));
     have_store \<leftarrow> gets adminStore_set;
     agentsTotal \<leftarrow> (if \<not> have_store then State_Monad.return 0
       else do {
         listed \<leftarrow> on_store (ListAgents False);
         State_Monad.return (case listed of Inl _ \<Rightarrow> 0 | Inr as \<Rightarrow> length as)
       });
     tasks \<leftarrow> gets (\<lambda>w. GetPendingTaskCount (hb w));
     reply (Reply 200 (JObj [(''agents_connected'', JNum (int agentsConnected)),
       (''agents_total'', JNum (int agentsTotal)), (''tasks_active'', JNum (int tasks))]))
   })"

section \<open>The action log\<close>

definition log_entry :: "ext \<Rightarrow> ActionLogEntry \<Rightarrow> json" where
  "log_entry X e = JObj
     [(''id'', JStr (le_ID e)), (''event'', JStr (le_Event e)), (''hostname'', JStr (le_Hostname e)),
      (''action_type'', JStr (le_ActionType e)), (''action_index'', JNum (le_ActionIndex e)),
      (''config_snapshot'', JStr (le_ConfigSnapshot e)), (''success'', JBool (le_Success e)),
      (''error'', JStr (le_Error e)), (''duration_ms'', JNum (le_DurationMs e)),
      (''executed_at'', JStr (format_time X (le_ExecutedAt e)))]"

definition AdminHooksLog :: "ext \<Rightarrow> request \<Rightarrow> response io" where
  "AdminHooksLog X r = admin_with_store r
     (let lStr = Query_Get r ''limit''; n = Atoi lStr in
      if lStr \<noteq> [] \<and> (case n of None \<Rightarrow> True | Some n \<Rightarrow> n < 1 \<or> 200 < n) then
        reply (Reply 400 (JObj [(''error'', JStr ''invalid_limit''),
          (''detail'', JStr ''must be between 1 and 200'')]))
      else do {
        entries \<leftarrow> on_store (ListActionLogs
          \<lparr>lf_Event = Query_Get r ''event'', lf_Hostname = Query_Get r ''hostname'',
            lf_Limit = (if lStr = [] then 50 else the n)\<rparr>);
        reply (case entries of
                 Inl _ \<Rightarrow> reply_error 500 ''db_error''
               | Inr es \<Rightarrow> Reply 200 (JArr (map (log_entry X) es)))
      })"

section \<open>Inventory\<close>

definition HostVars :: "ext \<Rightarrow> string list \<Rightarrow> time \<Rightarrow> string \<Rightarrow> json" where
  "HostVars X connected now hostname = JObj
     [(''ansible_connection'', JStr ''relay''), (''ansible_host'', JStr hostname),
      (''secagent_status'', JStr (if hostname \<in> set connected then ''connected'' else ''disconnected'')),
      (''secagent_last_seen'', JStr (format_time X now))]"

text \<open>The response is the host list and the host variables; without a store both are empty.\<close>

definition buildInventoryResponse :: "ext \<Rightarrow> bool \<Rightarrow> (string list \<times> (string, json) gomap) io" where
  "buildInventoryResponse X onlyConnected = do {
     connected \<leftarrow> gets (\<lambda>w. GetConnectedHostnames (hb w));
     now \<leftarrow> gets clock;
     have_store \<leftarrow> gets adminStore_set;
     if \<not> have_store then State_Monad.return ([], [])
     else do {
       listed \<leftarrow> on_store (ListAgents False);
       State_Monad.return
         (case listed of
            Inl _ \<Rightarrow> ([], [])
          | Inr as \<Rightarrow>
              (let hosts = filter (\<lambda>h. \<not> (onlyConnected \<and> h \<notin> set connected)) (map ag_Hostname as)
               in (hosts, fold (\<lambda>h vars. mput h (HostVars X connected now h) vars) hosts [])))
     }
   }"

definition inventory_json :: "string list \<times> (string, json) gomap \<Rightarrow> json" where
  "inventory_json r = JObj
     [(''all'', JObj [(''hosts'', JArr (map JStr (fst r)))]), (''_meta'', JObj [(''hostvars'', JObj (snd r))])]"

definition parseOnlyConnected :: "request \<Rightarrow> bool" where
  "parseOnlyConnected r =
     (let connStr = Query_Get r ''only_connected'' in
      if connStr = [] then False else case ParseBool connStr of None \<Rightarrow> False | Some v \<Rightarrow> v)"

definition GetInventory :: "ext \<Rightarrow> request \<Rightarrow> response io" where
  "GetInventory X r = do {
     auth \<leftarrow> requirePluginAuth X r;
     case auth of
       Inl e \<Rightarrow> reply e
     | Inr _ \<Rightarrow> do {
         response \<leftarrow> buildInventoryResponse X (parseOnlyConnected r);
         reply (Reply 200 (inventory_json response))
       }
   }"

definition AdminGetInventory :: "ext \<Rightarrow> request \<Rightarrow> response io" where
  "AdminGetInventory X r = admin_only r (do {
     response \<leftarrow> buildInventoryResponse X (parseOnlyConnected r);
     reply (Reply 200 (inventory_json response))
   })"

end
