(* ===== verification/AdminTokens.thy ===== *)
theory AdminTokens
  imports Security
begin

text \<open>
  The administrator's endpoints for enrollment and plugin tokens (\<open>handlers/admin_tokens.go\<close>):
  creation (the only answer that holds the plain token), listing, revocation, deletion, purge.
\<close>

section \<open>Creation\<close>

record TokenCreateRequest =
  tc_Role :: string
  tc_HostnamePattern :: string
  tc_Reusable :: int
  tc_Description :: string
  tc_AllowedIPs :: string
  tc_AllowedHostnamePattern :: string
  tc_ExpiresAt :: string
  tc_CreatedBy :: string

definition decode_TokenCreateRequest :: "json \<Rightarrow> TokenCreateRequest option" where
  "decode_TokenCreateRequest j = do {
     ps \<leftarrow> obj_pairs j;
     role \<leftarrow> string_field ''role'' ps;
     pattern \<leftarrow> string_field ''hostname_pattern'' ps;
     reusable \<leftarrow> int_field ''reusable'' ps;
     description \<leftarrow> string_field ''description'' ps;
     ips \<leftarrow> string_field ''allowed_ips'' ps;
     hostpat \<leftarrow> string_field ''allowed_hostname_pattern'' ps;
     expires \<leftarrow> string_field ''expires_at'' ps;
     created_by \<leftarrow> string_field ''created_by'' ps;
     Some \<lparr>tc_Role = role, tc_HostnamePattern = pattern, tc_Reusable = reusable,
       tc_Description = description, tc_AllowedIPs = ips, tc_AllowedHostnamePattern = hostpat,
       tc_ExpiresAt = expires, tc_CreatedBy = created_by\<rparr>
   }"

text \<open>A string field tagged \<open>omitempty\<close>.\<close>

definition omitempty :: "string \<Rightarrow> string \<Rightarrow> (string \<times> json) list" where
  "omitempty k s = (if s = [] then [] else [(k, JStr s)])"

definition TokenCreateResponse ::
  "ext \<Rightarrow> TokenCreateRequest \<Rightarrow> string \<Rightarrow> string \<Rightarrow> time option \<Rightarrow> time \<Rightarrow> json" where
  "TokenCreateResponse X req tokenPlain i expiresAt now = JObj
     ([(''token'', JStr tokenPlain), (''id'', JStr i), (''role'', JStr (tc_Role req))]
      @ omitempty ''expires_at'' (case expiresAt of None \<Rightarrow> [] | Some t \<Rightarrow> format_time X t)
      @ omitempty ''hostname_pattern'' (tc_HostnamePattern req)
      @ (if tc_Reusable req \<noteq> 0 then [(''reusable'', JBool True)] else [])
      @ omitempty ''description'' (tc_Description req)
      @ omitempty ''allowed_ips'' (tc_AllowedIPs req)
      @ omitempty ''allowed_hostname_pattern'' (tc_AllowedHostnamePattern req)
      @ [(''use_count'', JNum 0), (''created_at'', JStr (format_time X now))])"

definition token_prefix :: "string \<Rightarrow> string" where
  "token_prefix role = (if role = ''enrollment'' then ''secagent_enr_''
     else if role = ''plugin'' then ''secagent_plg_'' else [])"

definition new_enrollment_token :: "TokenCreateRequest \<Rightarrow> string \<Rightarrow> string \<Rightarrow> time \<Rightarrow> time option \<Rightarrow> EnrollmentToken" where
  "new_enrollment_token req i tokenHash now expiresAt =
     \<lparr>en_ID = i, en_TokenHash = tokenHash, en_HostnamePattern = tc_HostnamePattern req,
       en_Reusable = (tc_Reusable req \<noteq> 0), en_UseCount = 0, en_LastUsedAt = None, en_CreatedAt = now,
       en_ExpiresAt = expiresAt,
       en_CreatedBy = (if tc_CreatedBy req = [] then ''admin-cli'' else tc_CreatedBy req)\<rparr>"

definition new_plugin_token :: "TokenCreateRequest \<Rightarrow> string \<Rightarrow> string \<Rightarrow> time \<Rightarrow> time option \<Rightarrow> PluginToken" where
  "new_plugin_token req i tokenHash now expiresAt =
     \<lparr>pl_ID = i, pl_TokenHash = tokenHash, pl_Description = tc_Description req, pl_Role = ''plugin'',
       pl_AllowedIPs = tc_AllowedIPs req, pl_AllowedHostnamePattern = tc_AllowedHostnamePattern req,
       pl_CreatedAt = now, pl_ExpiresAt = expiresAt, pl_LastUsedAt = None, pl_LastUsedIP = [],
       pl_Revoked = False\<rparr>"

text \<open>The expiry of the request: \<open>None\<close> is an unreadable instant.\<close>

definition parse_expiry :: "ext \<Rightarrow> string \<Rightarrow> time option option" where
  "parse_expiry X s = (if s = [] then Some None else map_option Some (parse_time X s))"

definition AdminCreateToken :: "ext \<Rightarrow> request \<Rightarrow> response io" where
  "AdminCreateToken X r = admin_only r
     (case Option.bind (rq_Body r) decode_TokenCreateRequest of
        None \<Rightarrow> reply (reply_error 400 ''invalid_json'')
      | Some req0 \<Rightarrow>
          (let req = req0\<lparr>tc_Role := TrimSpace (tc_Role req0)\<rparr> in
           if tc_Role req \<noteq> ''enrollment'' \<and> tc_Role req \<noteq> ''plugin'' then reply (reply_error 400 ''invalid_role'')
           else with_store (do {
             n \<leftarrow> draw;
             case rand_bytes X 32 n of
               None \<Rightarrow> reply (reply_error 500 ''token_generation_failed'')
             | Some rawBytes \<Rightarrow> do {
                 let tokenPlain = token_prefix (tc_Role req) @ hex_encode rawBytes;
                 let tokenHash = sha256Hex X tokenPlain;
                 i \<leftarrow> newTaskID X;
                 now \<leftarrow> gets clock;
                 case parse_expiry X (tc_ExpiresAt req) of
                   None \<Rightarrow> reply (reply_error 400 ''invalid_expires_at'')
                 | Some expiresAt \<Rightarrow>
                     if tc_Role req = ''enrollment'' \<and> TrimSpace (tc_HostnamePattern req) = [] then
                       reply (reply_error 400 ''missing_hostname_pattern'')
                     else do {
                       created \<leftarrow> on_store
                         (if tc_Role req = ''enrollment''
                          then CreateEnrollmentToken (new_enrollment_token req i tokenHash now expiresAt)
                          else CreatePluginToken (new_plugin_token req i tokenHash now expiresAt));
                       reply (case created of
                                Inl _ \<Rightarrow> reply_error 500 ''db_error''
                              | Inr _ \<Rightarrow> Reply 201 (TokenCreateResponse X req tokenPlain i expiresAt now))
                     }
               }
           })))"

section \<open>Listing\<close>

definition optional_time :: "ext \<Rightarrow> string \<Rightarrow> time option \<Rightarrow> (string \<times> json) list" where
  "optional_time X k t = (case t of None \<Rightarrow> [] | Some t \<Rightarrow> omitempty k (format_time X t))"

definition enrollmentTokenToSummary :: "ext \<Rightarrow> EnrollmentToken \<Rightarrow> json" where
  "enrollmentTokenToSummary X t = JObj
     ([(''id'', JStr (en_ID t)), (''role'', JStr ''enrollment''), (''token_hash'', JStr (en_TokenHash t)),
       (''hostname_pattern'', JStr (en_HostnamePattern t)), (''reusable'', JBool (en_Reusable t)),
       (''use_count'', JNum (en_UseCount t))]
      @ optional_time X ''last_used_at'' (en_LastUsedAt t) @ optional_time X ''expires_at'' (en_ExpiresAt t)
      @ [(''created_at'', JStr (format_time X (en_CreatedAt t)))] @ omitempty ''created_by'' (en_CreatedBy t))"

definition pluginTokenToSummary :: "ext \<Rightarrow> PluginToken \<Rightarrow> json" where
  "pluginTokenToSummary X t = JObj
     ([(''id'', JStr (pl_ID t)), (''role'', JStr ''plugin''), (''token_hash'', JStr (pl_TokenHash t))]
      @ omitempty ''description'' (pl_Description t) @ omitempty ''allowed_ips'' (pl_AllowedIPs t)
      @ omitempty ''allowed_hostname_pattern'' (pl_AllowedHostnamePattern t)
      @ optional_time X ''expires_at'' (pl_ExpiresAt t) @ optional_time X ''last_used_at'' (pl_LastUsedAt t)
      @ omitempty ''last_used_ip'' (pl_LastUsedIP t)
      @ [(''revoked'', JBool (pl_Revoked t)), (''created_at'', JStr (format_time X (pl_CreatedAt t)))])"

definition AdminListTokens :: "ext \<Rightarrow> request \<Rightarrow> response io" where
  "AdminListTokens X r = admin_with_store r
     (let q = ToLower (Query_Get r ''role''); role = (if q = [] then ''all'' else q) in
      if role \<noteq> ''enrollment'' \<and> role \<noteq> ''plugin'' \<and> role \<noteq> ''all'' then
        reply (reply_error 400 ''invalid_role'')
      else do {
        es \<leftarrow> (if role = ''enrollment'' \<or> role = ''all'' then on_store ListEnrollmentTokens
              else State_Monad.return (Inr []));
        case es of
          Inl _ \<Rightarrow> reply (reply_error 500 ''db_error'')
        | Inr es \<Rightarrow> do {
            ps \<leftarrow> (if role = ''plugin'' \<or> role = ''all'' then on_store ListPluginTokens
                  else State_Monad.return (Inr []));
            reply (case ps of
                     Inl _ \<Rightarrow> reply_error 500 ''db_error''
                   | Inr ps \<Rightarrow> Reply 200 (JArr (map (enrollmentTokenToSummary X) es
                       @ map (pluginTokenToSummary X) ps)))
          }
      })"

section \<open>Revocation, deletion and purge\<close>

definition with_id :: "string \<Rightarrow> response io \<Rightarrow> response io" where
  "with_id i body = (if i = [] then reply (reply_error 400 ''missing_id'') else body)"

definition AdminRevokeToken :: "ext \<Rightarrow> request \<Rightarrow> response io" where
  "AdminRevokeToken X r =
     (let i = PathValue r ''id'' in
      admin_only r (with_id i (with_store (do {
        found \<leftarrow> on_store (RevokePluginToken i);
        now \<leftarrow> gets clock;
        case found of
          Inl _ \<Rightarrow> reply (reply_error 500 ''db_error'')
        | Inr True \<Rightarrow> reply (Reply 200 (JObj [(''revoked'', JBool True), (''id'', JStr i),
            (''updated_at'', JStr (format_time X now))]))
        | Inr False \<Rightarrow> do {
            tok \<leftarrow> on_store (GetEnrollmentTokenByID i);
            reply (case tok of
                     Inl _ \<Rightarrow> reply_error 500 ''db_error''
                   | Inr (Some _) \<Rightarrow> reply_error 400 ''enrollment_tokens_use_delete_not_revoke''
                   | Inr None \<Rightarrow> reply_error 404 ''token_not_found'')
          }
      }))))"

definition deleted_body :: "string \<Rightarrow> json" where
  "deleted_body i = JObj [(''deleted'', JBool True), (''id'', JStr i)]"

definition AdminDeleteToken :: "request \<Rightarrow> response io" where
  "AdminDeleteToken r =
     (let i = PathValue r ''id'' in
      admin_only r (with_id i (with_store (do {
        deleted \<leftarrow> on_store (DeleteEnrollmentToken i);
        case deleted of
          Inl _ \<Rightarrow> reply (reply_error 500 ''db_error'')
        | Inr True \<Rightarrow> reply (Reply 200 (deleted_body i))
        | Inr False \<Rightarrow> do {
            deleted \<leftarrow> on_store (DeletePluginToken i);
            reply (case deleted of
                     Inl _ \<Rightarrow> reply_error 500 ''db_error''
                   | Inr True \<Rightarrow> Reply 200 (deleted_body i)
                   | Inr False \<Rightarrow> reply_error 404 ''token_not_found'')
          }
      }))))"

definition AdminPurgeTokens :: "ext \<Rightarrow> request \<Rightarrow> response io" where
  "AdminPurgeTokens X r = admin_with_store r
     (let purgeExpired = (Query_Get r ''expired'' = ''1''); purgeUsed = (Query_Get r ''used'' = ''1'') in
      if \<not> purgeExpired \<and> \<not> purgeUsed then
        reply (reply_error 400 ''specify_at_least_one_param_expired_or_used'')
      else do {
        now \<leftarrow> gets clock;
        a \<leftarrow> (if purgeExpired then on_store (PurgeExpiredEnrollmentTokens now)
             else State_Monad.return (Inr 0));
        case a of
          Inl _ \<Rightarrow> reply (reply_error 500 ''db_error'')
        | Inr n \<Rightarrow> do {
            b \<leftarrow> (if purgeUsed then on_store PurgeUsedOneShotEnrollmentTokens
                 else State_Monad.return (Inr 0));
            reply (case b of
                     Inl _ \<Rightarrow> reply_error 500 ''db_error''
                   | Inr m \<Rightarrow> Reply 200 (JObj [(''deleted_count'', JNum (int (n + m))),
                       (''purged_at'', JStr (format_time X now))]))
          }
      })"

end
