(* ===== verification/AdminSpec.thy ===== *)
theory AdminSpec
  imports Admin AdminTokens SecuritySpec
begin

text \<open>
  What the administrator's endpoints guarantee: the guard of all of them, the tokens they create, the
  inventory, revocation and deletion of an agent; and how a WebSocket client proves who it is.
\<close>

section \<open>The guard\<close>

definition admin_handlers :: "ext \<Rightarrow> bool option \<Rightarrow> time \<Rightarrow> request \<Rightarrow> response io list" where
  "admin_handlers X health started r =
     [AdminRotateKeys X r, AdminSecurityKeysStatus X r, AdminSecurityTokens X r, AdminSecurityBlacklist X r,
      AdminSecurityBlacklistPurge r, AdminListMinions X r, AdminGetMinion X r, AdminSuspendMinion r,
      AdminResumeMinion r, AdminSetMinionState r, AdminGetMinionVars r, AdminSetMinionVars r,
      AdminDeleteMinionVar r, AdminRevokeMinion r, AdminDeleteMinion r, AdminStatus health started r,
      AdminStats r, AdminHooksLog X r, AdminGetInventory X r, AdminCreateToken X r, AdminListTokens X r,
      AdminRevokeToken X r, AdminDeleteToken r, AdminPurgeTokens X r]"

text \<open>No administration endpoint does anything for a request that does not carry exactly the
  administrator's token: each of the 24 answers 401 and leaves the world as it was.\<close>

lemma admin_handlers_guarded:
  assumes "Header_Get r ''Authorization'' \<noteq> ''Bearer '' @ sv_AdminToken (server w)"
    and "handler \<in> set (admin_handlers X health started r)"
  shows "status (fst (run_state handler w)) = 401 \<and> snd (run_state handler w) = w"
proof -
  obtain e where "requireAdminAuth (server w) r = Some e"
    using assms(1) requireAdminAuth_None [of "server w" r] by auto
  moreover from assms(2) obtain body where "handler = admin_only r body"
    unfolding admin_handlers_def AdminRotateKeys_def AdminSecurityKeysStatus_def AdminSecurityTokens_def
      AdminSecurityBlacklist_def AdminSecurityBlacklistPurge_def AdminListMinions_def AdminGetMinion_def
      AdminSuspendMinion_def AdminResumeMinion_def set_suspended_def AdminSetMinionState_def
      AdminGetMinionVars_def AdminSetMinionVars_def AdminDeleteMinionVar_def AdminRevokeMinion_def
      AdminDeleteMinion_def AdminStatus_def AdminStats_def AdminHooksLog_def AdminGetInventory_def
      AdminCreateToken_def AdminListTokens_def AdminRevokeToken_def AdminDeleteToken_def AdminPurgeTokens_def
      Let_def list.set by blast
  ultimately show ?thesis using requireAdminAuth_401 by simp
qed

section \<open>Who a WebSocket client is\<close>

lemma extractHostname_iff:
  "extractHostnameFromRequest jp js (Some s) now r = Inr (hostname, prev) \<longleftrightarrow>
     hostname \<noteq> [] \<and>
     (if HasPrefix (Header_Get r ''Authorization'') ''Bearer ''
      then 7 < length (Header_Get r ''Authorization'')
         \<and> (\<exists>claims. validateJWTDualKey jp (Some s) now (drop 7 (Header_Get r ''Authorization'')) = Inr (claims, prev)
              \<and> claim_string ''sub'' claims = hostname)
      else Query_Get r ''hostname'' = hostname \<and> \<not> prev)"
  by (auto simp: extractHostnameFromRequest_def ExtractJWTClaims_def Let_def split: sum.split)

text \<open>C36: So anybody who can reach the port takes an agent's place: a client without a bearer token that
  names a host is registered as its connection, the connection of the real agent is closed, and the
  next task for that host is written to the client.\<close>

theorem unauthenticated_takeover:
  assumes "hub_reachable (hb w)" and "\<not> HasPrefix (Header_Get r ''Authorization'') ''Bearer ''"
    and "Query_Get r ''hostname'' = x" "x \<noteq> []" and "run_state (AgentHandler X True r) w = (out, w')"
  shows "\<exists>c. out = Inr c \<and> GetConnection x (hb w') = Inr c
    \<and> (\<forall>old. mget (wsConnections (hb w)) x = Some old \<longrightarrow>
         old \<noteq> c \<and> (\<exists>cn. mget (conns (hb w')) old = Some cn \<and> cn_Broken cn \<noteq> None))
    \<and> (\<forall>task. fst (SendToAgent x task (hb w')) = None
         \<and> map_option cn_Sent (mget (conns (snd (SendToAgent x task (hb w')))) c) = Some [TextFrame task])"
proof -
  let ?c = "next_id (hb w)"
  have id: "extractHostnameFromRequest (jwt_parser X) (json_parser X) (Some s) now r = Inr (x, False)" for s now
    using assms(2-4) by (simp add: extractHostname_iff)
  have out: "out = Inr ?c" and hb: "hb w' = snd (agent_open None x False (hb w))"
    using assms(5) by (auto simp: AgentHandler_def id agent_open_def Let_def)
  have inv: "conns_inv (hb w)" using reachable_inv [OF assms(1)] by (simp add: hub_inv_def)
  have old: "old < ?c \<and> (\<exists>cn. mget (conns (hb w)) old = Some cn)" if "mget (wsConnections (hb w)) x = Some old" for old
    using inv that unfolding conns_inv_def by blast
  have w': "mget (wsConnections (hb w')) x = Some ?c"
      "mget (conns (hb w')) ?c = Some \<lparr>cn_Hostname = x, cn_Sent = [], cn_Broken = None, cn_Reading = True\<rparr>"
      "mget (wsConnections (hb w)) x = Some old \<Longrightarrow> \<exists>cn. mget (conns (hb w')) old = Some cn \<and> cn_Broken cn \<noteq> None" for old
    using old unfolding hb
    by (auto simp: agent_open_def RegisterConnection_def DispatchFunc_def conn_close_def conn_fail_def Let_def
        split: option.split)
  have "fst (SendToAgent x task (hb w')) = None
       \<and> map_option cn_Sent (mget (conns (snd (SendToAgent x task (hb w')))) ?c) = Some [TextFrame task]" for task
    using w'(1,2) by (auto simp: SendToAgent_def GetConnection_def conn_write_def Let_def split: option.split)
  then show ?thesis using out w' old by (fastforce simp: GetConnection_def)
qed

definition example_intruder :: request where
  "example_intruder = example_request\<lparr>rq_Header := [], rq_Query := [(''hostname'', ''web1'')]\<rparr>"

lemma unauthenticated_takeover_witness:
  "\<exists>c w'. run_state (AgentHandler example_ext True example_intruder) example_world = (Inr c, w')
     \<and> GetConnection ''web1'' (hb w') = Inr c \<and> c \<noteq> 0"
proof -
  obtain out w' where run: "run_state (AgentHandler example_ext True example_intruder) example_world = (out, w')"
    by fastforce
  have "\<not> HasPrefix (Header_Get example_intruder ''Authorization'') ''Bearer ''" "Query_Get example_intruder ''hostname'' = ''web1''"
    by (simp_all add: example_intruder_def Header_Get_def Query_Get_def mget_or_def HasPrefix_def)
  note taken = unauthenticated_takeover [OF _ this _ run]
  have "mget (wsConnections (hb example_world)) ''web1'' = Some 0" "hub_reachable (hb example_world)"
    using example_conn(1) example_hub_reachable
    by (simp_all add: example_hub_of_world GetConnection_def split: option.splits)
  then obtain c where "out = Inr c" "GetConnection ''web1'' (hb w') = Inr c" "c \<noteq> 0"
    using taken by auto
  with run show ?thesis by blast
qed

section \<open>Created tokens work\<close>

lemma token_of_response:
  "Option.bind (obj_pairs (TokenCreateResponse X req plain i e now)) (string_field ''token'') = Some plain"
  by (simp add: TokenCreateResponse_def obj_pairs_def json_fields omitempty_def)

definition created_in :: "ext \<Rightarrow> TokenCreateRequest \<Rightarrow> string \<Rightarrow> string \<Rightarrow> time \<Rightarrow> time option \<Rightarrow> unit db" where
  "created_in X req plain i now expiresAt =
     (if tc_Role req = ''enrollment'' then CreateEnrollmentToken (new_enrollment_token req i (sha256Hex X plain) now expiresAt)
      else CreatePluginToken (new_plugin_token req i (sha256Hex X plain) now expiresAt))"

lemma admin_create_201:
  assumes "run_state (AdminCreateToken X r) w = (Reply 201 body, w')"
  obtains req plain i expiresAt where "map_option (\<lambda>q. q\<lparr>tc_Role := TrimSpace (tc_Role q)\<rparr>)
        (Option.bind (rq_Body r) decode_TokenCreateRequest) = Some req"
    "tc_Role req = ''plugin'' \<or> tc_Role req = ''enrollment'' \<and> TrimSpace (tc_HostnamePattern req) \<noteq> []"
    "parse_expiry X (tc_ExpiresAt req) = Some expiresAt" "adminStore_set w"
    "Option.bind (obj_pairs body) (string_field ''token'') = Some plain" "plain \<noteq> []"
    "fst (run_state (created_in X req plain i (clock w) expiresAt) (db w)) = Inr ()"
    "db w' = snd (run_state (created_in X req plain i (clock w) expiresAt) (db w))"
    "body = TokenCreateResponse X req plain i expiresAt (clock w)" "\<exists>raw. plain = token_prefix (tc_Role req) @ hex_encode raw"
proof -
  have guard: "requireAdminAuth (server w) r = None"
    using assms requireAdminAuth_401 [of "server w" r]
    by (auto simp: AdminCreateToken_def split: option.splits)
  obtain req0 where req0: "Option.bind (rq_Body r) decode_TokenCreateRequest = Some req0"
    using assms guard by (cases "Option.bind (rq_Body r) decode_TokenCreateRequest") (auto simp: AdminCreateToken_def)
  define req where "req = req0\<lparr>tc_Role := TrimSpace (tc_Role req0)\<rparr>"
  have role: "tc_Role req = ''plugin'' \<or> tc_Role req = ''enrollment''"
    using assms guard req0 by (auto simp: AdminCreateToken_def Let_def req_def split: if_splits)
  have st: "adminStore_set w"
    using assms guard req0 role by (auto simp: AdminCreateToken_def Let_def req_def split: if_splits)
  obtain raw where raw: "rand_bytes X 32 (entropy w) = Some raw"
    using assms guard req0 role st
    by (cases "rand_bytes X 32 (entropy w)") (auto simp: AdminCreateToken_def Let_def req_def)
  obtain e where e: "parse_expiry X (tc_ExpiresAt req) = Some e"
    using assms guard req0 role st raw
    by (cases "parse_expiry X (tc_ExpiresAt req)") (auto simp: AdminCreateToken_def Let_def req_def)
  let ?plain = "token_prefix (tc_Role req) @ hex_encode raw" and ?i = "new_uuid X (Suc (entropy w))"
  have run: "tc_Role req = ''enrollment'' \<longrightarrow> TrimSpace (tc_HostnamePattern req) \<noteq> []"
      "fst (run_state (created_in X req ?plain ?i (clock w) e) (db w)) = Inr ()"
      "db w' = snd (run_state (created_in X req ?plain ?i (clock w) e) (db w))"
      "body = TokenCreateResponse X req ?plain ?i e (clock w)"
    using assms guard req0 role st raw e
    by (auto simp: AdminCreateToken_def Let_def req_def [symmetric] created_in_def split: if_splits sum.splits)
  show ?thesis
  proof (rule that [of req e ?plain ?i])
    show "Option.bind (obj_pairs body) (string_field ''token'') = Some ?plain"
      unfolding run(4) by (rule token_of_response)
    show "?plain \<noteq> []" using role by (auto simp: token_prefix_def)
  qed (use req0 role st e run in \<open>auto simp: req_def\<close>)
qed

text \<open>What a row created for a plugin token says after the round trip through the columns.\<close>

lemma created_plugin_row:
  assumes "healthy s" "fst (run_state (CreatePluginToken t) s) = Inr ()"
  shows "healthy (snd (run_state (CreatePluginToken t) s))
    \<and> row_find pt_token_hash (pl_TokenHash t) (plugin_tokens (snd (run_state (CreatePluginToken t) s))) = Some (plugin_row_of t)"
  using assms by (auto simp: CreatePluginToken_def row_find_append plugin_row_of_def split: if_splits)

lemma created_enrollment_row:
  assumes "healthy s" "fst (run_state (CreateEnrollmentToken t) s) = Inr ()"
  shows "healthy (snd (run_state (CreateEnrollmentToken t) s))
    \<and> row_find et_token_hash (en_TokenHash t) (enrollment_tokens (snd (run_state (CreateEnrollmentToken t) s))) = Some (enrollment_row_of t)"
  using assms by (auto simp: CreateEnrollmentToken_def row_find_append enrollment_row_of_def split: if_splits)

text \<open>The plain token that the creation of a plugin token answers is the credential it created:
  on the database it left, a request that presents it passes plugin authentication exactly while the
  requested expiry, cut to the second, has not passed, and when the client's address and host name
  meet the restrictions that were asked for.\<close>

theorem created_plugin_token_authenticates:
  assumes "run_state (AdminCreateToken X r) w = (Reply 201 body, w')" and "healthy (db w)"
    and "map_option (\<lambda>q. q\<lparr>tc_Role := TrimSpace (tc_Role q)\<rparr>)
           (Option.bind (rq_Body r) decode_TokenCreateRequest) = Some req" "tc_Role req = ''plugin''"
    and "parse_expiry X (tc_ExpiresAt req) = Some expiry"
    and "Option.bind (obj_pairs body) (string_field ''token'') = Some plain"
    and "db u = db w'" "adminStore_set u" "Header_Get q ''Authorization'' = ''Bearer '' @ plain"
  shows "\<not> isl (fst (run_state (requirePluginAuth X q) u)) \<longleftrightarrow>
      (case expiry of None \<Rightarrow> True | Some e \<Rightarrow> clock u \<le> from_unix (unix_sec e))
    \<and> (tc_AllowedIPs req = [] \<or>
        PluginTokenCheckIP (parse_ip X) (cidr_contains X) (tc_AllowedIPs req) (extractClientIP q) = Some True)
    \<and> (tc_AllowedHostnamePattern req = [] \<or>
        match_regexp X (''^'' @ tc_AllowedHostnamePattern req @ ''$'') (Header_Get q ''X-Relay-Client-Host'') = Some True)"
proof -
  obtain i where c: "fst (run_state (created_in X req plain i (clock w) expiry) (db w)) = Inr ()" "plain \<noteq> []"
      "db w' = snd (run_state (created_in X req plain i (clock w) expiry) (db w))"
    by (rule admin_create_201 [OF assms(1)]) (use assms(3,5,6) in auto)
  let ?t = "new_plugin_token req i (sha256Hex X plain) (clock w) expiry"
  have row: "healthy (db u)" "row_find pt_token_hash (sha256Hex X plain) (plugin_tokens (db u)) = Some (plugin_row_of ?t)"
    using created_plugin_row [OF assms(2), of ?t] c(1,3) assms(4,7)
    by (simp_all add: created_in_def new_plugin_token_def)
  have p: "presented X q = Some (sha256Hex X plain)"
    using assms(9) c(2) by (simp add: presented_def HasPrefix_def)
  have allows: "plugin_allows X (clock u) q (scanPluginToken (plugin_row_of ?t)) \<longleftrightarrow>
      (case expiry of None \<Rightarrow> True | Some e \<Rightarrow> clock u \<le> from_unix (unix_sec e))
    \<and> (tc_AllowedIPs req = [] \<or>
        PluginTokenCheckIP (parse_ip X) (cidr_contains X) (tc_AllowedIPs req) (extractClientIP q) = Some True)
    \<and> (tc_AllowedHostnamePattern req = [] \<or>
        match_regexp X (''^'' @ tc_AllowedHostnamePattern req @ ''$'') (Header_Get q ''X-Relay-Client-Host'') = Some True)"
    by (cases expiry) (auto simp: plugin_allows_def scanPluginToken_def plugin_row_of_def new_plugin_token_def
        expired_def null_string_def nullableString_def)
  show ?thesis
    unfolding allows [symmetric] using row p assms(8)
    by (auto simp: requirePluginAuth_run Let_def refusal_None [symmetric] split: option.split)
qed

text \<open>The plain token that the creation of an enrollment token answers enrolls: on the database
  it left, it validates for a host exactly while its expiry, cut to the second, has not passed and
  the host name matches the anchored pattern.\<close>

theorem created_enrollment_token_validates:
  assumes "run_state (AdminCreateToken X r) w = (Reply 201 body, w')" and "healthy (db w)"
    and "map_option (\<lambda>q. q\<lparr>tc_Role := TrimSpace (tc_Role q)\<rparr>)
           (Option.bind (rq_Body r) decode_TokenCreateRequest) = Some req" "tc_Role req = ''enrollment''"
    and "parse_expiry X (tc_ExpiresAt req) = Some expiry"
    and "Option.bind (obj_pairs body) (string_field ''token'') = Some plain" and "db u = db w'"
  shows "\<not> isl (fst (run_state (validateEnrollmentToken X plain x) u)) \<longleftrightarrow>
      (case expiry of None \<Rightarrow> True | Some e \<Rightarrow> clock u \<le> from_unix (unix_sec e))
    \<and> match_regexp X (''^'' @ tc_HostnamePattern req @ ''$'') x = Some True"
proof -
  obtain i where c: "fst (run_state (created_in X req plain i (clock w) expiry) (db w)) = Inr ()"
      "db w' = snd (run_state (created_in X req plain i (clock w) expiry) (db w))"
      "TrimSpace (tc_HostnamePattern req) \<noteq> []"
    by (rule admin_create_201 [OF assms(1)]) (use assms(3-6) in auto)
  let ?t = "new_enrollment_token req i (sha256Hex X plain) (clock w) expiry"
  have row: "healthy (db u)" "row_find et_token_hash (sha256Hex X plain) (enrollment_tokens (db u)) = Some (enrollment_row_of ?t)"
    using created_enrollment_row [OF assms(2), of ?t] c(1,2) assms(4,7)
    by (simp_all add: created_in_def new_enrollment_token_def)
  have "tc_HostnamePattern req \<noteq> []" using c(3) by (auto simp: TrimSpace_id)
  then show ?thesis
    using row
    by (auto simp: token_row_def token_verdict_def scanEnrollmentToken_def enrollment_row_of_def
        new_enrollment_token_def after_def PluginTokenCheckHostname_def split: option.splits bool.splits if_splits)
qed

definition example_empty :: world where
  "example_empty = example_world\<lparr>db := (db example_world)\<lparr>plugin_tokens := [], enrollment_tokens := []\<rparr>\<rparr>"

definition example_create :: "(string \<times> json) list \<Rightarrow> request" where
  "example_create ps = example_request\<lparr>rq_Header := [(''Authorization'', ''Bearer adm'')], rq_Body := Some (JObj ps)\<rparr>"

definition example_order :: "string \<Rightarrow> string \<Rightarrow> TokenCreateRequest" where
  "example_order role pattern = \<lparr>tc_Role = role, tc_HostnamePattern = pattern, tc_Reusable = 0, tc_Description = [],
     tc_AllowedIPs = [], tc_AllowedHostnamePattern = [], tc_ExpiresAt = [], tc_CreatedBy = []\<rparr>"

lemma example_create_simps [simp]:
  "adminStore_set example_empty" "rq_Body (example_create ps) = Some (JObj ps)"
  "plugin_tokens (db example_empty) = []" "enrollment_tokens (db example_empty) = []"
  by (simp_all add: example_create_def example_empty_def example_world_def example_request_def)

lemma example_create_ok [simp]:
  "requireAdminAuth (server example_empty) (example_create ps) = None" "healthy (db example_empty)"
  using example_db(1)
  by (simp_all add: requireAdminAuth_def example_create_def Header_Get_def mget_or_def HasPrefix_def
      example_empty_def example_world_def example_server_def)

lemma example_decode [simp]:
  "decode_TokenCreateRequest (JObj [(''role'', JStr ''plugin'')]) = Some (example_order ''plugin'' [])"
  "decode_TokenCreateRequest (JObj [(''role'', JStr ''enrollment''), (''hostname_pattern'', JStr ''web2'')]) =
     Some (example_order ''enrollment'' ''web2'')"
  "(example_order role pattern)\<lparr>tc_Role := role'\<rparr> = example_order role' pattern"
  "tc_Role (example_order role pattern) = role" "tc_HostnamePattern (example_order role pattern) = pattern"
  "tc_ExpiresAt (example_order role pattern) = []" "tc_AllowedIPs (example_order role pattern) = []"
  "tc_AllowedHostnamePattern (example_order role pattern) = []"
  by (simp_all add: decode_TokenCreateRequest_def obj_pairs_def json_fields example_order_def)

lemma example_trim [simp]: "TrimSpace ''plugin'' = ''plugin''" "TrimSpace ''enrollment'' = ''enrollment''"
  by (simp_all add: TrimSpace_id)

lemma created_enrollment_token_validates_witness:
  "\<exists>body w' plain. run_state (AdminCreateToken example_ext (example_create [(''role'', JStr ''enrollment''),
         (''hostname_pattern'', JStr ''web2'')])) example_empty = (Reply 201 body, w')
     \<and> Option.bind (obj_pairs body) (string_field ''token'') = Some plain
     \<and> \<not> isl (fst (run_state (validateEnrollmentToken example_ext plain ''web2'') w'))
     \<and> isl (fst (run_state (validateEnrollmentToken example_ext plain ''web3'') w'))"
proof -
  let ?r = "example_create [(''role'', JStr ''enrollment''), (''hostname_pattern'', JStr ''web2'')]"
  have raw: "\<exists>b. rand_bytes example_ext 32 n = Some b" for n by (simp add: example_ext_def)
  have trim: "TrimSpace ''web2'' \<noteq> []" by (simp add: TrimSpace_id)
  obtain body w' where run: "run_state (AdminCreateToken example_ext ?r) example_empty = (Reply 201 body, w')"
    using raw [of "entropy example_empty"] trim
    by (auto simp: AdminCreateToken_def Let_def parse_expiry_def CreateEnrollmentToken_def)
  obtain plain where t: "Option.bind (obj_pairs body) (string_field ''token'') = Some plain"
    by (rule admin_create_201 [OF run])
  have valid: "\<not> isl (fst (run_state (validateEnrollmentToken example_ext plain x) w')) \<longleftrightarrow>
      match_regexp example_ext ''^web2$'' x = Some True" for x
    by (subst created_enrollment_token_validates [OF run _ _ _ _ t refl,
          where expiry = None and req = "example_order ''enrollment'' ''web2''"])
      (simp_all add: parse_expiry_def)
  have "match_regexp example_ext ''^web2$'' ''web2'' = Some True" "match_regexp example_ext ''^web2$'' ''web3'' \<noteq> Some True"
    by (simp_all add: example_ext_def)
  with valid [of "''web2''"] valid [of "''web3''"] run t show ?thesis by auto
qed

section \<open>Inventory\<close>

lemma mget_fold_mput:
  "mget (fold (\<lambda>h vars. mput h (f h) vars) hs m) x = (if x \<in> set hs then Some (f x) else mget m x)"
  by (induction hs arbitrary: m) auto

lemma connected_iff: "x \<in> set (GetConnectedHostnames h) \<longleftrightarrow> (\<exists>c. GetConnection x h = Inr c)"
  using mget_None_iff [of "wsConnections h" x]
  by (cases "mget (wsConnections h) x") (auto simp: GetConnectedHostnames_def GetConnection_def)

text \<open>The inventory lists each enrolled host once, or with the filter each enrolled host that has a
  connection, and gives for exactly these hosts the variables that make Ansible reach them through
  the relay, with the status of the live registry.\<close>

lemma inventory_exact:
  assumes "store_inv (db w)" "healthy (db w)" "adminStore_set w"
    and "run_state (buildInventoryResponse X onlyConnected) w = ((hosts, vars), w')"
  shows "w' = w \<and> distinct hosts
    \<and> (x \<in> set hosts \<longleftrightarrow> row_find ag_Hostname x (agents (db w)) \<noteq> None
         \<and> (onlyConnected \<longrightarrow> (\<exists>c. GetConnection x (hb w) = Inr c)))
    \<and> mget vars x = (if x \<in> set hosts then Some (JObj [(''ansible_connection'', JStr ''relay''),
         (''ansible_host'', JStr x),
         (''secagent_status'', JStr (if \<exists>c. GetConnection x (hb w) = Inr c then ''connected'' else ''disconnected'')),
         (''secagent_last_seen'', JStr (format_time X (clock w)))]) else None)"
proof -
  have run: "hosts = filter (\<lambda>h. \<not> (onlyConnected \<and> h \<notin> set (GetConnectedHostnames (hb w)))) (map ag_Hostname (agents (db w)))"
      "vars = fold (\<lambda>h vars. mput h (HostVars X (GetConnectedHostnames (hb w)) (clock w) h) vars) hosts []" "w' = w"
    using assms(2-4) by (auto simp: buildInventoryResponse_def ListAgents_def Let_def)
  have "distinct (map ag_Hostname (agents (db w)))" using assms(1) by (simp add: store_inv_def)
  then have "distinct hosts" unfolding run(1) by (rule distinct_filter)
  moreover have "x \<in> set hosts \<longleftrightarrow> row_find ag_Hostname x (agents (db w)) \<noteq> None
         \<and> (onlyConnected \<longrightarrow> (\<exists>c. GetConnection x (hb w) = Inr c))"
    unfolding run(1) by (auto simp: row_find_None_iff connected_iff)
  moreover have "mget vars x = (if x \<in> set hosts then Some (HostVars X (GetConnectedHostnames (hb w)) (clock w) x) else None)"
    unfolding run(2) by (simp add: mget_fold_mput)
  ultimately show ?thesis using run(3) by (simp add: HostVars_def connected_iff)
qed

section \<open>Revocation and deletion\<close>

lemma CloseAgent_gone: "GetConnection x (snd (CloseAgent x code reason h)) = Inl ''agent_offline''"
proof -
  have err: "wsConnections (fold (resolve_with_error m) ts h) = wsConnections h" for m ts h
    by (induction ts arbitrary: h) (auto simp: resolve_with_error_def try_send_def Let_def split: option.split list.split)
  have close: "wsConnections (conn_close c h) = wsConnections h" "wsConnections (snd (conn_write c f h)) = wsConnections h" for c f h
    by (auto simp: conn_close_def conn_fail_def conn_write_def split: option.split)
  show ?thesis
    by (auto simp: CloseAgent_def GetConnection_def Let_def ResolveFuturesForHostname_def err close split: option.split)
qed

lemma agent_handler_registers:
  assumes "extractHostnameFromRequest (jwt_parser X) (json_parser X) (Some (GetServerJWTSecrets w)) (clock w) q = Inr (x, p)"
  shows "\<exists>c v. run_state (AgentHandler X True q) w = (Inr c, v) \<and> GetConnection x (hb v) = Inr c"
proof -
  let ?c = "fst (agent_open None x False (hb w))"
  define w1 where "w1 = w\<lparr>hb := snd (agent_open None x False (hb w))\<rparr>"
  have reg: "mget (wsConnections (hb w1)) x = Some ?c"
    by (auto simp: w1_def agent_open_def RegisterConnection_def DispatchFunc_def Let_def)
  obtain sent w2 where rk: "run_state (if p then RekeyAgent X x else State_Monad.return True) w1 = (sent, w2)"
    by fastforce
  have "wsConnections (hb w2) = wsConnections (hb w1)"
    using rk SendToAgent_registry [of x _ "hb w1"]
    by (auto simp: RekeyAgent_def sendRekeyToAgent_run Let_def split: if_splits option.splits prod.splits)
      (metis snd_conv)+
  moreover have "wsConnections (snd (conn_write c f h)) = wsConnections h" for c f h
    by (auto simp: conn_write_def split: option.split)
  ultimately show ?thesis
    using rk reg by (auto simp: AgentHandler_def assms w1_def GetConnection_def)
qed

text \<open>C37: Revoking an agent disconnects it and records the id of its token as blacklisted, but keeps
  nobody out: whatever request the server accepted as that host before, it accepts again at once,
  and the agent is registered anew.\<close>

theorem revoked_agent_reconnects:
  assumes "run_state (AdminRevokeMinion r) w = (Reply 200 body, w')" and "x = PathValue r ''hostname''"
    and "healthy (db w)" "row_find ag_Hostname x (agents (db w)) = Some a" "ag_TokenJTI a \<noteq> []"
    and "extractHostnameFromRequest (jwt_parser X) (json_parser X) (Some (GetServerJWTSecrets w)) (clock w) q = Inr (x, p)"
  shows "GetConnection x (hb w') = Inl ''agent_offline''
    \<and> fst (run_state (IsJTIBlacklisted (ag_TokenJTI a)) (db w')) = Inr True
    \<and> (\<exists>c v. run_state (AgentHandler X True q) w' = (Inr c, v) \<and> GetConnection x (hb v) = Inr c)"
proof -
  have guard: "requireAdminAuth (server w) r = None" "x \<noteq> []" "adminStore_set w"
    using assms(1,2) requireAdminAuth_401 [of "server w" r]
    by (auto simp: AdminRevokeMinion_def found_host_def Let_def split: option.splits if_splits)
  have w': "hb w' = snd (CloseAgent x WSCloseRevoked ''token_revoked'' (hb w))" "server w' = server w" "clock w' = clock w"
      "fst (run_state (IsJTIBlacklisted (ag_TokenJTI a)) (db w')) = Inr True"
    using assms(1,3,4,5) guard unfolding assms(2) [symmetric]
    by (auto simp: AdminRevokeMinion_def found_host_def Let_def GetAgent_def AddToBlacklist_def UpdateAgentStatus_def
        update_agent_def IsJTIBlacklisted_def row_find_upsert assms(2) [symmetric])
  have "GetServerJWTSecrets w' = GetServerJWTSecrets w" by (simp add: GetServerJWTSecrets_def w')
  then show ?thesis
    using agent_handler_registers [of X w' q x p] assms(6) w' CloseAgent_gone [of x] by (simp add: w')
qed

text \<open>Deleting an agent forgets it: when the answer is 200, the host has no row, no authorized key
  and no connection any more, while the rows and keys of every other host are untouched.\<close>

theorem delete_forgets_agent:
  assumes "run_state (AdminDeleteMinion r) w = (Reply 200 body, w')" and "x = PathValue r ''hostname''"
    and "healthy (db w)"
  shows "row_find ag_Hostname x (agents (db w')) = None \<and> row_find ak_Hostname x (authorized_keys (db w')) = None
    \<and> GetConnection x (hb w') = Inl ''agent_offline''
    \<and> (y \<noteq> x \<longrightarrow> row_find ag_Hostname y (agents (db w')) = row_find ag_Hostname y (agents (db w))
         \<and> row_find ak_Hostname y (authorized_keys (db w')) = row_find ak_Hostname y (authorized_keys (db w)))"
proof -
  have guard: "requireAdminAuth (server w) r = None" "x \<noteq> []" "adminStore_set w"
    using assms(1,2) requireAdminAuth_401 [of "server w" r]
    by (auto simp: AdminDeleteMinion_def found_host_def Let_def split: option.splits if_splits)
  obtain a where a: "row_find ag_Hostname x (agents (db w)) = Some a"
    using assms guard by (cases "row_find ag_Hostname x (agents (db w))")
      (auto simp: AdminDeleteMinion_def found_host_def Let_def GetAgent_def)
  have "hb w' = snd (CloseAgent x WSCloseNormal ''admin_delete'' (hb w)) \<and> db w' = snd (run_state (DeleteAgent x) (db w))"
    using assms guard a
    by (auto simp: AdminDeleteMinion_def found_host_def Let_def GetAgent_def split: sum.splits bool.splits if_splits)
  then show ?thesis
    using assms(3) a CloseAgent_gone [of x]
    by (simp add: DeleteAgent_def row_find_delete rows_affected_key_nat)
qed

lemma example_admin_guard: "requireAdminAuth (server example_world) example_admin = None"
  by (simp add: requireAdminAuth_def example_admin_def Header_Get_def mget_or_def HasPrefix_def
      example_world_def example_server_def)

lemma example_target: "PathValue example_admin ''hostname'' = ''web1''"
  "row_find ag_Hostname ''web1'' (agents (db example_world)) = Some example_agent" "ag_TokenJTI example_agent = ''j1''"
  by (simp_all add: example_admin_def example_request_def PathValue_def mget_or_def example_world_def
      example_store_def empty_store_def example_agent_def)

lemma revoked_agent_reconnects_witness:
  "\<exists>body w' c v. run_state (AdminRevokeMinion example_admin) example_world = (Reply 200 body, w')
     \<and> GetConnection ''web1'' (hb w') = Inl ''agent_offline''
     \<and> run_state (AgentHandler example_ext True (example_request\<lparr>rq_Header := [(''Authorization'', ''Bearer '' @
           toy_sign ''k1'' (agent_claims ''web1'' ''j1'' 0 3600000000000))]\<rparr>)) w' = (Inr c, v)
     \<and> GetConnection ''web1'' (hb v) = Inr c"
proof -
  let ?q = "example_request\<lparr>rq_Header := [(''Authorization'', ''Bearer '' @
      toy_sign ''k1'' (agent_claims ''web1'' ''j1'' 0 3600000000000))]\<rparr>"
  obtain body w' where run: "run_state (AdminRevokeMinion example_admin) example_world = (Reply 200 body, w')"
    using example_target
    by (simp add: AdminRevokeMinion_def found_host_def example_admin_guard Let_def GetAgent_def)
  let ?c = "agent_claims ''web1'' ''j1'' 0 3600000000000"
  have parse: "parseJWT toy_parse 5000000000 (toy_sign ''k1'' ?c) ''k1'' = Inr ?c"
    using toy_jwt_laws [of "{''k1''}"] by (simp add: jwt_laws_def parseJWT_def unix_sec_def)
  have "parseJWT toy_parse 5000000000 [] ''k1'' \<noteq> Inr ?c"
    by (simp add: parseJWT_def toy_parse_def unspell_def)
  then have ne: "toy_sign ''k1'' ?c \<noteq> []" using parse by metis
  have hdr: "Header_Get ?q ''Authorization'' = ''Bearer '' @ toy_sign ''k1'' ?c"
    by (simp add: Header_Get_def mget_or_def)
  have "validateJWTDualKey toy_parse (Some (GetServerJWTSecrets example_world)) 5000000000 (toy_sign ''k1'' ?c) = Inr (?c, False)"
    using parse by (simp add: ws_jwt.accepts_iff GetServerJWTSecrets_def GetJWTSecrets_def example_srv)
  moreover have "claim_string ''sub'' ?c = ''web1''" by (simp add: claim_string_def agent_claims_def)
  ultimately have "extractHostnameFromRequest (jwt_parser example_ext) (json_parser example_ext)
      (Some (GetServerJWTSecrets example_world)) (clock example_world) ?q = Inr (''web1'', False)"
    using ne unfolding extractHostname_iff hdr by (simp add: HasPrefix_def example_srv) (simp add: example_ext_def)
  from revoked_agent_reconnects [OF run example_target(1) [symmetric] _ example_target(2) _ this] run show ?thesis
    by (auto simp: example_target(3))
qed

lemma delete_forgets_agent_witness:
  "\<exists>body w'. run_state (AdminDeleteMinion example_admin) example_world = (Reply 200 body, w')
     \<and> row_find ag_Hostname ''web1'' (agents (db w')) = None"
proof -
  obtain body w' where run: "run_state (AdminDeleteMinion example_admin) example_world = (Reply 200 body, w')"
    using example_target
    by (auto simp: AdminDeleteMinion_def found_host_def example_admin_guard Let_def GetAgent_def DeleteAgent_def
        rows_affected_key_nat split: if_splits)
  from delete_forgets_agent [OF run example_target(1) [symmetric]] run show ?thesis by auto
qed

end
