(* ===== verification/Hooks.thy ===== *)
theory Hooks
  imports GoNum GoJson Storage
begin

text \<open>
  The event hooks of the server (\<open>internal/hooks\<close>): the template renderer, the four executors with
  their retries, the bounded event queue and the dispatch of an event to the actions of the first
  matching hook, each of which leaves one entry in the action log. HTTP, subprocesses, files, HMAC
  and JSON text are the parameters of \<open>hook_env\<close>.
\<close>

section \<open>Templates\<close>

text \<open>
  \<open>strings.NewReplacer\<close>: one pass from the left; at each position the first pair whose pattern starts
  there is replaced and the scan goes on after it. The patterns the program uses are not empty.
\<close>

function replace_pairs :: "(string \<times> string) list \<Rightarrow> string \<Rightarrow> string" where
  "replace_pairs pairs [] = []"
| "replace_pairs pairs (c # s) =
     (case List.find (\<lambda>p. fst p \<noteq> [] \<and> HasPrefix (c # s) (fst p)) pairs of
        Some p \<Rightarrow> snd p @ replace_pairs pairs (drop (length (fst p)) (c # s))
      | None \<Rightarrow> c # replace_pairs pairs s)"
  by pat_completeness auto
termination
proof (relation "measure (length \<circ> snd)")
  fix pairs c s and p :: "string \<times> string"
  assume "List.find (\<lambda>p. fst p \<noteq> [] \<and> HasPrefix (c # s) (fst p)) pairs = Some p"
  then have "fst p \<noteq> []" by (auto simp: find_Some_iff)
  then show "((pairs, drop (length (fst p)) (c # s)), (pairs, c # s)) \<in> measure (length \<circ> snd)"
    by (cases "fst p") auto
qed auto

definition token :: "string \<Rightarrow> string" where
  "token k = ''{{'' @ k @ ''}}''"

definition Render :: "string \<Rightarrow> (string, string) gomap \<Rightarrow> string" where
  "Render tmpl vars = (if vars = [] then tmpl else replace_pairs (map (\<lambda>(k, v). (token k, v)) vars) tmpl)"

fun renderAny :: "(string, string) gomap \<Rightarrow> json \<Rightarrow> json" where
  "renderAny vars (JStr s) = JStr (Render s vars)"
| "renderAny vars (JObj ps) = JObj (map (\<lambda>(k, v). (k, renderAny vars v)) ps)"
| "renderAny vars (JArr vs) = JArr (map (renderAny vars) vs)"
| "renderAny vars v = v"

definition buildVars :: "string \<Rightarrow> string \<Rightarrow> string \<Rightarrow> string \<Rightarrow> string \<Rightarrow> (string, string) gomap" where
  "buildVars event hostname st timestamp enrolledAt =
     [(''event'', event), (''hostname'', hostname), (''status'', st), (''timestamp'', timestamp),
      (''enrolled_at'', enrolledAt)]"

section \<open>Configuration\<close>

record ActionDef =
  ac_Type :: string
  ac_URL :: string
  ac_Secret :: string
  ac_Method :: string
  ac_Headers :: "(string, string) gomap"
  ac_Body :: "json option"
  ac_Cmd :: string
  ac_Args :: "string list"
  ac_Path :: string
  ac_Append :: string
  ac_MaxRetries :: int
  ac_TimeoutSeconds :: int

record HookDef =
  hd_Event :: string
  hd_Actions :: "ActionDef list"

type_synonym HooksConfig = "HookDef list"

definition ConfigPath :: "(string \<Rightarrow> string) \<Rightarrow> string" where
  "ConfigPath env = (let p = env ''RELAY_HOOKS_CONFIG'' in
     if p \<noteq> [] then p else ''/etc/secagent-server/hooks.json'')"

text \<open>
  \<open>read\<close> is the file: \<open>None\<close> if it does not exist, an error, or its text; \<open>parse\<close> decodes it.
  The result is the error, or no configuration, or the configuration.
\<close>

definition LoadConfig ::
  "(string \<Rightarrow> (string + string) option) \<Rightarrow> (string \<Rightarrow> string + HooksConfig) \<Rightarrow> string \<Rightarrow> string + HooksConfig option" where
  "LoadConfig read parse path =
     (case read path of
        None \<Rightarrow> Inr None
      | Some (Inl e) \<Rightarrow> Inl e
      | Some (Inr text) \<Rightarrow> (case parse text of Inl e \<Rightarrow> Inl e | Inr cfg \<Rightarrow> Inr (Some cfg)))"

section \<open>The environment of an action\<close>

record http_request =
  hr_Method :: string
  hr_URL :: string
  hr_Headers :: "(string, string) gomap"
  hr_Body :: string
  hr_Timeout :: int

text \<open>
  \<open>hk_http q i\<close> is the answer to the \<open>i\<close>-th request of an action (an error or a status code),
  \<open>hk_build\<close> the error of building a request for a method and URL, \<open>hk_cancelled i\<close> whether the
  context is cancelled while waiting for the \<open>i\<close>-th retry, \<open>hk_run\<close> a subprocess (its error, its
  stderr), \<open>hk_mkdir\<close>, \<open>hk_open\<close> and \<open>hk_write\<close> the errors of the file system, \<open>hk_dir\<close> is
  \<open>filepath.Dir\<close>, \<open>hk_upper\<close> \<open>strings.ToUpper\<close>, and \<open>hk_dur\<close> the measured milliseconds.
\<close>

record hook_env =
  hk_marshal :: "json \<Rightarrow> string"
  hk_marshal_action :: "ActionDef \<Rightarrow> string"
  hk_hmac :: "string \<Rightarrow> string \<Rightarrow> string"
  hk_build :: "string \<Rightarrow> string \<Rightarrow> string option"
  hk_http :: "http_request \<Rightarrow> nat \<Rightarrow> string + nat"
  hk_cancelled :: "nat \<Rightarrow> bool"
  hk_run :: "string \<Rightarrow> string list \<Rightarrow> string list \<Rightarrow> int \<Rightarrow> string option \<times> string"
  hk_mkdir :: "string \<Rightarrow> string option"
  hk_open :: "string \<Rightarrow> string option"
  hk_write :: "string \<Rightarrow> string option"
  hk_dir :: "string \<Rightarrow> string"
  hk_upper :: "string \<Rightarrow> string"
  hk_dur :: "nat \<Rightarrow> int"

section \<open>Executors\<close>

text \<open>Seconds before the \<open>n\<close>-th retry.\<close>

definition backoffDuration :: "int \<Rightarrow> int" where
  "backoffDuration n =
     (if n \<le> 0 then 0
      else let shift = (if 5 < n - 1 then 5 else n - 1); secs = 2 ^ nat shift
           in if 60 < secs then 60 else secs)"

text \<open>The result of an executor: success, error text, milliseconds.\<close>

type_synonym outcome = "bool \<times> string \<times> int"

text \<open>What an executor does on the network: it waits (seconds) and sends requests.\<close>

datatype http_event = Waited int | Requested http_request

definition doRequest :: "hook_env \<Rightarrow> http_request \<Rightarrow> nat \<Rightarrow> outcome \<times> http_event list" where
  "doRequest E q attempt =
     (case hk_build E (hr_Method q) (hr_URL q) of
        Some e \<Rightarrow> ((False, ''build request: '' @ e, 0), [])
      | None \<Rightarrow>
          (case hk_http E q attempt of
             Inl e \<Rightarrow> ((False, e, hk_dur E attempt), [Requested q])
           | Inr sc \<Rightarrow> if 200 \<le> sc \<and> sc < 300 then ((True, [], hk_dur E attempt), [Requested q])
                       else ((False, ''HTTP '' @ show_nat sc, hk_dur E attempt), [Requested q])))"

text \<open>The loop over the attempts; \<open>left\<close> is the number of retries that remain.\<close>

fun retry_loop :: "hook_env \<Rightarrow> http_request \<Rightarrow> nat \<Rightarrow> nat \<Rightarrow> outcome \<times> http_event list" where
  "retry_loop E q attempt left =
     (let waited = (if 0 < attempt then [Waited (backoffDuration (int attempt))] else []) in
      if 0 < attempt \<and> hk_cancelled E attempt then ((False, ''context cancelled'', 0), waited)
      else case doRequest E q attempt of
             ((success, errMsg, dur), sent) \<Rightarrow>
               if success then ((True, [], dur), waited @ sent)
               else if HasPrefix errMsg ''HTTP 4'' then ((False, errMsg, dur), waited @ sent)
               else (case left of
                       0 \<Rightarrow> ((False, errMsg, dur), waited @ sent)
                     | Suc n \<Rightarrow> (case retry_loop E q (Suc attempt) n of
                                  (out, evs) \<Rightarrow> (out, waited @ sent @ evs))))"

declare retry_loop.simps [simp del]

definition webhookPayload :: "(string, string) gomap \<Rightarrow> json" where
  "webhookPayload vars = JObj
     [(''event'', JStr (mget_or [] vars ''event'')), (''timestamp'', JStr (mget_or [] vars ''timestamp'')),
      (''host'', JObj ([(''hostname'', JStr (mget_or [] vars ''hostname''))]
         @ (if mget_or [] vars ''status'' = [] then [] else [(''status'', JStr (mget_or [] vars ''status''))])
         @ (if mget_or [] vars ''enrolled_at'' = [] then []
            else [(''enrolled_at'', JStr (mget_or [] vars ''enrolled_at''))])))]"

definition computeHMAC :: "hook_env \<Rightarrow> string \<Rightarrow> string \<Rightarrow> string" where
  "computeHMAC E body secret = ''sha256='' @ hk_hmac E secret body"

definition positive_or :: "int \<Rightarrow> int \<Rightarrow> int" where
  "positive_or d t = (if t \<le> 0 then d else t)"

definition webhook_request :: "hook_env \<Rightarrow> ActionDef \<Rightarrow> (string, string) gomap \<Rightarrow> http_request" where
  "webhook_request E action vars =
     (let body = hk_marshal E (webhookPayload vars) in
      \<lparr>hr_Method = ''POST'', hr_URL = ac_URL action,
        hr_Headers = [(''Content-Type'', ''application/json''), (''User-Agent'', ''secagent-server/1.0''),
           (''X-Event'', mget_or [] vars ''event'')]
           @ (if ac_Secret action = [] then [] else [(''X-Signature'', computeHMAC E body (ac_Secret action))]),
        hr_Body = body, hr_Timeout = positive_or 10 (ac_TimeoutSeconds action)\<rparr>)"

definition WebhookExecutor_Execute :: "hook_env \<Rightarrow> ActionDef \<Rightarrow> (string, string) gomap \<Rightarrow> outcome \<times> http_event list" where
  "WebhookExecutor_Execute E action vars =
     retry_loop E (webhook_request E action vars) 0 (nat (ac_MaxRetries action))"

definition shell_env :: "(string, string) gomap \<Rightarrow> string list" where
  "shell_env vars =
     [''SECAGENT_EVENT='' @ mget_or [] vars ''event'', ''SECAGENT_HOSTNAME='' @ mget_or [] vars ''hostname'',
      ''SECAGENT_TIMESTAMP='' @ mget_or [] vars ''timestamp'', ''SECAGENT_STATUS='' @ mget_or [] vars ''status'']
     @ (if mget_or [] vars ''enrolled_at'' = [] then []
        else [''SECAGENT_ENROLLED_AT='' @ mget_or [] vars ''enrolled_at''])"

definition ShellExecutor_Execute :: "hook_env \<Rightarrow> ActionDef \<Rightarrow> (string, string) gomap \<Rightarrow> outcome" where
  "ShellExecutor_Execute E action vars =
     (if ac_Cmd action = [] then (False, ''missing cmd'', 0)
      else case hk_run E (ac_Cmd action) (map (\<lambda>a. Render a vars) (ac_Args action)) (shell_env vars)
                  (positive_or 30 (ac_TimeoutSeconds action)) of
             (None, _) \<Rightarrow> (True, [], hk_dur E 0)
           | (Some e, stderr) \<Rightarrow> (False, (if TrimSpace stderr = [] then e else TrimSpace stderr), hk_dur E 0))"

text \<open>The files appended to, by path; the second component of the result is their new state.\<close>

type_synonym files = "(string, string) gomap"

definition FileExecutor_Execute ::
  "hook_env \<Rightarrow> ActionDef \<Rightarrow> (string, string) gomap \<Rightarrow> files \<Rightarrow> outcome \<times> files" where
  "FileExecutor_Execute E action vars fs =
     (if ac_Path action = [] then ((False, ''missing path'', 0), fs)
      else if ac_Append action = [] then ((False, ''missing append'', 0), fs)
      else
        let path = Render (ac_Path action) vars; content = Render (ac_Append action) vars in
        case hk_mkdir E (hk_dir E path) of
          Some e \<Rightarrow> ((False, ''mkdir: '' @ e, 0), fs)
        | None \<Rightarrow>
            (case hk_open E path of
               Some e \<Rightarrow> ((False, ''open: '' @ e, hk_dur E 0), fs)
             | None \<Rightarrow>
                 (case hk_write E path of
                    Some e \<Rightarrow> ((False, ''write: '' @ e, hk_dur E 0), mput path (mget_or [] fs path) fs)
                  | None \<Rightarrow> ((True, [], hk_dur E 0), mput path (mget_or [] fs path @ content) fs))))"

definition api_request :: "hook_env \<Rightarrow> ActionDef \<Rightarrow> (string, string) gomap \<Rightarrow> http_request" where
  "api_request E action vars =
     (let m = hk_upper E (ac_Method action);
          body = (case ac_Body action of None \<Rightarrow> [] | Some JNull \<Rightarrow> [] | Some b \<Rightarrow> hk_marshal E (renderAny vars b))
      in \<lparr>hr_Method = (if m = [] then ''GET'' else m), hr_URL = Render (ac_URL action) vars,
           hr_Headers = fold (\<lambda>(k, v) hs. mput k v hs) (ac_Headers action)
             ((if body = [] then [] else [(''Content-Type'', ''application/json'')])
              @ [(''User-Agent'', ''secagent-server/1.0'')]),
           hr_Body = body, hr_Timeout = positive_or 10 (ac_TimeoutSeconds action)\<rparr>)"

definition APIExecutor_Execute :: "hook_env \<Rightarrow> ActionDef \<Rightarrow> (string, string) gomap \<Rightarrow> outcome \<times> http_event list" where
  "APIExecutor_Execute E action vars = retry_loop E (api_request E action vars) 0 (nat (ac_MaxRetries action))"

section \<open>The dispatcher\<close>

record dispatchJob =
  dj_event :: string
  dj_hostname :: string
  dj_status :: string
  dj_enrolledAt :: string
  dj_timestamp :: string

record Dispatcher =
  ds_config :: "HooksConfig option"
  ds_queue :: "dispatchJob list"
  ds_bufSize :: nat

definition NewDispatcher :: "nat \<Rightarrow> Dispatcher" where
  "NewDispatcher bufSize = \<lparr>ds_config = None, ds_queue = [], ds_bufSize = bufSize\<rparr>"

definition SetConfig :: "HooksConfig option \<Rightarrow> Dispatcher \<Rightarrow> Dispatcher" where
  "SetConfig cfg d = d\<lparr>ds_config := cfg\<rparr>"

text \<open>The event is dropped when the queue is full.\<close>

definition Dispatch :: "string \<Rightarrow> string \<Rightarrow> string \<Rightarrow> string \<Rightarrow> string \<Rightarrow> Dispatcher \<Rightarrow> Dispatcher" where
  "Dispatch now event hostname st enrolledAt d =
     (let job = \<lparr>dj_event = event, dj_hostname = hostname, dj_status = st, dj_enrolledAt = enrolledAt,
                  dj_timestamp = now\<rparr>
      in if length (ds_queue d) < ds_bufSize d then d\<lparr>ds_queue := ds_queue d @ [job]\<rparr> else d)"

text \<open>The actions a job starts, with their indices: those of the first hook for its event.\<close>

definition matched_actions :: "HooksConfig \<Rightarrow> string \<Rightarrow> (nat \<times> ActionDef) list" where
  "matched_actions cfg event =
     (case List.find (\<lambda>h. hd_Event h = event) cfg of
        None \<Rightarrow> []
      | Some h \<Rightarrow> zip [0..<length (hd_Actions h)] (hd_Actions h))"

text \<open>
  One action: no executor for an unknown type; otherwise the outcome is written to the action log
  under the id \<open>i\<close>, an error of the database being only logged.
\<close>

definition run_action ::
  "hook_env \<Rightarrow> ActionDef \<Rightarrow> (string, string) gomap \<Rightarrow> files \<Rightarrow> (outcome \<times> files) option" where
  "run_action E action vars fs =
     (if ac_Type action = ''webhook'' then Some (fst (WebhookExecutor_Execute E action vars), fs)
      else if ac_Type action = ''shell'' then Some (ShellExecutor_Execute E action vars, fs)
      else if ac_Type action = ''file'' then Some (FileExecutor_Execute E action vars fs)
      else if ac_Type action = ''api'' then Some (fst (APIExecutor_Execute E action vars), fs)
      else None)"

definition executeAction ::
  "hook_env \<Rightarrow> string \<Rightarrow> time \<Rightarrow> dispatchJob \<Rightarrow> ActionDef \<Rightarrow> nat \<Rightarrow> (string, string) gomap
     \<Rightarrow> files \<times> store \<Rightarrow> files \<times> store" where
  "executeAction E i now job action idx vars s =
     (case run_action E action vars (fst s) of
        None \<Rightarrow> s
      | Some ((success, errMsg, durationMs), fs) \<Rightarrow>
          (fs, snd (run_state (CreateActionLog
            \<lparr>le_ID = i, le_Event = dj_event job, le_Hostname = dj_hostname job, le_ActionType = ac_Type action,
              le_ActionIndex = int idx, le_ConfigSnapshot = hk_marshal_action E action, le_Success = success,
              le_Error = errMsg, le_DurationMs = durationMs, le_ExecutedAt = now\<rparr>) (snd s))))"

definition job_vars :: "dispatchJob \<Rightarrow> (string, string) gomap" where
  "job_vars job = buildVars (dj_event job) (dj_hostname job) (dj_status job) (dj_timestamp job) (dj_enrolledAt job)"

text \<open>
  A job: the actions run in their own goroutines; here one after the other, in the order
  \<open>order\<close> in which they finish, \<open>ids\<close> naming their log entries.
\<close>

definition processJob ::
  "hook_env \<Rightarrow> (nat \<Rightarrow> string) \<Rightarrow> time \<Rightarrow> ((nat \<times> ActionDef) list \<Rightarrow> (nat \<times> ActionDef) list)
     \<Rightarrow> HooksConfig option \<Rightarrow> dispatchJob \<Rightarrow> files \<times> store \<Rightarrow> files \<times> store" where
  "processJob E ids now order cfg job s =
     (case cfg of
        None \<Rightarrow> s
      | Some hooks \<Rightarrow>
          fold (\<lambda>(idx, action). executeAction E (ids idx) now job action idx (job_vars job))
            (order (matched_actions hooks (dj_event job))) s)"

text \<open>The goroutine of \<open>Start\<close>: it takes the oldest job and processes it.\<close>

definition dispatcher_step ::
  "(HooksConfig option \<Rightarrow> dispatchJob \<Rightarrow> 's \<Rightarrow> 's) \<Rightarrow> Dispatcher \<times> 's \<Rightarrow> Dispatcher \<times> 's" where
  "dispatcher_step process ds =
     (case ds_queue (fst ds) of
        [] \<Rightarrow> ds
      | job # rest \<Rightarrow> ((fst ds)\<lparr>ds_queue := rest\<rparr>, process (ds_config (fst ds)) job (snd ds)))"

end
