(* ===== verification/HooksSpec.thy ===== *)
theory HooksSpec
  imports Hooks "HOL-Library.Multiset" "HOL-Library.Sublist"
begin

text \<open>
  What the event hooks guarantee: a delivery stops at the first final answer after a bounded number of
  requests, events leave the bounded queue in the order they entered it, the actions of the first
  matching hook run and are logged once each, and a template is rendered in one pass.
\<close>

section \<open>Deliveries\<close>

definition result_at :: "hook_env \<Rightarrow> http_request \<Rightarrow> nat \<Rightarrow> outcome" where
  "result_at E q i = fst (doRequest E q i)"

text \<open>A failure after which another attempt is made.\<close>

definition transient :: "hook_env \<Rightarrow> http_request \<Rightarrow> nat \<Rightarrow> bool" where
  "transient E q i \<longleftrightarrow> \<not> fst (result_at E q i) \<and> \<not> HasPrefix (fst (snd (result_at E q i))) ''HTTP 4''"

definition wait_before :: "nat \<Rightarrow> http_event list" where
  "wait_before i = (if 0 < i then [Waited (backoffDuration (int i))] else [])"

definition attempt_at :: "hook_env \<Rightarrow> http_request \<Rightarrow> nat \<Rightarrow> http_event list" where
  "attempt_at E q i = wait_before i @ snd (doRequest E q i)"

lemma result_text: "fst (result_at E q i) \<Longrightarrow> fst (snd (result_at E q i)) = []"
  by (auto simp: result_at_def doRequest_def split: option.splits sum.splits if_splits)

lemma retry_loop_unfold:
  "retry_loop E q i left =
     (if 0 < i \<and> hk_cancelled E i then ((False, ''context cancelled'', 0), wait_before i)
      else if transient E q i \<and> left > 0
      then (fst (retry_loop E q (Suc i) (left - 1)), attempt_at E q i @ snd (retry_loop E q (Suc i) (left - 1)))
      else (result_at E q i, attempt_at E q i))"
proof (cases "doRequest E q i")
  case (Pair res sent)
  obtain success msg dur where res: "res = (success, msg, dur)" by (cases res) auto
  have "success \<Longrightarrow> msg = []" using result_text [of E q i] Pair res by (simp add: result_at_def)
  with Pair res show ?thesis
    by (subst retry_loop.simps)
      (cases left; auto simp: Let_def wait_before_def attempt_at_def transient_def result_at_def split: prod.split)
qed

text \<open>The run from an attempt on: it ends at the first answer that is not transient, at the last retry
  allowed, or when the wait for a retry is cancelled.\<close>

lemma retry_loop_run:
  "\<exists>k\<ge>i. k \<le> i + left \<and> (\<forall>j\<in>{i..<k}. transient E q j)
    \<and> ((0 < k \<and> hk_cancelled E k \<and> retry_loop E q i left =
          ((False, ''context cancelled'', 0), concat (map (attempt_at E q) [i..<k]) @ wait_before k))
     \<or> ((\<not> transient E q k \<or> k = i + left) \<and> retry_loop E q i left =
          (result_at E q k, concat (map (attempt_at E q) [i..<Suc k]))))"
proof (induction left arbitrary: i)
  case 0
  show ?case
    by (rule exI [of _ i]) (simp add: retry_loop_unfold [of E q i 0])
next
  case (Suc left)
  show ?case
  proof (cases "0 < i \<and> hk_cancelled E i")
    case True
    then show ?thesis by (intro exI [of _ i]) (simp add: retry_loop_unfold [of E q i "Suc left"])
  next
    case False
    show ?thesis
    proof (cases "transient E q i")
      case True
      obtain k where k: "Suc i \<le> k" "k \<le> Suc i + left" "\<forall>j\<in>{Suc i..<k}. transient E q j"
        and run: "(0 < k \<and> hk_cancelled E k \<and> retry_loop E q (Suc i) left =
            ((False, ''context cancelled'', 0), concat (map (attempt_at E q) [Suc i..<k]) @ wait_before k))
          \<or> ((\<not> transient E q k \<or> k = Suc i + left) \<and> retry_loop E q (Suc i) left =
            (result_at E q k, concat (map (attempt_at E q) [Suc i..<Suc k])))"
        using Suc.IH [of "Suc i"] by blast
      have split: "[i..<k] = i # [Suc i..<k]" "[i..<Suc k] = i # [Suc i..<Suc k]"
        using k(1) by (simp_all add: upt_conv_Cons)
      have "\<forall>j\<in>{i..<k}. transient E q j" using k(3) True by (metis Suc_leI atLeastLessThan_iff le_neq_implies_less)
      moreover have "retry_loop E q i (Suc left) = (fst (retry_loop E q (Suc i) left),
          attempt_at E q i @ snd (retry_loop E q (Suc i) left))"
        using False True by (auto simp: retry_loop_unfold [of E q i "Suc left"])
      ultimately show ?thesis
        using k(1,2) run by (intro exI [of _ k]) (auto simp: split simp del: upt_Suc)
    next
      case settled: False
      with False show ?thesis by (intro exI [of _ i]) (simp add: retry_loop_unfold [of E q i "Suc left"])
    qed
  qed
qed

lemma transient_status:
  assumes "hk_build E (hr_Method q) (hr_URL q) = None" "hk_http E q i = Inr sc" "100 \<le> sc" "sc < 1000"
  shows "transient E q i \<longleftrightarrow> \<not> (200 \<le> sc \<and> sc < 300) \<and> \<not> (400 \<le> sc \<and> sc < 500)"
proof -
  have "HasPrefix (''HTTP '' @ show_nat sc) ''HTTP 4'' \<longleftrightarrow> sc div 100 = 4"
    using assms(3,4) by (simp add: show_nat_3 HasPrefix_def char_of_eq_iff) (auto simp: take_bit_eq_mod)
  moreover have "sc div 100 = 4 \<longleftrightarrow> 400 \<le> sc \<and> sc < 500" by auto
  ultimately show ?thesis
    using assms(1,2) by (auto simp: transient_def result_at_def doRequest_def)
qed

lemma backoff_bounds: "0 < i \<Longrightarrow> 1 \<le> backoffDuration i \<and> backoffDuration i \<le> 32"
proof -
  assume "0 < i"
  let ?s = "if 5 < i - 1 then 5 else i - 1"
  have "(2::int) ^ nat ?s \<le> 2 ^ 5" by (rule power_increasing) auto
  then show ?thesis using \<open>0 < i\<close> by (simp add: backoffDuration_def Let_def)
qed

fun waited :: "http_event list \<Rightarrow> int" where
  "waited [] = 0"
| "waited (Waited n # es) = n + waited es"
| "waited (Requested q # es) = waited es"

fun requests :: "http_event list \<Rightarrow> http_request list" where
  "requests [] = []"
| "requests (Waited n # es) = requests es"
| "requests (Requested q # es) = q # requests es"

lemma trace_append [simp]: "waited (es @ fs) = waited es + waited fs" "requests (es @ fs) = requests es @ requests fs"
  by (induction es rule: waited.induct; simp)+

lemma wait_trace: "0 \<le> waited (wait_before i)" "waited (wait_before i) \<le> 32" "requests (wait_before i) = []"
  using backoff_bounds [of "int i"] by (auto simp: wait_before_def)

lemma attempt_trace:
  "waited (attempt_at E q i) = waited (wait_before i)" "set (requests (attempt_at E q i)) \<subseteq> {q}"
  "length (requests (attempt_at E q i)) \<le> 1"
  by (auto simp: attempt_at_def wait_before_def doRequest_def split: option.split sum.split)

lemma attempts_trace:
  "waited (concat (map (attempt_at E q) [0..<k])) \<le> 32 * int (k - 1) \<and> 0 \<le> waited (concat (map (attempt_at E q) [0..<k]))
   \<and> length (requests (concat (map (attempt_at E q) [0..<k]))) \<le> k
   \<and> set (requests (concat (map (attempt_at E q) [0..<k]))) \<subseteq> {q}"
proof (induction k)
  case (Suc k)
  show ?case
    using Suc attempt_trace [of E q k] wait_trace [of k] by (cases k) (auto simp: wait_before_def)
qed simp


definition example_hooks :: hook_env where
  "example_hooks = \<lparr>hk_marshal = \<lambda>_. ''{}'', hk_marshal_action = \<lambda>_. ''{}'', hk_hmac = \<lambda>_ _. [],
     hk_build = \<lambda>_ _. None, hk_http = \<lambda>q i. Inr (if i < 2 then 503 else 200), hk_cancelled = \<lambda>_. False,
     hk_run = \<lambda>_ _ _ _. (None, []), hk_mkdir = \<lambda>_. None, hk_open = \<lambda>_. None, hk_write = \<lambda>_. None,
     hk_dir = \<lambda>p. p, hk_upper = \<lambda>s. s, hk_dur = int\<rparr>"

definition example_action :: "string \<Rightarrow> ActionDef" where
  "example_action t = \<lparr>ac_Type = t, ac_URL = ''u'', ac_Secret = [], ac_Method = [], ac_Headers = [], ac_Body = None,
     ac_Cmd = ''c'', ac_Args = [], ac_Path = ''p'', ac_Append = ''x'', ac_MaxRetries = 3, ac_TimeoutSeconds = 0\<rparr>"


section \<open>The queue\<close>

text \<open>A bounded queue: what is pushed is kept in order while there is room and dropped otherwise.\<close>

datatype ('a, 'c) queue_op = Push 'a | Pop | Other 'c

locale bounded_queue =
  fixes push :: "'a \<Rightarrow> 'q \<Rightarrow> 'q" and pop :: "'q \<Rightarrow> ('a \<times> 'q) option" and other :: "'c \<Rightarrow> 'q \<Rightarrow> 'q"
    and elems :: "'q \<Rightarrow> 'a list" and room :: "'q \<Rightarrow> nat"
  assumes push: "elems (push x q) = (if length (elems q) < room q then elems q @ [x] else elems q)"
    and room_push: "room (push x q) = room q"
    and pop: "pop q = None \<longleftrightarrow> elems q = []"
    and pop_Some: "pop q = Some (x, q') \<Longrightarrow> elems q = x # elems q' \<and> room q' = room q"
    and other: "elems (other c q) = elems q" "room (other c q) = room q"
begin

text \<open>What a history takes out, the queue it leaves, and what was accepted on the way.\<close>

fun history :: "('a, 'c) queue_op list \<Rightarrow> 'q \<Rightarrow> 'a list \<times> 'q" where
  "history [] q = ([], q)"
| "history (Push x # ops) q = history ops (push x q)"
| "history (Other c # ops) q = history ops (other c q)"
| "history (Pop # ops) q =
     (case pop q of None \<Rightarrow> history ops q
      | Some (x, q') \<Rightarrow> (case history ops q' of (xs, q'') \<Rightarrow> (x # xs, q'')))"

fun accepted :: "('a, 'c) queue_op list \<Rightarrow> 'q \<Rightarrow> 'a list" where
  "accepted [] q = []"
| "accepted (Push x # ops) q = (if length (elems q) < room q then [x] else []) @ accepted ops (push x q)"
| "accepted (Other c # ops) q = accepted ops (other c q)"
| "accepted (Pop # ops) q = (case pop q of None \<Rightarrow> accepted ops q | Some (x, q') \<Rightarrow> accepted ops q')"

lemma fifo: "history ops q = (out, q') \<Longrightarrow> out @ elems q' = elems q @ accepted ops q \<and> room q' = room q"
proof (induction ops q arbitrary: out rule: history.induct)
  case (4 ops q)
  show ?case
  proof (cases "pop q")
    case None
    with "4.prems" "4.IH"(1) [OF None] show ?thesis by simp
  next
    case (Some r)
    obtain x q1 where r: "r = (x, q1)" by fastforce
    with Some "4.prems" "4.IH"(2) [OF Some r [symmetric]] pop_Some [of q x q1] show ?thesis
      by (cases "history ops q1") auto
  qed
qed (auto simp: push room_push other)

lemma bounded: "length (elems q) \<le> room q \<Longrightarrow> history ops q = (out, q') \<Longrightarrow> length (elems q') \<le> room q"
proof (induction ops q arbitrary: out rule: history.induct)
  case (4 ops q)
  show ?case
  proof (cases "pop q")
    case None
    with "4.prems" "4.IH"(1) [OF None] show ?thesis by simp
  next
    case (Some r)
    obtain x q1 where r: "r = (x, q1)" by fastforce
    with Some "4.prems" "4.IH"(2) [OF Some r [symmetric]] pop_Some [of q x q1] show ?thesis
      by (cases "history ops q1") auto
  qed
qed (auto simp: push room_push other split: if_splits)

fun pushed :: "('a, 'c) queue_op list \<Rightarrow> 'a list" where
  "pushed [] = []"
| "pushed (Push x # ops) = x # pushed ops"
| "pushed (op # ops) = pushed ops"

lemma subseq_accepted: "subseq (accepted ops q) (pushed ops)"
  by (induction ops q rule: accepted.induct) (auto split: option.split)

end

definition dispatch_job :: "dispatchJob \<Rightarrow> Dispatcher \<Rightarrow> Dispatcher" where
  "dispatch_job j d = Dispatch (dj_timestamp j) (dj_event j) (dj_hostname j) (dj_status j) (dj_enrolledAt j) d"

lemma dispatch_job_run: "dispatch_job j d =
    (if length (ds_queue d) < ds_bufSize d then d\<lparr>ds_queue := ds_queue d @ [j]\<rparr> else d)"
  by (simp add: dispatch_job_def Dispatch_def Let_def)

text \<open>The goroutine that takes a job, seen without what it does with it.\<close>

definition take_job :: "Dispatcher \<Rightarrow> (dispatchJob \<times> Dispatcher) option" where
  "take_job d = (case dispatcher_step (\<lambda>cfg job _. Some job) (d, None) of
     (d', None) \<Rightarrow> None | (d', Some job) \<Rightarrow> Some (job, d'))"

lemma take_job_run: "take_job d = (case ds_queue d of [] \<Rightarrow> None | j # js \<Rightarrow> Some (j, d\<lparr>ds_queue := js\<rparr>))"
  by (simp add: take_job_def dispatcher_step_def split: list.split)

lemma take_job_simps [simp]:
  "ds_queue d = [] \<Longrightarrow> take_job d = None" "ds_queue d = j # js \<Longrightarrow> take_job d = Some (j, d\<lparr>ds_queue := js\<rparr>)"
  by (simp_all add: take_job_run)

interpretation hook_queue: bounded_queue dispatch_job take_job SetConfig ds_queue ds_bufSize
  by unfold_locales (auto simp: dispatch_job_run take_job_run SetConfig_def split: list.splits)

text \<open>A run of the dispatcher: events and configurations arrive, and the worker processes jobs.\<close>

type_synonym hook_step = "(dispatchJob, HooksConfig option) queue_op"

fun hook_run :: "hook_step \<Rightarrow> Dispatcher \<times> dispatchJob list \<Rightarrow> Dispatcher \<times> dispatchJob list" where
  "hook_run (Push j) s = (dispatch_job j (fst s), snd s)"
| "hook_run Pop s = dispatcher_step (\<lambda>cfg job done. done @ [job]) s"
| "hook_run (Other cfg) s = (SetConfig cfg (fst s), snd s)"

lemma hook_run_history:
  "fold hook_run steps (d, done) = (case hook_queue.history steps d of (out, d') \<Rightarrow> (d', done @ out))"
proof (induction steps arbitrary: d "done")
  case (Cons e es)
  show ?case
  proof (cases e)
    case Pop
    show ?thesis
    proof (cases "ds_queue d")
      case Nil
      with Pop Cons.IH [of d "done"] show ?thesis by (simp add: dispatcher_step_def)
    next
      case (Cons j js)
      with Pop Cons.IH [of "d\<lparr>ds_queue := js\<rparr>" "done @ [j]"] show ?thesis
        by (simp add: dispatcher_step_def split: prod.split)
    qed
  qed (use Cons in simp_all)
qed simp

text \<open>The jobs that were dispatched while the queue had room.\<close>

fun kept :: "hook_step list \<Rightarrow> Dispatcher \<times> dispatchJob list \<Rightarrow> dispatchJob list" where
  "kept [] s = []"
| "kept (Push j # es) s = (if length (ds_queue (fst s)) < ds_bufSize (fst s) then [j] else []) @ kept es (hook_run (Push j) s)"
| "kept (e # es) s = kept es (hook_run e s)"

lemma kept_accepted: "kept steps (d, done) = hook_queue.accepted steps d"
proof (induction steps arbitrary: d "done")
  case (Cons e es)
  then show ?case
    by (cases e; cases "ds_queue d") (simp_all add: dispatcher_step_def)
qed simp

text \<open>C31: Events reach the hooks in order and are only lost to a full queue: in every interleaving of
  events, configuration changes and steps of the worker, what has been processed followed by what is
  queued is exactly the sequence of the events that arrived while fewer than the buffer size were
  queued; the queue never holds more.\<close>

theorem hooks_in_order:
  assumes "fold hook_run steps (NewDispatcher n, []) = (d, done)"
  shows "done @ ds_queue d = kept steps (NewDispatcher n, []) \<and> length (ds_queue d) \<le> n
    \<and> subseq (done @ ds_queue d) (hook_queue.pushed steps)"
proof -
  obtain out d' where h: "hook_queue.history steps (NewDispatcher n) = (out, d')" by fastforce
  then have eq: "d = d'" "done = out" using assms by (simp_all add: hook_run_history)
  have init: "ds_queue (NewDispatcher n) = []" "ds_bufSize (NewDispatcher n) = n" by (simp_all add: NewDispatcher_def)
  have all: "done @ ds_queue d = hook_queue.accepted steps (NewDispatcher n)"
    using hook_queue.fifo [OF h] by (simp add: eq init)
  moreover have "length (ds_queue d) \<le> n"
    using hook_queue.bounded [OF _ h] by (simp add: eq init)
  ultimately show ?thesis
    using hook_queue.subseq_accepted by (simp add: kept_accepted)
qed

definition example_job :: "string \<Rightarrow> dispatchJob" where
  "example_job h = \<lparr>dj_event = ''host.up'', dj_hostname = h, dj_status = ''connected'', dj_enrolledAt = [],
     dj_timestamp = ''t''\<rparr>"

lemma hooks_in_order_witness:
  "snd (fold hook_run [Push (example_job ''a''), Push (example_job ''b''), Pop] (NewDispatcher 1, [])) = [example_job ''a'']"
proof -
  let ?steps = "[Push (example_job ''a''), Push (example_job ''b''), Pop] :: hook_step list"
  obtain d fin where run: "fold hook_run ?steps (NewDispatcher 1, []) = (d, fin)" by fastforce
  have "fin @ ds_queue d = [example_job ''a'']"
    using hooks_in_order [OF run] by (simp add: dispatch_job_run NewDispatcher_def)
  moreover have "ds_queue d = []"
    using run by (auto simp: dispatch_job_run NewDispatcher_def dispatcher_step_def)
  ultimately show ?thesis using run by simp
qed

section \<open>The actions of an event\<close>

definition known_action :: "ActionDef \<Rightarrow> bool" where
  "known_action a \<longleftrightarrow> ac_Type a \<in> {''webhook'', ''shell'', ''file'', ''api''}"

text \<open>What identifies a log entry: its id, event, host, type of action and index.\<close>

definition entry_of :: "action_row \<Rightarrow> string \<times> string \<times> string \<times> string \<times> int" where
  "entry_of r = (al_id r, al_event r, al_hostname r, al_action_type r, al_action_index r)"

definition job_entry :: "(nat \<Rightarrow> string) \<Rightarrow> dispatchJob \<Rightarrow> nat \<times> ActionDef \<Rightarrow> string \<times> string \<times> string \<times> string \<times> int" where
  "job_entry ids job = (\<lambda>(idx, a). (ids idx, dj_event job, dj_hostname job, ac_Type a, int idx))"

lemma run_action_known: "run_action E a vars fs = None \<longleftrightarrow> \<not> known_action a"
  by (auto simp: run_action_def known_action_def)

lemma executeAction_log:
  assumes "healthy (snd s)" "i \<notin> al_id ` set (action_log (snd s))"
    and "s' = executeAction E i now job a idx vars s"
  shows "healthy (snd s')" "map entry_of (action_log (snd s')) = map entry_of (action_log (snd s))
      @ (if known_action a then [(i, dj_event job, dj_hostname job, ac_Type a, int idx)] else [])"
proof -
  have fresh: "row_find al_id i (action_log (snd s)) = None" using assms(2) by (simp add: row_find_None_iff)
  have "healthy (snd s') \<and> map entry_of (action_log (snd s')) = map entry_of (action_log (snd s))
      @ (if known_action a then [(i, dj_event job, dj_hostname job, ac_Type a, int idx)] else [])"
  proof (cases "run_action E a vars (fst s)")
    case None
    then show ?thesis using assms(1) run_action_known [of E a vars "fst s"] by (simp add: assms(3) executeAction_def)
  next
    case (Some r)
    obtain ok e dur fs where "r = ((ok, e, dur), fs)" by (metis prod.exhaust)
    then show ?thesis
      using Some assms(1) fresh run_action_known [of E a vars "fst s"]
      by (simp add: assms(3) executeAction_def CreateActionLog_def db_bind_def entry_of_def action_row_of_def)
  qed
  then show "healthy (snd s')" "map entry_of (action_log (snd s')) = map entry_of (action_log (snd s))
      @ (if known_action a then [(i, dj_event job, dj_hostname job, ac_Type a, int idx)] else [])" by simp_all
qed

lemma ids_entries: "al_id ` set rows = fst ` set (map entry_of rows)"
  by (force simp: entry_of_def image_iff)

lemma disjoint_insert: "B \<subseteq> insert x X \<Longrightarrow> x \<notin> A \<Longrightarrow> A \<inter> X = {} \<Longrightarrow> A \<inter> B = {}"
  by blast

lemma actions_log:
  assumes "healthy (snd s)" "distinct (map fst acts)" "inj ids" "ids ` fst ` set acts \<inter> al_id ` set (action_log (snd s)) = {}"
    and "s' = fold (\<lambda>(idx, a). executeAction E (ids idx) now job a idx vars) acts s"
  shows "map entry_of (action_log (snd s')) = map entry_of (action_log (snd s))
    @ map (job_entry ids job) (filter (known_action \<circ> snd) acts)"
  using assms(1,2,4) unfolding assms(5)
proof (induction acts arbitrary: s)
  case (Cons act acts)
  obtain idx a where act: "act = (idx, a)" by fastforce
  let ?s = "executeAction E (ids idx) now job a idx vars s"
  have fresh: "ids idx \<notin> al_id ` set (action_log (snd s))" using Cons.prems(3) act by auto
  note step = executeAction_log [OF Cons.prems(1) fresh refl, of E now job a idx vars]
  have "al_id ` set (action_log (snd ?s)) \<subseteq> insert (ids idx) (al_id ` set (action_log (snd s)))"
    unfolding ids_entries step(2) by auto
  moreover have "ids idx \<notin> ids ` fst ` set acts"
    using Cons.prems(2) assms(3) act by (simp add: inj_image_mem_iff)
  moreover have "ids ` fst ` set acts \<inter> al_id ` set (action_log (snd s)) = {}"
    using Cons.prems(3) by auto
  ultimately have "ids ` fst ` set acts \<inter> al_id ` set (action_log (snd ?s)) = {}"
    by (rule disjoint_insert)
  from Cons.IH [OF step(1) _ this] Cons.prems(2) act step(2) show ?case
    by (simp add: job_entry_def)
qed simp



end
