(* ===== verification/GoPath.thy ===== *)
theory GoPath
  imports GoNum
begin

text \<open>
  \<open>path/filepath\<close> on Unix: \<open>Clean\<close> and \<open>Dir\<close>, and what a cleaned path means. \<open>resolve\<close> walks a path
  from the root, name by name, which is the meaning of an absolute path in a tree without symbolic
  links; cleaning keeps it.
\<close>

section \<open>Clean and Dir\<close>

text \<open>One name: \<open>out\<close> holds the names kept so far, the last one first.\<close>

definition clean_step :: "bool \<Rightarrow> string list \<Rightarrow> string \<Rightarrow> string list" where
  "clean_step rooted out p =
     (if p = [] \<or> p = ''.'' then out
      else if p = ''..'' then
        (case out of
           [] \<Rightarrow> if rooted then [] else [''..'']
         | q # out' \<Rightarrow> if q = ''..'' then ''..'' # out else out')
      else p # out)"

definition clean_parts :: "bool \<Rightarrow> string list \<Rightarrow> string list" where
  "clean_parts rooted ps = rev (foldl (clean_step rooted) [] ps)"

definition IsAbs :: "string \<Rightarrow> bool" where
  "IsAbs p = HasPrefix p ''/''"

definition Clean :: "string \<Rightarrow> string" where
  "Clean p =
     (let parts = clean_parts (IsAbs p) (split_on CHR ''/'' p) in
      if IsAbs p then CHR ''/'' # join_with CHR ''/'' parts
      else if parts = [] then ''.'' else join_with CHR ''/'' parts)"

definition TrimRight :: "char \<Rightarrow> string \<Rightarrow> string" where
  "TrimRight c s = rev (dropWhile (\<lambda>x. x = c) (rev s))"

definition Dir :: "string \<Rightarrow> string" where
  "Dir p = Clean (rev (dropWhile (\<lambda>x. x \<noteq> CHR ''/'') (rev p)))"

section \<open>The meaning of an absolute path\<close>

definition step_into :: "string list \<Rightarrow> string \<Rightarrow> string list" where
  "step_into d p = (if p = [] \<or> p = ''.'' then d else if p = ''..'' then butlast d else d @ [p])"

definition resolve :: "string \<Rightarrow> string list" where
  "resolve p = foldl step_into [] (split_on CHR ''/'' p)"

text \<open>The names of a directory: neither empty, nor \<open>.\<close>, nor \<open>..\<close>, and without a slash.\<close>

definition plain_name :: "string \<Rightarrow> bool" where
  "plain_name p \<longleftrightarrow> p \<noteq> [] \<and> p \<noteq> ''.'' \<and> p \<noteq> ''..'' \<and> CHR ''/'' \<notin> set p"

definition abs_path :: "string list \<Rightarrow> string" where
  "abs_path d = CHR ''/'' # join_with CHR ''/'' d"

lemma IsAbs_iff: "IsAbs p \<longleftrightarrow> (\<exists>s. p = CHR ''/'' # s)"
  by (cases p) (auto simp: IsAbs_def HasPrefix_iff)

lemma clean_step_rooted:
  "''..'' \<notin> set out \<Longrightarrow> rev (clean_step True out p) = step_into (rev out) p \<and> ''..'' \<notin> set (clean_step True out p)"
  by (cases out) (auto simp: clean_step_def step_into_def butlast_append)

lemma clean_foldl:
  "''..'' \<notin> set out \<Longrightarrow> rev (foldl (clean_step True) out ps) = foldl step_into (rev out) ps"
proof (induction ps arbitrary: out)
  case (Cons p ps)
  then show ?case using clean_step_rooted [of out p] by simp
qed simp

lemma Clean_abs: "IsAbs p \<Longrightarrow> Clean p = abs_path (resolve p)"
  by (simp add: Clean_def abs_path_def resolve_def clean_parts_def clean_foldl)

lemma plain_step:
  assumes "\<forall>p\<in>set d. plain_name p" "CHR ''/'' \<notin> set q"
  shows "\<forall>p\<in>set (step_into d q). plain_name p"
proof -
  consider "q = [] \<or> q = ''.''" | "q = ''..''" | "plain_name q"
    using assms(2) unfolding plain_name_def by blast
  then show ?thesis
  proof cases
    case 2
    with assms(1) show ?thesis by (simp add: step_into_def) (blast dest: in_set_butlastD)
  qed (use assms(1) in \<open>auto simp: step_into_def plain_name_def\<close>)
qed

lemma plain_foldl:
  "\<forall>p\<in>set d. plain_name p \<Longrightarrow> \<forall>p\<in>set ps. CHR ''/'' \<notin> set p \<Longrightarrow>
   \<forall>p\<in>set (foldl step_into d ps). plain_name p"
proof (induction ps arbitrary: d)
  case (Cons q ps)
  then show ?case using plain_step [of d q] by simp
qed simp

lemma split_on_names: "\<forall>p\<in>set (split_on c s). c \<notin> set p"
  by (rule ballI) (rule split_on_no_sep)

lemma resolve_plain: "p \<in> set (resolve s) \<Longrightarrow> plain_name p"
proof -
  assume "p \<in> set (resolve s)"
  moreover have "\<forall>p\<in>set (foldl step_into [] (split_on CHR ''/'' s)). plain_name p"
    by (rule plain_foldl) (simp, rule split_on_names)
  ultimately show "plain_name p" unfolding resolve_def by blast
qed

lemma step_plain: "plain_name p \<Longrightarrow> step_into d p = d @ [p]"
  by (simp add: step_into_def plain_name_def)

lemma foldl_plain: "\<forall>p\<in>set ps. plain_name p \<Longrightarrow> foldl step_into d ps = d @ ps"
  by (induction ps arbitrary: d) (simp_all add: step_plain)

lemma split_abs_path:
  assumes "\<forall>p\<in>set d. plain_name p"
  shows "split_on CHR ''/'' (abs_path d) = [] # (if d = [] then [[]] else d)"
proof (cases "d = []")
  case False
  with assms have "split_on CHR ''/'' (join_with CHR ''/'' d) = d"
    by (intro split_join) (auto simp: plain_name_def)
  with False show ?thesis by (simp add: abs_path_def)
qed (simp add: abs_path_def)

lemma resolve_abs_path: "\<forall>p\<in>set d. plain_name p \<Longrightarrow> resolve (abs_path d) = d"
  by (auto simp: resolve_def split_abs_path step_into_def foldl_plain)

lemma IsAbs_abs_path [simp]: "IsAbs (abs_path d)"
  by (simp add: IsAbs_iff abs_path_def)

text \<open>Cleaning keeps the meaning of an absolute path, and a clean path is already clean.\<close>

lemma resolve_Clean: "IsAbs p \<Longrightarrow> resolve (Clean p) = resolve p"
  by (simp add: Clean_abs resolve_abs_path resolve_plain)

lemma Clean_idem: "IsAbs p \<Longrightarrow> Clean (Clean p) = Clean p"
  by (simp add: Clean_abs resolve_abs_path resolve_plain)

text \<open>A path that is not absolute does not become so.\<close>

definition proper :: "string \<Rightarrow> bool" where
  "proper p \<longleftrightarrow> p \<noteq> [] \<and> CHR ''/'' \<notin> set p"

lemma clean_step_proper:
  "\<forall>p\<in>set out. proper p \<Longrightarrow> CHR ''/'' \<notin> set q \<Longrightarrow> \<forall>p\<in>set (clean_step rooted out q). proper p"
  by (cases out) (simp_all add: clean_step_def proper_def)

lemma clean_parts_names:
  "\<forall>p\<in>set out. proper p \<Longrightarrow> \<forall>p\<in>set ps. CHR ''/'' \<notin> set p \<Longrightarrow>
   \<forall>p\<in>set (foldl (clean_step rooted) out ps). proper p"
proof (induction ps arbitrary: out)
  case (Cons q ps)
  then show ?case using clean_step_proper [of out q rooted] by simp
qed simp

lemma join_not_abs:
  assumes "\<forall>q\<in>set ps. proper q"
  shows "\<not> IsAbs (join_with CHR ''/'' ps)"
proof (cases ps)
  case (Cons q qs)
  with assms obtain c cs where "q = c # cs" "c \<noteq> CHR ''/''" by (cases q) (auto simp: proper_def)
  with Cons show ?thesis by (cases qs) (simp_all add: IsAbs_iff)
qed (simp add: IsAbs_iff)

lemma Clean_not_abs: "\<not> IsAbs p \<Longrightarrow> \<not> IsAbs (Clean p)"
proof -
  assume a: "\<not> IsAbs p"
  let ?parts = "clean_parts False (split_on CHR ''/'' p)"
  have "\<forall>q\<in>set ?parts. proper q"
    unfolding clean_parts_def set_rev by (rule clean_parts_names) (simp, rule split_on_names)
  then have "\<not> IsAbs (join_with CHR ''/'' ?parts)"
    by (rule join_not_abs)
  with a show ?thesis by (auto simp: Clean_def Let_def IsAbs_iff)
qed

text \<open>One absolute path is a text prefix of another, up to a slash, when its names are.\<close>

lemma join_prefix:
  assumes "\<forall>p\<in>set d. CHR ''/'' \<notin> set p" "\<forall>p\<in>set e. CHR ''/'' \<notin> set p" "d \<noteq> []" "e \<noteq> []"
  shows "join_with CHR ''/'' e = join_with CHR ''/'' d \<or> prefix (join_with CHR ''/'' d @ ''/'') (join_with CHR ''/'' e)
    \<longleftrightarrow> prefix d e"
proof
  assume "join_with CHR ''/'' e = join_with CHR ''/'' d \<or> prefix (join_with CHR ''/'' d @ ''/'') (join_with CHR ''/'' e)"
  then consider "join_with CHR ''/'' e = join_with CHR ''/'' d"
    | zs where "join_with CHR ''/'' e = join_with CHR ''/'' d @ CHR ''/'' # zs"
    by (auto simp: prefix_def)
  then show "prefix d e"
  proof cases
    case 1
    with assms show ?thesis by (metis split_join prefix_order.refl)
  next
    case 2
    have "split_on CHR ''/'' (join_with CHR ''/'' d @ CHR ''/'' # zs) = d @ split_on CHR ''/'' zs"
      using assms(1,3)
      by (induction "CHR ''/''" d rule: join_with.induct) (simp_all add: split_on_append)
    with 2 assms show ?thesis by (metis split_join prefixI)
  qed
next
  assume "prefix d e"
  then obtain zs where e: "e = d @ zs" by (auto simp: prefix_def)
  have "zs \<noteq> [] \<Longrightarrow> join_with CHR ''/'' (d @ zs) = join_with CHR ''/'' d @ CHR ''/'' # join_with CHR ''/'' zs"
    using assms(3) by (induction "CHR ''/''" d rule: join_with.induct) (auto simp: neq_Nil_conv)
  with e show "join_with CHR ''/'' e = join_with CHR ''/'' d \<or> prefix (join_with CHR ''/'' d @ ''/'') (join_with CHR ''/'' e)"
    by (cases "zs = []") auto
qed

end
