(* ===== verification/Routes.thy ===== *)
theory Routes
  imports Exec Admin AdminTokens Hooks GoPath
begin

text \<open>
  The requests the three ports of the server answer (\<open>secagent-server/main.go\<close>): the routing of
  \<open>net/http\<close> and the route tables of the API port 7770, the administration port 7771 and the WebSocket
  port 7772.
\<close>

section \<open>Patterns and paths\<close>

text \<open>
  A pattern is a method, if any, and the segments of a path, a segment in braces being a variable.
  A variable matches one segment that is not empty, the method GET also serves HEAD, and a path
  that is not in its cleaned form is redirected to it. Request paths carry no percent escapes here.
\<close>

datatype segment = Lit string | Wild string

type_synonym pattern = "string \<times> segment list"

definition path_segments :: "string \<Rightarrow> string list" where
  "path_segments path = tl (split_on CHR ''/'' path)"

definition parse_segment :: "string \<Rightarrow> segment" where
  "parse_segment s = (if HasPrefix s ''{'' then Wild (butlast (tl s)) else Lit s)"

definition parse_pattern :: "string \<Rightarrow> pattern" where
  "parse_pattern s =
     (case split_on CHR '' '' s of
        [m, p] \<Rightarrow> (m, map parse_segment (path_segments p))
      | _ \<Rightarrow> ([], map parse_segment (path_segments s)))"

fun match_segments :: "segment list \<Rightarrow> string list \<Rightarrow> (string, string) gomap option" where
  "match_segments [] [] = Some []"
| "match_segments (Lit l # ps) (s # ss) = (if s = l then match_segments ps ss else None)"
| "match_segments (Wild x # ps) (s # ss) =
     (if s = [] then None else map_option (mput x s) (match_segments ps ss))"
| "match_segments _ _ = None"

definition method_matches :: "string \<Rightarrow> string \<Rightarrow> bool" where
  "method_matches pat m \<longleftrightarrow> pat = [] \<or> pat = m \<or> pat = ''GET'' \<and> m = ''HEAD''"

definition match_pattern :: "pattern \<Rightarrow> string \<Rightarrow> string \<Rightarrow> (string, string) gomap option" where
  "match_pattern p m path =
     (if method_matches (fst p) m then match_segments (snd p) (path_segments path) else None)"

definition cleanPath :: "string \<Rightarrow> string" where
  "cleanPath p =
     (if p = [] then ''/''
      else let p = (if HasPrefix p ''/'' then p else CHR ''/'' # p); np = Clean p
           in if last p = CHR ''/'' \<and> np \<noteq> ''/'' then np @ ''/'' else np)"

section \<open>A router\<close>

text \<open>What a request becomes: an answer, an upgraded connection, a redirection, or no handler.\<close>

datatype served = Served response | Upgraded nat | Redirected string | MethodNotAllowed | NotFound

type_synonym handler = "request \<Rightarrow> served io"

type_synonym router = "(string \<times> handler) list"

fun find_route :: "router \<Rightarrow> string \<Rightarrow> string \<Rightarrow> (handler \<times> (string, string) gomap) option" where
  "find_route [] m path = None"
| "find_route ((s, h) # rs) m path =
     (case match_pattern (parse_pattern s) m path of
        Some vals \<Rightarrow> Some (h, vals)
      | None \<Rightarrow> find_route rs m path)"

definition path_known :: "router \<Rightarrow> string \<Rightarrow> bool" where
  "path_known rs path = list_ex (\<lambda>(s, h). match_segments (snd (parse_pattern s)) (path_segments path) \<noteq> None) rs"

definition ServeHTTP :: "router \<Rightarrow> string \<Rightarrow> request \<Rightarrow> served io" where
  "ServeHTTP rs path r =
     (if cleanPath path \<noteq> path then State_Monad.return (Redirected (cleanPath path))
      else case find_route rs (rq_Method r) path of
             Some (h, vals) \<Rightarrow> h (r\<lparr>rq_PathValue := vals\<rparr>)
           | None \<Rightarrow> State_Monad.return (if path_known rs path then MethodNotAllowed else NotFound))"

text \<open>
  The library picks the most specific of several matching patterns, and panics at registration when
  neither of two overlapping ones is more specific. \<open>overlap\<close> decides whether some request
  matches both; no two patterns of a table do (\<open>routes_unambiguous\<close>), so the first match is the only one.
\<close>

fun segments_overlap :: "segment list \<Rightarrow> segment list \<Rightarrow> bool" where
  "segments_overlap [] [] = True"
| "segments_overlap (Lit a # ps) (Lit b # qs) \<longleftrightarrow> a = b \<and> segments_overlap ps qs"
| "segments_overlap (_ # ps) (_ # qs) \<longleftrightarrow> segments_overlap ps qs"
| "segments_overlap _ _ = False"

definition methods_overlap :: "string \<Rightarrow> string \<Rightarrow> bool" where
  "methods_overlap a b \<longleftrightarrow> a = [] \<or> b = [] \<or> a = b \<or> a = ''GET'' \<and> b = ''HEAD'' \<or> a = ''HEAD'' \<and> b = ''GET''"

definition overlap :: "pattern \<Rightarrow> pattern \<Rightarrow> bool" where
  "overlap p q \<longleftrightarrow> methods_overlap (fst p) (fst q) \<and> segments_overlap (snd p) (snd q)"

lemma match_segments_Nil [simp]:
  "match_segments [] ss = Some vs \<longleftrightarrow> ss = [] \<and> vs = []" "match_segments (p # ps) [] = None"
  by (cases ss; cases p; auto)+

lemma segments_overlapI:
  "match_segments ps ss = Some vs \<Longrightarrow> match_segments qs ss = Some ws \<Longrightarrow> segments_overlap ps qs"
proof (induction ps arbitrary: qs ss vs ws)
  case Nil
  then show ?case by (cases qs) auto
next
  case (Cons p ps)
  then obtain s ss' where "ss = s # ss'" by (cases ss) auto
  with Cons.prems obtain q qs' where "qs = q # qs'" by (cases qs) auto
  with Cons \<open>ss = s # ss'\<close> show ?case
    by (cases p; cases q) (auto split: if_splits)
qed

lemma overlapI:
  "match_pattern p m path = Some vs \<Longrightarrow> match_pattern q m path = Some ws \<Longrightarrow> overlap p q"
  by (auto simp: match_pattern_def overlap_def methods_overlap_def method_matches_def
      intro: segments_overlapI split: if_splits)

section \<open>The handlers behind the ports\<close>

definition handleHealth :: "request \<Rightarrow> response io" where
  "handleHealth r = do {
     now \<leftarrow> gets clock;
     reply (Reply 200 (JObj [(''status'', JStr ''ok''), (''timestamp'', JNum (unix_sec now))]))
   }"

definition http :: "(request \<Rightarrow> response io) \<Rightarrow> handler" where
  "http h r = State_Monad.bind (h r) (\<lambda>x. State_Monad.return (Served x))"

definition websocket :: "(request \<Rightarrow> (response + nat) io) \<Rightarrow> handler" where
  "websocket h r = State_Monad.bind (h r)
     (\<lambda>x. State_Monad.return (case x of Inl e \<Rightarrow> Served e | Inr c \<Rightarrow> Upgraded c))"

text \<open>
  What the handlers depend on besides the request: \<open>on_env\<close> is what the agents send while a
  request waits for its task, \<open>on_upgraded\<close> whether the handshake succeeds, \<open>on_health\<close> the
  check of the broker and \<open>on_started\<close> the start of the process.
\<close>

record serving =
  on_env :: "hub_event list"
  on_upgraded :: bool
  on_health :: "bool option"
  on_started :: time

definition apiRouter :: "ext \<Rightarrow> serving \<Rightarrow> router" where
  "apiRouter X v =
     [(''GET /health'', http handleHealth),
      (''POST /api/register'', http (RegisterAgent X)),
      (''POST /api/exec/{hostname}'', http (ExecCommand X (on_env v))),
      (''POST /api/upload/{hostname}'', http (UploadFile X (on_env v))),
      (''POST /api/fetch/{hostname}'', http (FetchFile X (on_env v))),
      (''GET /api/inventory'', http (GetInventory X)),
      (''GET /api/async_status/{task_id}'', http AsyncStatus),
      (''POST /api/token/refresh'', http (TokenRefresh X)),
      (''POST /api/admin/authorize'', http (AdminAuthorize X)),
      (''/ws/agent'', websocket (AgentHandler X (on_upgraded v)))]"

definition adminRouter :: "ext \<Rightarrow> serving \<Rightarrow> router" where
  "adminRouter X v =
     [(''POST /api/admin/authorize'', http (AdminAuthorize X)),
      (''GET /api/admin/minions'', http (AdminListMinions X)),
      (''GET /api/admin/minions/{hostname}'', http (AdminGetMinion X)),
      (''POST /api/admin/minions/{hostname}/suspend'', http AdminSuspendMinion),
      (''POST /api/admin/minions/{hostname}/resume'', http AdminResumeMinion),
      (''POST /api/admin/minions/{hostname}/set-state'', http AdminSetMinionState),
      (''GET /api/admin/minions/{hostname}/vars'', http AdminGetMinionVars),
      (''POST /api/admin/minions/{hostname}/vars'', http AdminSetMinionVars),
      (''DELETE /api/admin/minions/{hostname}/vars/{key}'', http AdminDeleteMinionVar),
      (''POST /api/admin/revoke/{hostname}'', http AdminRevokeMinion),
      (''POST /api/admin/keys/rotate'', http (AdminRotateKeys X)),
      (''GET /api/admin/security/keys/status'', http (AdminSecurityKeysStatus X)),
      (''GET /api/admin/security/tokens'', http (AdminSecurityTokens X)),
      (''GET /api/admin/security/blacklist'', http (AdminSecurityBlacklist X)),
      (''POST /api/admin/security/blacklist/purge'', http AdminSecurityBlacklistPurge),
      (''GET /api/inventory'', http (AdminGetInventory X)),
      (''POST /api/admin/tokens'', http (AdminCreateToken X)),
      (''GET /api/admin/tokens'', http (AdminListTokens X)),
      (''POST /api/admin/tokens/{id}/revoke'', http (AdminRevokeToken X)),
      (''DELETE /api/admin/tokens/{id}'', http AdminDeleteToken),
      (''POST /api/admin/tokens/purge'', http (AdminPurgeTokens X)),
      (''GET /api/admin/status'', http (AdminStatus (on_health v) (on_started v))),
      (''GET /api/admin/stats'', http AdminStats),
      (''DELETE /api/admin/minions/{hostname}'', http AdminDeleteMinion),
      (''GET /api/admin/hooks/log'', http (AdminHooksLog X))]"

definition wsRouter :: "ext \<Rightarrow> serving \<Rightarrow> router" where
  "wsRouter X v = [(''/ws/agent'', websocket (AgentHandler X (on_upgraded v)))]"

end
