(* ===== verification/RoutesSpec.thy ===== *)
theory RoutesSpec
  imports Routes AdminSpec
begin

text \<open>
  What the routing guarantees: the tables are unambiguous, and nothing behind the administration port
  acts without the administrator's token.
\<close>

lemma find_route_match:
  "find_route rs m path = Some (h, vals) \<Longrightarrow>
   \<exists>s. (s, h) \<in> set rs \<and> match_pattern (parse_pattern s) m path = Some vals"
  by (induction rs m path rule: find_route.induct) (auto split: option.splits)

lemma run_http [simp]:
  "run_state (http h r) w = (Served (fst (run_state (h r) w)), snd (run_state (h r) w))"
  by (simp add: http_def split_def)

lemma run_websocket [simp]:
  "run_state (websocket h r) w =
    ((case fst (run_state (h r) w) of Inl e \<Rightarrow> Served e | Inr c \<Rightarrow> Upgraded c), snd (run_state (h r) w))"
  by (simp add: websocket_def split_def)

section \<open>The tables in parsed form\<close>

definition parsed :: "router \<Rightarrow> (pattern \<times> handler) list" where
  "parsed rs = map (\<lambda>(s, h). (parse_pattern s, h)) rs"

lemma parsed_routers:
  "parsed (apiRouter X v) =
    [((''GET'', [Lit ''health'']), http handleHealth),
     ((''POST'', [Lit ''api'', Lit ''register'']), http (RegisterAgent X)),
     ((''POST'', [Lit ''api'', Lit ''exec'', Wild ''hostname'']), http (ExecCommand X (on_env v))),
     ((''POST'', [Lit ''api'', Lit ''upload'', Wild ''hostname'']), http (UploadFile X (on_env v))),
     ((''POST'', [Lit ''api'', Lit ''fetch'', Wild ''hostname'']), http (FetchFile X (on_env v))),
     ((''GET'', [Lit ''api'', Lit ''inventory'']), http (GetInventory X)),
     ((''GET'', [Lit ''api'', Lit ''async_status'', Wild ''task_id'']), http AsyncStatus),
     ((''POST'', [Lit ''api'', Lit ''token'', Lit ''refresh'']), http (TokenRefresh X)),
     ((''POST'', [Lit ''api'', Lit ''admin'', Lit ''authorize'']), http (AdminAuthorize X)),
     (([], [Lit ''ws'', Lit ''agent'']), websocket (AgentHandler X (on_upgraded v)))]"
  "parsed (adminRouter X v) =
    [((''POST'', [Lit ''api'', Lit ''admin'', Lit ''authorize'']), http (AdminAuthorize X)),
     ((''GET'', [Lit ''api'', Lit ''admin'', Lit ''minions'']), http (AdminListMinions X)),
     ((''GET'', [Lit ''api'', Lit ''admin'', Lit ''minions'', Wild ''hostname'']), http (AdminGetMinion X)),
     ((''POST'', [Lit ''api'', Lit ''admin'', Lit ''minions'', Wild ''hostname'', Lit ''suspend'']), http AdminSuspendMinion),
     ((''POST'', [Lit ''api'', Lit ''admin'', Lit ''minions'', Wild ''hostname'', Lit ''resume'']), http AdminResumeMinion),
     ((''POST'', [Lit ''api'', Lit ''admin'', Lit ''minions'', Wild ''hostname'', Lit ''set-state'']), http AdminSetMinionState),
     ((''GET'', [Lit ''api'', Lit ''admin'', Lit ''minions'', Wild ''hostname'', Lit ''vars'']), http AdminGetMinionVars),
     ((''POST'', [Lit ''api'', Lit ''admin'', Lit ''minions'', Wild ''hostname'', Lit ''vars'']), http AdminSetMinionVars),
     ((''DELETE'', [Lit ''api'', Lit ''admin'', Lit ''minions'', Wild ''hostname'', Lit ''vars'', Wild ''key'']), http AdminDeleteMinionVar),
     ((''POST'', [Lit ''api'', Lit ''admin'', Lit ''revoke'', Wild ''hostname'']), http AdminRevokeMinion),
     ((''POST'', [Lit ''api'', Lit ''admin'', Lit ''keys'', Lit ''rotate'']), http (AdminRotateKeys X)),
     ((''GET'', [Lit ''api'', Lit ''admin'', Lit ''security'', Lit ''keys'', Lit ''status'']), http (AdminSecurityKeysStatus X)),
     ((''GET'', [Lit ''api'', Lit ''admin'', Lit ''security'', Lit ''tokens'']), http (AdminSecurityTokens X)),
     ((''GET'', [Lit ''api'', Lit ''admin'', Lit ''security'', Lit ''blacklist'']), http (AdminSecurityBlacklist X)),
     ((''POST'', [Lit ''api'', Lit ''admin'', Lit ''security'', Lit ''blacklist'', Lit ''purge'']), http AdminSecurityBlacklistPurge),
     ((''GET'', [Lit ''api'', Lit ''inventory'']), http (AdminGetInventory X)),
     ((''POST'', [Lit ''api'', Lit ''admin'', Lit ''tokens'']), http (AdminCreateToken X)),
     ((''GET'', [Lit ''api'', Lit ''admin'', Lit ''tokens'']), http (AdminListTokens X)),
     ((''POST'', [Lit ''api'', Lit ''admin'', Lit ''tokens'', Wild ''id'', Lit ''revoke'']), http (AdminRevokeToken X)),
     ((''DELETE'', [Lit ''api'', Lit ''admin'', Lit ''tokens'', Wild ''id'']), http AdminDeleteToken),
     ((''POST'', [Lit ''api'', Lit ''admin'', Lit ''tokens'', Lit ''purge'']), http (AdminPurgeTokens X)),
     ((''GET'', [Lit ''api'', Lit ''admin'', Lit ''status'']), http (AdminStatus (on_health v) (on_started v))),
     ((''GET'', [Lit ''api'', Lit ''admin'', Lit ''stats'']), http AdminStats),
     ((''DELETE'', [Lit ''api'', Lit ''admin'', Lit ''minions'', Wild ''hostname'']), http AdminDeleteMinion),
     ((''GET'', [Lit ''api'', Lit ''admin'', Lit ''hooks'', Lit ''log'']), http (AdminHooksLog X))]"
  "parsed (wsRouter X v) =
    [(([], [Lit ''ws'', Lit ''agent'']), websocket (AgentHandler X (on_upgraded v)))]"
  unfolding parsed_def apiRouter_def adminRouter_def wsRouter_def list.map prod.case list.inject prod.inject
  by ((intro conjI refl; code_simp)+)

fun find_parsed :: "(pattern \<times> 'h) list \<Rightarrow> string \<Rightarrow> string list \<Rightarrow> ('h \<times> (string, string) gomap) option" where
  "find_parsed [] m ss = None"
| "find_parsed ((p, h) # rs) m ss =
     (case (if method_matches (fst p) m then match_segments (snd p) ss else None) of
        Some vals \<Rightarrow> Some (h, vals)
      | None \<Rightarrow> find_parsed rs m ss)"

lemma find_route_parsed: "find_route rs m path = find_parsed (parsed rs) m (path_segments path)"
  by (induction rs m path rule: find_route.induct) (auto simp: parsed_def match_pattern_def split: option.split)

section \<open>No request matches two routes\<close>

fun disjoint_patterns :: "pattern list \<Rightarrow> bool" where
  "disjoint_patterns [] \<longleftrightarrow> True"
| "disjoint_patterns (p # ps) \<longleftrightarrow> list_all (\<lambda>q. \<not> overlap p q) ps \<and> disjoint_patterns ps"

lemma disjoint_patterns_match:
  assumes "disjoint_patterns ps" "i < length ps" "j < length ps"
    and "match_pattern (ps ! i) m path \<noteq> None" "match_pattern (ps ! j) m path \<noteq> None"
  shows "i = j"
  using assms
proof (induction ps arbitrary: i j)
  case (Cons p ps)
  have no: "match_pattern p m path = None" if "match_pattern (ps ! k) m path \<noteq> None" "k < length ps" for k
    using Cons.prems(1) that overlapI [of p m path _ "ps ! k"]
    by (fastforce simp: list_all_iff in_set_conv_nth)
  show ?case
    using Cons.prems no by (cases i; cases j) (auto intro: Cons.IH)
qed simp

lemma table_patterns:
  "disjoint_patterns (map fst (parsed (apiRouter X v)))" "disjoint_patterns (map fst (parsed (adminRouter X v)))"
  "disjoint_patterns (map fst (parsed (wsRouter X v)))"
  unfolding parsed_routers list.map fst_conv by code_simp+

lemma routes_unambiguous:
  assumes "rs \<in> {apiRouter X v, adminRouter X v, wsRouter X v}" "i < length rs" "j < length rs"
    and "match_pattern (parse_pattern (fst (rs ! i))) m path \<noteq> None"
    and "match_pattern (parse_pattern (fst (rs ! j))) m path \<noteq> None"
  shows "i = j"
proof (rule disjoint_patterns_match [of "map fst (parsed rs)"])
  show "disjoint_patterns (map fst (parsed rs))" using assms(1) table_patterns by auto
qed (use assms in \<open>auto simp: parsed_def split_def\<close>)

section \<open>The administration port\<close>

lemma AdminAuthorize_guard:
  assumes "Header_Get r ''Authorization'' \<noteq> ''Bearer '' @ sv_AdminToken (server w)" "rq_Method r = ''POST''"
  shows "status (fst (run_state (AdminAuthorize X r) w)) = 401 \<and> snd (run_state (AdminAuthorize X r) w) = w"
proof -
  have "HasPrefix a ''Bearer '' \<Longrightarrow> drop 7 a = t \<Longrightarrow> a = ''Bearer '' @ t" for a t
    by (auto simp: HasPrefix_iff prefix_def)
  with assms show ?thesis by (auto simp: AdminAuthorize_def Let_def)
qed

lemma Header_Get_path [simp]: "Header_Get (r\<lparr>rq_PathValue := vals\<rparr>) = Header_Get r"
  by (simp add: Header_Get_def fun_eq_iff)

definition guarded_handlers :: "ext \<Rightarrow> serving \<Rightarrow> (request \<Rightarrow> response io) list" where
  "guarded_handlers X v =
     [AdminListMinions X, AdminGetMinion X, AdminSuspendMinion, AdminResumeMinion,
      AdminSetMinionState, AdminGetMinionVars, AdminSetMinionVars, AdminDeleteMinionVar,
      AdminRevokeMinion, AdminRotateKeys X, AdminSecurityKeysStatus X, AdminSecurityTokens X,
      AdminSecurityBlacklist X, AdminSecurityBlacklistPurge, AdminGetInventory X,
      AdminCreateToken X, AdminListTokens X, AdminRevokeToken X, AdminDeleteToken,
      AdminPurgeTokens X, AdminStatus (on_health v) (on_started v), AdminStats,
      AdminDeleteMinion, AdminHooksLog X]"

lemma guarded_401:
  assumes "Header_Get r ''Authorization'' \<noteq> ''Bearer '' @ sv_AdminToken (server w)" "g \<in> set (guarded_handlers X v)"
  shows "status (fst (run_state (g r) w)) = 401 \<and> snd (run_state (g r) w) = w"
proof -
  have "set (map (\<lambda>g. g r) (guarded_handlers X v)) = set (admin_handlers X (on_health v) (on_started v) r)"
    unfolding guarded_handlers_def admin_handlers_def list.map list.set by blast
  with assms(2) have "g r \<in> set (admin_handlers X (on_health v) (on_started v) r)" by auto
  from admin_handlers_guarded [OF assms(1) this] show ?thesis .
qed

lemma admin_routes: "set (map snd (tl (adminRouter X v))) = http ` set (guarded_handlers X v)"
  unfolding adminRouter_def guarded_handlers_def list.map list.sel snd_conv list.set image_insert image_empty ..

lemma admin_route:
  assumes "(s, h) \<in> set (adminRouter X v)"
  obtains "s = ''POST /api/admin/authorize''" "h = http (AdminAuthorize X)"
    | g where "h = http g" "g \<in> set (guarded_handlers X v)"
proof -
  have "adminRouter X v = (''POST /api/admin/authorize'', http (AdminAuthorize X)) # tl (adminRouter X v)"
    by (simp add: adminRouter_def)
  then consider "(s, h) = (''POST /api/admin/authorize'', http (AdminAuthorize X))" | "(s, h) \<in> set (tl (adminRouter X v))"
    using assms by (metis set_ConsD)
  then show thesis
  proof cases
    case 2
    then have "h \<in> set (map snd (tl (adminRouter X v)))" by force
    then show thesis using that unfolding admin_routes by blast
  qed (use that in simp)
qed

lemma admin_port_is_closed:
  assumes "Header_Get r ''Authorization'' \<noteq> ''Bearer '' @ sv_AdminToken (server w)"
    and "run_state (ServeHTTP (adminRouter X v) path r) w = (out, w')"
  shows "w' = w \<and> (case out of Served resp \<Rightarrow> status resp = 401 | Upgraded c \<Rightarrow> False | _ \<Rightarrow> True)"
proof (cases "cleanPath path = path \<and> find_route (adminRouter X v) (rq_Method r) path \<noteq> None")
  case False
  then show ?thesis using assms(2) by (cases "cleanPath path = path"; cases "find_route (adminRouter X v) (rq_Method r) path")
      (auto simp: ServeHTTP_def)
next
  case True
  then obtain h vals where route: "find_route (adminRouter X v) (rq_Method r) path = Some (h, vals)" by auto
  let ?r = "r\<lparr>rq_PathValue := vals\<rparr>"
  have run: "run_state (h ?r) w = (out, w')" using True route assms(2) by (simp add: ServeHTTP_def)
  obtain s where s: "(s, h) \<in> set (adminRouter X v)" "match_pattern (parse_pattern s) (rq_Method r) path = Some vals"
    using find_route_match [OF route] by auto
  obtain g where g: "h = http g" "status (fst (run_state (g ?r) w)) = 401 \<and> snd (run_state (g ?r) w) = w"
  proof (rule admin_route [OF s(1)])
    assume "s = ''POST /api/admin/authorize''" "h = http (AdminAuthorize X)"
    moreover from this(1) s(2) have "rq_Method ?r = ''POST''"
      by (simp add: match_pattern_def parse_pattern_def method_matches_def split: if_splits)
    ultimately show thesis using that AdminAuthorize_guard [of ?r w X] assms(1) by simp
  next
    fix g assume "h = http g" "g \<in> set (guarded_handlers X v)"
    then show thesis using that guarded_401 [of ?r w g X v] assms(1) by simp
  qed
  with run show ?thesis by auto
qed

definition example_serving :: serving where
  "example_serving = \<lparr>on_env = [], on_upgraded = True, on_health = None, on_started = 0\<rparr>"

text \<open>C23: The administration port is closed without the administrator's token: whatever the method and
  the path, a request whose Authorization header is not exactly \<open>Bearer\<close> and that token changes
  nothing at all, opens no connection, and where there is a handler the answer is 401.\<close>

theorem admin_port_closed:
  assumes "Header_Get r ''Authorization'' \<noteq> ''Bearer '' @ sv_AdminToken (server w)"
    and "run_state (ServeHTTP (adminRouter X v) path r) w = (out, w')"
  shows "w' = w \<and> (case out of Served resp \<Rightarrow> status resp = 401 | Upgraded c \<Rightarrow> False | _ \<Rightarrow> True)"
  using assms by (rule admin_port_is_closed)

lemma admin_port_closed_witness:
  "run_state (ServeHTTP (adminRouter example_ext example_serving)
     ''/api/admin/minions/web1/suspend'' example_request) example_world =
   (Served (reply_error 401 ''invalid_admin_token''), example_world)"
proof -
  obtain out w' where run: "run_state (ServeHTTP (adminRouter example_ext example_serving) ''/api/admin/minions/web1/suspend''
      example_request) example_world = (out, w')" by fastforce
  have "w' = example_world"
    using admin_port_closed [OF _ run]
    by (simp add: example_request_def example_world_def example_server_def Header_Get_def mget_or_def)
  moreover have "out = Served (reply_error 401 ''invalid_admin_token'')"
  proof -
    have path: "cleanPath ''/api/admin/minions/web1/suspend'' = ''/api/admin/minions/web1/suspend''"
        "path_segments ''/api/admin/minions/web1/suspend'' = [''api'', ''admin'', ''minions'', ''web1'', ''suspend'']"
      by code_simp+
    show ?thesis
      using run by (simp add: ServeHTTP_def path find_route_parsed parsed_routers method_matches_def
          example_request_def AdminSuspendMinion_def set_suspended_def Let_def requireAdminAuth_def Header_Get_def
          mget_or_def HasPrefix_def example_world_def example_server_def)
  qed
  ultimately show ?thesis using run by simp
qed

end
