(* ===== verification/ServerMain.thy ===== *)
theory ServerMain
  imports Routes Keys
begin

text \<open>
  The server process (\<open>secagent-server/main.go\<close>): the choice between the command line and the
  server, what must be configured, the start from the database and the environment, the three
  ports, and the reload of the hooks. Opening the database, the broker, the hook file and the
  sockets are parameters (\<open>boot\<close>).
\<close>

section \<open>Command line or server\<close>

definition cli_commands :: "string list" where
  "cli_commands = [''minions'', ''security'', ''inventory'', ''server'', ''tokens'', ''hooks'', ''help'', ''completion'']"

text \<open>\<open>args\<close> is \<open>os.Args\<close>: the name of the program and its arguments.\<close>

definition isCLIMode :: "string list \<Rightarrow> bool" where
  "isCLIMode args =
     (case args of
        _ # first # _ \<Rightarrow> \<not> HasPrefix first ''-'' \<and> first \<in> set cli_commands
      | _ \<Rightarrow> False)"

section \<open>Starting\<close>

record boot =
  bt_open :: "string \<Rightarrow> string + store"
  bt_nats :: "string \<Rightarrow> bool"
  bt_read :: "string \<Rightarrow> (string + string) option"
  bt_parse :: "string \<Rightarrow> string + HooksConfig"
  bt_listening :: "string \<Rightarrow> bool"

datatype fatal = MissingEnv string | DatabaseFailed string | ServerKeysFailed string | NotListening

record running =
  rn_world :: world
  rn_dispatcher :: Dispatcher
  rn_nats :: bool

datatype process = Fatal fatal | CommandLine "string list" | Running running

definition env_or :: "ext \<Rightarrow> string \<Rightarrow> string \<Rightarrow> string" where
  "env_or X name d = (if getenv X name = [] then d else getenv X name)"

text \<open>The package variables once the store is injected and before the keys are loaded.\<close>

definition initial_world :: "ServerState \<Rightarrow> store \<Rightarrow> time \<Rightarrow> nat \<Rightarrow> world" where
  "initial_world srv st now n =
     \<lparr>db = st, adminStore_set = True, registerStore_set = True, server = srv, pendingNonces = [],
       hb = init_hub False, completedResults = [], dispatcher_set = False, hook_events = [],
       clock = now, entropy = n\<rparr>"

text \<open>The hooks at the start: a file that is absent or does not parse leaves the dispatcher without any.\<close>

definition initial_hooks :: "ext \<Rightarrow> boot \<Rightarrow> Dispatcher" where
  "initial_hooks X B =
     (let dispatcher = NewDispatcher 1000 in
      case LoadConfig (bt_read B) (bt_parse B) (ConfigPath (getenv X)) of
        Inl _ \<Rightarrow> dispatcher
      | Inr None \<Rightarrow> dispatcher
      | Inr (Some cfg) \<Rightarrow> SetConfig (Some cfg) dispatcher)"

definition wire_dispatcher :: "world \<Rightarrow> world" where
  "wire_dispatcher w = w\<lparr>dispatcher_set := True, hb := (hb w)\<lparr>dispatch_set := True\<rparr>\<rparr>"

definition server_main :: "ext \<Rightarrow> boot \<Rightarrow> ServerState \<Rightarrow> time \<Rightarrow> nat \<Rightarrow> process" where
  "server_main X B srv now n =
     (if getenv X ''JWT_SECRET_KEY'' = [] then Fatal (MissingEnv ''JWT_SECRET_KEY'')
      else if getenv X ''ADMIN_TOKEN'' = [] then Fatal (MissingEnv ''ADMIN_TOKEN'')
      else case bt_open B (db_file_path (env_or X ''DATABASE_URL'' ''sqlite:///./relay.db'')) of
        Inl e \<Rightarrow> Fatal (DatabaseFailed e)
      | Inr st \<Rightarrow>
          (case run_state (InitServerState X) (initial_world srv st now n) of
             (Inl e, _) \<Rightarrow> Fatal (ServerKeysFailed e)
           | (Inr _, w) \<Rightarrow>
               if list_all (bt_listening B) ['':7770'', '':7771'', '':7772''] then
                 Running \<lparr>rn_world = wire_dispatcher w, rn_dispatcher = initial_hooks X B,
                          rn_nats = bt_nats B (env_or X ''NATS_URL'' ''nats://localhost:4222'')\<rparr>
               else Fatal NotListening))"

text \<open>
  The whole process. The initialiser of the handlers package runs before \<open>main\<close>, in the command
  line mode too, and ends the process unless both variables are set.
\<close>

definition start_process :: "ext \<Rightarrow> boot \<Rightarrow> string list \<Rightarrow> time \<Rightarrow> nat \<Rightarrow> process" where
  "start_process X B args now n =
     (case init_server X of
        None \<Rightarrow> Fatal (MissingEnv (if getenv X ''ADMIN_TOKEN'' = [] then ''ADMIN_TOKEN'' else ''JWT_SECRET_KEY''))
      | Some srv \<Rightarrow> if isCLIMode args then CommandLine (drop 1 args) else server_main X B srv now n)"

section \<open>The ports\<close>

text \<open>The check of the status page; \<open>connected\<close> is what the broker's client reports.\<close>

definition NATSHealthCheck :: "running \<Rightarrow> bool \<Rightarrow> bool" where
  "NATSHealthCheck rn connected \<longleftrightarrow> rn_nats rn \<and> connected"

datatype port = API | Admin | WS

definition port_router :: "ext \<Rightarrow> serving \<Rightarrow> port \<Rightarrow> router" where
  "port_router X v p = (case p of API \<Rightarrow> apiRouter X v | Admin \<Rightarrow> adminRouter X v | WS \<Rightarrow> wsRouter X v)"

text \<open>SIGHUP: a file that cannot be read or parsed keeps the configuration, an absent one removes it.\<close>

definition on_sighup :: "ext \<Rightarrow> boot \<Rightarrow> Dispatcher \<Rightarrow> Dispatcher" where
  "on_sighup X B dispatcher =
     (case LoadConfig (bt_read B) (bt_parse B) (ConfigPath (getenv X)) of
        Inl _ \<Rightarrow> dispatcher
      | Inr cfg \<Rightarrow> SetConfig cfg dispatcher)"

end
