(* ===== verification/Handlers.thy ===== *)
theory Handlers
  imports ServerMain RoutesSpec StoreSpec ExecSpec
begin

text \<open>
  What every handler of the three ports keeps. The locales are the interfaces between the handlers and
  the parts of the state they work on: a predicate that the listed database and hub operations keep
  is kept by every handler built from them, whatever the request. \<open>quiet_handlers\<close> covers the handlers
  that send no task, \<open>open_handlers\<close> adds the task endpoints, \<open>admin_handlers\<close> the administration.
\<close>

section \<open>Computations that keep a predicate\<close>

definition maintains :: "(world \<Rightarrow> bool) \<Rightarrow> 'a io \<Rightarrow> bool" where
  "maintains P m \<longleftrightarrow> (\<forall>w. P w \<longrightarrow> P (snd (run_state m w)))"

lemma maintainsD: "maintains P m \<Longrightarrow> P w \<Longrightarrow> P (snd (run_state m w))"
  by (simp add: maintains_def)

named_theorems maintains_intros

lemma maintains_pure [maintains_intros]:
  "maintains P (State_Monad.return a)" "maintains P State_Monad.get" "maintains P (gets f)"
  by (simp_all add: maintains_def)

lemma maintains_bind [maintains_intros]:
  assumes "maintains P m" "\<And>a. maintains P (f a)"
  shows "maintains P (State_Monad.bind m f)"
  using assms by (simp add: maintains_def split_def)

lemma maintains_if [maintains_intros]:
  "maintains P m \<Longrightarrow> maintains P n \<Longrightarrow> maintains P (if b then m else n)"
  by simp

lemma maintains_option [maintains_intros]:
  "maintains P m \<Longrightarrow> (\<And>x. maintains P (f x)) \<Longrightarrow> maintains P (case x of None \<Rightarrow> m | Some y \<Rightarrow> f y)"
  by (cases x) auto

lemma maintains_sum [maintains_intros]:
  "(\<And>x. maintains P (f x)) \<Longrightarrow> (\<And>x. maintains P (g x)) \<Longrightarrow> maintains P (case x of Inl y \<Rightarrow> f y | Inr y \<Rightarrow> g y)"
  by (cases x) auto

lemma maintains_prod [maintains_intros]:
  "(\<And>x y. maintains P (f x y)) \<Longrightarrow> maintains P (case x of (y, z) \<Rightarrow> f y z)"
  by (cases x) auto

lemma maintains_bool [maintains_intros]:
  "maintains P m \<Longrightarrow> maintains P n \<Longrightarrow> maintains P (case b of True \<Rightarrow> m | False \<Rightarrow> n)"
  by (cases b) auto

lemma maintains_Let [maintains_intros]: "(\<And>x. maintains P (f x)) \<Longrightarrow> maintains P (Let x f)"
  by simp

lemma maintains_served [maintains_intros]:
  "maintains P (h r) \<Longrightarrow> maintains P (http h r)" "maintains P (g r) \<Longrightarrow> maintains P (websocket g r)"
  by (auto simp: http_def websocket_def intro!: maintains_intros)

text \<open>The queries of the store.\<close>

definition query :: "'a db \<Rightarrow> bool" where
  "query m \<longleftrightarrow> (\<forall>s. snd (run_state m s) = tick s)"

lemma queries [simp]:
  "query (GetAgent h)" "query (ListAgents c)" "query (GetAuthorizedKey h)" "query (GetAgentVars h)"
  "query (GetPluginTokenByHash t)" "query (GetEnrollmentTokenByHash t)" "query (GetEnrollmentTokenByID i)"
  "query (ConfigGet key)" "query ListEnrollmentTokens" "query ListPluginTokens" "query ListBlacklistEntries" "query (ListActionLogs f)"
  by (simp_all add: query_def GetAgent_def ListAgents_def GetAuthorizedKey_def GetAgentVars_def GetPluginTokenByHash_def
      GetEnrollmentTokenByHash_def GetEnrollmentTokenByID_def ListEnrollmentTokens_def ListPluginTokens_def
      ListBlacklistEntries_def ListActionLogs_def ConfigGet_def split: option.split)

lemma query_keeps: "query m \<Longrightarrow> keeps m"
  by (simp add: query_def keeps_def)

text \<open>The enrollment with a token keeps what its three writes keep.\<close>

lemma enrollment_maintains:
  assumes "\<And>n i. maintains P (on_store (ConsumeEnrollmentToken n i))" "\<And>n x k b. maintains P (on_store (AddAuthorizedKey n x k b))"
    and "\<And>n x k j. maintains P (on_store (store_RegisterAgent n x k j))"
    and "\<And>w ps. P (w\<lparr>pendingNonces := ps\<rparr>) = P w" "\<And>w n. P (w\<lparr>entropy := n\<rparr>) = P w"
      "\<And>w es. P (w\<lparr>hook_events := es\<rparr>) = P w" "\<And>w. P w \<Longrightarrow> P (w\<lparr>db := tick (db w)\<rparr>)"
  shows "maintains P (registerAgentWithToken X req)"
proof -
  have parts: "maintains P draw" "maintains P (newTaskID X)" "maintains P (dispatch_hook e x s t)"
      "maintains P (storePendingNonce x n tk)" "maintains P (encryptWithPublicKey X p q)" "maintains P (consumePendingNonce x)"
    for e x s t n tk p q
    using assms(4-6) by (simp_all add: maintains_def newTaskID_def dispatch_hook_def storePendingNonce_def
        encryptWithPublicKey_def consumePendingNonce_def split: option.split)
  have "maintains P (validateEnrollmentToken X t x)" for t x
    using assms(7) queries(6) by (simp add: maintains_def validateEnrollmentToken_def query_def)
  moreover have "maintains P (register_phase1 X req)" "maintains P (register_phase2 X k req tok)" for k tok
    unfolding register_phase1_def register_phase2_def finalize_enrollment_def
    by (intro maintains_intros parts assms(1-3))+
  ultimately show ?thesis
    unfolding registerAgentWithToken_def by (intro maintains_intros)
qed

section \<open>The handlers that send no task\<close>

locale quiet_handlers =
  fixes P :: "world \<Rightarrow> bool" and X :: ext
  assumes parts: "P (w\<lparr>entropy := n\<rparr>) = P w" "P (w\<lparr>pendingNonces := ps\<rparr>) = P w" "P (w\<lparr>hook_events := es\<rparr>) = P w"
      "P (w\<lparr>clock := t\<rparr>) = P w"
    and opens: "P w \<Longrightarrow> P (w\<lparr>hb := snd (agent_open None x False (hb w))\<rparr>)"
    and rekeys: "P w \<Longrightarrow> P (w\<lparr>hb := snd (SendToAgent x (rekey_message k) (hb w))\<rparr>)"
      "P w \<Longrightarrow> P (w\<lparr>hb := snd (conn_write c (TextFrame (JObj [(''type'', JStr ''rekey'')])) (hb w))\<rparr>)"
    and reads: "P w \<Longrightarrow> P (w\<lparr>db := tick (db w)\<rparr>)"
    and writes: "maintains P (on_store (UpdateTokenJTI x j))" "maintains P (on_store (store_RegisterAgent t x k j))"
      "maintains P (on_store (TouchPluginToken t i ip))" "maintains P (registerAgentWithToken X req)"
begin

lemma maintains_parts [maintains_intros]:
  "maintains P draw" "maintains P (newTaskID X)" "maintains P (dispatch_hook e x s u)"
  "maintains P (storePendingNonce x n tok)" "maintains P (encryptWithPublicKey X s k)"
  "maintains P (on_hub (agent_open None x False))" "maintains P (on_hub (SendToAgent x (rekey_message k)))"
  "maintains P (on_hub (\<lambda>h. ((), snd (conn_write c (TextFrame (JObj [(''type'', JStr ''rekey'')])) h))))"
  by (simp_all add: maintains_def parts opens rekeys newTaskID_def dispatch_hook_def storePendingNonce_def
      encryptWithPublicKey_def split: option.split)

lemmas maintains_writes [maintains_intros] = writes

lemma maintains_query [maintains_intros]: "query m \<Longrightarrow> maintains P (on_store m)"
  by (simp add: maintains_def query_def reads)

lemma maintains_auth [maintains_intros]: "maintains P (requirePluginAuth X r)"
  unfolding requirePluginAuth_def by (intro maintains_intros queries)

lemma maintains_choose [maintains_intros]: "maintains P (choose_task_id X t)"
  unfolding choose_task_id_def by (intro maintains_intros)

lemma maintains_register [maintains_intros]: "maintains P (RegisterAgent X r)"
  unfolding RegisterAgent_def registerAgentLegacy_def by (intro maintains_intros queries)

lemma maintains_refresh [maintains_intros]: "maintains P (TokenRefresh X r)"
  unfolding TokenRefresh_def by (intro maintains_intros queries)

lemma maintains_plugin [maintains_intros]:
  "maintains P (AsyncStatus r)" "maintains P (buildInventoryResponse X b)" "maintains P (GetInventory X r)"
  "maintains P (handleHealth r)"
  unfolding AsyncStatus_def GetInventory_def buildInventoryResponse_def handleHealth_def
  by (intro maintains_intros queries)+

lemma maintains_rekey [maintains_intros]: "maintains P (sendRekeyToAgent X x s ttl)"
  unfolding sendRekeyToAgent_def signAgentJWT_def by (intro maintains_intros queries)

lemma maintains_connect [maintains_intros]: "maintains P (AgentHandler X up r)"
  unfolding AgentHandler_def RekeyAgent_def by (intro maintains_intros)

lemma open_handler_cases:
  assumes "(s, h) \<in> set (apiRouter X v) \<union> set (wsRouter X v)"
  shows "h = http (AdminAuthorize X) \<or> (\<exists>k. h = http (run_endpoint k X (on_env v))) \<or> (\<forall>r. maintains P (h r))"
proof -
  have "\<exists>k. http (ExecCommand X e) = http (run_endpoint k X e)" "\<exists>k. http (UploadFile X e) = http (run_endpoint k X e)"
      "\<exists>k. http (FetchFile X e) = http (run_endpoint k X e)" for e
    using run_endpoint.simps by metis+
  with assms show ?thesis
    unfolding apiRouter_def wsRouter_def by (auto intro!: maintains_intros simp del: run_endpoint.simps)
qed

end

section \<open>The open ports\<close>

text \<open>
  \<open>sendTaskAndWait\<close> as a whole: the sending, and what agents and other handlers do to the hub while it
  waits.
\<close>

locale open_handlers = quiet_handlers +
  assumes waits: "P w \<Longrightarrow> P (w\<lparr>hb := snd (sendTaskAndWait env x t m n (hb w))\<rparr>)"
begin

lemma maintains_endpoint: "maintains P (run_endpoint k X env r)"
proof -
  have wait: "maintains P (on_hub (sendTaskAndWait env x t m n))" for x t m n
    by (simp add: maintains_def waits)
  have "maintains P (ExecCommand X env r)" "maintains P (UploadFile X env r)" "maintains P (FetchFile X env r)"
    unfolding ExecCommand_def UploadFile_def FetchFile_def by (intro maintains_intros wait)+
  then show ?thesis by (cases k) simp_all
qed

lemma open_handler_maintains:
  assumes "(s, h) \<in> set (apiRouter X v) \<union> set (wsRouter X v)"
  shows "h = http (AdminAuthorize X) \<or> maintains P (h r)"
  using open_handler_cases [OF assms] maintains_endpoint by (auto intro!: maintains_served)

end

section \<open>The administration\<close>

locale admin_handlers = quiet_handlers +
  assumes stores: "(\<And>s. store_inv s \<Longrightarrow> store_inv (f s)) \<Longrightarrow> P w \<Longrightarrow> P (w\<lparr>db := f (db w)\<rparr>)"
    and closes: "P w \<Longrightarrow> P (w\<lparr>hb := snd (CloseAgent x code reason (hb w))\<rparr>)"
    and secrets: "P (w\<lparr>server := s\<rparr>) = P w"
begin

lemmas keeps_methods = keeps_agents_ops keeps_vars_ops keeps_other_ops keeps_create_ops keeps_token_ops
  queries [THEN query_keeps]

lemma maintains_store [maintains_intros]: "keeps m \<Longrightarrow> maintains P (on_store m)"
  by (auto simp: maintains_def intro: stores keepsD)

lemma maintains_admin_parts [maintains_intros]:
  "maintains P (on_hub (CloseAgent x code reason))" "maintains P (set_server f)"
  by (simp_all add: maintains_def closes secrets)

lemma maintains_guard [maintains_intros]:
  "maintains P m \<Longrightarrow> maintains P (admin_only r m)" "maintains P m \<Longrightarrow> maintains P (with_store m)"
  "maintains P m \<Longrightarrow> maintains P (found_host x m)" "maintains P m \<Longrightarrow> maintains P (with_id i m)"
  unfolding admin_only_def with_store_def found_host_def with_id_def by (intro maintains_intros; assumption)+

lemma maintains_authorize: "maintains P (AdminAuthorize X r)"
  unfolding AdminAuthorize_def by (intro maintains_intros keeps_methods)

lemma maintains_set_vars [maintains_intros]: "maintains P (set_vars x kvs)"
  by (induction kvs) (auto intro!: maintains_intros keeps_methods)

lemma maintains_rekey_agents [maintains_intros]: "maintains P (rekey_agents X s ttl hosts n)"
  by (induction hosts arbitrary: n) (auto intro!: maintains_intros)

lemma maintains_persist [maintains_intros]: "maintains P (persist_rotation X old s k d)"
  unfolding persist_rotation_def persistRSAKey_def EncryptAESGCM_def
  by (intro maintains_intros keeps_methods)

lemma admin_handler_maintains:
  assumes "(s, h) \<in> set (adminRouter X v)"
  shows "maintains P (h r)"
proof -
  have keep: "maintains P (g r)" if "g \<in> set (guarded_handlers X v)" for g
    using that unfolding guarded_handlers_def
    by (auto simp: AdminListMinions_def AdminGetMinion_def AdminSuspendMinion_def AdminResumeMinion_def set_suspended_def
        AdminSetMinionState_def AdminGetMinionVars_def AdminSetMinionVars_def AdminDeleteMinionVar_def
        AdminRevokeMinion_def AdminRotateKeys_def AdminSecurityKeysStatus_def AdminSecurityTokens_def
        AdminSecurityBlacklist_def AdminSecurityBlacklistPurge_def AdminGetInventory_def AdminCreateToken_def
        AdminListTokens_def AdminRevokeToken_def AdminDeleteToken_def AdminPurgeTokens_def AdminStatus_def
        AdminStats_def AdminDeleteMinion_def AdminHooksLog_def
        intro!: maintains_intros keeps_methods)
  show ?thesis
    by (rule admin_route [OF assms]) (auto intro!: maintains_served maintains_authorize keep)
qed

text \<open>A request is answered by a task endpoint, or the predicate is kept.\<close>

lemma request_cases:
  obtains "P w \<Longrightarrow> P (snd (run_state (ServeHTTP (port_router X v p) path r) w))"
    | k vals where "find_route (port_router X v p) (rq_Method r) path = Some (http (run_endpoint k X (on_env v)), vals)"
        "cleanPath path = path"
        "snd (run_state (ServeHTTP (port_router X v p) path r) w)
           = snd (run_state (run_endpoint k X (on_env v) (r\<lparr>rq_PathValue := vals\<rparr>)) w)"
proof (cases "find_route (port_router X v p) (rq_Method r) path")
  case None
  then show thesis using that(1) by (simp add: ServeHTTP_def)
next
  case (Some hv)
  obtain h vals where hv: "hv = (h, vals)" by (cases hv)
  then obtain s where s: "(s, h) \<in> set (port_router X v p)" using find_route_match Some by blast
  have "(\<forall>r. maintains P (h r)) \<or> (\<exists>k. h = http (run_endpoint k X (on_env v)))"
  proof (cases "p = Admin")
    case True
    then show ?thesis using admin_handler_maintains s by (simp add: port_router_def)
  next
    case False
    then have "(s, h) \<in> set (apiRouter X v) \<union> set (wsRouter X v)" using s by (cases p) (auto simp: port_router_def)
    from open_handler_cases [OF this] show ?thesis by (auto intro!: maintains_served maintains_authorize)
  qed
  then show thesis
  proof
    assume "\<forall>r. maintains P (h r)"
    then show thesis using that(1) Some hv by (simp add: ServeHTTP_def maintains_def)
  next
    assume "\<exists>k. h = http (run_endpoint k X (on_env v))"
    then show thesis
      using that Some hv by (cases "cleanPath path = path") (auto simp: ServeHTTP_def http_def split_def)
  qed
qed

text \<open>The start of the process on a database.\<close>

lemma maintains_start: "maintains P (InitServerState X)"
  unfolding InitServerState_def init_jwt_secret_def init_rotation_def init_current_key_def init_previous_key_def
    loadRSAKey_def persistRSAKey_def EncryptAESGCM_def
  by (intro maintains_intros keeps_methods)

end

end
