(* ===== verification/Outsider.thy ===== *)
theory Outsider
  imports Handlers
begin

text \<open>
  What requests without the administrator's token can change. A view of the state that the database
  operations of the API port do not alter (the locale \<open>outsider_view\<close>) survives every history of such
  requests, of frames from the agents and of time passing; it is interpreted on the credentials of
  the server and on the authorized keys of a server without enrollment tokens.
\<close>

section \<open>The requests of an outsider\<close>

locale outsider_view =
  fixes view :: "world \<Rightarrow> 'v" and X :: ext
  assumes view_parts: "view (w\<lparr>hb := h\<rparr>) = view w" "view (w\<lparr>entropy := n\<rparr>) = view w"
      "view (w\<lparr>pendingNonces := ps\<rparr>) = view w" "view (w\<lparr>hook_events := es\<rparr>) = view w" "view (w\<lparr>clock := t\<rparr>) = view w"
    and view_agents: "view (w\<lparr>db := (tick (db w))\<lparr>agents := as\<rparr>\<rparr>) = view w" "view (w\<lparr>db := tick (db w)\<rparr>) = view w"
    and view_touch: "view (snd (run_state (on_store (TouchPluginToken t i ip)) w)) = view w"
    and view_enrol: "view (snd (run_state (registerAgentWithToken X req) w)) = view w"

text \<open>A view that no such operation alters is kept by the handlers of the open ports.\<close>

sublocale outsider_view \<subseteq> handlers: open_handlers "\<lambda>w. view w = c" X for c
  by unfold_locales
    (use view_touch view_enrol in \<open>simp_all add: view_parts view_agents maintains_def UpdateTokenJTI_def
      store_RegisterAgent_def update_agent_def\<close>)

context outsider_view
begin

text \<open>Every handler of the API port and of the WebSocket port, for a request without the administrator's token.\<close>

lemma api_handler_retains:
  assumes "Header_Get r ''Authorization'' \<noteq> ''Bearer '' @ sv_AdminToken (server w)"
    and "(s, h) \<in> set (apiRouter X v) \<union> set (wsRouter X v)"
  shows "view (snd (run_state (h r) w)) = view w"
proof -
  have "snd (run_state (AdminAuthorize X r) w) = w"
    using AdminAuthorize_guard [OF assms(1)] by (cases "rq_Method r = ''POST''") (auto simp: AdminAuthorize_def Let_def)
  with handlers.open_handler_maintains [OF assms(2), of "view w" r] show ?thesis
    by (auto simp: http_def split_def dest: maintainsD)
qed

lemma port_retains:
  assumes "Header_Get r ''Authorization'' \<noteq> ''Bearer '' @ sv_AdminToken (server w)"
  shows "view (snd (run_state (ServeHTTP (port_router X v p) path r) w)) = view w"
proof (cases "p = Admin")
  case True
  then show ?thesis
    using admin_port_is_closed [OF assms, of X v path] by (simp add: port_router_def split_def prod_eq_iff)
next
  case False
  have "view (snd (run_state (h (r\<lparr>rq_PathValue := vals\<rparr>)) w)) = view w"
    if route: "find_route (port_router X v p) (rq_Method r) path = Some (h, vals)" for h vals
  proof -
    obtain s where "(s, h) \<in> set (apiRouter X v) \<union> set (wsRouter X v)"
      using find_route_match [OF route] False by (cases p) (auto simp: port_router_def)
    from api_handler_retains [OF _ this] assms show ?thesis by simp
  qed
  then show ?thesis by (auto simp: ServeHTTP_def split: option.split)
qed

end

text \<open>
  What happens without the administrator: a request on any port with another token or none, a frame
  or the loss of a connection, time passing.
\<close>

inductive outsider_step :: "ext \<Rightarrow> world \<Rightarrow> world \<Rightarrow> bool" for X where
  request: "Header_Get r ''Authorization'' \<noteq> ''Bearer '' @ sv_AdminToken (server w) \<Longrightarrow>
    outsider_step X w (snd (run_state (ServeHTTP (port_router X v p) path r) w))"
| connection: "outsider_step X w (w\<lparr>hb := hub_step e (hb w)\<rparr>)"
| time: "clock w \<le> t \<Longrightarrow> outsider_step X w (w\<lparr>clock := t\<rparr>)"

context outsider_view
begin

lemma step_retains: "outsider_step X w w' \<Longrightarrow> view w' = view w"
  by (induction rule: outsider_step.induct) (simp_all add: port_retains view_parts)

lemma history_retains: "rtranclp (outsider_step X) w w' \<Longrightarrow> view w' = view w"
  by (induction rule: rtranclp.induct) (simp_all add: step_retains)

end

section \<open>Credentials\<close>

text \<open>A token without the record of its use.\<close>

definition plugin_credential :: "plugin_row \<Rightarrow> plugin_row" where
  "plugin_credential r = r\<lparr>pt_last_used_at := None, pt_last_used_ip := None\<rparr>"

definition enrollment_credential :: "enrollment_row \<Rightarrow> enrollment_row" where
  "enrollment_credential r = r\<lparr>et_use_count := 0, et_last_used_at := None\<rparr>"

definition credentials ::
  "world \<Rightarrow> ServerState \<times> plugin_row list \<times> enrollment_row list \<times> BlacklistEntry list \<times> config_row list" where
  "credentials w = (server w, map plugin_credential (plugin_tokens (db w)),
     map enrollment_credential (enrollment_tokens (db w)), blacklist (db w), server_config (db w))"

lemma map_rows_update: "(\<And>r. g (f r) = g r) \<Longrightarrow> map g (rows_update P f rows) = map g rows"
  by (simp add: rows_update_def)

lemma validate_enrollment_state:
  "snd (run_state (validateEnrollmentToken X t h) w) = w\<lparr>db := tick (db w)\<rparr>"
  using queries(6) by (simp add: validateEnrollmentToken_def query_def)

interpretation credentials: outsider_view credentials X for X
proof
  fix w t i ip
  show "credentials (snd (run_state (on_store (TouchPluginToken t i ip)) w)) = credentials w"
    by (simp add: credentials_def TouchPluginToken_def map_rows_update plugin_credential_def)
next
  fix w req
  have "maintains (\<lambda>w'. credentials w' = credentials w) (registerAgentWithToken X req)"
    by (rule enrollment_maintains)
      (simp_all add: maintains_def credentials_def ConsumeEnrollmentToken_def AddAuthorizedKey_def
        store_RegisterAgent_def map_rows_update enrollment_credential_def)
  then show "credentials (snd (run_state (registerAgentWithToken X req) w)) = credentials w" by (auto dest: maintainsD)
qed (simp_all add: credentials_def)

text \<open>The authorized keys, as long as there is no enrollment token.\<close>

definition closed_keys :: "world \<Rightarrow> bool \<times> AuthorizedKeyRecord list" where
  "closed_keys w = (enrollment_tokens (db w) = [], if enrollment_tokens (db w) = [] then authorized_keys (db w) else [])"

interpretation closed_keys: outsider_view closed_keys X for X
proof
  fix w t i ip
  show "closed_keys (snd (run_state (on_store (TouchPluginToken t i ip)) w)) = closed_keys w"
    by (simp add: closed_keys_def TouchPluginToken_def)
next
  fix w req
  show "closed_keys (snd (run_state (registerAgentWithToken X req) w)) = closed_keys w"
  proof (cases "enrollment_tokens (db w) = []")
    case True
    then obtain e where "fst (run_state (validateEnrollmentToken X (rr_EnrollmentToken req) (rr_Hostname req)) w) = Inl e"
      by (cases "faulty (db w)") (auto simp: validateEnrollmentToken_def GetEnrollmentTokenByHash_def)
    then have "run_state (validateEnrollmentToken X (rr_EnrollmentToken req) (rr_Hostname req)) w =
        (Inl e, w\<lparr>db := tick (db w)\<rparr>)"
      by (simp add: prod_eq_iff validate_enrollment_state del: validateEnrollmentToken_run)
    then show ?thesis by (simp add: registerAgentWithToken_def closed_keys_def del: validateEnrollmentToken_run)
  next
    case False
    have "maintains (\<lambda>w. enrollment_tokens (db w) \<noteq> []) (registerAgentWithToken X req)"
      by (rule enrollment_maintains)
        (simp_all add: maintains_def ConsumeEnrollmentToken_def AddAuthorizedKey_def store_RegisterAgent_def rows_update_def)
    from maintainsD [OF this False] False show ?thesis by (simp add: closed_keys_def)
  qed
qed (simp_all add: closed_keys_def)

text \<open>C3: Nobody but the administrator changes credentials. Whatever requests without the administrator's
  token reach the three ports, in whatever order, with whatever frames from agents and time in
  between: the keys, secrets and administrator's token of the server, the stored configuration and
  the blacklist are unchanged; no plugin or enrollment token is added, removed, revoked, reinstated
  or altered except for the record of its use; and without enrollment tokens no key is authorized.\<close>

theorem credentials_only_by_admin:
  assumes "rtranclp (outsider_step X) w w'"
  shows "server w' = server w \<and> server_config (db w') = server_config (db w) \<and> blacklist (db w') = blacklist (db w)
    \<and> map plugin_credential (plugin_tokens (db w')) = map plugin_credential (plugin_tokens (db w))
    \<and> map enrollment_credential (enrollment_tokens (db w')) = map enrollment_credential (enrollment_tokens (db w))
    \<and> (enrollment_tokens (db w) = [] \<longrightarrow> authorized_keys (db w') = authorized_keys (db w))"
  using credentials.history_retains [OF assms] closed_keys.history_retains [OF assms]
  by (auto simp: credentials_def closed_keys_def)

text \<open>A history in which an unknown host connects, time passes and the inventory is asked for.\<close>

lemma credentials_only_by_admin_witness:
  defines "w \<equiv> snd (run_state (ServeHTTP (port_router example_ext example_serving API)
      ''/api/inventory'' example_request)
      (example_world\<lparr>hb := hub_step (EvOpen ''web9'' False None) (hb example_world)\<rparr>\<lparr>clock := 6000000000\<rparr>))"
  shows "map plugin_credential (plugin_tokens (db w)) = map plugin_credential (plugin_tokens (db example_world))
    \<and> plugin_tokens (db example_world) \<noteq> []"
proof -
  let ?w1 = "example_world\<lparr>hb := hub_step (EvOpen ''web9'' False None) (hb example_world)\<rparr>"
  have "outsider_step example_ext example_world ?w1" by (rule outsider_step.connection)
  moreover have "outsider_step example_ext ?w1 (?w1\<lparr>clock := 6000000000\<rparr>)"
    by (rule outsider_step.time) (simp add: example_world_def)
  moreover have "outsider_step example_ext (?w1\<lparr>clock := 6000000000\<rparr>) w"
    unfolding w_def by (rule outsider_step.request)
      (simp add: example_request_def example_world_def example_server_def Header_Get_def mget_or_def)
  ultimately have "rtranclp (outsider_step example_ext) example_world w"
    by (blast intro: rtranclp.intros)
  from credentials_only_by_admin [OF this] show ?thesis
    by (simp add: example_world_def example_store_def)
qed

end
