(* ===== verification/ServerRuns.thy ===== *)
theory ServerRuns
  imports Outsider
begin

text \<open>
  The server process over its whole life: requests on the three ports with any token, what agents and
  waiting handlers do to the hub, time, failures of the database, and restarts on the database the
  process left. The integrity of the database and of the hub hold throughout, and every task an
  agent is sent goes back to a request that passed plugin authentication.
\<close>

section \<open>Runs of the server\<close>

datatype server_event =
    Request port serving string request
  | OnHub hub_event
  | Passes time
  | Faults "bool list"
  | Restart

inductive server_step :: "ext \<Rightarrow> world \<Rightarrow> server_event \<Rightarrow> world \<Rightarrow> bool" for X where
  request: "server_step X w (Request p v path r) (snd (run_state (ServeHTTP (port_router X v p) path r) w))"
| on_hub: "server_step X w (OnHub e) (w\<lparr>hb := hub_step e (hb w)\<rparr>)"
| passes: "clock w \<le> t \<Longrightarrow> server_step X w (Passes t) (w\<lparr>clock := t\<rparr>)"
| faults: "server_step X w (Faults fs) (w\<lparr>db := (db w)\<lparr>db_faults := fs\<rparr>\<rparr>)"
| restart: "start_process X (B\<lparr>bt_open := \<lambda>file. Inr (db w)\<rparr>) args now (entropy w) = Running rn \<Longrightarrow> clock w \<le> now \<Longrightarrow>
    server_step X w Restart (rn_world rn)"

inductive server_run :: "ext \<Rightarrow> world \<Rightarrow> (world \<times> server_event) list \<Rightarrow> world \<Rightarrow> bool" for X w0 where
  start: "server_run X w0 [] w0"
| step: "server_run X w0 tr w \<Longrightarrow> server_step X w e w' \<Longrightarrow> server_run X w0 (tr @ [(w, e)]) w'"

inductive_cases request_stepE: "server_step X w (Request p v path r) w'"
inductive_cases restart_stepE: "server_step X w Restart w'"

inductive_simps on_hub_step [simp]: "server_step X w (OnHub e) w'"
inductive_simps passes_step [simp]: "server_step X w (Passes t) w'"
inductive_simps faults_step [simp]: "server_step X w (Faults fs) w'"

text \<open>What a start comes up with: the database after \<open>InitServerState\<close>, everything else new.\<close>

lemma started_world:
  assumes "start_process X (B\<lparr>bt_open := \<lambda>file. Inr d\<rparr>) args now n = Running rn"
  shows "\<exists>srv. rn_world rn = wire_dispatcher (snd (run_state (InitServerState X) (initial_world srv d now n)))"
  using assms
  by (auto simp: start_process_def server_main_def split: option.splits if_splits sum.splits prod.splits) (metis snd_conv)

section \<open>What every step keeps\<close>

locale server_parts = admin_handlers +
  assumes steps: "P w \<Longrightarrow> P (w\<lparr>db := (db w)\<lparr>db_faults := fs\<rparr>\<rparr>)" "P w \<Longrightarrow> P (initial_world srv (db w) now n)"
    "P w \<Longrightarrow> P (wire_dispatcher w)"
begin

lemma restart_keeps: "server_step X w Restart w' \<Longrightarrow> P w \<Longrightarrow> P w'"
  by (erule restart_stepE)
    (auto dest!: started_world intro!: steps(3) maintainsD [OF maintains_start] steps(2))

lemma step_cases:
  assumes "server_step X w e w'"
  obtains "P w \<Longrightarrow> P w'"
    | h where "e = OnHub h" "w' = w\<lparr>hb := hub_step h (hb w)\<rparr>"
    | p v path r k vals where "e = Request p v path r"
        "find_route (port_router X v p) (rq_Method r) path = Some (http (run_endpoint k X (on_env v)), vals)"
        "cleanPath path = path" "w' = snd (run_state (run_endpoint k X (on_env v) (r\<lparr>rq_PathValue := vals\<rparr>)) w)"
proof (cases e)
  case (Request p v path r)
  then have w': "w' = snd (run_state (ServeHTTP (port_router X v p) path r) w)"
    using assms by (auto elim: request_stepE)
  show ?thesis
    by (rule request_cases [of w v p path r]) (use that Request w' in auto)
next
  case Restart
  then show ?thesis using assms restart_keeps that(1) by blast
qed (use assms that steps(1) in \<open>auto simp: parts\<close>)

end

locale server_invariant = open_handlers + server_parts +
  assumes hub_steps: "P w \<Longrightarrow> P (w\<lparr>hb := hub_step e (hb w)\<rparr>)"
begin

lemma step_keeps: "server_step X w e w' \<Longrightarrow> P w \<Longrightarrow> P w'"
  by (erule step_cases [of w e w']) (auto intro: hub_steps maintainsD [OF maintains_endpoint])

lemma run_keeps: "server_run X w0 tr w \<Longrightarrow> P w0 \<Longrightarrow> P w"
  by (induction rule: server_run.induct) (auto intro: step_keeps)

end

section \<open>Integrity\<close>

lemma steps_inv: "hub_inv h \<Longrightarrow> hub_inv (fold hub_step es h)"
  by (induction es arbitrary: h) (auto intro: hub_step_inv)

lemma wait_inv: "hub_inv h \<Longrightarrow> hub_inv (snd (sendTaskAndWait env x t m n h))"
proof -
  assume "hub_inv h"
  obtain ch e h1 where s: "sent x t m h = (ch, e, h1)" by (cases "sent x t m h") auto
  then have "hub_inv h1"
    using SendToAgent_inv [OF RegisterFuture_inv [OF \<open>hub_inv h\<close>], of x m t x] by (auto simp: sent_run)
  have "hub_inv (snd (try_receive ch (fold hub_step es h1)))" for es
    by (intro try_receive_inv steps_inv \<open>hub_inv h1\<close>)
  from this [of "if 0 < totalTimeout n then env else []"] \<open>hub_inv h1\<close> show ?thesis
    unfolding sendTaskAndWait_sent [OF s] Let_def
    by (auto simp: UnregisterFuture_forget forget_inv split: option.split prod.split)
qed

lemma dispatch_set_inv [simp]: "hub_inv (h\<lparr>dispatch_set := b\<rparr>) = hub_inv h"
  unfolding hub_inv_def futures_inv_def conns_inv_def by simp

lemma new_conn_inv: "hub_inv h \<Longrightarrow> hub_inv (snd (agent_open None x False h))"
  by (rule agent_open_inv) auto

lemma store_inv_faults [simp]: "store_inv (s\<lparr>db_faults := fs\<rparr>) = store_inv s"
  by (simp add: store_inv_def)

definition integrity :: "world \<Rightarrow> bool" where
  "integrity w \<longleftrightarrow> store_inv (db w) \<and> hub_inv (hb w)"

lemma integrity_store: "keeps m \<Longrightarrow> maintains integrity (on_store m)"
  by (auto simp: integrity_def maintains_def intro: keepsD)

interpretation integrity: server_invariant integrity X for X
proof
  fix w and x :: string and t k j i ip req and u :: string and m n env
  show "maintains integrity (on_store (UpdateTokenJTI x j))" "maintains integrity (on_store (store_RegisterAgent t x k j))"
      "maintains integrity (on_store (TouchPluginToken t i ip))"
    by (intro integrity_store keeps_agents_ops keeps_token_ops)+
  show "maintains integrity (registerAgentWithToken X req)"
    by (rule enrollment_maintains; (intro integrity_store keeps_agents_ops keeps_token_ops keeps_other_ops)?)
      (simp_all add: integrity_def)
  show "integrity w \<Longrightarrow> integrity (w\<lparr>hb := snd (sendTaskAndWait env x u m n (hb w))\<rparr>)"
    by (simp add: integrity_def wait_inv)
qed (simp_all add: integrity_def hub_inv_init initial_world_def wire_dispatcher_def new_conn_inv SendToAgent_inv
    conn_write_inv CloseAgent_inv hub_step_inv)

text \<open>C6: The integrity of the server: on a new database, whatever requests come, with whatever tokens,
  whatever agents and waiting handlers do to the hub, whichever statements of the database fail, and
  however often the process is started again on what it left, the keys of every table are unique and the
  agents' variables well formed, each pending task has a channel of its own, empty and waiting, no
  buffer exceeds its limit, and each host is registered with a connection of its own.\<close>

theorem server_keeps_integrity:
  assumes "server_run X (initial_world srv (empty_store\<lparr>db_faults := fs\<rparr>) now n) tr w"
  shows "store_inv (db w) \<and> hub_inv (hb w)"
proof -
  have "integrity (initial_world srv (empty_store\<lparr>db_faults := fs\<rparr>) now n)"
    using store_inv_empty [of "[]"] by (simp add: integrity_def initial_world_def hub_inv_init)
  with integrity.run_keeps [OF assms] show ?thesis by (simp add: integrity_def)
qed

text \<open>An agent connects to a new server, an hour passes, the agent's frame cannot be decoded.\<close>

lemma server_keeps_integrity_witness:
  defines "w0 \<equiv> initial_world example_server (empty_store\<lparr>db_faults := []\<rparr>) 5000000000 0"
    and "up \<equiv> hub_step (EvOpen ''web1'' False None)" and "down \<equiv> hub_step (EvRead 0 (Some (JStr ''x'')))"
  shows "hub_inv (down (up (init_hub False)))"
proof -
  have "server_run example_ext w0
      ((([] @ [(w0, OnHub (EvOpen ''web1'' False None))])
        @ [(w0\<lparr>hb := up (hb w0)\<rparr>, Passes 3605000000000)])
        @ [(w0\<lparr>hb := up (hb w0), clock := 3605000000000\<rparr>, OnHub (EvRead 0 (Some (JStr ''x''))))])
      (w0\<lparr>hb := down (up (hb w0)), clock := 3605000000000\<rparr>)"
    by (rule server_run.intros)+ (simp_all add: w0_def up_def down_def initial_world_def)
  from server_keeps_integrity [OF this [unfolded w0_def]] show ?thesis by (simp add: initial_world_def)
qed

section \<open>Where tasks come from\<close>

definition is_task :: "json \<Rightarrow> bool" where
  "is_task j \<longleftrightarrow> (\<exists>ps. j = JObj ps
     \<and> map_of ps ''type'' \<in> {Some (JStr ''exec''), Some (JStr ''put_file''), Some (JStr ''fetch_file'')})"

text \<open>What an endpoint asks of the agent at an instant for the body of a request.\<close>

fun asks :: "task_endpoint \<Rightarrow> request \<Rightarrow> time \<Rightarrow> json \<Rightarrow> bool" where
  "asks Exec r now j \<longleftrightarrow> (\<exists>req0 req t. Option.bind (rq_Body r) decode_ExecRequest = Some req0
     \<and> validateExecRequest req0 = Inr req \<and> j = exec_message t req now)"
| "asks Upload r now j \<longleftrightarrow> (\<exists>req0 req t. Option.bind (rq_Body r) decode_UploadRequest = Some req0
     \<and> validateUploadRequest req0 = Inr req \<and> j = upload_message t req)"
| "asks Fetch r now j \<longleftrightarrow> (\<exists>req0 req t. Option.bind (rq_Body r) decode_FetchRequest = Some req0
     \<and> validateFetchRequest req0 = Inr req \<and> j = fetch_message t req)"

text \<open>Every task among the frames written to a connection is one that \<open>S\<close> allows for its host.\<close>

definition tasks_from :: "(string \<Rightarrow> json \<Rightarrow> bool) \<Rightarrow> hub \<Rightarrow> bool" where
  "tasks_from S h \<longleftrightarrow> (\<forall>c cn j. mget (conns h) c = Some cn \<longrightarrow> TextFrame j \<in> set (cn_Sent cn) \<longrightarrow> is_task j
     \<longrightarrow> S (cn_Hostname cn) j)"

lemma tasks_from_conns: "conns h' = conns h \<Longrightarrow> tasks_from S h' = tasks_from S h"
  by (simp add: tasks_from_def)

lemma tasks_from_write:
  assumes "tasks_from S h" "\<And>cn j. mget (conns h) c = Some cn \<Longrightarrow> f = TextFrame j \<Longrightarrow> is_task j \<Longrightarrow> S (cn_Hostname cn) j"
  shows "tasks_from S (snd (conn_write c f h))"
  using assms by (auto simp: tasks_from_def conn_write_def split: option.split)

lemma tasks_from_fail: "tasks_from S h \<Longrightarrow> tasks_from S (conn_fail c e h)"
  by (auto simp: tasks_from_def conn_fail_def split: option.split)

lemma resolve_conns [simp]: "conns (ResolveFuturesForHostname x e h) = conns h"
  by (simp add: ResolveFuturesForHostname_def resolve_all_maps)

lemma other_conns [simp]:
  "conns (DispatchFunc e x st h) = conns h" "conns (snd (RegisterFuture t x h)) = conns h"
  "conns (snd (try_receive ch h)) = conns h" "conns (UnregisterFuture t h) = conns h"
  "conns (UnregisterConnection x h) = conns h"
  by (auto simp: DispatchFunc_def RegisterFuture_def make_chan_def try_receive_def UnregisterFuture_def
      UnregisterConnection_def Let_def split: option.split list.split)

lemma tasks_from_send:
  assumes "hub_inv h" "tasks_from S h" "is_task m \<Longrightarrow> S x m"
  shows "tasks_from S (snd (SendToAgent x m h))"
proof (cases "mget (wsConnections h) x")
  case (Some c)
  let ?h = "case message_task_id m of Some t \<Rightarrow> h\<lparr>taskHostnames := mput t x (taskHostnames h)\<rparr> | None \<Rightarrow> h"
  have conns: "conns ?h = conns h" by (simp split: option.split)
  have "cn_Hostname cn = x" if "mget (conns h) c = Some cn" for cn
    using assms(1) Some that unfolding hub_inv_def conns_inv_def by (metis option.inject)
  then have "tasks_from S (snd (conn_write c (TextFrame m) ?h))"
    by (intro tasks_from_write) (use assms(2,3) in \<open>auto simp: conns tasks_from_conns [OF conns]\<close>)
  then show ?thesis using Some by (simp add: SendToAgent_def GetConnection_def Let_def)
qed (use assms(2) in \<open>simp add: SendToAgent_def GetConnection_def\<close>)

lemma tasks_from_new: "tasks_from S h \<Longrightarrow> tasks_from S (snd (agent_open None x False h))"
  by (auto simp: agent_open_def RegisterConnection_def Let_def tasks_from_def conn_close_def conn_fail_def
      split: option.split if_splits)

lemma tasks_from_exit: "tasks_from S h \<Longrightarrow> tasks_from S (agent_exit c x h)"
  by (auto simp: agent_exit_def tasks_from_def conn_close_def conn_fail_def Let_def split: option.split)

lemma tasks_from_close: "tasks_from S h \<Longrightarrow> tasks_from S (snd (CloseAgent x code reason h))"
proof (cases "mget (wsConnections h) x")
  case (Some c)
  assume h: "tasks_from S h"
  let ?h = "h\<lparr>wsConnections := mdel x (wsConnections h)\<rparr>"
  have "tasks_from S ?h" using h tasks_from_conns [of ?h h] by simp
  then have "tasks_from S (conn_close c (snd (conn_write c (CloseFrame code reason) ?h)))"
    unfolding conn_close_def by (intro tasks_from_fail tasks_from_write) auto
  then show ?thesis using Some by (simp add: CloseAgent_def Let_def tasks_from_def)
qed (simp add: CloseAgent_def)

text \<open>No event but a send of a task writes one.\<close>

fun sends_task :: "hub_event \<Rightarrow> bool" where
  "sends_task (EvSend x m) \<longleftrightarrow> is_task m"
| "sends_task (EvOpen x prev (Some m)) \<longleftrightarrow> is_task m"
| "sends_task e \<longleftrightarrow> False"

lemma agent_open_parts:
  "snd (agent_open rk x prev h) =
     (let h1 = snd (agent_open None x False h); (sent, h2) = (case rk of None \<Rightarrow> (False, h1) | Some f \<Rightarrow> f x h1)
      in if \<not> prev then h1 else if sent then h2
         else snd (conn_write (next_id h) (TextFrame (JObj [(''type'', JStr ''rekey'')])) h2))"
  by (simp add: agent_open_def Let_def split: prod.split option.split)

lemma bare_rekey [simp]: "\<not> is_task (JObj [(''type'', JStr ''rekey'')])" "\<not> is_task (rekey_message k)"
  by (simp_all add: is_task_def rekey_message_def)

lemma tasks_from_open:
  assumes "hub_inv h" "tasks_from S h" "\<And>m. rk = Some m \<Longrightarrow> \<not> is_task m"
  shows "tasks_from S (snd (agent_open (map_option rekey_by rk) x prev h))"
proof -
  let ?h1 = "snd (agent_open None x False h)"
  have h1: "hub_inv ?h1" "tasks_from S ?h1" using assms new_conn_inv tasks_from_new by blast+
  then have "tasks_from S (snd (SendToAgent x m ?h1))" if "rk = Some m" for m
    using assms(3) [OF that] by (intro tasks_from_send) auto
  then show ?thesis
    using h1(2) unfolding agent_open_parts [of "map_option rekey_by rk"]
    by (cases rk) (auto simp: rekey_by_def Let_def split_def intro!: tasks_from_write)
qed

lemma tasks_from_step:
  assumes "hub_inv h" "tasks_from S h" "\<not> sends_task e"
  shows "tasks_from S (hub_step e h)"
proof (cases e)
  case (EvOpen x prev rk)
  then show ?thesis using assms tasks_from_open [OF assms(1,2), of rk x prev] by (cases rk) auto
next
  case (EvRead c i)
  then show ?thesis using assms(2)
    by (auto simp: agent_read_def tasks_from_conns [OF HandleMessage_conns(1)] tasks_from_exit split: option.split)
next
  case (EvSend x m)
  then show ?thesis using assms(3) tasks_from_send [OF assms(1,2), of m x] by simp
next
  case (EvCloseAgent x code reason)
  then show ?thesis using assms(2) by (simp add: tasks_from_close)
qed (use assms(2) tasks_from_fail in \<open>simp_all add: tasks_from_conns [OF other_conns(2)]
  tasks_from_conns [OF other_conns(3)] tasks_from_conns [OF other_conns(4)]\<close>)

lemma tasks_from_steps:
  "hub_inv h \<Longrightarrow> tasks_from S h \<Longrightarrow> \<forall>e\<in>set es. \<not> sends_task e \<Longrightarrow> tasks_from S (fold hub_step es h)"
  by (induction es arbitrary: h) (auto intro: hub_step_inv tasks_from_step)

lemma tasks_from_wait:
  assumes "hub_inv h" "tasks_from S h" "is_task m \<Longrightarrow> S x m" "\<forall>e\<in>set env. \<not> sends_task e"
  shows "tasks_from S (snd (sendTaskAndWait env x t m n h))"
proof -
  obtain ch e h1 where s: "sent x t m h = (ch, e, h1)" by (cases "sent x t m h") auto
  have "hub_inv (snd (RegisterFuture t x h))" "tasks_from S (snd (RegisterFuture t x h))"
    using assms(1,2) by (simp_all add: RegisterFuture_inv tasks_from_conns [OF other_conns(2)])
  with s have h1: "hub_inv h1" "tasks_from S h1"
    using SendToAgent_inv [of "snd (RegisterFuture t x h)" x m] tasks_from_send [of "snd (RegisterFuture t x h)" S m x] assms(3)
    by (auto simp: sent_run)
  have "tasks_from S (snd (try_receive ch (fold hub_step es h1)))" if "\<forall>e\<in>set es. \<not> sends_task e" for es
    using tasks_from_steps [OF h1 that] by (simp add: tasks_from_conns [OF other_conns(3)])
  from this [of "if 0 < totalTimeout n then env else []"] assms(4) h1(2) show ?thesis
    unfolding sendTaskAndWait_sent [OF s] Let_def
    by (auto simp: tasks_from_conns [OF other_conns(4)] split: option.split prod.split if_splits)
qed

text \<open>An endpoint writes at most the task its request asks for, and only after authentication.\<close>

lemma auth_hub:
  "hb (snd (run_state (requirePluginAuth X r) w)) = hb w" "clock (snd (run_state (requirePluginAuth X r) w)) = clock w"
  by (auto simp: requirePluginAuth_run Let_def split: option.split)

lemma endpoint_tasks:
  assumes "hub_inv (hb w)" "tasks_from S (hb w)" "\<forall>e\<in>set env. \<not> sends_task e"
    and allowed: "\<And>a j. fst (run_state (requirePluginAuth X r) w) = Inr a \<Longrightarrow> asks k r (clock w) j \<Longrightarrow> S (PathValue r ''hostname'') j"
  shows "tasks_from S (hb (snd (run_state (run_endpoint k X env r) w)))"
proof -
  obtain res v where auth: "run_state (requirePluginAuth X r) w = (res, v)" by (cases "run_state (requirePluginAuth X r) w")
  then have v: "hb v = hb w" "clock v = clock w" using auth_hub [of X r w] by simp_all
  show ?thesis
  proof (cases res)
    case (Inl e)
    with auth endpoint_refused [of X r w e v k env] v assms(2) show ?thesis by simp
  next
    case (Inr a)
    with auth allowed have ok: "asks k r (clock w) j \<Longrightarrow> S (PathValue r ''hostname'') j" for j by simp
    note wait = tasks_from_wait [OF assms(1,2) _ assms(3)]
    show ?thesis
      by (cases k)
        (use auth Inr v assms(2) ok in \<open>auto simp: ExecCommand_def UploadFile_def FetchFile_def Let_def
          intro!: wait split: option.split sum.split\<close>)
  qed
qed

text \<open>The other handlers write no task.\<close>

lemma tasks_from_rekey:
  "hub_inv h \<Longrightarrow> tasks_from S h \<Longrightarrow> tasks_from S (snd (SendToAgent x (rekey_message k) h))"
  "tasks_from S h \<Longrightarrow> tasks_from S (snd (conn_write c (TextFrame (JObj [(''type'', JStr ''rekey'')])) h))"
  by (auto intro: tasks_from_send tasks_from_write)

lemma tasks_from_hubs [simp]:
  "tasks_from S (init_hub b)" "tasks_from S (h\<lparr>dispatch_set := b\<rparr>) = tasks_from S h"
  by (simp_all add: tasks_from_def init_hub_def)

interpretation tasks: server_parts "\<lambda>w. hub_inv (hb w) \<and> tasks_from S (hb w)" X for X S
proof
  fix req
  show "maintains (\<lambda>w. hub_inv (hb w) \<and> tasks_from S (hb w)) (registerAgentWithToken X req)"
    by (rule enrollment_maintains) (simp_all add: maintains_def)
qed (simp_all add: maintains_def new_conn_inv tasks_from_new SendToAgent_inv tasks_from_rekey conn_write_inv
    CloseAgent_inv tasks_from_close hub_inv_init initial_world_def wire_dispatcher_def)

interpretation hub_alone: server_invariant "\<lambda>w. hub_inv (hb w)" X for X
proof
  fix req
  show "maintains (\<lambda>w. hub_inv (hb w)) (registerAgentWithToken X req)"
    by (rule enrollment_maintains) (simp_all add: maintains_def)
qed (simp_all add: maintains_def new_conn_inv SendToAgent_inv conn_write_inv CloseAgent_inv wait_inv hub_step_inv
    hub_inv_init initial_world_def wire_dispatcher_def)

section \<open>Every task goes back to an authenticated request\<close>

text \<open>The events of a run send tasks only through requests; \<open>on_env\<close> is what happens while a request waits.\<close>

definition via_requests :: "server_event \<Rightarrow> bool" where
  "via_requests e \<longleftrightarrow>
     (case e of
        Request p v path r \<Rightarrow> \<forall>h\<in>set (on_env v). \<not> sends_task h
      | OnHub h \<Rightarrow> \<not> sends_task h
      | _ \<Rightarrow> True)"

text \<open>
  A request of the run that asked for this task of this host and carried a plugin token: one on record at
  that time that was not revoked, not expired, and allowed from there.
\<close>

definition requested :: "ext \<Rightarrow> (world \<times> server_event) list \<Rightarrow> string \<Rightarrow> json \<Rightarrow> bool" where
  "requested X tr host j \<longleftrightarrow>
     (\<exists>w p v path r k vals token row. (w, Request p v path r) \<in> set tr
       \<and> find_route (port_router X v p) (rq_Method r) path = Some (http (run_endpoint k X (on_env v)), vals)
       \<and> mget_or [] vals ''hostname'' = host \<and> asks k r (clock w) j
       \<and> presented X r = Some token \<and> row_find pt_token_hash token (plugin_tokens (db w)) = Some row
       \<and> plugin_allows X (clock w) r (scanPluginToken row))"

lemma requested_mono: "requested X tr x j \<Longrightarrow> requested X (tr @ es) x j"
  unfolding requested_def set_append by blast

lemma tasks_from_mono: "tasks_from S h \<Longrightarrow> (\<And>x j. S x j \<Longrightarrow> T x j) \<Longrightarrow> tasks_from T h"
  by (auto simp: tasks_from_def)

lemma auth_token:
  assumes "fst (run_state (requirePluginAuth X r) w) = Inr a"
  obtains token row where "presented X r = Some token" "row_find pt_token_hash token (plugin_tokens (db w)) = Some row"
    "plugin_allows X (clock w) r (scanPluginToken row)"
proof -
  have "adminStore_set w"
    using assms by (auto simp: requirePluginAuth_run Let_def split: option.splits if_splits)
  from after_auth [OF this, of X r] assms that show thesis by auto
qed

lemma request_fields [simp]:
  "PathValue (r\<lparr>rq_PathValue := vals\<rparr>) x = mget_or [] vals x"
  "extractClientIP (r\<lparr>rq_PathValue := vals\<rparr>) = extractClientIP r"
  "presented X (r\<lparr>rq_PathValue := vals\<rparr>) = presented X r"
  "plugin_allows X now (r\<lparr>rq_PathValue := vals\<rparr>) tok = plugin_allows X now r tok"
  "asks k (r\<lparr>rq_PathValue := vals\<rparr>) now j = asks k r now j"
  by (simp_all add: PathValue_def extractClientIP_def presented_def plugin_allows_def Let_def) (cases k; simp)

lemma step_requested:
  assumes "server_step X w e w'" "via_requests e" "hub_inv (hb w)" "tasks_from (requested X tr) (hb w)"
  shows "tasks_from (requested X (tr @ [(w, e)])) (hb w')"
proof -
  let ?S = "requested X (tr @ [(w, e)])"
  have S: "tasks_from ?S (hb w)" using assms(4) requested_mono by (rule tasks_from_mono)
  from assms(1) show ?thesis
  proof (rule tasks.step_cases [where S = ?S])
    assume "hub_inv (hb w) \<and> tasks_from ?S (hb w) \<Longrightarrow> hub_inv (hb w') \<and> tasks_from ?S (hb w')"
    then show ?thesis using assms(3) S by blast
  next
    fix h assume "e = OnHub h" "w' = w\<lparr>hb := hub_step h (hb w)\<rparr>"
    then show ?thesis using tasks_from_step [OF assms(3) S] assms(2) by (simp add: via_requests_def)
  next
    fix p v path r k vals
    assume e: "e = Request p v path r"
      and route: "find_route (port_router X v p) (rq_Method r) path = Some (http (run_endpoint k X (on_env v)), vals)"
      and w': "w' = snd (run_state (run_endpoint k X (on_env v) (r\<lparr>rq_PathValue := vals\<rparr>)) w)"
    show ?thesis
      unfolding w'
    proof (rule endpoint_tasks [OF assms(3) S])
      show "\<forall>h\<in>set (on_env v). \<not> sends_task h" using assms(2) e by (simp add: via_requests_def)
    next
      fix a j
      assume "fst (run_state (requirePluginAuth X (r\<lparr>rq_PathValue := vals\<rparr>)) w) = Inr a"
      then obtain token row where "presented X r = Some token"
          "row_find pt_token_hash token (plugin_tokens (db w)) = Some row"
          "plugin_allows X (clock w) r (scanPluginToken row)" by (auto elim: auth_token)
      moreover assume "asks k (r\<lparr>rq_PathValue := vals\<rparr>) (clock w) j"
      moreover have "(w, Request p v path r) \<in> set (tr @ [(w, e)])" using e by simp
      ultimately show "?S (PathValue (r\<lparr>rq_PathValue := vals\<rparr>) ''hostname'') j"
        unfolding requested_def request_fields using route by blast
    qed
  qed
qed

text \<open>C4: Every task comes from an authenticated request. Take any run of the server from a moment when no
  task has been sent: requests with any tokens, the administrator's included, on any port, everything
  agents do, time, failing statements and restarts. Each command, upload or download among the frames
  written to a connection, in the name of a host, is the one that some earlier request of the run asked
  for, of that very host; and that request carried a plugin token that was then on record, neither
  revoked nor expired, and allowed from where it came.\<close>

theorem tasks_come_from_token_holders:
  assumes "server_run X w0 tr w" "hub_reachable (hb w0)" "tasks_from (\<lambda>_ _. False) (hb w0)"
    and "\<forall>(v, e)\<in>set tr. via_requests e"
    and "mget (conns (hb w)) c = Some cn" "TextFrame j \<in> set (cn_Sent cn)" "is_task j"
  shows "requested X tr (cn_Hostname cn) j"
proof -
  have "hub_inv (hb w) \<and> tasks_from (requested X tr) (hb w)"
    using assms(1,4)
  proof (induction rule: server_run.induct)
    case start
    then show ?case using reachable_inv [OF assms(2)] tasks_from_mono [OF assms(3)] by blast
  next
    case (step tr w e w')
    then have IH: "hub_inv (hb w)" "tasks_from (requested X tr) (hb w)" "via_requests e" by auto
    have "hub_inv (hb w')" using hub_alone.step_keeps [OF step.hyps(2)] IH(1) by simp
    with step_requested [OF step.hyps(2) IH(3,1,2)] show ?case by blast
  qed
  with assms(5-7) show ?thesis by (auto simp: tasks_from_def)
qed

lemma tasks_come_from_token_holders_witness:
  "requested example_ext [(example_world, Request API example_serving ''/api/exec/web1'' example_command)] ''web1''
     (exec_message ''t9'' \<lparr>ex_TaskID = Some ''t9'', ex_Cmd = ''ls'', ex_Stdin = None, ex_Timeout = 30,
        ex_Become = False, ex_BecomeMethod = ''sudo''\<rparr> 5000000000)"
proof -
  let ?q = "\<lparr>ex_TaskID = Some ''t9'', ex_Cmd = ''ls'', ex_Stdin = None, ex_Timeout = 0, ex_Become = False,
      ex_BecomeMethod = []\<rparr>"
  let ?m = "exec_message ''t9'' (?q\<lparr>ex_Timeout := 30, ex_BecomeMethod := ''sudo''\<rparr>) 5000000000"
  let ?r = "example_command\<lparr>rq_PathValue := [(''hostname'', ''web1'')]\<rparr>"
  let ?w = "snd (run_state (ServeHTTP (port_router example_ext example_serving API) ''/api/exec/web1'' example_command) example_world)"
  have q: "Option.bind (rq_Body example_command) decode_ExecRequest = Some ?q"
    "validateExecRequest ?q = Inr (?q\<lparr>ex_Timeout := 30, ex_BecomeMethod := ''sudo''\<rparr>)"
    by (simp_all add: example_command_def decode_ExecRequest_def obj_pairs_def json_fields validateExecRequest_def
        TrimSpace_id)
  have r: "?r = example_command" by (simp add: example_command_def example_request_def)
  obtain a v where a: "run_state (requirePluginAuth example_ext example_command) example_world = (Inr a, example_world\<lparr>db := v\<rparr>)"
    using example_auth unfolding example_command_def by blast
  have path: "cleanPath ''/api/exec/web1'' = ''/api/exec/web1''"
      "path_segments ''/api/exec/web1'' = [''api'', ''exec'', ''web1'']" by code_simp+
  have meth: "rq_Method example_command = ''POST''" by (simp add: example_command_def example_request_def)
  have route: "find_route (port_router example_ext example_serving API) (rq_Method example_command) ''/api/exec/web1''
      = Some (http (ExecCommand example_ext (on_env example_serving)), [(''hostname'', ''web1'')])"
    by (simp add: port_router_def find_route_parsed parsed_routers path meth method_matches_def)
  have env: "on_env example_serving = []" by (simp add: example_serving_def)
  have host: "PathValue example_command ''hostname'' = ''web1''"
    by (simp add: example_command_def PathValue_def mget_or_def example_request_def)
  have w: "hb ?w = snd (sendTaskAndWait [] ''web1'' ''t9'' ?m 30 example_hub)"
    using q a host
    by (simp add: ServeHTTP_def path(1) route r http_def split_def ExecCommand_def Let_def env
        checkAgentOnline_def example_conn(1) example_hub_of_world task_id_of_def)
  have "mget (conns (hb ?w)) 0 = Some \<lparr>cn_Hostname = ''web1'', cn_Sent = [TextFrame ?m], cn_Broken = None, cn_Reading = True\<rparr>"
    unfolding w using example_conn(1,2)
    by (auto simp: sendTaskAndWait_def RegisterFuture_def make_chan_def SendToAgent_def GetConnection_def conn_write_def
        WaitForResult_def try_receive_def UnregisterFuture_def message_task_id_def exec_message_def Let_def split: option.splits)
  moreover have "server_run example_ext example_world
      ([] @ [(example_world, Request API example_serving ''/api/exec/web1'' example_command)]) ?w"
    by (intro server_run.intros server_step.request)
  moreover have "tasks_from (\<lambda>_ _. False) (hb example_world)"
    by (auto simp: tasks_from_def example_hub_of_world example_hub_def init_hub_def agent_open_def RegisterConnection_def
        DispatchFunc_def RegisterFuture_def make_chan_def split: if_splits)
  moreover have "is_task ?m" by (simp add: is_task_def exec_message_def)
  ultimately show ?thesis
    using tasks_come_from_token_holders [of example_ext example_world
        "[] @ [(example_world, Request API example_serving ''/api/exec/web1'' example_command)]" ?w 0 _ ?m]
    by (simp add: via_requests_def env example_hub_of_world example_hub_reachable)
qed

end
