(* ===== verification/GoWire.thy ===== *)
theory GoWire
  imports GoJson
begin

text \<open>
  What arrives of a JSON value that \<open>encoding/json\<close> writes and reads again: strings are coerced to
  valid UTF-8, a byte that belongs to no well-formed sequence becoming U+FFFD; everything else is
  unchanged.
\<close>

definition to_valid :: "string \<Rightarrow> string" where
  "to_valid s = string_of_runes (runes_of s)"

fun wire :: "json \<Rightarrow> json" where
  "wire (JStr s) = JStr (to_valid s)"
| "wire (JArr js) = JArr (map wire js)"
| "wire (JObj ps) = JObj (map (\<lambda>(k, v). (to_valid k, wire v)) ps)"
| "wire j = j"

lemma to_valid_utf8: "valid_utf8 (to_valid s)"
  unfolding to_valid_def by (rule valid_utf8_string_of_runes [OF valid_runes_of])

lemma to_valid_id: "valid_utf8 s \<Longrightarrow> to_valid s = s"
  by (simp add: valid_utf8_def to_valid_def)

lemma to_valid_idem [simp]: "to_valid (to_valid s) = to_valid s"
  by (rule to_valid_id [OF to_valid_utf8])

text \<open>ASCII text is unchanged.\<close>

definition ascii :: "string \<Rightarrow> bool" where
  "ascii s \<longleftrightarrow> list_all (\<lambda>c. (of_char c :: nat) < 128) s"

lemma decode_runes_ascii: "\<forall>b\<in>set bs. b < 128 \<Longrightarrow> decode_runes bs = bs"
proof (induction bs)
  case (Cons b bs)
  then show ?case by (subst decode_runes.simps) (simp add: decode_rune.simps(2))
qed (simp add: decode_runes.simps)

lemma encode_runes_ascii: "\<forall>b\<in>set bs. b < 128 \<Longrightarrow> concat (map encode_rune bs) = bs"
  by (induction bs) (auto simp: encode_rune_def)

lemma to_valid_ascii:
  assumes "ascii s"
  shows "to_valid s = s"
proof -
  have b: "\<forall>b\<in>set (map of_char s :: nat list). b < 128" using assms by (simp add: ascii_def list_all_iff)
  show ?thesis
    unfolding to_valid_def runes_of_def string_of_runes_def decode_runes_ascii [OF b] encode_runes_ascii [OF b]
    by (simp add: comp_def)
qed

lemma ascii_simps [simp]: "ascii []" "ascii (c # s) \<longleftrightarrow> (of_char c :: nat) < 128 \<and> ascii s"
  "ascii (s @ t) \<longleftrightarrow> ascii s \<and> ascii t"
  by (simp_all add: ascii_def)

lemma to_valid_Nil [simp]: "to_valid [] = []"
  by (simp add: to_valid_ascii)

text \<open>A string that is not empty stays so.\<close>

lemma to_valid_Nil_iff [simp]: "to_valid s = [] \<longleftrightarrow> s = []"
proof
  assume "to_valid s = []"
  then have "concat (map encode_rune (runes_of s)) = []" by (simp add: to_valid_def string_of_runes_def)
  then have "runes_of s = []" using encode_rune_nonempty by (cases "runes_of s") auto
  then show "s = []" by (cases s) (simp_all add: runes_of_def decode_runes.simps)
qed simp

end
