(* ===== verification/HttpClient.thy ===== *)
theory HttpClient
  imports Routes GoWire
begin

text \<open>
  A client of the server's HTTP ports: the request as \<open>net/http\<close> sends it, the reply as the client
  sees it, and the connection between a client and one port of the modelled server. The inventory
  program and the command line are such clients.
\<close>

section \<open>Requests and replies\<close>

record client_request =
  cr_Method :: string
  cr_URL :: string
  cr_Header :: "(string, string) gomap"
  cr_Body :: "json option"

text \<open>The text of the body, and its value if it is JSON.\<close>

record client_reply =
  rp_Status :: int
  rp_Text :: string
  rp_Json :: "json option"

type_synonym 's http_do = "client_request \<Rightarrow> ('s, string + client_reply) state"

section \<open>The request on the server's side\<close>

text \<open>The path and the query of a URL without percent escapes and fragments.\<close>

definition split_at :: "char \<Rightarrow> string \<Rightarrow> string \<times> string" where
  "split_at c s = (takeWhile (\<lambda>x. x \<noteq> c) s, tl (dropWhile (\<lambda>x. x \<noteq> c) s))"

definition parse_query :: "string \<Rightarrow> (string, string) gomap" where
  "parse_query q = map (split_at CHR ''='') (filter (\<lambda>p. p \<noteq> []) (split_on CHR ''&'' q))"

definition received :: "string \<Rightarrow> string \<Rightarrow> client_request \<Rightarrow> string \<times> request" where
  "received base addr q =
     (case split_at CHR ''?'' (drop (length base) (cr_URL q)) of
        (path, query) \<Rightarrow>
          (path, \<lparr>rq_Method = cr_Method q, rq_Header = cr_Header q, rq_RemoteAddr = addr, rq_PathValue = [],
                  rq_Query = parse_query query, rq_Body = map_option wire (cr_Body q)\<rparr>))"

text \<open>
  The reply on the client's side: \<open>text_of\<close> is the text of a JSON value. An upgraded connection and
  one that the server drops are an error of the transport; redirections are not followed here.
\<close>

definition as_reply :: "(json \<Rightarrow> string) \<Rightarrow> served \<Rightarrow> string + client_reply" where
  "as_reply text_of s =
     (case s of
        Served (Reply code j) \<Rightarrow> Inr \<lparr>rp_Status = code, rp_Text = text_of j, rp_Json = Some (wire j)\<rparr>
      | Served Aborted \<Rightarrow> Inl ''EOF''
      | Upgraded _ \<Rightarrow> Inl ''EOF''
      | Redirected _ \<Rightarrow> Inr \<lparr>rp_Status = 301, rp_Text = ''Moved Permanently'', rp_Json = None\<rparr>
      | MethodNotAllowed \<Rightarrow> Inr \<lparr>rp_Status = 405, rp_Text = ''Method Not Allowed'', rp_Json = None\<rparr>
      | NotFound \<Rightarrow> Inr \<lparr>rp_Status = 404, rp_Text = ''404 page not found'', rp_Json = None\<rparr>)"

text \<open>A connection to the port with the router \<open>rs\<close>, which listens under the URL \<open>base\<close>.\<close>

definition connect_to :: "string \<Rightarrow> router \<Rightarrow> string \<Rightarrow> (json \<Rightarrow> string) \<Rightarrow> world http_do" where
  "connect_to base rs addr text_of q =
     (if HasPrefix (cr_URL q) base
      then State_Monad.bind (case received base addr q of (path, r) \<Rightarrow> ServeHTTP rs path r)
             (\<lambda>s. State_Monad.return (as_reply text_of s))
      else State_Monad.return (Inl ''no such host''))"

lemma connect_to_run:
  "received base addr q = (path, r) \<Longrightarrow> HasPrefix (cr_URL q) base \<Longrightarrow>
   run_state (connect_to base rs addr text_of q) w =
     (as_reply text_of (fst (run_state (ServeHTTP rs path r) w)), snd (run_state (ServeHTTP rs path r) w))"
  by (simp add: connect_to_def split_def)

lemma HasPrefix_append [simp]: "HasPrefix (p @ s) p"
  by (simp add: HasPrefix_iff)

lemma split_at_none: "c \<notin> set s \<Longrightarrow> split_at c s = (s, [])"
  by (induction s) (auto simp: split_at_def)

lemma split_at_found: "c \<notin> set s \<Longrightarrow> split_at c (s @ c # t) = (s, t)"
  by (induction s) (auto simp: split_at_def)

section \<open>Decoding replies\<close>

text \<open>
  \<open>json.Unmarshal\<close> of a member into a nested struct, a slice of strings and a map of raw values:
  \<open>null\<close> leaves a struct unchanged and resets the other two.
\<close>

fun into_struct :: "('s \<Rightarrow> (string \<times> json) list \<Rightarrow> 's option) \<Rightarrow> 's \<Rightarrow> json list \<Rightarrow> 's option" where
  "into_struct f s [] = Some s"
| "into_struct f s (JObj ps # js) = Option.bind (f s ps) (\<lambda>s. into_struct f s js)"
| "into_struct f s (JNull # js) = into_struct f s js"
| "into_struct f s (_ # js) = None"

fun string_elems :: "json list \<Rightarrow> string list option" where
  "string_elems [] = Some []"
| "string_elems (JStr s # js) = map_option ((#) s) (string_elems js)"
| "string_elems (JNull # js) = map_option ((#) []) (string_elems js)"
| "string_elems (_ # js) = None"

fun into_strings :: "string list option \<Rightarrow> json list \<Rightarrow> string list option option" where
  "into_strings z [] = Some z"
| "into_strings z (JArr es # js) = Option.bind (string_elems es) (\<lambda>ss. into_strings (Some ss) js)"
| "into_strings z (JNull # js) = into_strings None js"
| "into_strings z (_ # js) = None"

fun into_rawmap :: "(string, json) gomap option \<Rightarrow> json list \<Rightarrow> (string, json) gomap option option" where
  "into_rawmap z [] = Some z"
| "into_rawmap z (JObj ps # js) =
     into_rawmap (Some (fold (\<lambda>(k, v) m. mput k v m) ps (case z of None \<Rightarrow> [] | Some m \<Rightarrow> m))) js"
| "into_rawmap z (JNull # js) = into_rawmap None js"
| "into_rawmap z (_ # js) = None"

lemma string_elems_JStr [simp]: "string_elems (map JStr ss) = Some ss"
  by (induction ss) auto

section \<open>JSON that crosses the wire unchanged\<close>

fun utf8_json :: "json \<Rightarrow> bool" where
  "utf8_json (JStr s) \<longleftrightarrow> valid_utf8 s"
| "utf8_json (JArr js) \<longleftrightarrow> list_all utf8_json js"
| "utf8_json (JObj ps) \<longleftrightarrow> list_all (\<lambda>(k, v). valid_utf8 k \<and> utf8_json v) ps"
| "utf8_json j \<longleftrightarrow> True"

lemma wire_utf8: "utf8_json j \<Longrightarrow> wire j = j"
  by (induction j rule: wire.induct) (auto simp: to_valid_id list_all_iff intro!: map_idI)

lemma utf8_ascii: "ascii s \<Longrightarrow> valid_utf8 s"
  by (metis to_valid_ascii to_valid_utf8)

end
