(* ===== verification/InventoryCmd.thy ===== *)
theory InventoryCmd
  imports HttpClient
begin

text \<open>
  The inventory program that Ansible calls (\<open>secagent-inventory/main.go\<close>): its configuration, the
  request for the inventory, and what \<open>--list\<close> and \<open>--host\<close> print. The environment, the file and
  the certificates of the CA bundle and the HTTP transport are parameters.
\<close>

section \<open>Configuration\<close>

record inv_config =
  ic_serverURL :: string
  ic_token :: string
  ic_caBundle :: string
  ic_insecure :: bool
  ic_onlyConnected :: bool

definition inv_getenv :: "(string \<Rightarrow> string) \<Rightarrow> string \<Rightarrow> string \<Rightarrow> string" where
  "inv_getenv env key fallback = (let v = env key in if v \<noteq> [] then v else fallback)"

definition inv_loadConfig :: "(string \<Rightarrow> string) \<Rightarrow> inv_config" where
  "inv_loadConfig env =
     \<lparr>ic_serverURL = inv_getenv env ''RELAY_SERVER_URL'' ''https://localhost:7770'',
      ic_token = inv_getenv env ''RELAY_TOKEN'' [],
      ic_caBundle = inv_getenv env ''RELAY_CA_BUNDLE'' [],
      ic_insecure = (inv_getenv env ''RELAY_INSECURE_TLS'' [] = ''true''),
      ic_onlyConnected = (inv_getenv env ''RELAY_ONLY_CONNECTED'' [] = ''true'')\<rparr>"

section \<open>The request\<close>

text \<open>Which servers the client trusts: any, those of the system's roots, or those of a bundle.\<close>

datatype trust = AnyServer | SystemRoots | Roots string

text \<open>\<open>read\<close> is \<open>os.ReadFile\<close>, \<open>certs\<close> says whether a PEM text holds a certificate.\<close>

definition newHTTPClient :: "(string \<Rightarrow> string + string) \<Rightarrow> (string \<Rightarrow> bool) \<Rightarrow> inv_config \<Rightarrow> string + trust" where
  "newHTTPClient read certs c =
     (if ic_insecure c then Inr AnyServer
      else if ic_caBundle c \<noteq> [] then
        (case read (ic_caBundle c) of
           Inl e \<Rightarrow> Inl (''read CA bundle '' @ ic_caBundle c @ '': '' @ e)
         | Inr pem \<Rightarrow>
             if \<not> certs pem then Inl (''no valid certs in CA bundle '' @ ic_caBundle c) else Inr (Roots pem))
      else Inr SystemRoots)"

record InventoryResponse =
  ir_Hosts :: "string list option"
  ir_Hostvars :: "(string, json) gomap option"

definition decode_InventoryResponse :: "json \<Rightarrow> InventoryResponse option" where
  "decode_InventoryResponse j =
     Option.bind (obj_pairs j) (\<lambda>ps.
       Option.bind (into_struct (\<lambda>h qs. into_strings h (field_values ''hosts'' qs)) None (field_values ''all'' ps))
         (\<lambda>hosts.
       Option.bind (into_struct (\<lambda>v qs. into_rawmap v (field_values ''hostvars'' qs)) None (field_values ''_meta'' ps))
         (\<lambda>vars. Some \<lparr>ir_Hosts = hosts, ir_Hostvars = vars\<rparr>)))"

definition inventory_request :: "inv_config \<Rightarrow> client_request" where
  "inventory_request c =
     \<lparr>cr_Method = ''GET'',
      cr_URL = ic_serverURL c @ ''/api/inventory''
        @ (if ic_onlyConnected c then ''?only_connected=true'' else ''?only_connected=false''),
      cr_Header = (if ic_token c \<noteq> [] then [(''Authorization'', ''Bearer '' @ ic_token c)] else [])
        @ [(''Accept'', ''application/json'')],
      cr_Body = None\<rparr>"

text \<open>\<open>client\<close> sends a request over a connection of the given trust.\<close>

definition fetchInventory ::
  "(string \<Rightarrow> string + string) \<Rightarrow> (string \<Rightarrow> bool) \<Rightarrow> (trust \<Rightarrow> 's http_do) \<Rightarrow> inv_config
   \<Rightarrow> ('s, string + InventoryResponse) state" where
  "fetchInventory read certs client c =
     (case newHTTPClient read certs c of
        Inl e \<Rightarrow> State_Monad.return (Inl (''HTTP client: '' @ e))
      | Inr t \<Rightarrow> do {
          resp \<leftarrow> client t (inventory_request c);
          State_Monad.return
            (case resp of
               Inl e \<Rightarrow> Inl (''GET '' @ cr_URL (inventory_request c) @ '': '' @ e)
             | Inr rp \<Rightarrow>
                 if rp_Status rp \<noteq> 200 then
                   Inl (''server returned '' @ show_nat (nat (rp_Status rp)) @ '': ''
                        @ TrimSpace (take 4096 (rp_Text rp)))
                 else (case Option.bind (rp_Json rp) decode_InventoryResponse of
                         None \<Rightarrow> Inl ''decode response''
                       | Some found \<Rightarrow> Inr found))
        })"

section \<open>The commands\<close>

text \<open>How the program ends: the exit code and the JSON value it printed.\<close>

type_synonym inv_exit = "int \<times> json option"

definition cmdList :: "('s, string + InventoryResponse) state \<Rightarrow> ('s, inv_exit) state" where
  "cmdList fetch = do {
     result \<leftarrow> fetch;
     State_Monad.return
       (case result of
          Inl _ \<Rightarrow> (1, None)
        | Inr found \<Rightarrow>
            let hosts = (case ir_Hosts found of None \<Rightarrow> [] | Some hs \<Rightarrow> hs);
                hostvars = (case ir_Hostvars found of None \<Rightarrow> [] | Some vs \<Rightarrow> vs)
            in (0, Some (JObj [(''all'', JObj [(''hosts'', JArr (map JStr hosts))]),
                               (''_meta'', JObj [(''hostvars'', JObj hostvars)])])))
   }"

definition cmdHost :: "('s, string + InventoryResponse) state \<Rightarrow> string \<Rightarrow> ('s, inv_exit) state" where
  "cmdHost fetch hostname = do {
     result \<leftarrow> fetch;
     State_Monad.return
       (case result of
          Inl _ \<Rightarrow> (0, Some (JObj []))
        | Inr found \<Rightarrow>
            (case Option.bind (ir_Hostvars found) (\<lambda>vs. mget vs hostname) of
               Some vars \<Rightarrow> (0, Some vars)
             | None \<Rightarrow> (0, Some (JObj []))))
   }"

definition inventory_main ::
  "(string \<Rightarrow> string) \<Rightarrow> (string \<Rightarrow> string + string) \<Rightarrow> (string \<Rightarrow> bool) \<Rightarrow> (trust \<Rightarrow> 's http_do) \<Rightarrow> string list
   \<Rightarrow> ('s, inv_exit) state" where
  "inventory_main env read certs client args =
     (case args of
        [] \<Rightarrow> State_Monad.return (1, None)
      | arg # rest \<Rightarrow>
          let fetch = fetchInventory read certs client (inv_loadConfig env) in
          if arg = ''--list'' then cmdList fetch
          else if arg = ''--host'' then
            (case rest of [] \<Rightarrow> State_Monad.return (1, None) | hostname # _ \<Rightarrow> cmdHost fetch hostname)
          else State_Monad.return (1, None))"

end
