(* ===== verification/InventorySpec.thy ===== *)
theory InventorySpec
  imports InventoryCmd RoutesSpec
begin

text \<open>
  The inventory program connected to the API port of the server: what Ansible reads is the state of
  the server's database and connections.
\<close>

section \<open>The request on the server\<close>

abbreviation inventory_host :: "ext \<Rightarrow> world \<Rightarrow> string \<Rightarrow> json" where
  "inventory_host X w x \<equiv> HostVars X (GetConnectedHostnames (hb w)) (clock w) x"

definition inventory_hosts :: "bool \<Rightarrow> world \<Rightarrow> string list" where
  "inventory_hosts onlyConnected w =
     filter (\<lambda>h. onlyConnected \<longrightarrow> h \<in> set (GetConnectedHostnames (hb w))) (map ag_Hostname (agents (db w)))"

lemma buildInventoryResponse_run:
  assumes "healthy (db w)" "adminStore_set w" "unique_key ag_Hostname (agents (db w))"
  shows "run_state (buildInventoryResponse X b) w =
    ((inventory_hosts b w, map (\<lambda>h. (h, inventory_host X w h)) (inventory_hosts b w)), w)"
proof -
  have fold: "fold (\<lambda>h vars. mput h (f h) vars) hs m = m @ map (\<lambda>h. (h, f h)) hs"
    if "distinct hs" "set hs \<inter> fst ` set m = {}" for f :: "string \<Rightarrow> json" and hs m
    using that by (induction hs arbitrary: m) (auto simp: mput_fresh)
  have "distinct (inventory_hosts b w)"
    using assms(3) unfolding inventory_hosts_def by (rule distinct_filter)
  from fold [OF this, of "[]"] show ?thesis
    using assms(1,2) by (simp add: buildInventoryResponse_def ListAgents_def Let_def inventory_hosts_def)
qed

text \<open>The program's request as the server sees it, from the address \<open>addr\<close>.\<close>

definition inventory_http :: "inv_config \<Rightarrow> string \<Rightarrow> request" where
  "inventory_http c addr = snd (received (ic_serverURL c) addr (inventory_request c))"

lemma received_inventory:
  "received (ic_serverURL c) addr (inventory_request c) = (''/api/inventory'', inventory_http c addr)"
  "inventory_http c addr = \<lparr>rq_Method = ''GET'',
     rq_Header = (if ic_token c \<noteq> [] then [(''Authorization'', ''Bearer '' @ ic_token c)] else [])
        @ [(''Accept'', ''application/json'')],
     rq_RemoteAddr = addr, rq_PathValue = [],
     rq_Query = [(''only_connected'', if ic_onlyConnected c then ''true'' else ''false'')], rq_Body = None\<rparr>"
proof -
  have "split_at CHR ''?'' (''/api/inventory?only_connected='' @ s) = (''/api/inventory'', ''only_connected='' @ s)"
    for s by (simp add: split_at_def)
  moreover have "parse_query ''only_connected=true'' = [(''only_connected'', ''true'')]"
      "parse_query ''only_connected=false'' = [(''only_connected'', ''false'')]" by code_simp+
  ultimately show "inventory_http c addr = \<lparr>rq_Method = ''GET'',
     rq_Header = (if ic_token c \<noteq> [] then [(''Authorization'', ''Bearer '' @ ic_token c)] else [])
        @ [(''Accept'', ''application/json'')],
     rq_RemoteAddr = addr, rq_PathValue = [],
     rq_Query = [(''only_connected'', if ic_onlyConnected c then ''true'' else ''false'')], rq_Body = None\<rparr>"
    "received (ic_serverURL c) addr (inventory_request c) = (''/api/inventory'', inventory_http c addr)"
    by (simp_all add: inventory_http_def received_def inventory_request_def split_at_def)
qed

lemma inventory_route:
  "ServeHTTP (apiRouter X v) ''/api/inventory'' (inventory_http c addr) = http (GetInventory X) (inventory_http c addr)"
proof -
  have path: "cleanPath ''/api/inventory'' = ''/api/inventory''" "path_segments ''/api/inventory'' = [''api'', ''inventory'']"
    by code_simp+
  show ?thesis
    by (simp add: ServeHTTP_def path find_route_parsed parsed_routers method_matches_def received_inventory(2))
qed

lemma TouchPluginToken_frame:
  assumes "healthy s"
  shows "agents (snd (run_state (TouchPluginToken now i ip) s)) = agents s"
    "healthy (snd (run_state (TouchPluginToken now i ip) s))"
  using assms by (auto simp: TouchPluginToken_def)

text \<open>When the token is accepted, the reply carries the inventory of that moment.\<close>

lemma GetInventory_run:
  assumes "healthy (db w)" "adminStore_set w" "store_inv (db w)" "ic_token c \<noteq> []"
    and "row_find pt_token_hash (sha256Hex X (ic_token c)) (plugin_tokens (db w)) = Some row"
    and "plugin_allows X (clock w) (inventory_http c addr) (scanPluginToken row)"
  obtains w' where "run_state (GetInventory X (inventory_http c addr)) w =
    (Reply 200 (inventory_json (inventory_hosts (ic_onlyConnected c) w,
       map (\<lambda>h. (h, inventory_host X w h)) (inventory_hosts (ic_onlyConnected c) w))), w')"
proof -
  let ?r = "inventory_http c addr"
  have p: "presented X ?r = Some (sha256Hex X (ic_token c))"
    using assms(4) by (simp add: presented_def received_inventory(2) Header_Get_def mget_or_def HasPrefix_def)
  have o: "parseOnlyConnected ?r = ic_onlyConnected c"
    by (simp add: parseOnlyConnected_def received_inventory(2) Query_Get_def mget_or_def ParseBool_def)
  define w1 where "w1 = w\<lparr>db := snd (run_state (TouchPluginToken (clock w) (pt_id row) (extractClientIP ?r)) (db w))\<rparr>"
  have auth: "run_state (requirePluginAuth X ?r) w =
      (Inr \<lparr>pa_Token = scanPluginToken row, pa_ClientIP = extractClientIP ?r\<rparr>, w1)"
    using assms(1,2,5) iffD2 [OF refusal_None assms(6)] by (simp add: requirePluginAuth_run p Let_def w1_def)
  have w1: "healthy (db w1)" "adminStore_set w1" "hb w1 = hb w" "clock w1 = clock w" "agents (db w1) = agents (db w)"
    using assms(1,2) TouchPluginToken_frame by (simp_all add: w1_def)
  have "inventory_hosts b w1 = inventory_hosts b w" for b by (simp add: inventory_hosts_def w1)
  moreover have "unique_key ag_Hostname (agents (db w1))" using assms(3) by (simp add: w1 store_inv_def)
  ultimately have "run_state (buildInventoryResponse X b) w1 =
      ((inventory_hosts b w, map (\<lambda>h. (h, inventory_host X w h)) (inventory_hosts b w)), w1)" for b
    using buildInventoryResponse_run [of w1 X b] w1 by simp
  then show thesis using that by (simp add: GetInventory_def auth o)
qed

section \<open>The program and the server\<close>

definition inventory_value :: "ext \<Rightarrow> bool \<Rightarrow> world \<Rightarrow> string list \<times> (string, json) gomap" where
  "inventory_value X b w = (inventory_hosts b w, map (\<lambda>h. (h, inventory_host X w h)) (inventory_hosts b w))"

lemma inventory_value_wire:
  assumes "\<forall>h\<in>set (map ag_Hostname (agents (db w))). valid_utf8 h" "valid_utf8 (format_time X (clock w))"
  shows "wire (inventory_json (inventory_value X b w)) = inventory_json (inventory_value X b w)"
proof (rule wire_utf8)
  have "valid_utf8 h" if "h \<in> set (inventory_hosts b w)" for h
    using that assms(1) by (auto simp: inventory_hosts_def)
  then show "utf8_json (inventory_json (inventory_value X b w))"
    using assms(2) by (auto simp: inventory_value_def inventory_json_def HostVars_def list_all_iff utf8_ascii)
qed

lemma decode_inventory:
  "distinct (mkeys (snd v)) \<Longrightarrow>
   decode_InventoryResponse (inventory_json v) = Some \<lparr>ir_Hosts = Some (fst v), ir_Hostvars = Some (snd v)\<rparr>"
  by (simp add: decode_InventoryResponse_def inventory_json_def obj_pairs_def field_values_def ToLower_def to_lower_def
      fold_mput_fresh)

text \<open>A run of the program against the API port.\<close>

lemma inventory_program_run:
  assumes "healthy (db w)" "adminStore_set w" "store_inv (db w)"
    and "\<forall>h\<in>set (map ag_Hostname (agents (db w))). valid_utf8 h" "valid_utf8 (format_time X (clock w))"
    and "c = inv_loadConfig env" "newHTTPClient read certs c = Inr t" "ic_token c \<noteq> []"
    and "row_find pt_token_hash (sha256Hex X (ic_token c)) (plugin_tokens (db w)) = Some row"
    and "plugin_allows X (clock w) (inventory_http c addr) (scanPluginToken row)"
    and "run = (\<lambda>args. inventory_main env read certs
           (\<lambda>t. connect_to (ic_serverURL c) (apiRouter X v) addr text_of) args)"
  shows "\<exists>hosts w'. distinct hosts
    \<and> (\<forall>x. x \<in> set hosts \<longleftrightarrow> row_find ag_Hostname x (agents (db w)) \<noteq> None
         \<and> (ic_onlyConnected c \<longrightarrow> (\<exists>n. GetConnection x (hb w) = Inr n)))
    \<and> run_state (run [''--list'']) w =
        ((0, Some (inventory_json (hosts, map (\<lambda>h. (h, HostVars X (GetConnectedHostnames (hb w)) (clock w) h)) hosts))), w')
    \<and> (\<forall>x. run_state (run [''--host'', x]) w =
        ((0, Some (if x \<in> set hosts then HostVars X (GetConnectedHostnames (hb w)) (clock w) x else JObj [])), w'))"
proof -
  let ?b = "ic_onlyConnected c" and ?hosts = "inventory_hosts (ic_onlyConnected c) w"
  have d: "distinct ?hosts" using assms(3) unfolding inventory_hosts_def store_inv_def by (intro distinct_filter) simp
  have mem: "x \<in> set ?hosts \<longleftrightarrow> row_find ag_Hostname x (agents (db w)) \<noteq> None
      \<and> (?b \<longrightarrow> (\<exists>n. GetConnection x (hb w) = Inr n))" for x
    by (auto simp: inventory_hosts_def row_find_None_iff connected_iff)
  obtain w' where get: "run_state (GetInventory X (inventory_http c addr)) w =
      (Reply 200 (inventory_json (inventory_value X ?b w)), w')"
    unfolding inventory_value_def by (rule GetInventory_run [OF assms(1-3,8-10)])
  have keys: "mkeys (snd (inventory_value X ?b w)) = ?hosts" by (simp add: inventory_value_def comp_def)
  have "HasPrefix (cr_URL (inventory_request c)) (ic_serverURL c)" by (simp add: inventory_request_def)
  then have conn: "run_state (connect_to (ic_serverURL c) (apiRouter X v) addr text_of (inventory_request c)) w =
      (Inr \<lparr>rp_Status = 200, rp_Text = text_of (inventory_json (inventory_value X ?b w)),
            rp_Json = Some (inventory_json (inventory_value X ?b w))\<rparr>, w')"
    using inventory_value_wire [OF assms(4,5), of ?b]
    by (simp add: connect_to_run [OF received_inventory(1)] inventory_route get as_reply_def)
  have "run_state (fetchInventory read certs (\<lambda>t. connect_to (ic_serverURL c) (apiRouter X v) addr text_of) c) w =
      (Inr \<lparr>ir_Hosts = Some ?hosts, ir_Hostvars = Some (snd (inventory_value X ?b w))\<rparr>, w')"
    using decode_inventory [of "inventory_value X ?b w"] d keys
    by (simp add: fetchInventory_def assms(7) conn inventory_value_def)
  then have fetch: "run_state (fetchInventory read certs (\<lambda>t. connect_to (ic_serverURL c) (apiRouter X v) addr text_of)
      (inv_loadConfig env)) w = (Inr \<lparr>ir_Hosts = Some ?hosts, ir_Hostvars = Some (snd (inventory_value X ?b w))\<rparr>, w')"
    by (simp add: assms(6))
  have vars: "mget (snd (inventory_value X ?b w)) x = (if x \<in> set ?hosts then Some (inventory_host X w x) else None)" for x
    using map_of_map_restrict [of "inventory_host X w" ?hosts] by (simp add: inventory_value_def restrict_map_def)
  show ?thesis
    by (rule exI [of _ ?hosts], rule exI [of _ w'])
      (use d mem fetch vars in \<open>simp add: assms(11) inventory_main_def cmdList_def cmdHost_def inventory_json_def inventory_value_def\<close>)
qed

text \<open>C24: What Ansible reads is what the server knows. The inventory program, given a token the server
  accepts, ends with code 0. \<open>--list\<close> prints each enrolled host once (with RELAY_ONLY_CONNECTED those
  that have a connection) together with its variables; \<open>--host x\<close> prints the variables of exactly
  these hosts, with their status in the live registry, and an empty object for every other name.\<close>

theorem inventory_program_exact:
  assumes "healthy (db w)" "adminStore_set w" "store_inv (db w)"
    and "\<forall>h\<in>set (map ag_Hostname (agents (db w))). valid_utf8 h" "valid_utf8 (format_time X (clock w))"
    and "c = inv_loadConfig env" "newHTTPClient read certs c = Inr t" "ic_token c \<noteq> []"
    and "row_find pt_token_hash (sha256Hex X (ic_token c)) (plugin_tokens (db w)) = Some row"
    and "plugin_allows X (clock w) (inventory_http c addr) (scanPluginToken row)"
    and "run = (\<lambda>args. inventory_main env read certs
           (\<lambda>t. connect_to (ic_serverURL c) (apiRouter X v) addr text_of) args)"
  shows "\<exists>hosts w'. distinct hosts
    \<and> (\<forall>x. x \<in> set hosts \<longleftrightarrow> row_find ag_Hostname x (agents (db w)) \<noteq> None
         \<and> (ic_onlyConnected c \<longrightarrow> (\<exists>n. GetConnection x (hb w) = Inr n)))
    \<and> run_state (run [''--list'']) w =
        ((0, Some (inventory_json (hosts, map (\<lambda>h. (h, HostVars X (GetConnectedHostnames (hb w)) (clock w) h)) hosts))), w')
    \<and> (\<forall>x. run_state (run [''--host'', x]) w =
        ((0, Some (if x \<in> set hosts then HostVars X (GetConnectedHostnames (hb w)) (clock w) x else JObj [])), w'))"
  using assms by (rule inventory_program_run)

definition example_inventory :: world where
  "example_inventory = example_world\<lparr>db := (db example_world)\<lparr>plugin_tokens :=
     [example_plugin_row\<lparr>pt_allowed_hostname_pattern := None\<rparr>]\<rparr>\<rparr>"

definition example_inv_env :: "string \<Rightarrow> string" where
  "example_inv_env name = (if name = ''RELAY_TOKEN'' then ''secret'' else [])"

lemma example_inventory_db:
  "healthy (db example_inventory)" "adminStore_set example_inventory" "store_inv (db example_inventory)"
  "map ag_Hostname (agents (db example_inventory)) = [''web1'']" "clock example_inventory = 5000000000"
  "row_find pt_token_hash (sha256Hex example_ext ''secret'') (plugin_tokens (db example_inventory)) =
     Some (example_plugin_row\<lparr>pt_allowed_hostname_pattern := None\<rparr>)"
  by (simp_all add: example_inventory_def example_world_def example_store_def empty_store_def healthy_def store_inv_def
      enrollment_row_of_def example_plugin_row_def example_token_def example_agent_def sha256Hex_def example_ext_def)

lemma example_inv_config:
  "inv_loadConfig example_inv_env = \<lparr>ic_serverURL = ''https://localhost:7770'', ic_token = ''secret'',
     ic_caBundle = [], ic_insecure = False, ic_onlyConnected = False\<rparr>"
  by (simp add: inv_loadConfig_def inv_getenv_def example_inv_env_def)

lemma inventory_program_exact_witness:
  "\<exists>w'. run_state (inventory_main example_inv_env Inl (\<lambda>_. False)
       (\<lambda>t. connect_to ''https://localhost:7770'' (apiRouter example_ext example_serving) ''10.0.0.1:5000'' (\<lambda>_. []))
       [''--host'', ''web1'']) example_inventory =
     ((0, Some (HostVars example_ext (GetConnectedHostnames (hb example_inventory)) 5000000000 ''web1'')), w')"
proof -
  let ?c = "inv_loadConfig example_inv_env"
  let ?row = "example_plugin_row\<lparr>pt_allowed_hostname_pattern := None\<rparr>"
  have allowed: "plugin_allows example_ext (clock example_inventory) (inventory_http ?c ''10.0.0.1:5000'')
      (scanPluginToken ?row)"
    by (simp add: plugin_allows_def scanPluginToken_def example_plugin_row_def expired_def example_inventory_db(5) null_string_def
        from_unix_def)
  have texts: "\<forall>h\<in>set (map ag_Hostname (agents (db example_inventory))). valid_utf8 h"
      "valid_utf8 (format_time example_ext (clock example_inventory))"
    unfolding example_inventory_db by (simp_all add: utf8_ascii example_ext_def) code_simp
  have client: "newHTTPClient Inl (\<lambda>_. False) ?c = Inr SystemRoots" "ic_token ?c \<noteq> []"
      "row_find pt_token_hash (sha256Hex example_ext (ic_token ?c)) (plugin_tokens (db example_inventory)) = Some ?row"
    by (simp_all add: newHTTPClient_def example_inv_config example_inventory_db(6))
  let ?run = "\<lambda>args. inventory_main example_inv_env Inl (\<lambda>_. False)
     (\<lambda>t. connect_to (ic_serverURL ?c) (apiRouter example_ext example_serving) ''10.0.0.1:5000'' (\<lambda>_. [])) args"
  obtain hosts w' where h: "\<forall>x. x \<in> set hosts \<longleftrightarrow> row_find ag_Hostname x (agents (db example_inventory)) \<noteq> None
        \<and> (ic_onlyConnected ?c \<longrightarrow> (\<exists>n. GetConnection x (hb example_inventory) = Inr n))"
      "\<forall>x. run_state (?run [''--host'', x]) example_inventory = ((0, Some (if x \<in> set hosts then HostVars example_ext
           (GetConnectedHostnames (hb example_inventory)) (clock example_inventory) x else JObj [])), w')"
    using inventory_program_exact [where v = example_serving and text_of = "\<lambda>_. []",
        OF example_inventory_db(1-3) texts refl client allowed refl] by blast
  have "''web1'' \<in> set hosts"
    unfolding h(1) [rule_format] row_find_None_iff set_map [symmetric] example_inventory_db(4)
    by (simp add: example_inv_config)
  then show ?thesis using h(2) [rule_format, of "''web1''"] by (simp add: example_inv_config example_inventory_db(5))
qed

end
