(* ===== verification/Broker.thy ===== *)
theory Broker
  imports Http Hub
begin

text \<open>
  The client of NATS JetStream (\<open>broker/nats.go\<close>): the streams it sets up, what it publishes, how it
  subscribes, and what it does with each message it consumes. The library is the record \<open>nats\<close>; a
  message is its subject and its data (\<open>None\<close>: not JSON).
\<close>

section \<open>Configuration\<close>

definition StreamTasks :: string where "StreamTasks = ''RELAY_TASKS''"
definition StreamResults :: string where "StreamResults = ''RELAY_RESULTS''"
definition SubjectTasks :: string where "SubjectTasks = ''tasks.*''"
definition SubjectResults :: string where "SubjectResults = ''results.*''"
definition TasksTTLSec :: int where "TasksTTLSec = 300"
definition ResultsTTLSec :: int where "ResultsTTLSec = 60"
definition TasksMaxBytes :: int where "TasksMaxBytes = 1 * 1024 * 1024"
definition ResultsMaxBytes :: int where "ResultsMaxBytes = 5 * 1024 * 1024"

datatype retention = WorkQueuePolicy | LimitsPolicy

text \<open>Ages are in nanoseconds.\<close>

record StreamConfig =
  sm_Name :: string
  sm_Subjects :: "string list"
  sm_Retention :: retention
  sm_MaxAge :: int
  sm_MaxBytes :: int
  sm_Replicas :: int

record ConsumerConfig =
  cc_Stream :: string
  cc_Durable :: string
  cc_MaxDeliver :: int
  cc_FilterSubject :: string

text \<open>What the library answers; \<open>js_publish\<close> gives the sequence number of a stored message.\<close>

record nats =
  js_connect :: "string \<Rightarrow> string + unit"
  js_new :: "string + unit"
  js_stream :: "StreamConfig \<Rightarrow> string + unit"
  js_lookup :: "string \<Rightarrow> string + unit"
  js_consumer :: "ConsumerConfig \<Rightarrow> string + unit"
  js_consume :: "ConsumerConfig \<Rightarrow> string + unit"
  js_publish :: "string \<Rightarrow> json \<Rightarrow> string + nat"

text \<open>
  The client: \<open>'s\<close> is the state that the two callbacks act on. \<open>cl_nc\<close> says whether the connection
  is open (\<open>None\<close>: there is none).
\<close>

record 's Client =
  cl_natsURL :: string
  cl_nc :: "bool option"
  cl_nodeID :: string
  cl_wsSendFn :: "(string \<Rightarrow> json \<Rightarrow> 's \<Rightarrow> string option \<times> 's) option"
  cl_resultFn :: "(string \<Rightarrow> json \<Rightarrow> 's \<Rightarrow> string option \<times> 's) option"
  cl_consumers :: "ConsumerConfig list"

definition getNatsURL :: "(string \<Rightarrow> string) \<Rightarrow> string" where
  "getNatsURL env = (if env ''NATS_URL'' \<noteq> [] then env ''NATS_URL'' else ''nats://localhost:4222'')"

definition ensureStream :: "nats \<Rightarrow> string \<Rightarrow> string list \<Rightarrow> retention \<Rightarrow> int \<Rightarrow> int \<Rightarrow> string + StreamConfig" where
  "ensureStream N name subjects ret maxAge maxMsgSize =
     (let config = \<lparr>sm_Name = name, sm_Subjects = subjects, sm_Retention = ret,
                    sm_MaxAge = maxAge * 1000000000, sm_MaxBytes = maxMsgSize, sm_Replicas = 1\<rparr>
      in case js_stream N config of
           Inl e \<Rightarrow> Inl (''failed to create/update stream '' @ name @ '': '' @ e)
         | Inr _ \<Rightarrow> Inr config)"

definition ensureStreams :: "nats \<Rightarrow> string + StreamConfig list" where
  "ensureStreams N =
     (case ensureStream N StreamTasks [''tasks.*''] WorkQueuePolicy TasksTTLSec TasksMaxBytes of
        Inl e \<Rightarrow> Inl e
      | Inr t \<Rightarrow>
          (case ensureStream N StreamResults [''results.*''] LimitsPolicy ResultsTTLSec ResultsMaxBytes of
             Inl e \<Rightarrow> Inl e
           | Inr r \<Rightarrow> Inr [t, r]))"

definition NewClient :: "nats \<Rightarrow> (string \<Rightarrow> string) \<Rightarrow> string \<Rightarrow> string + 's Client" where
  "NewClient N env natsURL =
     (let url = (if natsURL = [] then getNatsURL env else natsURL) in
      case js_connect N url of
        Inl e \<Rightarrow> Inl (''failed to connect to NATS: '' @ e)
      | Inr _ \<Rightarrow>
          (case js_new N of
             Inl e \<Rightarrow> Inl (''failed to create JetStream context: '' @ e)
           | Inr _ \<Rightarrow>
               (case ensureStreams N of
                  Inl e \<Rightarrow> Inl e
                | Inr _ \<Rightarrow> Inr \<lparr>cl_natsURL = url, cl_nc = Some True, cl_nodeID = ''secagent-server'',
                                cl_wsSendFn = None, cl_resultFn = None, cl_consumers = []\<rparr>)))"

definition IsConnected :: "'s Client \<Rightarrow> bool" where
  "IsConnected c \<longleftrightarrow> cl_nc c = Some True"

definition Close :: "'s Client \<Rightarrow> 's Client" where
  "Close c = (case cl_nc c of
                Some True \<Rightarrow> c\<lparr>cl_consumers := [], cl_nc := Some False\<rparr>
              | _ \<Rightarrow> c\<lparr>cl_consumers := []\<rparr>)"

section \<open>Publishing\<close>

definition task_subject :: "string \<Rightarrow> string" where "task_subject hostname = ''tasks.'' @ hostname"
definition result_subject :: "string \<Rightarrow> string" where "result_subject taskID = ''results.'' @ taskID"

definition PublishTask :: "nats \<Rightarrow> string \<Rightarrow> json \<Rightarrow> string option" where
  "PublishTask N hostname payload =
     (case js_publish N (task_subject hostname) payload of
        Inl e \<Rightarrow> Some (''failed to publish task to '' @ task_subject hostname @ '': '' @ e)
      | Inr _ \<Rightarrow> None)"

definition PublishResult :: "nats \<Rightarrow> string \<Rightarrow> json \<Rightarrow> string option" where
  "PublishResult N taskID payload =
     (case js_publish N (result_subject taskID) payload of
        Inl e \<Rightarrow> Some (''failed to publish result to '' @ result_subject taskID @ '': '' @ e)
      | Inr _ \<Rightarrow> None)"

section \<open>Subscribing\<close>

text \<open>The subscription of a node: the callback is set first, the consumer is kept if all steps succeed.\<close>

definition subscribe :: "nats \<Rightarrow> string \<Rightarrow> ConsumerConfig \<Rightarrow> 's Client \<Rightarrow> string option \<times> 's Client" where
  "subscribe N kind config c =
     (case js_lookup N (cc_Stream config) of
        Inl e \<Rightarrow> (Some (''failed to get '' @ kind @ '' stream: '' @ e), c)
      | Inr _ \<Rightarrow>
          (case js_consumer N config of
             Inl e \<Rightarrow> (Some (''failed to create '' @ kind @ '' consumer: '' @ e), c)
           | Inr _ \<Rightarrow>
               (case js_consume N config of
                  Inl e \<Rightarrow> (Some (''failed to subscribe to '' @ kind @ '': '' @ e), c)
                | Inr _ \<Rightarrow> (None, c\<lparr>cl_consumers := cl_consumers c @ [config]\<rparr>))))"

definition tasks_consumer :: "'s Client \<Rightarrow> ConsumerConfig" where
  "tasks_consumer c = \<lparr>cc_Stream = StreamTasks, cc_Durable = ''secagent-server-'' @ cl_nodeID c @ ''-tasks'',
     cc_MaxDeliver = 1, cc_FilterSubject = SubjectTasks\<rparr>"

definition results_consumer :: "'s Client \<Rightarrow> ConsumerConfig" where
  "results_consumer c = \<lparr>cc_Stream = StreamResults, cc_Durable = ''secagent-server-'' @ cl_nodeID c @ ''-results'',
     cc_MaxDeliver = 1, cc_FilterSubject = SubjectResults\<rparr>"

definition SubscribeTasks ::
  "nats \<Rightarrow> (string \<Rightarrow> json \<Rightarrow> 's \<Rightarrow> string option \<times> 's) \<Rightarrow> 's Client \<Rightarrow> string option \<times> 's Client" where
  "SubscribeTasks N send c =
     (let c = c\<lparr>cl_wsSendFn := Some send\<rparr> in subscribe N ''tasks'' (tasks_consumer c) c)"

definition SubscribeResults ::
  "nats \<Rightarrow> (string \<Rightarrow> json \<Rightarrow> 's \<Rightarrow> string option \<times> 's) \<Rightarrow> 's Client \<Rightarrow> string option \<times> 's Client" where
  "SubscribeResults N deliver c =
     (let c = c\<lparr>cl_resultFn := Some deliver\<rparr> in subscribe N ''results'' (results_consumer c) c)"

section \<open>Consuming\<close>

datatype disposition = Ack | Nak

text \<open>The payload as the Go map it is decoded into; the text \<open>null\<close> gives the nil map.\<close>

definition decode_payload :: "json option \<Rightarrow> json option" where
  "decode_payload data =
     (case Option.bind data unmarshal_map of
        None \<Rightarrow> None
      | Some NilMap \<Rightarrow> Some JNull
      | Some (MapOf m) \<Rightarrow> Some (JObj m))"

definition onTaskMessage :: "'s Client \<Rightarrow> string \<Rightarrow> json option \<Rightarrow> 's \<Rightarrow> disposition \<times> 's" where
  "onTaskMessage c subject data s =
     (case decode_payload data of
        None \<Rightarrow> (Ack, s)
      | Some payload \<Rightarrow>
          let hostname = (if 6 < length subject then drop 6 subject else []) in
          if hostname = [] then (Ack, s)
          else (case cl_wsSendFn c of
                  None \<Rightarrow> (Nak, s)
                | Some send \<Rightarrow>
                    (case send hostname payload s of
                       (Some _, s') \<Rightarrow> (Nak, s')
                     | (None, s') \<Rightarrow> (Ack, s'))))"

text \<open>A result is acknowledged before it is delivered; an error of the callback is only logged.\<close>

definition onResultMessage :: "'s Client \<Rightarrow> string \<Rightarrow> json option \<Rightarrow> 's \<Rightarrow> disposition \<times> 's" where
  "onResultMessage c subject data s =
     (case decode_payload data of
        None \<Rightarrow> (Ack, s)
      | Some payload \<Rightarrow>
          let taskID = (if 8 < length subject then drop 8 subject else []) in
          (case cl_resultFn c of
             Some deliver \<Rightarrow> if taskID \<noteq> [] then (Ack, snd (deliver taskID payload s)) else (Ack, s)
           | None \<Rightarrow> (Ack, s)))"

section \<open>Tasks across nodes\<close>

text \<open>The node that holds the agents: its client sends through the hub.\<close>

definition node_client :: "nats \<Rightarrow> (string \<Rightarrow> string) \<Rightarrow> string \<Rightarrow> string + hub Client" where
  "node_client N env url =
     (case NewClient N env url of
        Inl e \<Rightarrow> Inl e
      | Inr c \<Rightarrow> (case SubscribeTasks N SendToAgent c of (Some e, _) \<Rightarrow> Inl e | (None, c) \<Rightarrow> Inr c))"

lemma NewClient_fields:
  "NewClient N env url = Inr c \<Longrightarrow> cl_nodeID c = ''secagent-server'' \<and> cl_wsSendFn c = None \<and> cl_resultFn c = None"
  by (auto simp: NewClient_def Let_def split: sum.splits)

lemma subscribe_fields:
  "subscribe N kind config c = (None, c') \<Longrightarrow> c' = c\<lparr>cl_consumers := cl_consumers c @ [config]\<rparr>"
  by (auto simp: subscribe_def split: sum.splits)

lemma node_client_fields:
  assumes "node_client N env url = Inr c"
  shows "cl_wsSendFn c = Some SendToAgent"
    "tasks_consumer c = \<lparr>cc_Stream = StreamTasks, cc_Durable = ''secagent-server-secagent-server-tasks'',
       cc_MaxDeliver = 1, cc_FilterSubject = SubjectTasks\<rparr>"
  using assms
  by (auto simp: node_client_def SubscribeTasks_def Let_def tasks_consumer_def split: sum.splits prod.splits option.splits
      dest!: subscribe_fields NewClient_fields)

text \<open>Every node has the same durable consumer, and a message is delivered to it once: what a node
  refuses with NAK because the agent is connected elsewhere reaches no other node.\<close>

lemma nodes_share_consumer:
  "node_client N1 env1 url1 = Inr c1 \<Longrightarrow> node_client N2 env2 url2 = Inr c2 \<Longrightarrow>
   tasks_consumer c1 = tasks_consumer c2 \<and> cc_MaxDeliver (tasks_consumer c1) = 1"
  by (simp add: node_client_fields)


definition example_nats :: nats where
  "example_nats = \<lparr>js_connect = (\<lambda>_. Inr ()), js_new = Inr (), js_stream = (\<lambda>_. Inr ()), js_lookup = (\<lambda>_. Inr ()),
     js_consumer = (\<lambda>_. Inr ()), js_consume = (\<lambda>_. Inr ()), js_publish = (\<lambda>_ _. Inr 1)\<rparr>"


end
