(* ===== verification/CliClient.thy ===== *)
theory CliClient
  imports HttpClient
begin

text \<open>
  The shared part of the command line (\<open>internal/cli/client.go\<close>): where the administration API is,
  the authenticated request, exit codes and output. The environment, the parser's flag
  \<open>--format\<close>, the text of composite values and quoting (\<open>%q\<close>) are in \<open>cli_env\<close>; the
  text of an error of the JSON decoder is left out of the messages.
\<close>

section \<open>Results\<close>

text \<open>A value in a named format, a table with its header, or plain lines.\<close>

datatype printed = Document string json | Table "string list list" | Lines "string list"

record cli_result =
  ex_Code :: int
  ex_Out :: "printed option"
  ex_Err :: string

definition succeed :: "printed option \<Rightarrow> cli_result" where
  "succeed out = \<lparr>ex_Code = 0, ex_Out = out, ex_Err = []\<rparr>"

text \<open>An error of a command is printed by \<open>Execute\<close>, which exits with 1.\<close>

definition Execute_error :: "string \<Rightarrow> cli_result" where
  "Execute_error e = \<lparr>ex_Code = 1, ex_Out = None, ex_Err = e\<rparr>"

record cli_env =
  ce_getenv :: "string \<Rightarrow> string"
  ce_Format :: string
  ce_Composite :: "json \<Rightarrow> string"
  ce_JsonText :: "json \<Rightarrow> string"
  ce_Quote :: "string \<Rightarrow> string"

section \<open>The request\<close>

definition apiURL :: "cli_env \<Rightarrow> string" where
  "apiURL E = (let u = ce_getenv E ''RELAY_API_URL'' in
     if u \<noteq> [] then rev (dropWhile (\<lambda>c. c = CHR ''/'') (rev u)) else ''http://localhost:7771'')"

definition checkHTTPS :: "string \<Rightarrow> bool" where
  "checkHTTPS u \<longleftrightarrow>
     (let isLocal = (Contains u ''localhost'' \<or> Contains u ''127.0.0.1'')
      in isLocal \<or> \<not> HasPrefix u ''http://'')"

definition adminToken :: "cli_env \<Rightarrow> string" where
  "adminToken E = ce_getenv E ''ADMIN_TOKEN''"

definition cli_request :: "cli_env \<Rightarrow> string \<Rightarrow> string \<Rightarrow> json option \<Rightarrow> client_request" where
  "cli_request E method path body =
     \<lparr>cr_Method = method, cr_URL = apiURL E @ path,
      cr_Header = (''Authorization'', ''Bearer '' @ adminToken E)
        # (if body \<noteq> None then [(''Content-Type'', ''application/json'')] else []),
      cr_Body = body\<rparr>"

text \<open>The dash of the messages is U+2014.\<close>

definition em_dash :: string where
  "em_dash = [char_of (226::nat), char_of (128::nat), char_of (148::nat)]"

definition squoted :: "string \<Rightarrow> string" where
  "squoted s = char_of (39::nat) # s @ [char_of (39::nat)]"

definition apiRequest ::
  "cli_env \<Rightarrow> 's http_do \<Rightarrow> string \<Rightarrow> string \<Rightarrow> json option \<Rightarrow> ('s, string + client_reply) state" where
  "apiRequest E client method path body =
     (if \<not> checkHTTPS (apiURL E) then
        State_Monad.return (Inl (''RELAY_API_URL uses http:// for a non-local address '' @ em_dash
          @ '' use https:// to protect ADMIN_TOKEN in transit''))
      else do {
        resp \<leftarrow> client (cli_request E method path body);
        State_Monad.return (case resp of Inl e \<Rightarrow> Inl (''http: '' @ e) | Inr rp \<Rightarrow> Inr rp)
      })"

section \<open>Exit codes\<close>

text \<open>The member \<open>error\<close> of the body decoded into a map of strings.\<close>

definition error_member :: "client_reply \<Rightarrow> string" where
  "error_member rp =
     (case rp_Json rp of
        Some (JObj ps) \<Rightarrow>
          (case filter (\<lambda>kv. fst kv = ''error'') (rev ps) of
             (_, JStr s) # _ \<Rightarrow> s
           | _ \<Rightarrow> [])
      | _ \<Rightarrow> [])"

definition checkError :: "client_reply \<Rightarrow> int \<times> string" where
  "checkError rp =
     (if rp_Status rp \<in> {200, 201} then (0, [])
      else if rp_Status rp = 404 then (2, ''Error: not found '' @ em_dash @ '' '' @ error_member rp)
      else if rp_Status rp \<in> {401, 403} then (1, ''Error: unauthorized '' @ em_dash @ '' check ADMIN_TOKEN'')
      else (let msg = (if error_member rp = [] then rp_Text rp else error_member rp)
            in (1, ''Error: '' @ msg @ '' (HTTP '' @ show_nat (nat (rp_Status rp)) @ '')'')))"

text \<open>The steps every command shares: the request, the exit code of a refusal, and the rest.\<close>

definition api_call ::
  "cli_env \<Rightarrow> 's http_do \<Rightarrow> string \<Rightarrow> string \<Rightarrow> json option \<Rightarrow> (client_reply \<Rightarrow> cli_result)
   \<Rightarrow> ('s, cli_result) state" where
  "api_call E client method path body rest = do {
     resp \<leftarrow> apiRequest E client method path body;
     State_Monad.return
       (case resp of
          Inl e \<Rightarrow> Execute_error e
        | Inr rp \<Rightarrow>
            (case checkError rp of (code, msg) \<Rightarrow>
               if code \<noteq> 0 then \<lparr>ex_Code = code, ex_Out = None, ex_Err = msg\<rparr> else rest rp))
   }"

section \<open>Output\<close>

text \<open>
  The verbs \<open>%s\<close> and \<open>%v\<close> on the value of a map entry (\<open>None\<close>: absent). Numbers are printed as
  integers, which is what the server sends.
\<close>

definition show_int :: "int \<Rightarrow> string" where
  "show_int n = (if n < 0 then CHR ''-'' # show_nat (nat (- n)) else show_nat (nat n))"

definition fmt_v :: "cli_env \<Rightarrow> json option \<Rightarrow> string" where
  "fmt_v E v =
     (case v of
        None \<Rightarrow> ''<nil>''
      | Some JNull \<Rightarrow> ''<nil>''
      | Some (JBool b) \<Rightarrow> (if b then ''true'' else ''false'')
      | Some (JNum n) \<Rightarrow> show_int n
      | Some (JStr s) \<Rightarrow> s
      | Some j \<Rightarrow> ce_Composite E j)"

definition fmt_s :: "cli_env \<Rightarrow> json option \<Rightarrow> string" where
  "fmt_s E v =
     (case v of
        None \<Rightarrow> ''%!s(<nil>)''
      | Some JNull \<Rightarrow> ''%!s(<nil>)''
      | Some (JBool b) \<Rightarrow> ''%!s(bool='' @ (if b then ''true'' else ''false'') @ '')''
      | Some (JNum n) \<Rightarrow> ''%!s(float64='' @ show_int n @ '')''
      | Some (JStr s) \<Rightarrow> s
      | Some j \<Rightarrow> ce_Composite E j)"

text \<open>\<open>json.Unmarshal\<close> into a map, and into a slice of maps: the value as it is printed again, and its entries.\<close>

definition decode_object :: "json \<Rightarrow> (json \<times> (string, json) gomap) option" where
  "decode_object j =
     (case j of
        JNull \<Rightarrow> Some (JNull, [])
      | JObj ps \<Rightarrow> (let m = fold (\<lambda>(k, v) m. mput k v m) ps [] in Some (JObj m, m))
      | _ \<Rightarrow> None)"

definition decode_objects :: "json \<Rightarrow> (json \<times> (string, json) gomap list) option" where
  "decode_objects j =
     (case j of
        JNull \<Rightarrow> Some (JNull, [])
      | JArr js \<Rightarrow>
          (let ds = map decode_object js in
           if None \<in> set ds then None
           else Some (JArr (map (fst \<circ> the) ds), map (snd \<circ> the) ds))
      | _ \<Rightarrow> None)"

definition parse_reply :: "(json \<Rightarrow> 'a option) \<Rightarrow> client_reply \<Rightarrow> ('a \<Rightarrow> cli_result) \<Rightarrow> cli_result" where
  "parse_reply decode rp show =
     (case Option.bind (rp_Json rp) decode of
        None \<Rightarrow> Execute_error ''parse response''
      | Some v \<Rightarrow> show v)"

definition printOutput :: "cli_env \<Rightarrow> json \<Rightarrow> printed \<Rightarrow> cli_result" where
  "printOutput E v table =
     succeed (Some (if ce_Format E = ''json'' \<or> ce_Format E = ''yaml'' then Document (ce_Format E) v else table))"

text \<open>
  A table with one row for each object, each column a key with its verb, and one with a row for each
  of some fields of one object.
\<close>

abbreviation row_of :: "((json option \<Rightarrow> string) \<times> string) list \<Rightarrow> (string, json) gomap \<Rightarrow> string list" where
  "row_of cols m \<equiv> map (\<lambda>(verb, k). verb (mget m k)) cols"

abbreviation field_rows :: "(json option \<Rightarrow> string) \<Rightarrow> string list \<Rightarrow> (string, json) gomap \<Rightarrow> string list list" where
  "field_rows verb ks m \<equiv> map (\<lambda>k. [k, verb (mget m k)]) ks"

end
