(* ===== verification/Cli.thy ===== *)
theory Cli
  imports CliClient
begin

text \<open>
  The commands for agents, security, inventory and status (\<open>internal/cli/minions.go\<close>,
  \<open>security.go\<close>, \<open>inventory.go\<close>, \<open>server.go\<close>). The parser of the command line checks the
  number of arguments, so that each command takes them one by one.
\<close>

section \<open>minions\<close>

text \<open>A command that only reports success in one line.\<close>

definition api_action ::
  "cli_env \<Rightarrow> 's http_do \<Rightarrow> string \<Rightarrow> string \<Rightarrow> json option \<Rightarrow> string \<Rightarrow> ('s, cli_result) state" where
  "api_action E client method path body msg =
     api_call E client method path body (\<lambda>_. succeed (Some (Lines [msg])))"

definition minionsListCmd :: "cli_env \<Rightarrow> 's http_do \<Rightarrow> ('s, cli_result) state" where
  "minionsListCmd E client = api_call E client ''GET'' ''/api/admin/minions'' None (\<lambda>rp.
     parse_reply decode_objects rp (\<lambda>(v, agents). printOutput E v (Table
       ([''HOSTNAME'', ''STATUS'', ''SUSPENDED'', ''LAST_SEEN'', ''ENROLLED_AT'']
        # map (row_of [(fmt_s E, ''hostname''), (fmt_s E, ''status''), (fmt_v E, ''suspended''),
                       (fmt_s E, ''last_seen''), (fmt_s E, ''enrolled_at'')]) agents))))"

definition minionsGetCmd :: "cli_env \<Rightarrow> 's http_do \<Rightarrow> string \<Rightarrow> ('s, cli_result) state" where
  "minionsGetCmd E client hostname = api_call E client ''GET'' (''/api/admin/minions/'' @ hostname) None (\<lambda>rp.
     parse_reply decode_object rp (\<lambda>(v, agent). printOutput E v (Table (field_rows (fmt_v E)
       [''hostname'', ''status'', ''suspended'', ''last_seen'', ''enrolled_at'', ''key_fingerprint''] agent))))"

definition minionsSetStateCmd :: "cli_env \<Rightarrow> 's http_do \<Rightarrow> string \<Rightarrow> string \<Rightarrow> ('s, cli_result) state" where
  "minionsSetStateCmd E client hostname st =
     (if st \<noteq> ''connected'' \<and> st \<noteq> ''disconnected'' then
        State_Monad.return (Execute_error (''state must be '' @ squoted ''connected'' @ '' or '' @ squoted ''disconnected''))
      else api_action E client ''POST'' (''/api/admin/minions/'' @ hostname @ ''/set-state'')
             (Some (JObj [(''status'', JStr st)])) (''Agent '' @ hostname @ '' state set to '' @ st))"

definition minionsSuspendCmd :: "cli_env \<Rightarrow> 's http_do \<Rightarrow> string \<Rightarrow> ('s, cli_result) state" where
  "minionsSuspendCmd E client hostname =
     api_action E client ''POST'' (''/api/admin/minions/'' @ hostname @ ''/suspend'') None
       (''Agent '' @ hostname @ '' suspended'')"

definition minionsResumeCmd :: "cli_env \<Rightarrow> 's http_do \<Rightarrow> string \<Rightarrow> ('s, cli_result) state" where
  "minionsResumeCmd E client hostname =
     api_action E client ''POST'' (''/api/admin/minions/'' @ hostname @ ''/resume'') None
       (''Agent '' @ hostname @ '' resumed'')"

definition minionsRevokeCmd :: "cli_env \<Rightarrow> 's http_do \<Rightarrow> string \<Rightarrow> ('s, cli_result) state" where
  "minionsRevokeCmd E client hostname =
     api_action E client ''POST'' (''/api/admin/revoke/'' @ hostname) None (''Agent '' @ hostname @ '' revoked'')"

text \<open>\<open>key_file\<close> is the flag \<open>--key-file\<close>, \<open>read\<close> is \<open>os.ReadFile\<close>.\<close>

definition minionsAuthorizeCmd ::
  "cli_env \<Rightarrow> 's http_do \<Rightarrow> (string \<Rightarrow> string + string) \<Rightarrow> string \<Rightarrow> string \<Rightarrow> ('s, cli_result) state" where
  "minionsAuthorizeCmd E client read key_file hostname =
     (if key_file = [] then State_Monad.return (Execute_error ''--key-file is required'')
      else case read key_file of
             Inl e \<Rightarrow> State_Monad.return (Execute_error (''read key file: '' @ e))
           | Inr keyBytes \<Rightarrow>
               api_action E client ''POST'' ''/api/admin/authorize''
                 (Some (JObj [(''approved_by'', JStr ''cli''), (''hostname'', JStr hostname),
                              (''public_key_pem'', JStr keyBytes)]))
                 (''Key authorized for '' @ hostname))"

text \<open>The rows follow the order of the map.\<close>

definition minionsVarsGetCmd :: "cli_env \<Rightarrow> 's http_do \<Rightarrow> string \<Rightarrow> ('s, cli_result) state" where
  "minionsVarsGetCmd E client hostname =
     api_call E client ''GET'' (''/api/admin/minions/'' @ hostname @ ''/vars'') None (\<lambda>rp.
       parse_reply decode_object rp (\<lambda>(v, vars). printOutput E v
         (Table ([''KEY'', ''VALUE''] # map (\<lambda>(k, val). [k, fmt_v E (Some val)]) vars))))"

text \<open>\<open>strings.SplitN(pair, "=", 2)\<close> on every pair: \<open>None\<close> if one has no equals sign.\<close>

fun parse_pairs :: "string list \<Rightarrow> (string, json) gomap \<Rightarrow> string + (string, json) gomap" where
  "parse_pairs [] m = Inr m"
| "parse_pairs (pair # rest) m =
     (if CHR ''='' \<in> set pair
      then (case split_at CHR ''='' pair of (k, v) \<Rightarrow> parse_pairs rest (mput k (JStr v) m))
      else Inl pair)"

definition minionsVarsSetCmd :: "cli_env \<Rightarrow> 's http_do \<Rightarrow> string \<Rightarrow> string list \<Rightarrow> ('s, cli_result) state" where
  "minionsVarsSetCmd E client hostname pairs =
     (case parse_pairs pairs [] of
        Inl pair \<Rightarrow> State_Monad.return (Execute_error (''invalid key=value pair: '' @ ce_Quote E pair))
      | Inr kvPairs \<Rightarrow>
          api_action E client ''POST'' (''/api/admin/minions/'' @ hostname @ ''/vars'') (Some (JObj kvPairs))
            (''Vars updated for '' @ hostname))"

definition minionsVarsDeleteCmd :: "cli_env \<Rightarrow> 's http_do \<Rightarrow> string \<Rightarrow> string \<Rightarrow> ('s, cli_result) state" where
  "minionsVarsDeleteCmd E client hostname key =
     api_action E client ''DELETE'' (''/api/admin/minions/'' @ hostname @ ''/vars/'' @ key) None
       (''Var '' @ ce_Quote E key @ '' deleted from '' @ hostname)"

section \<open>security\<close>

definition securityKeysStatusCmd :: "cli_env \<Rightarrow> 's http_do \<Rightarrow> ('s, cli_result) state" where
  "securityKeysStatusCmd E client = api_call E client ''GET'' ''/api/admin/security/keys/status'' None (\<lambda>rp.
     parse_reply decode_object rp (\<lambda>(v, m). printOutput E v (Table ([''FIELD'', ''VALUE'']
       # field_rows (\<lambda>val. case val of None \<Rightarrow> [] | Some JNull \<Rightarrow> [] | _ \<Rightarrow> fmt_v E val)
           [''current_key_sha256'', ''previous_key_sha256'', ''rotation_active'', ''deadline'', ''agents_total''] m))))"

text \<open>\<open>grace\<close> is the flag \<open>--grace\<close>; without it no body is sent.\<close>

definition securityKeysRotateCmd :: "cli_env \<Rightarrow> 's http_do \<Rightarrow> string \<Rightarrow> ('s, cli_result) state" where
  "securityKeysRotateCmd E client grace = api_call E client ''POST'' ''/api/admin/keys/rotate''
     (if grace \<noteq> [] then Some (JObj [(''grace'', JStr grace)]) else None) (\<lambda>rp.
     parse_reply decode_object rp (\<lambda>(v, m). printOutput E v (Table ([''FIELD'', ''VALUE'']
       # field_rows (fmt_v E)
           [''current_key_sha256'', ''previous_key_sha256'', ''deadline'', ''agents_migrated'', ''agents_total''] m))))"

definition securityTokensListCmd :: "cli_env \<Rightarrow> 's http_do \<Rightarrow> ('s, cli_result) state" where
  "securityTokensListCmd E client = api_call E client ''GET'' ''/api/admin/security/tokens'' None (\<lambda>rp.
     parse_reply decode_objects rp (\<lambda>(v, tokens). printOutput E v (Table
       ([''HOSTNAME'', ''JTI'', ''STATUS'', ''LAST_SEEN'']
        # map (row_of (map (Pair (fmt_s E)) [''hostname'', ''jti'', ''status'', ''last_seen''])) tokens))))"

definition securityBlacklistListCmd :: "cli_env \<Rightarrow> 's http_do \<Rightarrow> ('s, cli_result) state" where
  "securityBlacklistListCmd E client = api_call E client ''GET'' ''/api/admin/security/blacklist'' None (\<lambda>rp.
     parse_reply decode_objects rp (\<lambda>(v, entries). printOutput E v (Table
       ([''JTI'', ''HOSTNAME'', ''REASON'', ''REVOKED_AT'', ''EXPIRES_AT'']
        # map (row_of (map (Pair (fmt_s E)) [''jti'', ''hostname'', ''reason'', ''revoked_at'', ''expires_at'']))
            entries))))"

definition securityBlacklistPurgeCmd :: "cli_env \<Rightarrow> 's http_do \<Rightarrow> ('s, cli_result) state" where
  "securityBlacklistPurgeCmd E client = api_call E client ''POST'' ''/api/admin/security/blacklist/purge'' None (\<lambda>rp.
     parse_reply decode_object rp (\<lambda>(v, result). succeed (Some (Lines
       [''Purged '' @ fmt_v E (mget result ''deleted'') @ '' expired blacklist entries'']))))"

section \<open>inventory\<close>

definition object_member :: "string \<Rightarrow> (string, json) gomap \<Rightarrow> (string, json) gomap option" where
  "object_member k m = (case mget m k of Some (JObj ps) \<Rightarrow> map_option snd (decode_object (JObj ps)) | _ \<Rightarrow> None)"

definition inventoryListCmd :: "cli_env \<Rightarrow> 's http_do \<Rightarrow> bool \<Rightarrow> ('s, cli_result) state" where
  "inventoryListCmd E client onlyConnected = api_call E client ''GET''
     (''/api/inventory'' @ (if onlyConnected then ''?only_connected=true'' else [])) None (\<lambda>rp.
     parse_reply decode_object rp (\<lambda>(v, m). printOutput E v (Table
       (case Option.bind (object_member ''_meta'' m) (object_member ''hostvars'') of
          None \<Rightarrow> []
        | Some hostvars \<Rightarrow> [''HOSTNAME'', ''VARS''] # map (\<lambda>(host, vars). [host, ce_JsonText E vars]) hostvars))))"

section \<open>server\<close>

definition serverStatusCmd :: "cli_env \<Rightarrow> 's http_do \<Rightarrow> ('s, cli_result) state" where
  "serverStatusCmd E client = api_call E client ''GET'' ''/api/admin/status'' None (\<lambda>rp.
     parse_reply decode_object rp (\<lambda>(v, m). printOutput E v (Table ([''COMPONENT'', ''STATUS'']
       # field_rows (fmt_v E) [''nats'', ''db'', ''ws_connections'', ''uptime''] m))))"

definition serverStatsCmd :: "cli_env \<Rightarrow> 's http_do \<Rightarrow> ('s, cli_result) state" where
  "serverStatsCmd E client = api_call E client ''GET'' ''/api/admin/stats'' None (\<lambda>rp.
     parse_reply decode_object rp (\<lambda>(v, m). printOutput E v (Table ([''METRIC'', ''VALUE'']
       # field_rows (fmt_v E) [''agents_connected'', ''agents_total'', ''tasks_active''] m))))"

end
