(* ===== verification/CliTokens.thy ===== *)
theory CliTokens
  imports Cli
begin

text \<open>
  The commands for enrollment and plugin tokens and for the hooks (\<open>internal/cli/tokens.go\<close>,
  \<open>hooks.go\<close>). The flags of a command are its arguments; \<open>now\<close> is the clock of the client.
  The text of an error of a library is left out of the messages.
\<close>

section \<open>Durations and addresses\<close>

definition HasSuffix :: "string \<Rightarrow> string \<Rightarrow> bool" where
  "HasSuffix s e = HasPrefix (rev s) (rev e)"

text \<open>\<open>Nd\<close> is N days of 24 hours in UTC; otherwise a Go duration or an RFC 3339 time.\<close>

definition parseDuration :: "ext \<Rightarrow> time \<Rightarrow> string \<Rightarrow> string + time" where
  "parseDuration X now s0 =
     (let s = TrimSpace s0 in
      if HasSuffix s ''d'' then
        (case Atoi (butlast s) of
           None \<Rightarrow> Inl ''invalid day count''
         | Some n \<Rightarrow> if n \<le> 0 then Inl ''invalid day count'' else Inr (now + n * 86400 * 1000000000))
      else case parse_duration X s of
             Some d \<Rightarrow> if d \<le> 0 then Inl ''duration must be positive'' else Inr (now + d)
           | None \<Rightarrow>
               (case parse_time X s of
                  Some t \<Rightarrow> Inr t
                | None \<Rightarrow> Inl ''unrecognised duration format''))"

definition cidr_ok :: "ext \<Rightarrow> string \<Rightarrow> bool" where
  "cidr_ok X s \<longleftrightarrow>
     (let entry = TrimSpace s in entry = [] \<or> parse_ip X entry \<noteq> None \<or> cidr_contains X entry \<noteq> None)"

text \<open>The first invalid entry, if any.\<close>

definition validateCIDRs :: "ext \<Rightarrow> string \<Rightarrow> string option" where
  "validateCIDRs X cidrList = map_option TrimSpace (List.find (\<lambda>s. \<not> cidr_ok X s) (split_on CHR '','' cidrList))"

section \<open>tokens\<close>

record create_flags =
  cf_role :: string
  cf_hostnamePattern :: string
  cf_reusable :: bool
  cf_expires :: string
  cf_description :: string
  cf_allowedIPs :: string
  cf_allowedHostname :: string

text \<open>What the flags of a role add to the body, or the error; \<open>regexp.Compile\<close> accepts what can be matched.\<close>

definition role_body :: "ext \<Rightarrow> create_flags \<Rightarrow> string + (string, json) gomap" where
  "role_body X f =
     (if cf_role f = ''enrollment'' then
        (if TrimSpace (cf_hostnamePattern f) = [] then Inl ''--hostname-pattern is required for enrollment tokens''
         else if match_regexp X (cf_hostnamePattern f) [] = None then Inl ''invalid --hostname-pattern regexp''
         else Inr [(''hostname_pattern'', JStr (cf_hostnamePattern f)),
                   (''reusable'', JNum (if cf_reusable f then 1 else 0))])
      else
        (case (if cf_allowedIPs f = [] then None else validateCIDRs X (cf_allowedIPs f)) of
           Some entry \<Rightarrow> Inl (''invalid CIDR '' @ entry)
         | None \<Rightarrow>
             if cf_allowedHostname f \<noteq> [] \<and> match_regexp X (cf_allowedHostname f) [] = None then
               Inl ''invalid --allowed-hostname-pattern regexp''
             else Inr [(''description'', JStr (cf_description f)), (''allowed_ips'', JStr (cf_allowedIPs f)),
                       (''allowed_hostname_pattern'', JStr (cf_allowedHostname f))]))"

definition expiry_body :: "ext \<Rightarrow> time \<Rightarrow> create_flags \<Rightarrow> string + (string, json) gomap" where
  "expiry_body X now f =
     (if cf_expires f = [] \<or> cf_expires f = ''never'' then Inr []
      else case parseDuration X now (cf_expires f) of
             Inl e \<Rightarrow> Inl (''invalid --expires value: '' @ e)
           | Inr t \<Rightarrow> Inr [(''expires_at'', JStr (format_time X t))])"

definition create_body :: "ext \<Rightarrow> time \<Rightarrow> create_flags \<Rightarrow> string + json" where
  "create_body X now f =
     (if cf_role f \<noteq> ''enrollment'' \<and> cf_role f \<noteq> ''plugin'' then Inl (''--role must be '' @ squoted ''enrollment'' @ '' or '' @ squoted ''plugin'')
      else case role_body X f of
             Inl e \<Rightarrow> Inl e
           | Inr members \<Rightarrow>
               (case expiry_body X now f of
                  Inl e \<Rightarrow> Inl e
                | Inr expiry \<Rightarrow> Inr (JObj ((''role'', JStr (cf_role f)) # members @ expiry))))"

text \<open>A line of the created token, for a member that is a string and not empty.\<close>

definition optional_line :: "string \<Rightarrow> string \<Rightarrow> (string, json) gomap \<Rightarrow> string list" where
  "optional_line label k r = (case mget r k of Some (JStr s) \<Rightarrow> if s = [] then [] else [label @ s] | _ \<Rightarrow> [])"

definition created_lines :: "cli_env \<Rightarrow> (string, json) gomap \<Rightarrow> string list" where
  "created_lines E r =
     [''Token created successfully.'', [],
      ''  Token (save now '' @ em_dash @ '' shown only once): '' @ fmt_s E (mget r ''token''),
      ''  ID:         '' @ fmt_s E (mget r ''id''), ''  Role:       '' @ fmt_s E (mget r ''role'')]
     @ optional_line ''  Pattern:    '' ''hostname_pattern'' r
     @ optional_line ''  Desc:       '' ''description'' r
     @ optional_line ''  Allowed IPs: '' ''allowed_ips'' r
     @ optional_line ''  Hostname pattern: '' ''allowed_hostname_pattern'' r
     @ (let e = optional_line ''  Expires:    '' ''expires_at'' r in if e = [] then [''  Expires:    never''] else e)
     @ [''  Created:    '' @ fmt_s E (mget r ''created_at'')]"

definition tokensCreateCmd :: "cli_env \<Rightarrow> 's http_do \<Rightarrow> ext \<Rightarrow> time \<Rightarrow> create_flags \<Rightarrow> ('s, cli_result) state" where
  "tokensCreateCmd E client X now f =
     (case create_body X now f of
        Inl e \<Rightarrow> State_Monad.return (Execute_error e)
      | Inr body \<Rightarrow> api_call E client ''POST'' ''/api/admin/tokens'' (Some body) (\<lambda>rp.
          parse_reply decode_object rp (\<lambda>(v, r). printOutput E v (Lines (created_lines E r)))))"

definition token_row_cells :: "cli_env \<Rightarrow> (string, json) gomap \<Rightarrow> string list" where
  "token_row_cells E t =
     (let hash = fmt_v E (mget t ''token_hash'');
          hash = (if 16 < length hash then take 16 hash @ ''...'' else hash);
          label = (case optional_line [] ''hostname_pattern'' t @ optional_line [] ''description'' t of
                     [] \<Rightarrow> [] | l # _ \<Rightarrow> l);
          expires = (case optional_line [] ''expires_at'' t of [] \<Rightarrow> ''-'' | l # _ \<Rightarrow> l);
          present = (\<lambda>k. case mget t k of None \<Rightarrow> ''-'' | v \<Rightarrow> fmt_v E v)
      in [fmt_s E (mget t ''id''), fmt_v E (mget t ''role''), hash, label, expires, present ''use_count'',
          present ''revoked''])"

text \<open>\<open>role\<close> is the flag \<open>--role\<close>, empty when it is not given.\<close>

definition tokensListCmd :: "cli_env \<Rightarrow> 's http_do \<Rightarrow> string \<Rightarrow> ('s, cli_result) state" where
  "tokensListCmd E client role =
     (if role \<noteq> [] \<and> role \<notin> {''enrollment'', ''plugin'', ''all''} then
        State_Monad.return (Execute_error ''--role must be enrollment, plugin, or all'')
      else api_call E client ''GET'' (''/api/admin/tokens'' @ (if role \<noteq> [] then ''?role='' @ role else [])) None (\<lambda>rp.
        parse_reply decode_objects rp (\<lambda>(v, tokens). printOutput E v
          (if tokens = [] then Lines [''No tokens found.'']
           else Table ([''ID'', ''ROLE'', ''HASH (truncated)'', ''PATTERN/DESC'', ''EXPIRES'', ''USED'', ''REVOKED'']
                  # map (token_row_cells E) tokens)))))"

definition tokensRevokeCmd :: "cli_env \<Rightarrow> 's http_do \<Rightarrow> string \<Rightarrow> ('s, cli_result) state" where
  "tokensRevokeCmd E client i =
     api_action E client ''POST'' (''/api/admin/tokens/'' @ i @ ''/revoke'') (Some (JObj [])) (''Token '' @ i @ '' revoked'')"

definition tokensDeleteCmd :: "cli_env \<Rightarrow> 's http_do \<Rightarrow> string \<Rightarrow> ('s, cli_result) state" where
  "tokensDeleteCmd E client i =
     api_action E client ''DELETE'' (''/api/admin/tokens/'' @ i) None (''Token '' @ i @ '' deleted'')"

definition purge_query :: "bool \<Rightarrow> bool \<Rightarrow> string" where
  "purge_query purgeExpired purgeUsed =
     join_with CHR ''&'' ((if purgeExpired then [''expired=1''] else []) @ (if purgeUsed then [''used=1''] else []))"

definition tokensPurgeCmd :: "cli_env \<Rightarrow> 's http_do \<Rightarrow> bool \<Rightarrow> bool \<Rightarrow> ('s, cli_result) state" where
  "tokensPurgeCmd E client purgeExpired purgeUsed =
     (if \<not> purgeExpired \<and> \<not> purgeUsed then
        State_Monad.return (Execute_error ''specify at least one of --expired or --used'')
      else api_call E client ''POST'' (''/api/admin/tokens/purge?'' @ purge_query purgeExpired purgeUsed) (Some (JObj [])) (\<lambda>rp.
        parse_reply decode_object rp (\<lambda>(v, r). printOutput E v (Lines
          [''Purged '' @ fmt_v E (mget r ''deleted_count'') @ '' token(s) at '' @ fmt_s E (mget r ''purged_at'')]))))"

section \<open>hooks\<close>

text \<open>One action in the status of the hooks.\<close>

definition action_text :: "ActionDef \<Rightarrow> string" where
  "action_text a =
     (if ac_Type a \<in> {''webhook'', ''api''} then
        (let m = (if ac_Type a = ''webhook'' \<or> ac_Method a = [] then ''POST'' else ac_Method a)
         in ac_Type a @ ''('' @ m @ '' '' @ ac_URL a @ '')'')
      else if ac_Type a = ''shell'' then ''shell('' @ ac_Cmd a @ '')''
      else if ac_Type a = ''file'' then ''file('' @ ac_Path a @ '')''
      else ac_Type a)"

fun join_texts :: "string list \<Rightarrow> string" where
  "join_texts [] = []"
| "join_texts [a] = a"
| "join_texts (a # as) = a @ '', '' @ join_texts as"

definition rule_line :: "nat \<Rightarrow> string" where
  "rule_line n = concat (replicate n [char_of (226::nat), char_of (148::nat), char_of (128::nat)])"

text \<open>The lines above the table, and the table; this command reads the file itself.\<close>

definition runHooksStatus ::
  "cli_env \<Rightarrow> (string \<Rightarrow> (string + string) option) \<Rightarrow> (string \<Rightarrow> string + HooksConfig) \<Rightarrow> cli_result \<times> string list" where
  "runHooksStatus E read parse =
     (let path = ConfigPath (ce_getenv E) in
      case LoadConfig read parse path of
        Inl e \<Rightarrow> (Execute_error (''hooks config '' @ path @ '': '' @ e), [])
      | Inr None \<Rightarrow> (succeed (Some (Lines [''Hooks config : '' @ path,
          ''Status       : not found '' @ em_dash @ '' 0 hooks active''])), [])
      | Inr (Some config) \<Rightarrow>
          (succeed (Some (Table ([''EVENT'', ''ACTIONS''] # [rule_line 5, rule_line 7]
             # map (\<lambda>h. [hd_Event h, join_texts (map action_text (hd_Actions h))]) config))),
           [''Hooks config : '' @ path, ''Hooks        : '' @ show_nat (length config) @ '' defined'', []]))"

record log_flags =
  lg_limit :: int
  lg_event :: string
  lg_hostname :: string
  lg_format :: string

definition log_path :: "log_flags \<Rightarrow> string" where
  "log_path f = ''/api/admin/hooks/log?limit='' @ show_int (lg_limit f)
     @ (if lg_event f \<noteq> [] then ''&event='' @ lg_event f else [])
     @ (if lg_hostname f \<noteq> [] then ''&hostname='' @ lg_hostname f else [])"

text \<open>The marks of a success and a failure are U+2713 and U+2717.\<close>

definition log_row :: "cli_env \<Rightarrow> (string, json) gomap \<Rightarrow> string list" where
  "log_row E e =
     [fmt_s E (mget e ''executed_at''), fmt_s E (mget e ''event''), fmt_s E (mget e ''hostname''),
      fmt_s E (mget e ''action_type''),
      [char_of (226::nat), char_of (156::nat),
       char_of (if mget e ''success'' = Some (JBool True) then 147 else 151 :: nat)],
      (case mget e ''duration_ms'' of Some (JNum d) \<Rightarrow> show_int d @ ''ms'' | _ \<Rightarrow> ''-''),
      (case mget e ''error'' of Some (JStr s) \<Rightarrow> s | _ \<Rightarrow> [])]"

definition runHooksLog :: "cli_env \<Rightarrow> 's http_do \<Rightarrow> log_flags \<Rightarrow> ('s, cli_result) state" where
  "runHooksLog E client f = api_call E client ''GET'' (log_path f) None (\<lambda>rp.
     parse_reply decode_objects rp (\<lambda>(v, entries). succeed (Some
       (if lg_format f = ''json'' then Document ''json'' v
        else Table ([''EXECUTED_AT'', ''EVENT'', ''HOSTNAME'', ''TYPE'', ''SUCCESS'', ''DURATION'', ''ERROR'']
               # map (log_row E) entries)))))"

end
