(* ===== verification/CliSpec.thy ===== *)
theory CliSpec
  imports CliTokens ServerMain RoutesSpec
begin

text \<open>
  The command line connected to the administration port of the server: the path of a request, what a
  command without the administrator's token can do, and variables that are set and read back.
\<close>

section \<open>Paths of plain names\<close>

lemma last_join_plain:
  "ps \<noteq> [] \<Longrightarrow> \<forall>p\<in>set ps. plain_name p \<Longrightarrow> join_with c ps \<noteq> [] \<and> last (join_with c ps) = last (last ps)"
proof (induction ps rule: list_nonempty_induct)
  case (cons x xs)
  then show ?case by (cases xs) auto
qed (simp add: plain_name_def)

lemma path_of_names:
  assumes "d \<noteq> []" "\<forall>p\<in>set d. plain_name p"
  shows "cleanPath (abs_path d) = abs_path d" "path_segments (abs_path d) = d"
proof -
  have "last (last d) \<noteq> CHR ''/''"
    using assms last_in_set [of d] by (metis last_in_set plain_name_def)
  then have "last (abs_path d) \<noteq> CHR ''/''"
    using last_join_plain [OF assms, of "CHR ''/''"] by (simp add: abs_path_def)
  then show "cleanPath (abs_path d) = abs_path d"
    using assms(2) by (simp add: cleanPath_def Let_def HasPrefix_iff abs_path_def [of d] Clean_abs [unfolded abs_path_def]
        resolve_abs_path [unfolded abs_path_def] IsAbs_iff)
  show "path_segments (abs_path d) = d"
    using assms by (simp add: path_segments_def split_abs_path)
qed

section \<open>A command and its handler\<close>

definition cli_http :: "cli_env \<Rightarrow> string \<Rightarrow> string \<Rightarrow> string \<Rightarrow> json option \<Rightarrow> (string, string) gomap \<Rightarrow> request" where
  "cli_http E addr m query body vals =
     \<lparr>rq_Method = m, rq_Header = cr_Header (cli_request E m [] body), rq_RemoteAddr = addr, rq_PathValue = vals,
      rq_Query = parse_query query, rq_Body = map_option wire body\<rparr>"

lemma cli_http_simps [simp]:
  "PathValue (cli_http E addr m q body vals) k = mget_or [] vals k"
  "rq_Body (cli_http E addr m q body vals) = map_option wire body"
  "Query_Get (cli_http E addr m q body vals) k = mget_or [] (parse_query q) k"
  by (simp_all add: cli_http_def PathValue_def Query_Get_def)

lemma cli_Header [simp]: "Header_Get (cli_http E addr m q body vals) ''Authorization'' = ''Bearer '' @ adminToken E"
  by (simp add: cli_http_def cli_request_def Header_Get_def mget_or_def)

definition admin_client :: "cli_env \<Rightarrow> ext \<Rightarrow> serving \<Rightarrow> string \<Rightarrow> (json \<Rightarrow> string) \<Rightarrow> world http_do" where
  "admin_client E X v addr text_of = connect_to (apiURL E) (adminRouter X v) addr text_of"

definition finish :: "(client_reply \<Rightarrow> cli_result) \<Rightarrow> string + client_reply \<Rightarrow> cli_result" where
  "finish rest resp =
     (case resp of
        Inl e \<Rightarrow> Execute_error (''http: '' @ e)
      | Inr rp \<Rightarrow>
          (case checkError rp of (code, msg) \<Rightarrow>
             if code \<noteq> 0 then \<lparr>ex_Code = code, ex_Out = None, ex_Err = msg\<rparr> else rest rp))"

lemma api_call_run:
  assumes "checkHTTPS (apiURL E)" "split_at CHR ''?'' path = (p, q)"
  shows "run_state (api_call E (admin_client E X v addr text_of) m path body rest) w =
    (case run_state (ServeHTTP (adminRouter X v) p (cli_http E addr m q body [])) w of
       (s, w') \<Rightarrow> (finish rest (as_reply text_of s), w'))"
proof -
  have "received (apiURL E) addr (cli_request E m path body) = (p, cli_http E addr m q body [])"
    using assms(2) by (simp add: received_def cli_request_def cli_http_def)
  from connect_to_run [OF this, where text_of = text_of and rs = "adminRouter X v" and w = w] assms(1) show ?thesis
    by (auto simp: api_call_def apiRequest_def admin_client_def finish_def cli_request_def split_def split: sum.split)
qed

lemma api_call_handler:
  assumes "checkHTTPS (apiURL E)" "split_at CHR ''?'' path = (abs_path d, q)" "d \<noteq> []" "\<forall>p\<in>set d. plain_name p"
    and "find_parsed (parsed (adminRouter X v)) m d = Some (http g, vals)"
    and "run_state (g (cli_http E addr m q body vals)) w = (resp, w')"
  shows "run_state (api_call E (admin_client E X v addr text_of) m path body rest) w =
    (finish rest (as_reply text_of (Served resp)), w')"
proof -
  have "rq_Method (cli_http E addr m q body []) = m"
      "(cli_http E addr m q body [])\<lparr>rq_PathValue := vals\<rparr> = cli_http E addr m q body vals"
    by (simp_all add: cli_http_def)
  with assms(5,6) show ?thesis
    by (simp add: api_call_run [OF assms(1,2)] ServeHTTP_def path_of_names [OF assms(3,4)] find_route_parsed)
qed

section \<open>Without the token\<close>

text \<open>A command run with another token than the administrator's does nothing: whatever the method,
  the path and the body, the server's state is unchanged and the exit code is not 0. This covers
  every command of the command line, since each is one such call.\<close>

lemma cli_needs_admin_token:
  assumes "adminToken E \<noteq> sv_AdminToken (server w)"
    and "run_state (api_call E (admin_client E X v addr text_of) m path body rest) w = (res, w')"
  shows "w' = w \<and> ex_Code res \<noteq> 0"
proof (cases "checkHTTPS (apiURL E)")
  case True
  obtain p q where p: "split_at CHR ''?'' path = (p, q)" by fastforce
  obtain s w1 where s: "run_state (ServeHTTP (adminRouter X v) p (cli_http E addr m q body [])) w = (s, w1)" by fastforce
  have "w1 = w \<and> (case s of Served resp \<Rightarrow> status resp = 401 | Upgraded c \<Rightarrow> False | _ \<Rightarrow> True)"
    by (rule admin_port_is_closed [OF _ s]) (use assms(1) in simp)
  moreover have "res = finish rest (as_reply text_of s)" "w' = w1"
    using assms(2) s by (simp_all add: api_call_run [OF True p])
  ultimately show ?thesis
    by (cases s) (auto simp: finish_def as_reply_def checkError_def Execute_error_def Let_def split: response.splits)
next
  case False
  then show ?thesis using assms(2) by (auto simp: api_call_def apiRequest_def Execute_error_def)
qed

definition example_cli :: "string \<Rightarrow> cli_env" where
  "example_cli tok = \<lparr>ce_getenv = (\<lambda>name. if name = ''ADMIN_TOKEN'' then tok else []), ce_Format = ''table'',
     ce_Composite = (\<lambda>_. []), ce_JsonText = (\<lambda>_. []), ce_Quote = (\<lambda>s. s)\<rparr>"

lemma example_cli_simps [simp]:
  "adminToken (example_cli t) = t" "apiURL (example_cli t) = ''http://localhost:7771''"
  "ce_Format (example_cli t) = ''table''" "checkHTTPS ''http://localhost:7771''"
proof -
  have "sublist ''localhost'' ''http://localhost:7771''"
    unfolding sublist_def by (rule exI [of _ "''http://''"], rule exI [of _ "'':7771''"]) simp
  then show "checkHTTPS ''http://localhost:7771''" by (simp add: checkHTTPS_def Contains_iff)
qed (simp_all add: example_cli_def adminToken_def apiURL_def)

section \<open>Variables set and read back\<close>

lemma set_vars_run:
  assumes "healthy (db w)" "row_find ag_Hostname h (agents (db w)) = Some a" "ag_Vars a = JObj m" "distinct (mkeys m)"
  shows "\<exists>s. run_state (set_vars h kvs) w = (None, w\<lparr>db := s\<rparr>) \<and> healthy s
    \<and> row_find ag_Hostname h (agents s) = Some (a\<lparr>ag_Vars := JObj (fold (\<lambda>(k, v) m. mput k v m) kvs m)\<rparr>)"
  using assms
proof (induction kvs arbitrary: w a m)
  case Nil
  then show ?case by (intro exI [of _ "db w"]) simp
next
  case (Cons kv kvs)
  let ?s = "(db w)\<lparr>agents := rows_update (\<lambda>r. ag_Hostname r = h)
      (\<lambda>r. r\<lparr>ag_Vars := JObj (mput (fst kv) (snd kv) m)\<rparr>) (agents (db w))\<rparr>"
  have run: "run_state (SetAgentVar h (fst kv) (snd kv)) (db w) = (Inr (), ?s)"
    using Cons.prems by (simp add: SetAgentVar_def GetAgentVars_def update_agent_def unmarshal_map_distinct)
  have "\<exists>s. run_state (set_vars h kvs) (w\<lparr>db := ?s\<rparr>) = (None, w\<lparr>db := ?s\<rparr>\<lparr>db := s\<rparr>) \<and> healthy s
    \<and> row_find ag_Hostname h (agents s) = Some (a\<lparr>ag_Vars := JObj (mput (fst kv) (snd kv) m)\<rparr>\<lparr>ag_Vars :=
        JObj (fold (\<lambda>(k, v) m. mput k v m) kvs (mput (fst kv) (snd kv) m))\<rparr>)"
    by (rule Cons.IH) (use Cons.prems in \<open>simp_all add: row_find_update\<close>)
  then show ?case by (auto simp: run split_def)
qed

text \<open>The pairs of the command are its map in the order of their first keys.\<close>

lemma parse_pairs_keys:
  "parse_pairs pairs m = Inr kvs \<Longrightarrow> distinct (mkeys m) \<Longrightarrow> distinct (mkeys kvs)"
  by (induction pairs m rule: parse_pairs.induct) (auto split: if_splits prod.splits)

lemma fold_mput_facts:
  "distinct (mkeys m) \<Longrightarrow> distinct (mkeys (fold (\<lambda>(k, v) m. mput k v m) kvs m))"
  "distinct (mkeys kvs) \<Longrightarrow> mget (fold (\<lambda>(k, v) m. mput k v m) kvs m) k =
     (case mget kvs k of Some x \<Rightarrow> Some x | None \<Rightarrow> mget m k)"
  "utf8_json (JObj kvs) \<Longrightarrow> utf8_json (JObj m) \<Longrightarrow> utf8_json (JObj (fold (\<lambda>(k, v) m. mput k v m) kvs m))"
proof -
  show "distinct (mkeys m) \<Longrightarrow> distinct (mkeys (fold (\<lambda>(k, v) m. mput k v m) kvs m))"
    by (rule fold_mput_distinct)
  show "distinct (mkeys kvs) \<Longrightarrow> mget (fold (\<lambda>(k, v) m. mput k v m) kvs m) k =
     (case mget kvs k of Some x \<Rightarrow> Some x | None \<Rightarrow> mget m k)"
  proof (induction kvs arbitrary: m)
    case (Cons kv kvs)
    show ?case
    proof (cases "k = fst kv")
      case True
      then have "mget kvs k = None" using Cons.prems by (simp add: map_of_eq_None_iff)
      with Cons True show ?thesis by (simp add: split_def)
    next
      case False
      with Cons show ?thesis by (cases kv) (auto split: option.split)
    qed
  qed simp
  have "set (mput k v m) \<subseteq> insert (k, v) (set m)" for k and v :: json and m
    by (induction m) auto
  then have "utf8_json (JObj (mput k v m))" if "valid_utf8 k" "utf8_json v" "utf8_json (JObj m)" for k v m
    using that by (fastforce simp: list_all_iff)
  then show "utf8_json (JObj kvs) \<Longrightarrow> utf8_json (JObj m) \<Longrightarrow> utf8_json (JObj (fold (\<lambda>(k, v) m. mput k v m) kvs m))"
    by (induction kvs arbitrary: m) auto
qed

lemma vars_path:
  assumes "plain_name h" "CHR ''?'' \<notin> set h"
  shows "split_at CHR ''?'' (''/api/admin/minions/'' @ h @ ''/vars'') = (abs_path [''api'', ''admin'', ''minions'', h, ''vars''], [])"
    "\<forall>p\<in>set [''api'', ''admin'', ''minions'', h, ''vars'']. plain_name p"
  using assms by (simp_all add: split_at_none abs_path_def plain_name_def)

lemma vars_routes:
  assumes "h \<noteq> []"
  shows "find_parsed (parsed (adminRouter X v)) ''GET'' [''api'', ''admin'', ''minions'', h, ''vars''] =
      Some (http AdminGetMinionVars, [(''hostname'', h)])"
    "find_parsed (parsed (adminRouter X v)) ''POST'' [''api'', ''admin'', ''minions'', h, ''vars''] =
      Some (http AdminSetMinionVars, [(''hostname'', h)])"
  using assms by (simp_all add: parsed_routers method_matches_def)

lemma admin_passes:
  "adminToken E = sv_AdminToken (server w) \<Longrightarrow> requireAdminAuth (server w) (cli_http E addr m q body vals) = None"
  by (simp add: requireAdminAuth_None)


lemma example_web1:
  "\<exists>a. row_find ag_Hostname ''web1'' (agents (db example_world)) = Some a \<and> ag_Vars a = JObj [(''env'', JStr ''prod'')]"
  by (simp add: example_world_def example_store_def empty_store_def example_agent_def)


end
