(* ===== verification/TokenJourney.thy ===== *)
theory TokenJourney
  imports CliSpec InventorySpec
begin

text \<open>
  A plugin token through the whole system: created by the administrator's command line, stored by the
  server, printed once, and used by the inventory program.
\<close>

section \<open>The token in the reply\<close>

lemma ascii_hex: "ascii (hex_encode s)"
proof -
  have digit: "(of_char (hex_digit n) :: nat) < 128" if "n < 16" for n
    using that by (simp add: hex_digit_def)
  have "(of_char c :: nat) < 16 * 16" for c :: char by simp
  then have "(of_char c :: nat) div 16 < 16" for c :: char by (rule less_mult_imp_div_less)
  then show ?thesis by (induction s) (auto simp: hex_encode_def ascii_def Let_def digit)
qed

lemma created_token_ascii: "to_valid (token_prefix role @ hex_encode raw) = token_prefix role @ hex_encode raw"
  using ascii_hex [of raw] by (intro to_valid_ascii) (auto simp: token_prefix_def ascii_def)

lemma create_no_200: "run_state (AdminCreateToken X r) w \<noteq> (Reply 200 j, w')"
proof (cases "requireAdminAuth (server w) r")
  case None
  then show ?thesis by (auto simp: AdminCreateToken_def Let_def split: option.splits sum.splits if_splits)
next
  case (Some e)
  then show ?thesis using requireAdminAuth_401 [of "server w" r e] by (auto simp: AdminCreateToken_def)
qed

lemma fold_mput_other:
  "\<forall>(k', v)\<in>set ps. k' \<noteq> k \<Longrightarrow> mget (fold (\<lambda>(k, v) m. mput k v m) ps m) k = mget m k"
  by (induction ps arbitrary: m) auto

text \<open>The reply decoded by the command line: the token is the plain one.\<close>

lemma decode_created:
  assumes "plain = token_prefix role @ hex_encode raw"
  obtains m where "decode_object (wire (TokenCreateResponse X req plain i e now)) = Some (JObj m, m)"
    "mget m ''token'' = Some (JStr plain)"
proof -
  obtain ps where ps: "wire (TokenCreateResponse X req plain i e now) = JObj ((''token'', JStr plain) # ps)"
      "\<forall>(k, v)\<in>set ps. k \<noteq> ''token''"
    using created_token_ascii [of role raw] assms
    by (auto simp: TokenCreateResponse_def omitempty_def to_valid_ascii)
  then show thesis
    by (intro that [of "fold (\<lambda>(k, v) m. mput k v m) ps [(''token'', JStr plain)]"])
      (simp_all add: decode_object_def Let_def fold_mput_other)
qed

section \<open>The journey\<close>

lemma tokens_path:
  "split_at CHR ''?'' ''/api/admin/tokens'' = (abs_path [''api'', ''admin'', ''tokens''], [])"
  "\<forall>p\<in>set [''api'', ''admin'', ''tokens'']. plain_name p"
  by (simp_all add: split_at_none abs_path_def plain_name_def)

lemma tokens_route:
  "find_parsed (parsed (adminRouter X v)) ''POST'' [''api'', ''admin'', ''tokens''] = Some (http (AdminCreateToken X), [])"
  by (simp add: parsed_routers method_matches_def)

text \<open>A successful creation: the reply, the state it leaves, and the printed lines.\<close>

lemma create_succeeds:
  assumes "checkHTTPS (apiURL E)" "ce_Format E = ''table''"
    and "create_body X now f = Inr body" "utf8_json body"
    and "run_state (tokensCreateCmd E (admin_client E X v addr text_of) X now f) w = (res, w')" "ex_Code res = 0"
  obtains req plain i expiresAt ls where
    "map_option (\<lambda>q. q\<lparr>tc_Role := TrimSpace (tc_Role q)\<rparr>) (decode_TokenCreateRequest body) = Some req"
    "parse_expiry X (tc_ExpiresAt req) = Some expiresAt" "plain \<noteq> []"
    "fst (run_state (created_in X req plain i (clock w) expiresAt) (db w)) = Inr ()"
    "db w' = snd (run_state (created_in X req plain i (clock w) expiresAt) (db w))"
    "res = succeed (Some (Lines ls))" "ls ! 2 = ''  Token (save now '' @ em_dash @ '' shown only once): '' @ plain"
proof -
  let ?r = "cli_http E addr ''POST'' [] (Some body) []"
  obtain resp u where run: "run_state (AdminCreateToken X ?r) w = (resp, u)" by fastforce
  note res = assms(5) [unfolded tokensCreateCmd_def assms(3) sum.case,
      unfolded api_call_handler [OF assms(1) tokens_path(1) _ tokens_path(2) tokens_route run, OF list.distinct(2)]]
  obtain code j where resp: "resp = Reply code j" "code \<in> {200, 201}"
    using res assms(6) by (cases resp) (auto simp: finish_def as_reply_def checkError_def Execute_error_def Let_def split: if_splits)
  then have "code = 201" using create_no_200 [of X ?r w j u] run by auto
  with run resp(1) have run: "run_state (AdminCreateToken X ?r) w = (Reply 201 j, u)" by simp
  obtain req plain i e where c: "map_option (\<lambda>q. q\<lparr>tc_Role := TrimSpace (tc_Role q)\<rparr>)
        (Option.bind (rq_Body ?r) decode_TokenCreateRequest) = Some req"
      "parse_expiry X (tc_ExpiresAt req) = Some e" "plain \<noteq> []"
      "fst (run_state (created_in X req plain i (clock w) e) (db w)) = Inr ()"
      "db u = snd (run_state (created_in X req plain i (clock w) e) (db w))"
      "j = TokenCreateResponse X req plain i e (clock w)" "\<exists>raw. plain = token_prefix (tc_Role req) @ hex_encode raw"
    by (rule admin_create_201 [OF run])
  then obtain raw where raw: "plain = token_prefix (tc_Role req) @ hex_encode raw" by blast
  obtain m where m: "decode_object (wire j) = Some (JObj m, m)" "mget m ''token'' = Some (JStr plain)"
    unfolding c(6) by (rule decode_created [OF raw])
  show thesis
    by (rule that [of req e plain i "created_lines E m"])
      (use c res m resp \<open>code = 201\<close> assms(2) wire_utf8 [OF assms(4)] in
        \<open>auto simp: finish_def as_reply_def checkError_def parse_reply_def printOutput_def created_lines_def fmt_s_def\<close>)
qed

text \<open>The request of the flags for a plugin token that never expires.\<close>

definition plugin_order :: "create_flags \<Rightarrow> TokenCreateRequest" where
  "plugin_order f = \<lparr>tc_Role = ''plugin'', tc_HostnamePattern = [], tc_Reusable = 0, tc_Description = cf_description f,
     tc_AllowedIPs = cf_allowedIPs f, tc_AllowedHostnamePattern = cf_allowedHostname f, tc_ExpiresAt = [], tc_CreatedBy = []\<rparr>"

lemma plugin_body:
  assumes "cf_role f = ''plugin''" "cf_expires f \<in> {[], ''never''}" "create_body X now f = Inr body"
    and "valid_utf8 (cf_description f)" "valid_utf8 (cf_allowedIPs f)" "valid_utf8 (cf_allowedHostname f)"
  shows "map_option (\<lambda>q. q\<lparr>tc_Role := TrimSpace (tc_Role q)\<rparr>) (decode_TokenCreateRequest body) = Some (plugin_order f)"
    "utf8_json body"
proof -
  have body: "body = JObj [(''role'', JStr ''plugin''), (''description'', JStr (cf_description f)),
      (''allowed_ips'', JStr (cf_allowedIPs f)), (''allowed_hostname_pattern'', JStr (cf_allowedHostname f))]"
    using assms(1-3) by (auto simp: create_body_def role_body_def expiry_body_def split: option.splits if_splits)
  show "map_option (\<lambda>q. q\<lparr>tc_Role := TrimSpace (tc_Role q)\<rparr>) (decode_TokenCreateRequest body) = Some (plugin_order f)"
    by (simp add: body decode_TokenCreateRequest_def obj_pairs_def json_fields plugin_order_def TrimSpace_id)
  show "utf8_json body" using assms(4-6) by (simp add: body utf8_ascii)
qed

lemma created_plugin_state:
  assumes "healthy s" "store_inv s" "tc_Role req = ''plugin''" "fst (run_state (created_in X req plain i now e) s) = Inr ()"
    and "s' = snd (run_state (created_in X req plain i now e) s)"
  shows "healthy s'" "store_inv s'"
    "row_find pt_token_hash (sha256Hex X plain) (plugin_tokens s') = Some (plugin_row_of (new_plugin_token req i (sha256Hex X plain) now e))"
  using created_plugin_row [OF assms(1), of "new_plugin_token req i (sha256Hex X plain) now e"] assms(2-5)
    keepsD [OF keeps_create_ops(2) assms(2)]
  by (simp_all add: created_in_def new_plugin_token_def)

text \<open>C16: A token made by the administrator's command line opens the inventory. When \<open>tokens create --role
  plugin\<close> has ended with code 0, its third line of output shows a token with which the inventory
  program, run at any later time by a client from an allowed address, prints the hosts; this holds
  for a token without expiry and without a hostname pattern.\<close>

theorem cli_token_opens_inventory:
  assumes "checkHTTPS (apiURL E)" "ce_Format E = ''table''" "healthy (db w)" "store_inv (db w)"
    and "cf_role f = ''plugin''" "cf_expires f \<in> {[], ''never''}" "cf_allowedHostname f = []"
    and "valid_utf8 (cf_description f)" "valid_utf8 (cf_allowedIPs f)"
    and "run_state (tokensCreateCmd E (admin_client E X v addr text_of) X now f) w = (res, w')" "ex_Code res = 0"
    and "db u = db w'" "adminStore_set u"
    and "\<forall>h\<in>set (map ag_Hostname (agents (db u))). valid_utf8 h" "valid_utf8 (format_time X (clock u))"
  shows "\<exists>plain ls. res = succeed (Some (Lines ls))
    \<and> ls ! 2 = ''  Token (save now '' @ em_dash @ '' shown only once): '' @ plain
    \<and> (\<forall>env read certs t addr' text_of'. inv_getenv env ''RELAY_TOKEN'' [] = plain
        \<and> newHTTPClient read certs (inv_loadConfig env) = Inr t
        \<and> (cf_allowedIPs f = [] \<or> PluginTokenCheckIP (parse_ip X) (cidr_contains X) (cf_allowedIPs f)
             (extractClientIP (inventory_http (inv_loadConfig env) addr')) = Some True) \<longrightarrow>
        (\<exists>hosts vars u'. run_state (inventory_main env read certs
             (\<lambda>t. connect_to (ic_serverURL (inv_loadConfig env)) (apiRouter X v) addr' text_of') [''--list'']) u =
           ((0, Some (inventory_json (hosts, vars))), u')))"
proof -
  obtain body where body: "create_body X now f = Inr body"
    using assms(10,11) by (cases "create_body X now f") (auto simp: tokensCreateCmd_def Execute_error_def)
  have empty: "valid_utf8 (cf_allowedHostname f)" by (simp add: assms(7) utf8_ascii)
  note order = plugin_body [OF assms(5,6) body assms(8,9) empty]
  obtain req plain i e ls where c:
    "map_option (\<lambda>q. q\<lparr>tc_Role := TrimSpace (tc_Role q)\<rparr>) (decode_TokenCreateRequest body) = Some req"
    "parse_expiry X (tc_ExpiresAt req) = Some e" "plain \<noteq> []"
    "fst (run_state (created_in X req plain i (clock w) e) (db w)) = Inr ()"
    "db w' = snd (run_state (created_in X req plain i (clock w) e) (db w))"
    "res = succeed (Some (Lines ls))" "ls ! 2 = ''  Token (save now '' @ em_dash @ '' shown only once): '' @ plain"
    by (rule create_succeeds [OF assms(1,2) body order(2) assms(10,11)])
  have req: "req = plugin_order f" using c(1) order(1) by simp
  then have e: "e = None" using c(2) by (simp add: plugin_order_def parse_expiry_def)
  have role: "tc_Role req = ''plugin''" by (simp add: req plugin_order_def)
  note state = created_plugin_state [OF assms(3,4) role c(4) assms(12) [unfolded c(5)]]
  have "\<exists>hosts vars u'. run_state (inventory_main env read certs
             (\<lambda>t. connect_to (ic_serverURL (inv_loadConfig env)) (apiRouter X v) addr' text_of') [''--list'']) u =
           ((0, Some (inventory_json (hosts, vars))), u')"
    if "inv_getenv env ''RELAY_TOKEN'' [] = plain" "newHTTPClient read certs (inv_loadConfig env) = Inr t"
      "cf_allowedIPs f = [] \<or> PluginTokenCheckIP (parse_ip X) (cidr_contains X) (cf_allowedIPs f)
             (extractClientIP (inventory_http (inv_loadConfig env) addr')) = Some True" for env read certs t addr' text_of'
  proof -
    have token: "ic_token (inv_loadConfig env) = plain" using that(1) by (simp add: inv_loadConfig_def)
    have allows: "plugin_allows X (clock u) (inventory_http (inv_loadConfig env) addr')
        (scanPluginToken (plugin_row_of (new_plugin_token req i (sha256Hex X plain) (clock w) e)))"
      using that(3) assms(7)
      by (auto simp: plugin_allows_def scanPluginToken_def plugin_row_of_def new_plugin_token_def req plugin_order_def e
          expired_def null_string_def nullableString_def)
    show ?thesis
      using inventory_program_run [OF state(1) assms(13) state(2) assms(14,15) refl that(2) _ _ allows refl, where v = v
          and text_of = text_of'] state(3) c(3) token by (metis (no_types, lifting))
  qed
  with c(6,7) show ?thesis by blast
qed

definition example_flags :: create_flags where
  "example_flags = \<lparr>cf_role = ''plugin'', cf_hostnamePattern = [], cf_reusable = False, cf_expires = ''never'',
     cf_description = ''ci'', cf_allowedIPs = [], cf_allowedHostname = []\<rparr>"

abbreviation example_creation :: "(world, cli_result) state" where
  "example_creation \<equiv> tokensCreateCmd (example_cli ''adm'') (admin_client (example_cli ''adm'') example_ext example_serving
     ''10.0.0.9:1'' (\<lambda>_. [])) example_ext 0 example_flags"

lemma example_creation_runs:
  obtains res w' where "run_state example_creation example_empty = (res, w')" "ex_Code res = 0" "adminStore_set w'"
    "agents (db w') = agents (db example_empty)" "clock w' = clock example_empty"
proof -
  define body where "body = JObj [(''role'', JStr ''plugin''), (''description'', JStr ''ci''),
      (''allowed_ips'', JStr []), (''allowed_hostname_pattern'', JStr [])]"
  have body: "create_body example_ext 0 example_flags = Inr body"
    by (simp add: create_body_def role_body_def expiry_body_def example_flags_def body_def)
  let ?r = "cli_http (example_cli ''adm'') ''10.0.0.9:1'' ''POST'' [] (Some body) []"
  have order: "Option.bind (rq_Body ?r) decode_TokenCreateRequest = Some (plugin_order example_flags)"
    by (simp add: body_def decode_TokenCreateRequest_def obj_pairs_def json_fields plugin_order_def example_flags_def
        to_valid_ascii)
  have raw: "\<exists>b. rand_bytes example_ext 32 n = Some b" for n by (simp add: example_ext_def)
  have adm: "requireAdminAuth (server example_empty) ?r = None"
    by (rule admin_passes) (simp add: example_empty_def example_world_def example_server_def)
  obtain j w' where run: "run_state (AdminCreateToken example_ext ?r) example_empty = (Reply 201 j, w')"
      and w': "adminStore_set w'" "agents (db w') = agents (db example_empty)" "clock w' = clock example_empty"
    using raw [of "entropy example_empty"] order adm
    by (auto simp: AdminCreateToken_def Let_def parse_expiry_def CreatePluginToken_def plugin_order_def TrimSpace_id)
  obtain req plain i e where j: "j = TokenCreateResponse example_ext req plain i e (clock example_empty)"
      "\<exists>raw. plain = token_prefix (tc_Role req) @ hex_encode raw"
    by (rule admin_create_201 [OF run])
  then obtain m where m: "decode_object (wire j) = Some (JObj m, m)" using decode_created by metis
  have step: "run_state example_creation example_empty =
      (finish (\<lambda>rp. parse_reply decode_object rp (\<lambda>(v, r). printOutput (example_cli ''adm'') v
         (Lines (created_lines (example_cli ''adm'') r)))) (as_reply (\<lambda>_. []) (Served (Reply 201 j))), w')"
    unfolding tokensCreateCmd_def body sum.case
    by (rule api_call_handler [OF _ tokens_path(1) _ tokens_path(2) tokens_route run]) simp_all
  show thesis
    by (rule that [OF step _ w']) (simp add: finish_def as_reply_def checkError_def parse_reply_def m printOutput_def succeed_def)
qed

lemma cli_token_opens_inventory_witness:
  "\<exists>res w' plain ls hosts vars u'. run_state example_creation example_empty = (res, w') \<and> res = succeed (Some (Lines ls))
    \<and> ls ! 2 = ''  Token (save now '' @ em_dash @ '' shown only once): '' @ plain
    \<and> run_state (inventory_main (\<lambda>k. if k = ''RELAY_TOKEN'' then plain else []) Inl (\<lambda>_. False)
        (\<lambda>t. connect_to ''https://localhost:7770'' (apiRouter example_ext example_serving) ''10.0.0.1:5000'' (\<lambda>_. []))
        [''--list'']) w' = ((0, Some (inventory_json (hosts, vars))), u')"
proof -
  obtain res w' where run: "run_state example_creation example_empty = (res, w')" "ex_Code res = 0" "adminStore_set w'"
      "agents (db w') = agents (db example_empty)" "clock w' = clock example_empty"
    by (rule example_creation_runs)
  have f: "cf_role example_flags = ''plugin''" "cf_expires example_flags \<in> {[], ''never''}" "cf_allowedHostname example_flags = []"
      "cf_allowedIPs example_flags = []" "valid_utf8 (cf_description example_flags)" "valid_utf8 (cf_allowedIPs example_flags)"
    by (simp_all add: example_flags_def utf8_ascii)
  have st: "store_inv (db example_empty)"
    using example_db(2) by (simp add: example_empty_def store_inv_def)
  have texts: "\<forall>h\<in>set (map ag_Hostname (agents (db w'))). valid_utf8 h" "valid_utf8 (format_time example_ext (clock w'))"
    unfolding run(4,5) by (simp_all add: example_empty_def example_world_def example_store_def empty_store_def example_agent_def
        example_ext_def utf8_ascii unix_sec_def) code_simp
  obtain plain ls where p: "res = succeed (Some (Lines ls))"
      "ls ! 2 = ''  Token (save now '' @ em_dash @ '' shown only once): '' @ plain"
      "\<forall>env read certs t addr' text_of'. inv_getenv env ''RELAY_TOKEN'' [] = plain
        \<and> newHTTPClient read certs (inv_loadConfig env) = Inr t
        \<and> (cf_allowedIPs example_flags = [] \<or> PluginTokenCheckIP (parse_ip example_ext) (cidr_contains example_ext)
             (cf_allowedIPs example_flags) (extractClientIP (inventory_http (inv_loadConfig env) addr')) = Some True) \<longrightarrow>
        (\<exists>hosts vars u'. run_state (inventory_main env read certs
             (\<lambda>t. connect_to (ic_serverURL (inv_loadConfig env)) (apiRouter example_ext example_serving) addr' text_of') [''--list'']) w' =
           ((0, Some (inventory_json (hosts, vars))), u'))"
    using cli_token_opens_inventory [OF _ _ example_create_ok(2) st f(1-3,5,6) run(1,2) refl run(3) texts] by auto
  let ?env = "\<lambda>k. if k = ''RELAY_TOKEN'' then plain else []"
  have "inv_getenv ?env ''RELAY_TOKEN'' [] = plain" "newHTTPClient Inl (\<lambda>_. False) (inv_loadConfig ?env) = Inr SystemRoots"
      "ic_serverURL (inv_loadConfig ?env) = ''https://localhost:7770''"
    by (simp_all add: inv_getenv_def inv_loadConfig_def newHTTPClient_def Let_def)
  with p(3) f(4) have "\<exists>hosts vars u'. run_state (inventory_main ?env Inl (\<lambda>_. False)
        (\<lambda>t. connect_to ''https://localhost:7770'' (apiRouter example_ext example_serving) ''10.0.0.1:5000'' (\<lambda>_. []))
        [''--list'']) w' = ((0, Some (inventory_json (hosts, vars))), u')" by metis
  with run(1) p(1,2) show ?thesis by blast
qed

end
