(* ===== verification/MinionFiles.thy ===== *)
theory MinionFiles
  imports GoPath GoBase64
begin

text \<open>
  File transfers on the agent (\<open>secagent-minion/internal/files\<close>): the check of a path against the
  allowed directories, \<open>PutFile\<close> and \<open>FetchFile\<close>. The files of the host are a map from clean paths to
  contents and modes; the errors of the operating system are the parameters of \<open>fs_env\<close>.
\<close>

section \<open>State and errors\<close>

definition MaxFileSize :: nat where
  "MaxFileSize = 500 * 1024"

definition AllowedWritePrefixes :: "string list" where
  "AllowedWritePrefixes = [''/tmp/'', ''/var/tmp/'', ''/home/'', ''/root/'', ''/opt/'']"

definition AllowedReadPrefixes :: "string list" where
  "AllowedReadPrefixes = [''/tmp/'', ''/var/tmp/'', ''/home/'', ''/root/'', ''/opt/'', ''/etc/'']"

record host_file =
  hf_data :: string
  hf_mode :: nat

type_synonym host_files = "(string, host_file) gomap"

text \<open>
  Each field gives the error of a system call on a path, if it fails. A failing \<open>os.WriteFile\<close> may
  have opened the file: \<open>fe_write\<close> also gives what the file then holds.
\<close>

record fs_env =
  fe_mkdir :: "string \<Rightarrow> string option"
  fe_write :: "string \<Rightarrow> (string \<times> string option) option"
  fe_chmod :: "string \<Rightarrow> string option"
  fe_read :: "string \<Rightarrow> string option"
  fe_missing :: "string \<Rightarrow> string"
  fe_b64_error :: "string \<Rightarrow> string"
  fe_quote :: "string \<Rightarrow> string"

datatype file_error =
    EmptyPath (fe_param: string)
  | PathTraversalError (pt_Path: string) (pt_Param: string) (pt_Resolved: string)
  | BadBase64 string
  | FileTooLarge nat
  | MkdirError string string
  | WriteError string string
  | ChmodError string string
  | ReadError string string

fun file_error_text :: "fs_env \<Rightarrow> file_error \<Rightarrow> string" where
  "file_error_text F (EmptyPath param) = param @ '' cannot be empty''"
| "file_error_text F (PathTraversalError path param resolved) =
     ''path traversal: '' @ param @ ''='' @ fe_quote F path @ '' (resolved: '' @ fe_quote F resolved
       @ '') outside allowed prefixes''"
| "file_error_text F (BadBase64 s) = ''put_file: decode base64: '' @ fe_b64_error F s"
| "file_error_text F (FileTooLarge n) = ''put_file: file too large ('' @ show_nat n @ '' bytes, max ''
       @ show_nat MaxFileSize @ '')''"
| "file_error_text F (MkdirError p e) = ''put_file: mkdir '' @ p @ '': '' @ e"
| "file_error_text F (WriteError p e) = ''put_file: write '' @ p @ '': '' @ e"
| "file_error_text F (ChmodError p e) = ''put_file: chmod '' @ p @ '': '' @ e"
| "file_error_text F (ReadError p e) = ''fetch_file: read '' @ p @ '': '' @ e"

fun IsPathTraversalError :: "file_error \<Rightarrow> bool" where
  "IsPathTraversalError (PathTraversalError _ _ _) = True"
| "IsPathTraversalError _ = False"

section \<open>The path check\<close>

definition under :: "string \<Rightarrow> string \<Rightarrow> bool" where
  "under norm pre = (let p = TrimRight CHR ''/'' (Clean pre) in norm = p \<or> HasPrefix norm (p @ ''/''))"

definition validatePath :: "string \<Rightarrow> string list \<Rightarrow> string \<Rightarrow> file_error + string" where
  "validatePath path allowed param =
     (if TrimSpace path = [] then Inl (EmptyPath param)
      else if list_ex (under (Clean path)) allowed then Inr (Clean path)
      else Inl (PathTraversalError path param (Clean path)))"

section \<open>Transfers\<close>

text \<open>Standard base64, and then without padding.\<close>

definition decode_any :: "string \<Rightarrow> string option" where
  "decode_any s = (case DecodeString s of Some d \<Rightarrow> Some d | None \<Rightarrow> RawDecodeString s)"

definition file_mode :: "string \<Rightarrow> nat" where
  "file_mode s = (case ParseUint s 8 32 of Some n \<Rightarrow> n | None \<Rightarrow> 420)"

record PutFileRequest =
  pf_TaskID :: string
  pf_Dest :: string
  pf_DataB64 :: string
  pf_Mode :: string

definition wanted_mode :: "PutFileRequest \<Rightarrow> nat" where
  "wanted_mode req = (if pf_Mode req = [] then 420 else file_mode (pf_Mode req))"

text \<open>A new file gets the permissions \<open>perm\<close>; an existing one keeps its mode.\<close>

definition WriteFile :: "fs_env \<Rightarrow> string \<Rightarrow> string \<Rightarrow> nat \<Rightarrow> host_files \<Rightarrow> string option \<times> host_files" where
  "WriteFile F path data perm fs =
     (let mode = (case mget fs path of None \<Rightarrow> perm | Some f \<Rightarrow> hf_mode f) in
      case fe_write F path of
        None \<Rightarrow> (None, mput path \<lparr>hf_data = data, hf_mode = mode\<rparr> fs)
      | Some (e, None) \<Rightarrow> (Some e, fs)
      | Some (e, Some part) \<Rightarrow> (Some e, mput path \<lparr>hf_data = part, hf_mode = mode\<rparr> fs))"

text \<open>
  \<open>os.Chmod\<close> takes the nine permission bits of an \<open>os.FileMode\<close>; set-uid, set-gid and sticky are its
  bits 23, 22 and 20, not those of an octal mode.
\<close>

definition syscallMode :: "nat \<Rightarrow> nat" where
  "syscallMode mode = mode mod 512 + (if odd (mode div 2 ^ 23) then 2048 else 0)
     + (if odd (mode div 2 ^ 22) then 1024 else 0) + (if odd (mode div 2 ^ 20) then 512 else 0)"

definition Chmod :: "fs_env \<Rightarrow> string \<Rightarrow> nat \<Rightarrow> host_files \<Rightarrow> string option \<times> host_files" where
  "Chmod F path mode fs =
     (case fe_chmod F path of
        Some e \<Rightarrow> (Some e, fs)
      | None \<Rightarrow> (None, case mget fs path of None \<Rightarrow> fs | Some f \<Rightarrow> mput path (f\<lparr>hf_mode := syscallMode mode\<rparr>) fs))"

definition PutFile :: "fs_env \<Rightarrow> PutFileRequest \<Rightarrow> host_files \<Rightarrow> (file_error + unit) \<times> host_files" where
  "PutFile F req fs =
     (case validatePath (pf_Dest req) AllowedWritePrefixes ''dest'' of
        Inl e \<Rightarrow> (Inl e, fs)
      | Inr safe \<Rightarrow>
          (case decode_any (pf_DataB64 req) of
             None \<Rightarrow> (Inl (BadBase64 (pf_DataB64 req)), fs)
           | Some data \<Rightarrow>
               if MaxFileSize < length data then (Inl (FileTooLarge (length data)), fs)
               else (case fe_mkdir F (Dir safe) of
                       Some e \<Rightarrow> (Inl (MkdirError (Dir safe) e), fs)
                     | None \<Rightarrow>
                         (case WriteFile F safe data 420 fs of
                            (Some e, fs) \<Rightarrow> (Inl (WriteError safe e), fs)
                          | (None, fs) \<Rightarrow>
                              (case Chmod F safe (wanted_mode req) fs of
                                 (Some e, fs) \<Rightarrow> (Inl (ChmodError safe e), fs)
                               | (None, fs) \<Rightarrow> (Inr (), fs))))))"

definition ReadFile :: "fs_env \<Rightarrow> string \<Rightarrow> host_files \<Rightarrow> string + string" where
  "ReadFile F path fs =
     (case mget fs path of
        None \<Rightarrow> Inl (fe_missing F path)
      | Some f \<Rightarrow> (case fe_read F path of Some e \<Rightarrow> Inl e | None \<Rightarrow> Inr (hf_data f)))"

definition FetchFile_agent :: "fs_env \<Rightarrow> string \<Rightarrow> host_files \<Rightarrow> file_error + string" where
  "FetchFile_agent F src fs =
     (case validatePath src AllowedReadPrefixes ''src'' of
        Inl e \<Rightarrow> Inl e
      | Inr safe \<Rightarrow>
          (case ReadFile F safe fs of
             Inl e \<Rightarrow> Inl (ReadError safe e)
           | Inr data \<Rightarrow> Inr (EncodeToString data)))"

section \<open>Confinement\<close>

lemma TrimRight_no: "s = [] \<or> last s \<noteq> c \<Longrightarrow> TrimRight c s = s"
  unfolding TrimRight_def by (cases s rule: rev_cases) auto

lemma last_join: "ps \<noteq> [] \<Longrightarrow> \<forall>p\<in>set ps. proper p \<Longrightarrow> join_with CHR ''/'' ps \<noteq> [] \<and> last (join_with CHR ''/'' ps) \<noteq> CHR ''/''"
proof (induction "CHR ''/''" ps rule: join_with.induct)
  case (2 p)
  then show ?case by (auto simp: proper_def dest: last_in_set)
next
  case (3 p q ps)
  then show ?case by simp
qed simp

lemma plain_proper: "plain_name p \<Longrightarrow> proper p"
  by (simp add: plain_name_def proper_def)

lemma under_iff:
  assumes "IsAbs p" "IsAbs a"
  shows "under (Clean p) a \<longleftrightarrow> prefix (resolve a) (resolve p)"
proof (cases "resolve a = []")
  case True
  then have "TrimRight CHR ''/'' (Clean a) = []"
    using assms(2) by (simp add: Clean_abs abs_path_def TrimRight_def)
  with True show ?thesis
    using assms(1) by (simp add: under_def Clean_abs abs_path_def HasPrefix_iff)
next
  case False
  have names: "\<forall>q\<in>set (resolve s). proper q" for s
    using resolve_plain plain_proper by blast
  then have slash: "\<forall>q\<in>set (resolve s). CHR ''/'' \<notin> set q" for s by (simp add: proper_def)
  have "TrimRight CHR ''/'' (Clean a) = abs_path (resolve a)"
    using last_join [OF False names] by (simp add: Clean_abs [OF assms(2)] abs_path_def TrimRight_no)
  then have *: "under (Clean p) a \<longleftrightarrow> join_with CHR ''/'' (resolve p) = join_with CHR ''/'' (resolve a)
      \<or> prefix (join_with CHR ''/'' (resolve a) @ ''/'') (join_with CHR ''/'' (resolve p))"
    by (simp add: under_def Clean_abs [OF assms(1)] abs_path_def HasPrefix_iff)
  show ?thesis
  proof (cases "resolve p = []")
    case True
    with * False last_join [OF False names] show ?thesis by (auto simp: prefix_def)
  next
    case False
    with * \<open>resolve a \<noteq> []\<close> show ?thesis using join_prefix [OF slash slash] by blast
  qed
qed

lemma under_not_abs:
  assumes "\<not> IsAbs p" "IsAbs a"
  shows "\<not> under (Clean p) a"
proof
  assume u: "under (Clean p) a"
  have "\<exists>s. TrimRight CHR ''/'' (Clean a) = [] \<or> TrimRight CHR ''/'' (Clean a) = CHR ''/'' # s"
  proof (cases "resolve a = []")
    case False
    have "\<forall>q\<in>set (resolve a). proper q" using resolve_plain plain_proper by blast
    then show ?thesis
      using last_join [OF False] by (simp add: Clean_abs [OF assms(2)] abs_path_def TrimRight_no)
  qed (simp add: Clean_abs [OF assms(2)] abs_path_def TrimRight_def)
  with u have "Clean p = [] \<or> IsAbs (Clean p)"
    by (auto simp: under_def IsAbs_iff HasPrefix_iff prefix_def)
  moreover have "Clean p \<noteq> []"
  proof (cases "clean_parts False (split_on CHR ''/'' p) = []")
    case False
    have "\<forall>q\<in>set (clean_parts False (split_on CHR ''/'' p)). proper q"
      unfolding clean_parts_def set_rev by (rule clean_parts_names) (simp, rule split_on_names)
    with last_join [OF False] assms(1) False show ?thesis by (simp add: Clean_def Let_def)
  qed (use assms(1) in \<open>simp add: Clean_def\<close>)
  ultimately show False using Clean_not_abs [OF assms(1)] by blast
qed

text \<open>The directories of a list of prefixes, and a path below one of them.\<close>

definition lies_under :: "string list \<Rightarrow> string list \<Rightarrow> bool" where
  "lies_under allowed d \<longleftrightarrow> (\<exists>a\<in>set allowed. prefix (resolve a) d)"

lemma validatePath_Inr:
  assumes "\<forall>a\<in>set allowed. IsAbs a"
  shows "validatePath p allowed param = Inr q \<longleftrightarrow>
    TrimSpace p \<noteq> [] \<and> IsAbs p \<and> lies_under allowed (resolve p) \<and> q = abs_path (resolve p)"
proof (cases "IsAbs p")
  case True
  then have "list_ex (under (Clean p)) allowed \<longleftrightarrow> lies_under allowed (resolve p)"
    using assms by (auto simp: list_ex_iff lies_under_def under_iff)
  with True show ?thesis by (auto simp: validatePath_def Clean_abs)
next
  case False
  then have "\<not> list_ex (under (Clean p)) allowed"
    using assms under_not_abs by (auto simp: list_ex_iff)
  with False show ?thesis by (simp add: validatePath_def)
qed

lemma allowed_abs: "\<forall>a\<in>set AllowedWritePrefixes. IsAbs a" "\<forall>a\<in>set AllowedReadPrefixes. IsAbs a"
  by (simp_all add: AllowedWritePrefixes_def AllowedReadPrefixes_def IsAbs_iff)

lemma writable_readable: "validatePath p AllowedWritePrefixes x = Inr q \<Longrightarrow> validatePath p AllowedReadPrefixes y = Inr q"
  by (auto simp: validatePath_Inr allowed_abs) (auto simp: lies_under_def AllowedWritePrefixes_def AllowedReadPrefixes_def)

end
