(* ===== verification/MinionExec.thy ===== *)
theory MinionExec
  imports MinionFiles
begin

text \<open>
  Command execution on the agent (\<open>secagent-minion/internal/executor\<close>) and what it uses of \<open>os/exec\<close>:
  the goroutines that copy the pipes through \<open>io.Copy\<close>, with the writer (\<open>limitedBuffer\<close>) and the
  reader (\<open>bytesReader\<close>) of the program, and \<open>Cmd.Wait\<close>, which reports their error when the process
  itself succeeded.
\<close>

section \<open>The output buffer\<close>

definition StdoutBufferMax :: nat where
  "StdoutBufferMax = 5 * 1024 * 1024"

text \<open>\<open>Write\<close>: the number of bytes it reports and the new content.\<close>

definition limitedBuffer_Write :: "string \<Rightarrow> string \<Rightarrow> nat \<times> string" where
  "limitedBuffer_Write data p =
     (let remaining = StdoutBufferMax + 1024 - length data;
          p' = (if 0 < remaining \<and> remaining < length p then take remaining p else p)
      in (length p', if 0 < remaining then data @ p' else data))"

text \<open>
  \<open>io.Copy\<close> from a pipe: each element is what one read of the pipe returns. A short write stops the
  copy with an error, and the pipe is closed.
\<close>

fun copy_output :: "string list \<Rightarrow> string \<Rightarrow> bool \<times> string" where
  "copy_output [] data = (True, data)"
| "copy_output (p # ps) data =
     (case limitedBuffer_Write data p of
        (n, data') \<Rightarrow> if n = length p then copy_output ps data' else (False, data'))"

section \<open>Standard input\<close>

text \<open>
  \<open>Read\<close> into a buffer of \<open>k\<close> bytes: \<open>None\<close> is the error \<open>fmt.Errorf("EOF")\<close>, which is not \<open>io.EOF\<close>.
\<close>

definition bytesReader_Read :: "string \<Rightarrow> nat \<Rightarrow> nat \<Rightarrow> string option \<times> nat" where
  "bytesReader_Read data pos k =
     (if length data \<le> pos then (None, pos)
      else let p = take k (drop pos data) in (Some p, pos + length p))"

text \<open>
  The copy of the input: \<open>broken n\<close> says whether the pipe is closed when \<open>n\<close> bytes have been written.
  The result says whether the copy ended without an error, and what the process received; \<open>os/exec\<close>
  ignores a broken pipe, and \<open>io.Copy\<close> ends without an error only on \<open>io.EOF\<close>.
\<close>

definition copy_buffer :: nat where
  "copy_buffer = 32 * 1024"

function copy_input :: "(nat \<Rightarrow> bool) \<Rightarrow> string \<Rightarrow> nat \<Rightarrow> string \<Rightarrow> bool \<times> string" where
  "copy_input broken data pos written =
     (case bytesReader_Read data pos copy_buffer of
        (None, _) \<Rightarrow> (False, written)
      | (Some p, pos') \<Rightarrow>
          if broken (length written) then (True, written)
          else copy_input broken data pos' (written @ p))"
  by pat_completeness auto
termination
  by (relation "measure (\<lambda>(broken, data, pos, written). length data - pos)")
    (auto simp: bytesReader_Read_def Let_def copy_buffer_def split: if_splits)

declare copy_input.simps [simp del]

section \<open>Running a command\<close>

record ExecRequest_agent =
  xr_TaskID :: string
  xr_Cmd :: string
  xr_StdinB64 :: string
  xr_Timeout :: int
  xr_Become :: bool
  xr_ExpiresAt :: int

record ExecResult =
  xs_TaskID :: string
  xs_RC :: int
  xs_Stdout :: string
  xs_Stderr :: string
  xs_Truncated :: bool

text \<open>
  A process: the error of starting it, or what the pipes deliver (by reads), when it closes its input,
  and how it ends. \<open>Exited n\<close> is \<open>ExitCode\<close>, 0 being success and -1 a signal; \<open>pc_deadline\<close> says
  whether the deadline of the run had passed when \<open>Wait\<close> returned.
\<close>

datatype proc_end = Exited int | WaitFailed

record process =
  pc_start :: "string option"
  pc_stdout :: "string list"
  pc_stderr :: "string list"
  pc_broken :: "nat \<Rightarrow> bool"
  pc_end :: proc_end
  pc_deadline :: bool

text \<open>\<open>Cmd.Wait\<close>: whether it returns no error; errors of the copies count only after a successful exit.\<close>

definition Wait_ok :: "bool \<Rightarrow> bool \<Rightarrow> bool \<Rightarrow> proc_end \<Rightarrow> bool" where
  "Wait_ok stdin_ok stdout_ok stderr_ok e \<longleftrightarrow> e = Exited 0 \<and> stdin_ok \<and> stdout_ok \<and> stderr_ok"

text \<open>The seconds after which the run is stopped (\<open>DefaultTimeout\<close> is 30).\<close>

definition run_timeout :: "int \<Rightarrow> int" where
  "run_timeout t = (if 0 < t then t else 30)"

text \<open>An input that does not decode is dropped.\<close>

definition stdin_bytes :: "string \<Rightarrow> string option" where
  "stdin_bytes b64 = (if b64 = [] then None else decode_any b64)"

text \<open>The return code of a run whose \<open>Wait\<close> failed; \<open>cancelled\<close>: the context of the task is cancelled.\<close>

definition failed_rc :: "bool \<Rightarrow> process \<Rightarrow> int" where
  "failed_rc cancelled p =
     (if pc_deadline p \<or> cancelled then -15
      else case pc_end p of Exited n \<Rightarrow> if n = 0 then 1 else n | WaitFailed \<Rightarrow> 1)"

text \<open>
  \<open>run cmd stdin timeout\<close> is the process the command starts with that input (\<open>None\<close>: the null device)
  and that limit; \<open>now\<close> is in seconds.
\<close>

type_synonym spawner = "string \<Rightarrow> string option \<Rightarrow> int \<Rightarrow> process"

definition Run :: "spawner \<Rightarrow> bool \<Rightarrow> int \<Rightarrow> ExecRequest_agent \<Rightarrow> ExecResult" where
  "Run run cancelled now req =
     (if 0 < xr_ExpiresAt req \<and> xr_ExpiresAt req < now then
        \<lparr>xs_TaskID = xr_TaskID req, xs_RC = -1, xs_Stdout = [], xs_Stderr = ''task expired'', xs_Truncated = False\<rparr>
      else
        let stdinBytes = stdin_bytes (xr_StdinB64 req);
            p = run (xr_Cmd req) stdinBytes (run_timeout (xr_Timeout req))
        in case pc_start p of
             Some e \<Rightarrow> \<lparr>xs_TaskID = xr_TaskID req, xs_RC = 1, xs_Stdout = [],
                        xs_Stderr = ''failed to start command: '' @ e, xs_Truncated = False\<rparr>
           | None \<Rightarrow>
               (let (out_ok, out) = copy_output (pc_stdout p) [];
                    (err_ok, err) = copy_output (pc_stderr p) [];
                    in_ok = (case stdinBytes of None \<Rightarrow> True
                             | Some d \<Rightarrow> fst (copy_input (pc_broken p) d 0 []));
                    ok = Wait_ok in_ok out_ok err_ok (pc_end p)
                in \<lparr>xs_TaskID = xr_TaskID req, xs_RC = (if ok then 0 else failed_rc cancelled p),
                     xs_Stdout = take StdoutBufferMax out, xs_Stderr = err,
                     xs_Truncated = (\<not> ok \<and> pc_deadline p) \<or> StdoutBufferMax < length out\<rparr>))"

section \<open>The output buffer keeps a prefix\<close>

definition buffer_cap :: nat where
  "buffer_cap = StdoutBufferMax + 1024"

lemma Write_short:
  "length data \<le> buffer_cap \<Longrightarrow>
   limitedBuffer_Write data p =
     (if length data = buffer_cap then (length p, data)
      else if length data + length p \<le> buffer_cap then (length p, data @ p)
      else (buffer_cap - length data, data @ take (buffer_cap - length data) p))"
  by (auto simp: limitedBuffer_Write_def buffer_cap_def Let_def)

lemma copy_output_fits:
  "length data + length (concat ps) \<le> buffer_cap \<Longrightarrow> copy_output ps data = (True, data @ concat ps)"
proof (induction ps arbitrary: data)
  case (Cons p ps)
  then show ?case by (auto simp: Write_short)
qed simp

lemma copy_output_prefix:
  "length data \<le> buffer_cap \<Longrightarrow> snd (copy_output ps data) = take buffer_cap (data @ concat ps)"
proof (induction ps arbitrary: data)
  case (Cons p ps)
  consider "length data = buffer_cap" | "length data < buffer_cap" "length data + length p \<le> buffer_cap"
    | "length data < buffer_cap" "buffer_cap < length data + length p" using Cons.prems by linarith
  then show ?case
  proof cases
    case 2
    with Cons show ?thesis by (simp add: Write_short)
  next
    case 3
    then show ?thesis by (auto simp: Write_short)
  qed (use Cons in \<open>simp add: Write_short\<close>)
qed simp

text \<open>The copy fails at a read that crosses the limit of the buffer.\<close>

lemma copy_output_append:
  "fst (copy_output ps data) \<Longrightarrow> copy_output (ps @ qs) data = copy_output qs (snd (copy_output ps data))"
  by (induction ps arbitrary: data) (auto split: prod.splits if_splits)

lemma copy_output_overflow:
  assumes "length (concat ps) < buffer_cap" "buffer_cap < length (concat ps) + length p"
  shows "copy_output (ps @ p # qs) [] = (False, concat ps @ take (buffer_cap - length (concat ps)) p)"
proof -
  have "copy_output ps [] = (True, concat ps)" using copy_output_fits [of "[]" ps] assms(1) by simp
  moreover from this have "copy_output (ps @ p # qs) [] = copy_output (p # qs) (concat ps)"
    by (subst copy_output_append) simp_all
  ultimately show ?thesis using assms by (auto simp: Write_short)
qed

section \<open>The input is delivered but its copy fails\<close>

lemma copy_input_all:
  assumes "\<forall>n. \<not> broken n" "pos \<le> length data"
  shows "copy_input broken data pos written = (False, written @ drop pos data)"
  using assms(2)
proof (induction "length data - pos" arbitrary: pos written rule: less_induct)
  case less
  show ?case
  proof (cases "pos = length data")
    case True
    then show ?thesis by (subst copy_input.simps) (simp add: bytesReader_Read_def)
  next
    case False
    let ?p = "take copy_buffer (drop pos data)"
    have "copy_input broken data (pos + length ?p) (written @ ?p)
        = (False, (written @ ?p) @ drop (pos + length ?p) data)"
      using False less.prems by (intro less.hyps) (auto simp: copy_buffer_def)
    moreover have "?p @ drop (pos + length ?p) data = drop pos data"
      using append_take_drop_id [of "length ?p" "drop pos data"]
      by (simp add: add.commute take_drop min_def split: if_splits)
    ultimately show ?thesis
      using False less.prems assms(1)
      by (subst copy_input.simps) (simp add: bytesReader_Read_def Let_def)
  qed
qed

end
