(* ===== verification/MinionEnroll.thy ===== *)
theory MinionEnroll
  imports MinionFiles World
begin

text \<open>
  The agent's side of enrollment (\<open>secagent-minion/internal/enrollment\<close> and the copy in
  \<open>internal/ws/enrollment_bridge.go\<close> that the dispatcher uses after a 401): the two requests of the
  challenge-response protocol, the decryption of what the server seals for the agent's key, and the
  secrets kept on disk. The server is a computation \<open>post\<close> over its own state: it takes the JSON body of
  a request and answers a transport error, or a status and a body.
\<close>

section \<open>Requests and errors\<close>

datatype enroll_error =
    PrivateKeyRequired
  | TokenRequired
  | CABundleError string
  | PostError nat string
  | ForbiddenError nat
  | ServerRejected nat int
  | DecodeError nat
  | EmptyChallenge
  | EmptyServerKey
  | EmptyJWT
  | ChallengeError
  | ServerKeyError
  | EncryptError
  | JWTError
  | PersistError string

type_synonym ('s, 'a) net = "('s, 'a) state"

type_synonym 's poster = "json \<Rightarrow> ('s, string + int \<times> json option) state"

text \<open>A string field of a response body: \<open>None\<close> when the body does not decode.\<close>

definition reply_fields :: "json option \<Rightarrow> string \<Rightarrow> string option" where
  "reply_fields body name = Option.bind body (\<lambda>j. Option.bind (obj_pairs j) (string_field name))"

record enroll_config =
  ec_Hostname :: string
  ec_PublicKeyPEM :: string
  ec_PrivateKey :: "string option"
  ec_EnrollmentToken :: string
  ec_CABundle :: string
  ec_JWTPath :: string
  ec_Insecure :: bool
  ec_RegisterURL :: string
  ec_MaxRetries :: int

section \<open>Keys and secrets on disk\<close>

definition PublicKeyPEM :: "ext \<Rightarrow> string \<Rightarrow> string" where
  "PublicKeyPEM X key = pem_encode X ''PUBLIC KEY'' (rsa_public X key)"

definition PrivateKeyPEM :: "ext \<Rightarrow> string \<Rightarrow> string" where
  "PrivateKeyPEM X key = pem_encode X ''RSA PRIVATE KEY'' key"

text \<open>
  \<open>writeSecret\<close>: an existing file is truncated and then written, and keeps its mode. \<open>fe_write\<close> is the
  error of opening, writing or closing it.
\<close>

definition writeSecret :: "fs_env \<Rightarrow> string \<Rightarrow> string \<Rightarrow> host_files \<Rightarrow> string option \<times> host_files" where
  "writeSecret F path content fs =
     (case fe_mkdir F (Dir path) of
        Some e \<Rightarrow> (Some e, fs)
      | None \<Rightarrow> WriteFile F path content 384 fs)"

text \<open>\<open>StorePrivateKey\<close> writes a temporary file and renames it; \<open>rename\<close> is the error of that.\<close>

definition StorePrivateKey ::
  "ext \<Rightarrow> fs_env \<Rightarrow> string option \<Rightarrow> string \<Rightarrow> string \<Rightarrow> host_files \<Rightarrow> string option \<times> host_files" where
  "StorePrivateKey X F rename key path fs =
     (let tmp = path @ ''.tmp'' in
      case fe_mkdir F (Dir path) of
        Some e \<Rightarrow> (Some (''store private key: mkdir: '' @ e), fs)
      | None \<Rightarrow>
          (case WriteFile F tmp (PrivateKeyPEM X key) 384 fs of
             (Some e, fs') \<Rightarrow> (Some (''store private key: write: '' @ e), mdel tmp fs')
           | (None, fs') \<Rightarrow>
               (case rename of
                  Some e \<Rightarrow> (Some e, fs')
                | None \<Rightarrow> (None, case mget fs' tmp of None \<Rightarrow> fs' | Some f \<Rightarrow> mput path f (mdel tmp fs')))))"

datatype key_error = KeyMissing | KeyUnreadable string | KeyNoPEM | KeyInvalid

definition LoadPrivateKeyFromFile :: "ext \<Rightarrow> fs_env \<Rightarrow> string \<Rightarrow> host_files \<Rightarrow> key_error + string" where
  "LoadPrivateKeyFromFile X F path fs =
     (case mget fs path of
        None \<Rightarrow> Inl KeyMissing
      | Some f \<Rightarrow>
          (case fe_read F path of
             Some e \<Rightarrow> Inl (KeyUnreadable e)
           | None \<Rightarrow>
               (case pem_decode X (hf_data f) of
                  None \<Rightarrow> Inl KeyNoPEM
                | Some der \<Rightarrow>
                    (case parse_rsa_private X der of None \<Rightarrow> Inl KeyInvalid | Some key \<Rightarrow> Inr key))))"

text \<open>Base64, then RSA-OAEP with the agent's key.\<close>

definition decryptOAEP :: "ext \<Rightarrow> string \<Rightarrow> string \<Rightarrow> string option" where
  "decryptOAEP X privKey text = Option.bind (DecodeString text) (oaep_decrypt X privKey)"

definition decryptChallenge :: "ext \<Rightarrow> string \<Rightarrow> string \<Rightarrow> string option" where
  "decryptChallenge X challengeB64 privKey = Option.bind (DecodeString challengeB64) (oaep_decrypt X privKey)"

definition decryptJWT :: "ext \<Rightarrow> string \<Rightarrow> string \<Rightarrow> string option" where
  "decryptJWT X jwtEncryptedB64 privKey = Option.bind (DecodeString jwtEncryptedB64) (oaep_decrypt X privKey)"

definition parsePublicKeyPEM :: "ext \<Rightarrow> string \<Rightarrow> string option" where
  "parsePublicKeyPEM X pem = Option.bind (pem_decode X pem) (parse_rsa_public X)"

text \<open>The text sealed for the server: \<open>n\<close> is the draw from the agent's random source.\<close>

definition seal_response :: "ext \<Rightarrow> string \<Rightarrow> string \<Rightarrow> nat \<Rightarrow> string option" where
  "seal_response X serverKey plaintext n = map_option EncodeToString (oaep_encrypt X serverKey plaintext n)"

section \<open>The first enrollment\<close>

definition step1Request :: "enroll_config \<Rightarrow> json" where
  "step1Request cfg = JObj [(''hostname'', JStr (ec_Hostname cfg)), (''public_key_pem'', JStr (ec_PublicKeyPEM cfg)),
     (''enrollment_token'', JStr (ec_EnrollmentToken cfg))]"

definition step2Request :: "enroll_config \<Rightarrow> string \<Rightarrow> json" where
  "step2Request cfg response = JObj [(''hostname'', JStr (ec_Hostname cfg)),
     (''public_key_pem'', JStr (ec_PublicKeyPEM cfg)), (''enrollment_token'', JStr (ec_EnrollmentToken cfg)),
     (''challenge_response'', JStr response)]"

text \<open>The challenge and the server's key of the first response.\<close>

definition step1_result :: "nat \<Rightarrow> json option \<Rightarrow> enroll_error + string \<times> string" where
  "step1_result step body =
     (case (reply_fields body ''challenge'', reply_fields body ''server_public_key_pem'') of
        (Some c, Some k) \<Rightarrow> if c = [] then Inl EmptyChallenge else if k = [] then Inl EmptyServerKey else Inr (c, k)
      | _ \<Rightarrow> Inl (DecodeError step))"

definition step2_result :: "nat \<Rightarrow> json option \<Rightarrow> enroll_error + string" where
  "step2_result step body =
     (case reply_fields body ''jwt_encrypted'' of
        None \<Rightarrow> Inl (DecodeError step)
      | Some j \<Rightarrow> if j = [] then Inl EmptyJWT else Inr j)"

definition enrollStep1 :: "'s poster \<Rightarrow> enroll_config \<Rightarrow> ('s, enroll_error + string \<times> string) state" where
  "enrollStep1 post cfg = do {
     r \<leftarrow> post (step1Request cfg);
     State_Monad.return
       (case r of
          Inl e \<Rightarrow> Inl (PostError 1 e)
        | Inr (code, body) \<Rightarrow> if code \<noteq> 200 then Inl (ServerRejected 1 code) else step1_result 1 body)
   }"

definition enrollStep2 ::
  "ext \<Rightarrow> nat \<Rightarrow> 's poster \<Rightarrow> enroll_config \<Rightarrow> string \<Rightarrow> string \<Rightarrow> ('s, enroll_error + string) state" where
  "enrollStep2 X n post cfg nonce serverPubKey =
     (case seal_response X serverPubKey (nonce @ ec_EnrollmentToken cfg) n of
        None \<Rightarrow> State_Monad.return (Inl EncryptError)
      | Some response \<Rightarrow> do {
          r \<leftarrow> post (step2Request cfg response);
          State_Monad.return
            (case r of
               Inl e \<Rightarrow> Inl (PostError 2 e)
             | Inr (code, body) \<Rightarrow> if code \<noteq> 200 then Inl (ServerRejected 2 code) else step2_result 2 body)
        })"

text \<open>
  \<open>ca\<close> is the error of loading the CA bundle, if it is used and fails. The result comes with the files
  of the host.
\<close>

definition Enroll ::
  "ext \<Rightarrow> fs_env \<Rightarrow> string option \<Rightarrow> nat \<Rightarrow> 's poster \<Rightarrow> enroll_config \<Rightarrow> host_files
     \<Rightarrow> ('s, (enroll_error + string) \<times> host_files) state" where
  "Enroll X F ca n post cfg fs =
     (case ec_PrivateKey cfg of
        None \<Rightarrow> State_Monad.return (Inl PrivateKeyRequired, fs)
      | Some key \<Rightarrow>
          if ec_EnrollmentToken cfg = [] then State_Monad.return (Inl TokenRequired, fs)
          else if \<not> ec_Insecure cfg \<and> ec_CABundle cfg \<noteq> [] \<and> ca \<noteq> None then
            State_Monad.return (Inl (CABundleError (the ca)), fs)
          else do {
            one \<leftarrow> enrollStep1 post cfg;
            case one of
              Inl e \<Rightarrow> State_Monad.return (Inl e, fs)
            | Inr (challenge, serverPubKeyPEM) \<Rightarrow>
                (case decryptChallenge X challenge key of
                   None \<Rightarrow> State_Monad.return (Inl ChallengeError, fs)
                 | Some nonce \<Rightarrow>
                     (case parsePublicKeyPEM X serverPubKeyPEM of
                        None \<Rightarrow> State_Monad.return (Inl ServerKeyError, fs)
                      | Some serverPubKey \<Rightarrow> do {
                          two \<leftarrow> enrollStep2 X n post cfg nonce serverPubKey;
                          State_Monad.return
                            (case two of
                               Inl e \<Rightarrow> (Inl e, fs)
                             | Inr jwtEncrypted \<Rightarrow>
                                 (case decryptJWT X jwtEncrypted key of
                                    None \<Rightarrow> (Inl JWTError, fs)
                                  | Some jwt \<Rightarrow>
                                      if ec_JWTPath cfg = [] then (Inr jwt, fs)
                                      else (case writeSecret F (ec_JWTPath cfg) jwt fs of
                                              (Some e, fs) \<Rightarrow> (Inl (PersistError e), fs)
                                            | (None, fs) \<Rightarrow> (Inr jwt, fs))))
                        }))
          })"

definition ReEnroll ::
  "ext \<Rightarrow> fs_env \<Rightarrow> string option \<Rightarrow> nat \<Rightarrow> 's poster \<Rightarrow> enroll_config \<Rightarrow> host_files
     \<Rightarrow> ('s, (enroll_error + string) \<times> host_files) state" where
  "ReEnroll X F ca n post cfg fs =
     Enroll X F ca n post
       (case ec_PrivateKey cfg of None \<Rightarrow> cfg | Some key \<Rightarrow> cfg\<lparr>ec_PublicKeyPEM := PublicKeyPEM X key\<rparr>) fs"

section \<open>A rotated token\<close>

text \<open>A \<open>rekey\<close> message is opened by the copy of \<open>DecryptAndSaveToken\<close> in package \<open>ws\<close>.\<close>

definition defaultDecryptAndSaveToken ::
  "ext \<Rightarrow> fs_env \<Rightarrow> string \<Rightarrow> string \<Rightarrow> string \<Rightarrow> host_files \<Rightarrow> (enroll_error + string) \<times> host_files" where
  "defaultDecryptAndSaveToken X F text privKey jwtPath fs =
     (case decryptOAEP X privKey text of
        None \<Rightarrow> (Inl JWTError, fs)
      | Some jwt \<Rightarrow>
          if jwtPath = [] then (Inr jwt, fs)
          else (case writeSecret F jwtPath jwt fs of
                  (Some e, fs) \<Rightarrow> (Inl (PersistError e), fs)
                | (None, fs) \<Rightarrow> (Inr jwt, fs)))"

definition DecryptAndSaveToken ::
  "ext \<Rightarrow> fs_env \<Rightarrow> string \<Rightarrow> string option \<Rightarrow> string \<Rightarrow> host_files \<Rightarrow> (enroll_error + string) \<times> host_files" where
  "DecryptAndSaveToken X F text privKey jwtPath fs =
     (case privKey of
        None \<Rightarrow> (Inl PrivateKeyRequired, fs)
      | Some key \<Rightarrow>
          (case Option.bind (DecodeString text) (oaep_decrypt X key) of
             None \<Rightarrow> (Inl JWTError, fs)
           | Some jwt \<Rightarrow>
               if jwtPath = [] then (Inr jwt, fs)
               else (case writeSecret F jwtPath jwt fs of
                       (Some e, fs) \<Rightarrow> (Inl (PersistError e), fs)
                     | (None, fs) \<Rightarrow> (Inr jwt, fs))))"

text \<open>The two copies agree.\<close>

lemma DecryptAndSaveToken_copies:
  "DecryptAndSaveToken X F text (Some key) jwtPath fs = defaultDecryptAndSaveToken X F text key jwtPath fs"
  by (simp add: DecryptAndSaveToken_def defaultDecryptAndSaveToken_def decryptOAEP_def)

section \<open>Re-enrollment by the dispatcher\<close>

text \<open>The requests of \<open>enrollment_bridge.go\<close>, with its field names.\<close>

definition reenroll1Request :: "enroll_config \<Rightarrow> string \<Rightarrow> json" where
  "reenroll1Request ec pubPEM = JObj [(''enrollment_token'', JStr (ec_EnrollmentToken ec)),
     (''hostname'', JStr (ec_Hostname ec)), (''pubkey_pem'', JStr pubPEM)]"

definition reenroll2Request :: "enroll_config \<Rightarrow> string \<Rightarrow> json" where
  "reenroll2Request ec response = JObj [(''hostname'', JStr (ec_Hostname ec)), (''response'', JStr response)]"

definition parseServerPubKey :: "ext \<Rightarrow> string \<Rightarrow> string option" where
  "parseServerPubKey X pemStr = Option.bind (pem_decode X pemStr) (parse_rsa_public X)"

definition defaultPublicKeyPEMFromPrivate :: "ext \<Rightarrow> string \<Rightarrow> string" where
  "defaultPublicKeyPEMFromPrivate X privKey = pem_encode X ''PUBLIC KEY'' (rsa_public X privKey)"

definition reenrollStep1 :: "'s poster \<Rightarrow> enroll_config \<Rightarrow> string \<Rightarrow> ('s, enroll_error + string \<times> string) state" where
  "reenrollStep1 post ec pubPEM = do {
     r \<leftarrow> post (reenroll1Request ec pubPEM);
     State_Monad.return
       (case r of
          Inl e \<Rightarrow> Inl (PostError 1 e)
        | Inr (code, body) \<Rightarrow>
            if code = 403 then Inl (ForbiddenError 1)
            else if code \<noteq> 200 then Inl (ServerRejected 1 code)
            else step1_result 1 body)
   }"

definition reenrollStep2 ::
  "ext \<Rightarrow> nat \<Rightarrow> 's poster \<Rightarrow> enroll_config \<Rightarrow> string \<Rightarrow> string \<Rightarrow> ('s, enroll_error + string) state" where
  "reenrollStep2 X n post ec nonce serverPubKey =
     (case seal_response X serverPubKey (nonce @ ec_EnrollmentToken ec) n of
        None \<Rightarrow> State_Monad.return (Inl EncryptError)
      | Some response \<Rightarrow> do {
          r \<leftarrow> post (reenroll2Request ec response);
          State_Monad.return
            (case r of
               Inl e \<Rightarrow> Inl (PostError 2 e)
             | Inr (code, body) \<Rightarrow>
                 if code = 403 then Inl (ForbiddenError 2)
                 else if code \<noteq> 200 then Inl (ServerRejected 2 code)
                 else step2_result 2 body)
        })"

definition reEnrollOnce ::
  "ext \<Rightarrow> fs_env \<Rightarrow> nat \<Rightarrow> 's poster \<Rightarrow> enroll_config \<Rightarrow> string \<Rightarrow> string \<Rightarrow> host_files
     \<Rightarrow> ('s, (enroll_error + string) \<times> host_files) state" where
  "reEnrollOnce X F n post ec key pubPEM fs =
     (if ec_EnrollmentToken ec = [] then State_Monad.return (Inl TokenRequired, fs)
      else do {
        one \<leftarrow> reenrollStep1 post ec pubPEM;
        case one of
          Inl e \<Rightarrow> State_Monad.return (Inl e, fs)
        | Inr (challenge, serverPubKeyPEM) \<Rightarrow>
            (case decryptOAEP X key challenge of
               None \<Rightarrow> State_Monad.return (Inl ChallengeError, fs)
             | Some nonce \<Rightarrow>
                 (case parseServerPubKey X serverPubKeyPEM of
                    None \<Rightarrow> State_Monad.return (Inl ServerKeyError, fs)
                  | Some serverPubKey \<Rightarrow> do {
                      two \<leftarrow> reenrollStep2 X n post ec nonce serverPubKey;
                      State_Monad.return
                        (case two of
                           Inl e \<Rightarrow> (Inl e, fs)
                         | Inr jwtEncrypted \<Rightarrow> defaultDecryptAndSaveToken X F jwtEncrypted key (ec_JWTPath ec) fs)
                    }))
      })"

definition isForbiddenErr :: "enroll_error \<Rightarrow> bool" where
  "isForbiddenErr e \<longleftrightarrow> (\<exists>k. e = ForbiddenError k)"

text \<open>
  The attempts of \<open>handleUnauthorized\<close>: \<open>attempt\<close> counts from one, \<open>left\<close> is how many may still follow;
  \<open>cancelled\<close> says whether the context ends during the wait after an attempt. The stale token is removed
  first (\<open>fe_remove\<close> would only be logged).
\<close>

datatype unauthorized_error =
    NoEnrollConfig
  | EnrollmentRefused enroll_error
  | AttemptsExhausted int
  | ContextDone

fun reenroll_attempts ::
  "ext \<Rightarrow> fs_env \<Rightarrow> (nat \<Rightarrow> nat) \<Rightarrow> (nat \<Rightarrow> bool) \<Rightarrow> 's poster \<Rightarrow> enroll_config \<Rightarrow> string \<Rightarrow> nat \<Rightarrow> nat
     \<Rightarrow> host_files \<Rightarrow> ('s, (unauthorized_error + string) \<times> host_files) state" where
  "reenroll_attempts X F draws cancelled post ec key attempt 0 fs =
     State_Monad.return (Inl (AttemptsExhausted (ec_MaxRetries ec)), fs)"
| "reenroll_attempts X F draws cancelled post ec key attempt (Suc left) fs = do {
     r \<leftarrow> reEnrollOnce X F (draws attempt) post ec key (defaultPublicKeyPEMFromPrivate X key) fs;
     case r of
       (Inr newJWT, fs) \<Rightarrow> State_Monad.return (Inr newJWT, fs)
     | (Inl e, fs) \<Rightarrow>
         if isForbiddenErr e then State_Monad.return (Inl (EnrollmentRefused e), fs)
         else if 0 < left \<and> cancelled attempt then State_Monad.return (Inl ContextDone, fs)
         else reenroll_attempts X F draws cancelled post ec key (Suc attempt) left fs
   }"

text \<open>\<open>WithEnrollConfig\<close> and \<open>handleUnauthorized\<close> both replace a non-positive number of attempts by three.\<close>

definition WithEnrollConfig :: "enroll_config \<Rightarrow> enroll_config" where
  "WithEnrollConfig ec = ec\<lparr>ec_MaxRetries := (if ec_MaxRetries ec \<le> 0 then 3 else ec_MaxRetries ec)\<rparr>"

definition handleUnauthorized ::
  "ext \<Rightarrow> fs_env \<Rightarrow> (nat \<Rightarrow> nat) \<Rightarrow> (nat \<Rightarrow> bool) \<Rightarrow> 's poster \<Rightarrow> enroll_config \<Rightarrow> host_files
     \<Rightarrow> ('s, (unauthorized_error + string) \<times> host_files) state" where
  "handleUnauthorized X F draws cancelled post ec0 fs =
     (let ec = WithEnrollConfig ec0 in
      case ec_PrivateKey ec of
        None \<Rightarrow> State_Monad.return (Inl NoEnrollConfig, fs)
      | Some key \<Rightarrow>
          if ec_RegisterURL ec = [] then State_Monad.return (Inl NoEnrollConfig, fs)
          else reenroll_attempts X F draws cancelled post ec key 1 (nat (ec_MaxRetries ec))
                 (if ec_JWTPath ec = [] then fs else mdel (ec_JWTPath ec) fs))"

end
