(* ===== verification/MinionWs.thy ===== *)
theory MinionWs
  imports MinionExec MinionEnroll
begin

text \<open>
  The agent's WebSocket client (\<open>secagent-minion/internal/ws/dispatcher.go\<close>) and the message handlers of
  its \<open>main.go\<close>: the messages of the server, the table of running tasks, the read loop with its limit
  on concurrent commands, the goroutines that run tasks and answer, and the reconnection loop with its
  backoff and its re-enrollment.
\<close>

section \<open>Messages\<close>

record ExecMsg =
  em_TaskID :: string
  em_Type :: string
  em_Cmd :: string
  em_Stdin :: string
  em_Timeout :: int
  em_Become :: bool
  em_BecomeMethod :: string
  em_ExpiresAt :: int

definition BaseMsg :: "json \<Rightarrow> (string \<times> string) option" where
  "BaseMsg j = do {
     ps \<leftarrow> obj_pairs j;
     t \<leftarrow> string_field ''task_id'' ps;
     ty \<leftarrow> string_field ''type'' ps;
     Some (t, ty)
   }"

definition decode_ExecMsg :: "json \<Rightarrow> ExecMsg option" where
  "decode_ExecMsg j = do {
     ps \<leftarrow> obj_pairs j;
     t \<leftarrow> string_field ''task_id'' ps;
     ty \<leftarrow> string_field ''type'' ps;
     cmd \<leftarrow> string_field ''cmd'' ps;
     stdin \<leftarrow> string_field ''stdin'' ps;
     tmo \<leftarrow> int_field ''timeout'' ps;
     become \<leftarrow> bool_field ''become'' ps;
     meth \<leftarrow> string_field ''become_method'' ps;
     expires \<leftarrow> int_field ''expires_at'' ps;
     Some \<lparr>em_TaskID = t, em_Type = ty, em_Cmd = cmd, em_Stdin = stdin, em_Timeout = tmo,
       em_Become = become, em_BecomeMethod = meth, em_ExpiresAt = expires\<rparr>
   }"

record PutFileMsg =
  pm_TaskID :: string
  pm_Dest :: string
  pm_Data :: string
  pm_Mode :: string

definition decode_PutFileMsg :: "json \<Rightarrow> PutFileMsg option" where
  "decode_PutFileMsg j = do {
     ps \<leftarrow> obj_pairs j;
     t \<leftarrow> string_field ''task_id'' ps;
     ty \<leftarrow> string_field ''type'' ps;
     dest \<leftarrow> string_field ''dest'' ps;
     data \<leftarrow> string_field ''data'' ps;
     mode \<leftarrow> string_field ''mode'' ps;
     Some \<lparr>pm_TaskID = t, pm_Dest = dest, pm_Data = data, pm_Mode = mode\<rparr>
   }"

record FetchFileMsg =
  fm_TaskID :: string
  fm_Src :: string

definition decode_FetchFileMsg :: "json \<Rightarrow> FetchFileMsg option" where
  "decode_FetchFileMsg j = do {
     ps \<leftarrow> obj_pairs j;
     t \<leftarrow> string_field ''task_id'' ps;
     ty \<leftarrow> string_field ''type'' ps;
     src \<leftarrow> string_field ''src'' ps;
     Some \<lparr>fm_TaskID = t, fm_Src = src\<rparr>
   }"

definition RekeyMsg :: "json \<Rightarrow> string option" where
  "RekeyMsg j = do {
     ps \<leftarrow> obj_pairs j;
     ty \<leftarrow> string_field ''type'' ps;
     string_field ''token_encrypted'' ps
   }"

section \<open>The message handlers\<close>

text \<open>What each handler sends, in order.\<close>

definition ack_message :: "string \<Rightarrow> json" where
  "ack_message taskID = JObj [(''task_id'', JStr taskID), (''type'', JStr ''ack''), (''status'', JStr ''running'')]"

definition result_message :: "string \<Rightarrow> int \<Rightarrow> string \<Rightarrow> string \<Rightarrow> bool \<Rightarrow> json" where
  "result_message taskID rc out err truncated =
     JObj [(''task_id'', JStr taskID), (''type'', JStr ''result''), (''rc'', JNum rc), (''stdout'', JStr out),
       (''stderr'', JStr err), (''truncated'', JBool truncated)]"

definition exec_request :: "ExecMsg \<Rightarrow> ExecRequest_agent" where
  "exec_request msg = \<lparr>xr_TaskID = em_TaskID msg, xr_Cmd = em_Cmd msg, xr_StdinB64 = em_Stdin msg,
     xr_Timeout = em_Timeout msg, xr_Become = em_Become msg, xr_ExpiresAt = em_ExpiresAt msg\<rparr>"

definition HandleExec :: "spawner \<Rightarrow> bool \<Rightarrow> int \<Rightarrow> ExecMsg \<Rightarrow> json list" where
  "HandleExec run cancelled now msg =
     (let result = Run run cancelled now (exec_request msg)
      in [ack_message (em_TaskID msg),
          result_message (xs_TaskID result) (xs_RC result) (xs_Stdout result) (xs_Stderr result)
            (xs_Truncated result)])"

definition HandlePutFile :: "fs_env \<Rightarrow> PutFileMsg \<Rightarrow> host_files \<Rightarrow> json \<times> host_files" where
  "HandlePutFile F msg fs =
     (case PutFile F \<lparr>pf_TaskID = pm_TaskID msg, pf_Dest = pm_Dest msg, pf_DataB64 = pm_Data msg,
             pf_Mode = pm_Mode msg\<rparr> fs of
        (Inl e, fs) \<Rightarrow> (result_message (pm_TaskID msg) (-1) [] (file_error_text F e) False, fs)
      | (Inr _, fs) \<Rightarrow> (result_message (pm_TaskID msg) 0 [] [] False, fs))"

definition HandleFetchFile :: "fs_env \<Rightarrow> FetchFileMsg \<Rightarrow> host_files \<Rightarrow> json" where
  "HandleFetchFile F msg fs =
     (case FetchFile_agent F (fm_Src msg) fs of
        Inl e \<Rightarrow> JObj [(''task_id'', JStr (fm_TaskID msg)), (''type'', JStr ''result''), (''rc'', JNum (-1)),
          (''data'', JStr []), (''stderr'', JStr (file_error_text F e)), (''truncated'', JBool False)]
      | Inr data \<Rightarrow> JObj [(''task_id'', JStr (fm_TaskID msg)), (''type'', JStr ''result''), (''rc'', JNum 0),
          (''data'', JStr data), (''truncated'', JBool False)])"

section \<open>The state of the dispatcher\<close>

text \<open>
  \<open>dw_running\<close>: the goroutines of commands, by number, with the connection that started them and
  whether their context is cancelled; \<open>dw_transfers\<close>: those of file transfers. \<open>dw_tasks\<close> is the
  table of cancel functions (here the numbers of the goroutines). \<open>dw_conn\<close> numbers the connections:
  the slots of commands and the function that sends belong to one connection. \<open>dw_sent\<close> is what was
  written, with the connection it went to.
\<close>

record exec_task =
  et_conn :: nat
  et_msg :: ExecMsg
  et_cancelled :: bool

datatype transfer = PutTask PutFileMsg | FetchTask FetchFileMsg

record Dispatcher_ws =
  dw_jwt :: string
  dw_tasks :: "(string, nat) gomap"
  dw_maxConcurrent :: nat
  dw_running :: "(nat, exec_task) gomap"
  dw_transfers :: "(nat, nat \<times> transfer) gomap"
  dw_next :: nat
  dw_conn :: nat
  dw_up :: bool
  dw_sent :: "(nat \<times> json) list"
  dw_files :: host_files

definition MaxConcurrentTasks :: nat where
  "MaxConcurrentTasks = 10"

definition NewDispatcher_ws :: "string \<Rightarrow> int \<Rightarrow> host_files \<Rightarrow> Dispatcher_ws" where
  "NewDispatcher_ws jwt maxConcurrent fs =
     \<lparr>dw_jwt = jwt, dw_tasks = [],
       dw_maxConcurrent = (if 0 < maxConcurrent then nat maxConcurrent else MaxConcurrentTasks),
       dw_running = [], dw_transfers = [], dw_next = 0, dw_conn = 0, dw_up = False, dw_sent = [], dw_files = fs\<rparr>"

definition registerTask :: "string \<Rightarrow> nat \<Rightarrow> Dispatcher_ws \<Rightarrow> Dispatcher_ws" where
  "registerTask taskID g d = d\<lparr>dw_tasks := mput taskID g (dw_tasks d)\<rparr>"

definition unregisterTask :: "string \<Rightarrow> Dispatcher_ws \<Rightarrow> Dispatcher_ws" where
  "unregisterTask taskID d = d\<lparr>dw_tasks := mdel taskID (dw_tasks d)\<rparr>"

definition cancelTask :: "string \<Rightarrow> Dispatcher_ws \<Rightarrow> Dispatcher_ws" where
  "cancelTask taskID d =
     (case mget (dw_tasks d) taskID of
        None \<Rightarrow> d
      | Some g \<Rightarrow>
          (case mget (dw_running d) g of
             None \<Rightarrow> d
           | Some t \<Rightarrow> d\<lparr>dw_running := mput g (t\<lparr>et_cancelled := True\<rparr>) (dw_running d)\<rparr>))"

text \<open>Sending over a connection that is gone fails; the handlers only log that.\<close>

definition send_on :: "nat \<Rightarrow> json \<Rightarrow> Dispatcher_ws \<Rightarrow> Dispatcher_ws" where
  "send_on c payload d =
     (if dw_up d \<and> c = dw_conn d then d\<lparr>dw_sent := dw_sent d @ [(c, payload)]\<rparr> else d)"

text \<open>The slots in use: the capacity of \<open>sem\<close> counts the commands of one connection.\<close>

definition slots_used :: "nat \<Rightarrow> Dispatcher_ws \<Rightarrow> nat" where
  "slots_used c d = length (filter (\<lambda>(g, t). et_conn t = c) (dw_running d))"

definition start_exec :: "ExecMsg \<Rightarrow> Dispatcher_ws \<Rightarrow> Dispatcher_ws" where
  "start_exec msg d =
     (let g = dw_next d in
      registerTask (em_TaskID msg) g
        (d\<lparr>dw_running := mput g \<lparr>et_conn = dw_conn d, et_msg = msg, et_cancelled = False\<rparr> (dw_running d),
           dw_next := Suc g\<rparr>))"

definition start_transfer :: "transfer \<Rightarrow> Dispatcher_ws \<Rightarrow> Dispatcher_ws" where
  "start_transfer t d =
     d\<lparr>dw_transfers := mput (dw_next d) (dw_conn d, t) (dw_transfers d), dw_next := Suc (dw_next d)\<rparr>"

section \<open>The read loop\<close>

definition handle_rekey :: "ext \<Rightarrow> fs_env \<Rightarrow> enroll_config \<Rightarrow> json \<Rightarrow> Dispatcher_ws \<Rightarrow> Dispatcher_ws" where
  "handle_rekey X F ec j d =
     (case RekeyMsg j of
        None \<Rightarrow> d
      | Some sealed \<Rightarrow>
          (case ec_PrivateKey ec of
             None \<Rightarrow> d
           | Some key \<Rightarrow>
               (case defaultDecryptAndSaveToken X F sealed key (ec_JWTPath ec) (dw_files d) of
                  (Inl _, fs) \<Rightarrow> d\<lparr>dw_files := fs\<rparr>
                | (Inr newJWT, fs) \<Rightarrow> d\<lparr>dw_files := fs, dw_jwt := newJWT\<rparr>)))"

text \<open>One message: \<open>raw = None\<close> does not parse as JSON.\<close>

definition read_message :: "ext \<Rightarrow> fs_env \<Rightarrow> enroll_config \<Rightarrow> json option \<Rightarrow> Dispatcher_ws \<Rightarrow> Dispatcher_ws" where
  "read_message X F ec raw d =
     (case raw of
        None \<Rightarrow> d
      | Some j \<Rightarrow>
          (case BaseMsg j of
             None \<Rightarrow> d
           | Some (taskID, ty) \<Rightarrow>
               if ty = ''rekey'' then handle_rekey X F ec j d
               else if ty = ''exec'' then
                 (case decode_ExecMsg j of
                    None \<Rightarrow> d
                  | Some msg \<Rightarrow>
                      if slots_used (dw_conn d) d < dw_maxConcurrent d then start_exec msg d
                      else send_on (dw_conn d) (result_message taskID (-1) [] ''agent_busy'' False) d)
               else if ty = ''put_file'' then
                 (case decode_PutFileMsg j of None \<Rightarrow> d | Some msg \<Rightarrow> start_transfer (PutTask msg) d)
               else if ty = ''fetch_file'' then
                 (case decode_FetchFileMsg j of None \<Rightarrow> d | Some msg \<Rightarrow> start_transfer (FetchTask msg) d)
               else if ty = ''cancel'' then cancelTask taskID d
               else d))"

text \<open>
  The goroutines: a command sends its acknowledgement, runs, sends its result, and then gives up its
  entry in the table and its slot. \<open>run\<close> and \<open>now\<close> are the process and the time of the run.
\<close>

definition ack_exec :: "nat \<Rightarrow> Dispatcher_ws \<Rightarrow> Dispatcher_ws" where
  "ack_exec g d =
     (case mget (dw_running d) g of
        None \<Rightarrow> d
      | Some t \<Rightarrow> send_on (et_conn t) (ack_message (em_TaskID (et_msg t))) d)"

definition finish_exec :: "spawner \<Rightarrow> int \<Rightarrow> nat \<Rightarrow> Dispatcher_ws \<Rightarrow> Dispatcher_ws" where
  "finish_exec run now g d =
     (case mget (dw_running d) g of
        None \<Rightarrow> d
      | Some t \<Rightarrow>
          (let d = send_on (et_conn t) (last (HandleExec run (et_cancelled t) now (et_msg t))) d;
               d = unregisterTask (em_TaskID (et_msg t)) d
           in d\<lparr>dw_running := mdel g (dw_running d)\<rparr>))"

definition run_transfer :: "fs_env \<Rightarrow> nat \<Rightarrow> Dispatcher_ws \<Rightarrow> Dispatcher_ws" where
  "run_transfer F g d =
     (case mget (dw_transfers d) g of
        None \<Rightarrow> d
      | Some (c, t) \<Rightarrow>
          (let (answer, fs) = (case t of
                 PutTask msg \<Rightarrow> HandlePutFile F msg (dw_files d)
               | FetchTask msg \<Rightarrow> (HandleFetchFile F msg (dw_files d), dw_files d))
           in send_on c answer (d\<lparr>dw_files := fs, dw_transfers := mdel g (dw_transfers d)\<rparr>)))"

text \<open>\<open>connect\<close> succeeds, and ends with the first read error.\<close>

definition connected :: "Dispatcher_ws \<Rightarrow> Dispatcher_ws" where
  "connected d = d\<lparr>dw_conn := Suc (dw_conn d), dw_up := True\<rparr>"

definition disconnected :: "Dispatcher_ws \<Rightarrow> Dispatcher_ws" where
  "disconnected d = d\<lparr>dw_up := False\<rparr>"

section \<open>Reconnection\<close>

text \<open>Delays are in seconds; \<open>Run\<close> uses a base of 1 and a maximum of 60.\<close>

record ReconnectManager =
  rc_baseDelay :: nat
  rc_maxDelay :: nat
  rc_attempt :: nat

definition NewReconnectManager :: "nat \<Rightarrow> nat \<Rightarrow> ReconnectManager" where
  "NewReconnectManager baseDelay maxDelay = \<lparr>rc_baseDelay = baseDelay, rc_maxDelay = maxDelay, rc_attempt = 0\<rparr>"

definition NextDelay :: "ReconnectManager \<Rightarrow> nat \<times> ReconnectManager" where
  "NextDelay r =
     (let delay = rc_baseDelay r * 2 ^ rc_attempt r
      in (if rc_maxDelay r < delay then rc_maxDelay r else delay, r\<lparr>rc_attempt := Suc (rc_attempt r)\<rparr>))"

definition Reset :: "ReconnectManager \<Rightarrow> ReconnectManager" where
  "Reset r = r\<lparr>rc_attempt := 0\<rparr>"

definition ShouldReconnect :: "int \<Rightarrow> bool" where
  "ShouldReconnect closeCode \<longleftrightarrow> closeCode \<noteq> 4001"

text \<open>
  How one call of \<open>connect\<close> ends: the server cannot be reached, it refuses the handshake with a
  status, or the connection is established and later ends, with a close code or without.
\<close>

datatype conn_outcome = Unreachable | Refused int | Ended "int option"

datatype run_result = RevokedByServer int | ReEnrollmentFailed unauthorized_error | ContextCancelled

datatype loop_step = Stop run_result | Again nat ReconnectManager string

text \<open>
  One iteration of \<open>Run\<close>: \<open>reenroll\<close> is the result of \<open>handleUnauthorized\<close> if it is called, \<open>cancelled\<close>
  whether the context ends during the wait. \<open>Again\<close> holds the delay, the backoff and the token of the
  next connection.
\<close>

definition run_step ::
  "conn_outcome \<Rightarrow> unauthorized_error + string \<Rightarrow> bool \<Rightarrow> ReconnectManager \<Rightarrow> string \<Rightarrow> loop_step" where
  "run_step out reenroll cancelled r0 jwt =
     (let r = (case out of Ended _ \<Rightarrow> Reset r0 | _ \<Rightarrow> r0);
          wait = (case NextDelay r of (delay, r') \<Rightarrow> if cancelled then Stop ContextCancelled else Again delay r' jwt)
      in case out of
           Ended (Some code) \<Rightarrow> if \<not> ShouldReconnect code then Stop (RevokedByServer code) else wait
         | Refused code \<Rightarrow>
             if code = 401 then
               (case reenroll of Inl e \<Rightarrow> Stop (ReEnrollmentFailed e) | Inr newJWT \<Rightarrow> Again 0 (Reset r) newJWT)
             else wait
         | _ \<Rightarrow> wait)"

text \<open>
  The loop over the outcomes of successive connections: the delays, the tokens presented, and the
  result, if it has returned.
\<close>

fun Run_loop ::
  "(conn_outcome \<times> (unauthorized_error + string) \<times> bool) list \<Rightarrow> ReconnectManager \<Rightarrow> string
     \<Rightarrow> nat list \<times> string list \<times> run_result option" where
  "Run_loop [] r jwt = ([], [jwt], None)"
| "Run_loop ((out, reenroll, cancelled) # rest) r jwt =
     (case run_step out reenroll cancelled r jwt of
        Stop res \<Rightarrow> ([], [jwt], Some res)
      | Again delay r' jwt' \<Rightarrow>
          (case Run_loop rest r' jwt' of (delays, tokens, res) \<Rightarrow> (delay # delays, jwt # tokens, res)))"

definition Run_ws ::
  "(conn_outcome \<times> (unauthorized_error + string) \<times> bool) list \<Rightarrow> string \<Rightarrow> nat list \<times> string list \<times> run_result option" where
  "Run_ws outcomes jwt = Run_loop outcomes (NewReconnectManager 1 60) jwt"

end
