(* ===== verification/MinionRegistry.thy ===== *)
theory MinionRegistry
  imports GoNum GoJson
begin

text \<open>
  The agent's registry of asynchronous jobs (\<open>secagent-minion/internal/registry\<close>): a map of jobs that
  every change writes through to a JSON file, which the next start of the agent reads again. Times are
  nanoseconds since the epoch. The text of the file, the errors of the file system, the liveness of
  processes and the output files are the parameters of \<open>job_env\<close>.
\<close>

section \<open>Jobs\<close>

record Job =
  jb_JID :: string
  jb_PID :: int
  jb_Cmd :: string
  jb_Timeout :: int
  jb_StdoutPath :: string
  jb_StartedAt :: int
  jb_Finished :: bool
  jb_RC :: int

record AsyncStatus_job =
  as_AnsibleJobID :: string
  as_Finished :: int
  as_RC :: int
  as_Stdout :: string
  as_Failed :: bool
  as_Msg :: string

text \<open>\<open>rg_file\<close> is the file's text, if it exists.\<close>

record Registry =
  rg_jobs :: "(string, Job) gomap"
  rg_file :: "string option"

datatype signal_result = Signalled | NotPermitted | SignalError

text \<open>
  \<open>je_save_error\<close> is the error of one of the steps of \<open>save\<close> (before or at the final rename).
\<close>

record job_env =
  je_encode :: "(string, Job) gomap \<Rightarrow> string"
  je_decode :: "string \<Rightarrow> (string, Job) gomap option"
  je_save_error :: "string option"
  je_read_error :: "string option"
  je_find :: "int \<Rightarrow> bool"
  je_kill0 :: "int \<Rightarrow> signal_result"
  je_output :: "string \<Rightarrow> string option"

section \<open>The file\<close>

definition save :: "job_env \<Rightarrow> Registry \<Rightarrow> string option \<times> Registry" where
  "save J r = (case je_save_error J of
     Some e \<Rightarrow> (Some e, r)
   | None \<Rightarrow> (None, r\<lparr>rg_file := Some (je_encode J (rg_jobs r))\<rparr>))"

definition load :: "job_env \<Rightarrow> string \<Rightarrow> string + (string, Job) gomap" where
  "load J text = (case je_read_error J of
     Some e \<Rightarrow> Inl e
   | None \<Rightarrow> (case je_decode J text of None \<Rightarrow> Inl ''invalid json'' | Some jobs \<Rightarrow> Inr jobs))"

definition New_Registry :: "job_env \<Rightarrow> string option \<Rightarrow> string + Registry" where
  "New_Registry J file =
     (case file of
        None \<Rightarrow> Inr \<lparr>rg_jobs = [], rg_file = None\<rparr>
      | Some text \<Rightarrow>
          (case load J text of
             Inl e \<Rightarrow> Inl (''registry: load: '' @ e)
           | Inr jobs \<Rightarrow> Inr \<lparr>rg_jobs = jobs, rg_file = Some text\<rparr>))"

section \<open>Operations\<close>

text \<open>Each returns its error, if any, and the new registry.\<close>

definition RegisterJob ::
  "job_env \<Rightarrow> int \<Rightarrow> string \<Rightarrow> int \<Rightarrow> string \<Rightarrow> int \<Rightarrow> string \<Rightarrow> Registry \<Rightarrow> string option \<times> Registry" where
  "RegisterJob J now jid pid cmd tmo stdoutPath r =
     save J (r\<lparr>rg_jobs := mput jid \<lparr>jb_JID = jid, jb_PID = pid, jb_Cmd = cmd, jb_Timeout = tmo,
       jb_StdoutPath = stdoutPath, jb_StartedAt = now, jb_Finished = False, jb_RC = 0\<rparr> (rg_jobs r)\<rparr>)"

definition GetJob :: "Registry \<Rightarrow> string \<Rightarrow> Job option" where
  "GetJob r jid = mget (rg_jobs r) jid"

definition UpdateJob :: "job_env \<Rightarrow> string \<Rightarrow> bool \<Rightarrow> int \<Rightarrow> Registry \<Rightarrow> string option \<times> Registry" where
  "UpdateJob J jid finished rc r =
     (case mget (rg_jobs r) jid of
        None \<Rightarrow> (Some (''registry: job '' @ jid @ '' not found''), r)
      | Some j \<Rightarrow> save J (r\<lparr>rg_jobs := mput jid (j\<lparr>jb_Finished := finished, jb_RC := rc\<rparr>) (rg_jobs r)\<rparr>))"

definition RemoveJob :: "job_env \<Rightarrow> string \<Rightarrow> Registry \<Rightarrow> string option \<times> Registry" where
  "RemoveJob J jid r = save J (r\<lparr>rg_jobs := mdel jid (rg_jobs r)\<rparr>)"

definition checkPIDAlive :: "job_env \<Rightarrow> int \<Rightarrow> bool" where
  "checkPIDAlive J pid \<longleftrightarrow> je_find J pid \<and> (je_kill0 J pid = Signalled \<or> je_kill0 J pid = NotPermitted)"

text \<open>The loops over the jobs: those that \<open>due\<close> selects are marked finished with \<open>rc\<close>.\<close>

definition due_jobs :: "(Job \<Rightarrow> bool) \<Rightarrow> (string, Job) gomap \<Rightarrow> Job list" where
  "due_jobs due jobs = filter (\<lambda>j. \<not> jb_Finished j \<and> due j) (map snd jobs)"

definition finish_due :: "(Job \<Rightarrow> bool) \<Rightarrow> int \<Rightarrow> (string, Job) gomap \<Rightarrow> (string, Job) gomap" where
  "finish_due due rc jobs =
     map (\<lambda>(k, j). (k, if \<not> jb_Finished j \<and> due j then j\<lparr>jb_Finished := True, jb_RC := rc\<rparr> else j)) jobs"

definition RestoreOnRestart :: "job_env \<Rightarrow> Registry \<Rightarrow> string option \<times> Registry" where
  "RestoreOnRestart J r =
     (let due = (\<lambda>j. \<not> checkPIDAlive J (jb_PID j)) in
      if due_jobs due (rg_jobs r) = [] then (None, r)
      else save J (r\<lparr>rg_jobs := finish_due due (-1) (rg_jobs r)\<rparr>))"

definition job_expired :: "int \<Rightarrow> Job \<Rightarrow> bool" where
  "job_expired now j \<longleftrightarrow> jb_StartedAt j + wrap64 (jb_Timeout j * 1000000000) < now"

text \<open>The result also lists the processes that receive \<open>SIGTERM\<close>.\<close>

definition CheckAndKillExpired :: "job_env \<Rightarrow> int \<Rightarrow> Registry \<Rightarrow> int list \<times> string option \<times> Registry" where
  "CheckAndKillExpired J now r =
     (let expired = due_jobs (job_expired now) (rg_jobs r) in
      (filter (je_find J) (map jb_PID expired),
       if expired = [] then (None, r)
       else save J (r\<lparr>rg_jobs := finish_due (job_expired now) (-15) (rg_jobs r)\<rparr>)))"

definition GetAsyncStatus :: "job_env \<Rightarrow> string \<Rightarrow> Registry \<Rightarrow> AsyncStatus_job" where
  "GetAsyncStatus J jid r =
     (case mget (rg_jobs r) jid of
        None \<Rightarrow> \<lparr>as_AnsibleJobID = jid, as_Finished = 1, as_RC = 0, as_Stdout = [], as_Failed = True,
                 as_Msg = ''job '' @ jid @ '' not found''\<rparr>
      | Some j \<Rightarrow> \<lparr>as_AnsibleJobID = jb_JID j, as_Finished = (if jb_Finished j then 1 else 0),
                 as_RC = jb_RC j,
                 as_Stdout = (if jb_Finished j \<and> jb_StdoutPath j \<noteq> []
                   then (case je_output J (jb_StdoutPath j) of None \<Rightarrow> [] | Some out \<Rightarrow> out) else []),
                 as_Failed = (jb_Finished j \<and> jb_RC j \<noteq> 0), as_Msg = []\<rparr>)"

section \<open>Lemmas\<close>

lemma mget_finish_due:
  "mget (finish_due due rc jobs) k =
     map_option (\<lambda>j. if \<not> jb_Finished j \<and> due j then j\<lparr>jb_Finished := True, jb_RC := rc\<rparr> else j) (mget jobs k)"
  by (induction jobs) (auto simp: finish_due_def)

lemma due_finish_due: "due_jobs due (finish_due due rc jobs) = []"
  by (induction jobs) (auto simp: finish_due_def due_jobs_def split: if_splits)

lemma due_none: "due_jobs due jobs = [] \<Longrightarrow> finish_due due rc jobs = jobs"
  by (induction jobs) (auto simp: finish_due_def due_jobs_def split: if_splits)

lemma keys_finish_due: "mkeys (finish_due due rc jobs) = mkeys jobs"
  by (induction jobs) (auto simp: finish_due_def)

text \<open>What every operation keeps: the keys are distinct and the file holds the jobs.\<close>

definition synced :: "job_env \<Rightarrow> Registry \<Rightarrow> bool" where
  "synced J r \<longleftrightarrow> distinct (mkeys (rg_jobs r)) \<and>
     (case rg_file r of None \<Rightarrow> rg_jobs r = [] | Some text \<Rightarrow> text = je_encode J (rg_jobs r))"

lemma save_ok: "save J r = (None, r') \<Longrightarrow> r' = r\<lparr>rg_file := Some (je_encode J (rg_jobs r))\<rparr>"
  by (auto simp: save_def split: option.splits)

lemma save_synced: "save J r = (None, r') \<Longrightarrow> distinct (mkeys (rg_jobs r)) \<Longrightarrow> synced J r'"
  by (auto simp: synced_def dest: save_ok)

section \<open>The life of a registry\<close>

text \<open>Any sequence of operations, with saves that fail or not, from the start of an agent.\<close>

inductive registry_reachable :: "job_env \<Rightarrow> Registry \<Rightarrow> bool" for J where
  start: "New_Registry J None = Inr r \<Longrightarrow> registry_reachable J r"
| restart: "registry_reachable J r \<Longrightarrow> New_Registry J (rg_file r) = Inr r' \<Longrightarrow> registry_reachable J r'"
| register: "registry_reachable J r \<Longrightarrow>
    registry_reachable J (snd (RegisterJob (J\<lparr>je_save_error := e\<rparr>) now jid pid cmd tmo out r))"
| update: "registry_reachable J r \<Longrightarrow> registry_reachable J (snd (UpdateJob (J\<lparr>je_save_error := e\<rparr>) jid b rc r))"
| remove: "registry_reachable J r \<Longrightarrow> registry_reachable J (snd (RemoveJob (J\<lparr>je_save_error := e\<rparr>) jid r))"
| restore: "registry_reachable J r \<Longrightarrow>
    registry_reachable J (snd (RestoreOnRestart (J\<lparr>je_save_error := e, je_kill0 := alive\<rparr>) r))"
| expire: "registry_reachable J r \<Longrightarrow>
    registry_reachable J (snd (snd (CheckAndKillExpired (J\<lparr>je_save_error := e\<rparr>) now r)))"

text \<open>The text of the file decodes to what was encoded.\<close>

definition json_roundtrip :: "job_env \<Rightarrow> bool" where
  "json_roundtrip J \<longleftrightarrow> (\<forall>jobs. distinct (mkeys jobs) \<longrightarrow> je_decode J (je_encode J jobs) = Some jobs)"

definition good_file :: "job_env \<Rightarrow> string option \<Rightarrow> bool" where
  "good_file J file \<longleftrightarrow> (\<forall>text. file = Some text \<longrightarrow> (\<exists>jobs. text = je_encode J jobs \<and> distinct (mkeys jobs)))"

definition registry_ok :: "job_env \<Rightarrow> Registry \<Rightarrow> bool" where
  "registry_ok J r \<longleftrightarrow> distinct (mkeys (rg_jobs r)) \<and> good_file J (rg_file r)"

lemma save_registry_ok:
  assumes "registry_ok J r" "distinct (mkeys jobs)" "je_encode J' = je_encode J"
  shows "registry_ok J (snd (save J' (r\<lparr>rg_jobs := jobs\<rparr>)))"
  using assms by (auto simp: save_def registry_ok_def good_file_def split: option.splits)

lemma registry_ok_keys: "registry_ok J r \<Longrightarrow> distinct (mkeys (rg_jobs r))"
  by (simp add: registry_ok_def)

lemma New_Registry_ok:
  assumes "json_roundtrip J" "good_file J file" "New_Registry J file = Inr r"
  shows "registry_ok J r"
  using assms
  by (auto simp: New_Registry_def load_def registry_ok_def good_file_def json_roundtrip_def
      split: option.splits)

lemma registry_invariant: "registry_reachable J r \<Longrightarrow> json_roundtrip J \<Longrightarrow> registry_ok J r"
proof (induction rule: registry_reachable.induct)
  case (start r)
  then show ?case by (auto simp: New_Registry_def registry_ok_def good_file_def)
next
  case (restart r r')
  then show ?case using New_Registry_ok by (auto simp: registry_ok_def)
next
  case (register r e now jid pid cmd tmo out)
  then show ?case
    unfolding RegisterJob_def by (intro save_registry_ok distinct_mput registry_ok_keys) simp_all
next
  case (update r e jid b rc)
  then show ?case
    unfolding UpdateJob_def
    by (cases "mget (rg_jobs r) jid") (simp, simp, intro save_registry_ok distinct_mput registry_ok_keys, simp_all)
next
  case (remove r e jid)
  then show ?case
    unfolding RemoveJob_def by (intro save_registry_ok distinct_mdel registry_ok_keys) simp_all
next
  case (restore r e alive)
  then show ?case
    by (simp add: RestoreOnRestart_def Let_def keys_finish_due save_registry_ok registry_ok_keys)
next
  case (expire r e now)
  then show ?case
    by (simp add: CheckAndKillExpired_def Let_def keys_finish_due save_registry_ok registry_ok_keys)
qed

lemma reload:
  assumes "json_roundtrip J" "je_read_error J = None" "distinct (mkeys (rg_jobs r))"
    "rg_file r = Some (je_encode J (rg_jobs r))"
  shows "New_Registry J (rg_file r) = Inr r"
  using assms by (simp add: New_Registry_def load_def json_roundtrip_def)

end
