(* ===== verification/MinionSpec.thy ===== *)
theory MinionSpec
  imports MinionWs MinionRegistry GoWire Hub
begin

text \<open>
  What the agent guarantees by itself: the files a transfer can touch, what the result of a command
  holds, how many commands run at a time and which of them a cancellation reaches, the messages it
  sends, how it reconnects, and what a restart keeps of its asynchronous jobs.
\<close>

section \<open>Files\<close>

lemma WriteFile_other: "WriteFile F p data perm fs = (e, fs') \<Longrightarrow> q \<noteq> p \<Longrightarrow> mget fs' q = mget fs q"
  by (auto simp: WriteFile_def Let_def split: option.splits prod.splits)

lemma WriteFile_ok: "WriteFile F p data perm fs = (None, fs') \<Longrightarrow> \<exists>f. mget fs' p = Some f \<and> hf_data f = data"
  by (auto simp: WriteFile_def Let_def split: option.splits prod.splits)

lemma Chmod_other: "Chmod F p m fs = (e, fs') \<Longrightarrow> q \<noteq> p \<Longrightarrow> mget fs' q = mget fs q"
  by (auto simp: Chmod_def split: option.splits)

lemma Chmod_ok: "Chmod F p m fs = (None, fs') \<Longrightarrow> mget fs' p = map_option (\<lambda>f. f\<lparr>hf_mode := syscallMode m\<rparr>) (mget fs p)"
  by (auto simp: Chmod_def split: option.splits)

text \<open>A transfer that gets past the checks writes one file.\<close>

lemma PutFile_effect:
  assumes "PutFile F req fs = (r, fs')" "fs' \<noteq> fs \<or> r = Inr ()"
  obtains q data where "validatePath (pf_Dest req) AllowedWritePrefixes ''dest'' = Inr q"
    "decode_any (pf_DataB64 req) = Some data" "length data \<le> MaxFileSize"
    "\<And>p. p \<noteq> q \<Longrightarrow> mget fs' p = mget fs p"
    "r = Inr () \<Longrightarrow> mget fs' q = Some \<lparr>hf_data = data, hf_mode = syscallMode (wanted_mode req)\<rparr>"
proof -
  from assms obtain q data where q: "validatePath (pf_Dest req) AllowedWritePrefixes ''dest'' = Inr q"
    and d: "decode_any (pf_DataB64 req) = Some data" "\<not> MaxFileSize < length data" "fe_mkdir F (Dir q) = None"
    by (auto simp: PutFile_def split: sum.splits option.splits if_splits)
  obtain e1 fs1 where w: "WriteFile F q data 420 fs = (e1, fs1)" by fastforce
  obtain e2 fs2 where c: "Chmod F q (wanted_mode req) fs1 = (e2, fs2)" by fastforce
  have put: "PutFile F req fs = (case e1 of Some e \<Rightarrow> (Inl (WriteError q e), fs1)
      | None \<Rightarrow> (case e2 of Some e \<Rightarrow> (Inl (ChmodError q e), fs2) | None \<Rightarrow> (Inr (), fs2)))"
    using q d w c by (auto simp: PutFile_def split: option.splits)
  then consider "e1 \<noteq> None" "isl r" "fs' = fs1" | "e1 = None" "e2 \<noteq> None" "isl r" "fs' = fs2"
    | "e1 = None" "e2 = None" "fs' = fs2" using assms(1) by (cases e1; cases e2) auto
  then show thesis
  proof cases
    case 1
    then show thesis using that [OF q d(1)] d(2) WriteFile_other [OF w] by (metis isl_def not_le sum.disc(2))
  next
    case 2
    then show thesis
      using that [OF q d(1)] d(2) WriteFile_other [OF w] Chmod_other [OF c] by (metis not_le sum.disc(2))
  next
    case 3
    from WriteFile_ok [OF w [unfolded 3]] Chmod_ok [OF c [unfolded 3]]
    have "mget fs2 q = Some \<lparr>hf_data = data, hf_mode = syscallMode (wanted_mode req)\<rparr>" by auto
    then show thesis
      using that [OF q d(1)] d(2) WriteFile_other [OF w] Chmod_other [OF c] 3(3) by (metis not_le)
  qed
qed

text \<open>C20: Whatever path a task names, with \<open>..\<close>, doubled slashes or anything else in it, the agent touches
  at most one file for it, and that file lies under an allowed directory: a put that changes a file
  or succeeds names an absolute path whose names, followed one by one from the root, stay under a
  writable prefix, and changes only the file there; if it succeeds that file holds the decoded data,
  within the size limit, with the permission bits of the requested mode. A fetch answers only the content of the file its
  path leads to, under a readable prefix.\<close>

theorem agent_files_confined:
  assumes "PutFile F req fs = (r, fs')"
  shows "(fs' \<noteq> fs \<or> r = Inr () \<longrightarrow>
      IsAbs (pf_Dest req) \<and> lies_under AllowedWritePrefixes (resolve (pf_Dest req))
    \<and> (\<forall>p. p \<noteq> abs_path (resolve (pf_Dest req)) \<longrightarrow> mget fs' p = mget fs p)
    \<and> (\<exists>data. decode_any (pf_DataB64 req) = Some data \<and> length data \<le> MaxFileSize
        \<and> (r = Inr () \<longrightarrow> mget fs' (abs_path (resolve (pf_Dest req)))
            = Some \<lparr>hf_data = data, hf_mode = syscallMode (wanted_mode req)\<rparr>)))
  \<and> (\<forall>src out. FetchFile_agent F src fs = Inr out \<longrightarrow>
      IsAbs src \<and> lies_under AllowedReadPrefixes (resolve src)
    \<and> (\<exists>f. mget fs (abs_path (resolve src)) = Some f \<and> out = EncodeToString (hf_data f)))"
proof (intro conjI impI allI)
  fix src out
  assume "FetchFile_agent F src fs = Inr out"
  then obtain q f where "validatePath src AllowedReadPrefixes ''src'' = Inr q" "mget fs q = Some f"
      "out = EncodeToString (hf_data f)"
    by (auto simp: FetchFile_agent_def ReadFile_def split: sum.splits option.splits)
  then show "IsAbs src" "lies_under AllowedReadPrefixes (resolve src)"
    "\<exists>f. mget fs (abs_path (resolve src)) = Some f \<and> out = EncodeToString (hf_data f)"
    by (auto simp: validatePath_Inr allowed_abs)
next
  assume "fs' \<noteq> fs \<or> r = Inr ()"
  from PutFile_effect [OF assms this] obtain q data where e:
    "validatePath (pf_Dest req) AllowedWritePrefixes ''dest'' = Inr q"
    "decode_any (pf_DataB64 req) = Some data" "length data \<le> MaxFileSize"
    "\<And>p. p \<noteq> q \<Longrightarrow> mget fs' p = mget fs p"
    "r = Inr () \<Longrightarrow> mget fs' q = Some \<lparr>hf_data = data, hf_mode = syscallMode (wanted_mode req)\<rparr>" by metis
  then have q: "IsAbs (pf_Dest req)" "lies_under AllowedWritePrefixes (resolve (pf_Dest req))"
      "q = abs_path (resolve (pf_Dest req))"
    by (auto simp: validatePath_Inr allowed_abs)
  show "IsAbs (pf_Dest req)" "lies_under AllowedWritePrefixes (resolve (pf_Dest req))" by (rule q)+
  show "mget fs' p = mget fs p" if "p \<noteq> abs_path (resolve (pf_Dest req))" for p
    using that e(4) q(3) by simp
  show "\<exists>data. decode_any (pf_DataB64 req) = Some data \<and> length data \<le> MaxFileSize
        \<and> (r = Inr () \<longrightarrow> mget fs' (abs_path (resolve (pf_Dest req)))
            = Some \<lparr>hf_data = data, hf_mode = syscallMode (wanted_mode req)\<rparr>)"
    using e(2,3,5) q(3) by blast
qed

definition quiet_fs :: fs_env where
  "quiet_fs = \<lparr>fe_mkdir = \<lambda>_. None, fe_write = \<lambda>_. None, fe_chmod = \<lambda>_. None, fe_read = \<lambda>_. None,
     fe_missing = \<lambda>p. ''no such file'', fe_b64_error = \<lambda>_. ''illegal base64 data'', fe_quote = \<lambda>s. s\<rparr>"

definition example_put :: PutFileRequest where
  "example_put = \<lparr>pf_TaskID = ''t1'', pf_Dest = ''/tmp//a/../b'', pf_DataB64 = ''QUJD'', pf_Mode = ''0700''\<rparr>"

lemma example_put_path: "validatePath ''/tmp//a/../b'' AllowedWritePrefixes ''dest'' = Inr ''/tmp/b''"
proof -
  have "resolve ''/tmp//a/../b'' = [''tmp'', ''b'']" "resolve ''/tmp/'' = [''tmp'']"
    by (simp_all add: resolve_def step_into_def)
  moreover have "TrimSpace ''/tmp//a/../b'' \<noteq> []" by (simp add: TrimSpace_id)
  ultimately show ?thesis
    by (simp add: validatePath_Inr allowed_abs IsAbs_iff lies_under_def AllowedWritePrefixes_def abs_path_def)
qed

lemma example_put_run: "PutFile quiet_fs example_put [] = (Inr (), [(''/tmp/b'', \<lparr>hf_data = ''ABC'', hf_mode = 448\<rparr>)])"
proof -
  have "decode_any ''QUJD'' = Some ''ABC''" by code_simp
  moreover have "wanted_mode example_put = 448"
    by (simp add: wanted_mode_def file_mode_def ParseUint_def digit_of_def example_put_def)
  ultimately show ?thesis
    using example_put_path
    by (simp add: PutFile_def example_put_def MaxFileSize_def quiet_fs_def WriteFile_def Chmod_def syscallMode_def)
qed

lemma agent_files_confined_witness: "lies_under AllowedWritePrefixes (resolve (pf_Dest example_put))"
  using agent_files_confined [OF example_put_run] by simp

section \<open>Commands\<close>

definition not_expired :: "int \<Rightarrow> ExecRequest_agent \<Rightarrow> bool" where
  "not_expired now req \<longleftrightarrow> xr_ExpiresAt req \<le> 0 \<or> now \<le> xr_ExpiresAt req"

definition spawned :: "spawner \<Rightarrow> ExecRequest_agent \<Rightarrow> process" where
  "spawned run req = run (xr_Cmd req) (stdin_bytes (xr_StdinB64 req)) (run_timeout (xr_Timeout req))"

text \<open>Whether \<open>Wait\<close> returns no error.\<close>

definition run_ok :: "spawner \<Rightarrow> ExecRequest_agent \<Rightarrow> bool" where
  "run_ok run req =
     Wait_ok (case stdin_bytes (xr_StdinB64 req) of None \<Rightarrow> True
              | Some d \<Rightarrow> fst (copy_input (pc_broken (spawned run req)) d 0 []))
       (fst (copy_output (pc_stdout (spawned run req)) [])) (fst (copy_output (pc_stderr (spawned run req)) []))
       (pc_end (spawned run req))"

lemma Run_started:
  assumes "not_expired now req" "pc_start (spawned run req) = None"
  shows "Run run cancelled now req =
    \<lparr>xs_TaskID = xr_TaskID req, xs_RC = (if run_ok run req then 0 else failed_rc cancelled (spawned run req)),
      xs_Stdout = take StdoutBufferMax (concat (pc_stdout (spawned run req))),
      xs_Stderr = take buffer_cap (concat (pc_stderr (spawned run req))),
      xs_Truncated = (\<not> run_ok run req \<and> pc_deadline (spawned run req)) \<or> StdoutBufferMax < length (concat (pc_stdout (spawned run req)))\<rparr>"
proof -
  let ?p = "spawned run req"
  have e: "\<not> (0 < xr_ExpiresAt req \<and> xr_ExpiresAt req < now)" using assms(1) by (auto simp: not_expired_def)
  have out: "snd (copy_output ps []) = take buffer_cap (concat ps)" for ps
    using copy_output_prefix [of "[]" ps] by simp
  have "take StdoutBufferMax (take buffer_cap x) = take StdoutBufferMax x" for x :: string
    by (simp add: buffer_cap_def)
  moreover have "StdoutBufferMax < length (take buffer_cap x) \<longleftrightarrow> StdoutBufferMax < length x" for x :: string
    by (simp add: buffer_cap_def)
  ultimately show ?thesis
    unfolding Run_def if_not_P [OF e] Let_def spawned_def [symmetric] assms(2) option.case case_prod_unfold out
      run_ok_def [symmetric] by simp
qed

lemma command_ran:
  assumes "xr_StdinB64 req = []" "pc_start (spawned run req) = None"
    and "length (concat (pc_stdout (spawned run req))) \<le> StdoutBufferMax + 1024"
    and "length (concat (pc_stderr (spawned run req))) \<le> StdoutBufferMax + 1024" and "not_expired now req"
  shows "Run run cancelled now req = \<lparr>xs_TaskID = xr_TaskID req,
            xs_RC = (if pc_end (spawned run req) = Exited 0 then 0 else failed_rc cancelled (spawned run req)),
            xs_Stdout = take StdoutBufferMax (concat (pc_stdout (spawned run req))),
            xs_Stderr = concat (pc_stderr (spawned run req)),
            xs_Truncated = (pc_end (spawned run req) \<noteq> Exited 0 \<and> pc_deadline (spawned run req))
              \<or> StdoutBufferMax < length (concat (pc_stdout (spawned run req)))\<rparr>"
proof -
  have fits: "fst (copy_output ps [])" if "length (concat ps) \<le> StdoutBufferMax + 1024" for ps
    using copy_output_fits [of "[]" ps] that by (simp add: buffer_cap_def)
  have "run_ok run req \<longleftrightarrow> pc_end (spawned run req) = Exited 0"
    using fits [OF assms(3)] fits [OF assms(4)] assms(1) by (simp add: run_ok_def Wait_ok_def stdin_bytes_def)
  with Run_started [OF assms(5,2)] assms(4) show ?thesis by (simp add: buffer_cap_def)
qed

text \<open>The result of a command that runs without input and keeps its two outputs within the buffers:
  the first 5 MB of its standard output, flagged when there was more, its standard error, and as
  return code its exit code, or -15 when it failed while its deadline had passed or its task was
  cancelled. A task that has expired is not run at all.\<close>

theorem command_result:
  assumes "xr_StdinB64 req = []" "pc_start (spawned run req) = None"
    and "length (concat (pc_stdout (spawned run req))) \<le> StdoutBufferMax + 1024"
    and "length (concat (pc_stderr (spawned run req))) \<le> StdoutBufferMax + 1024"
  shows "Run run cancelled now req =
    (if not_expired now req
     then \<lparr>xs_TaskID = xr_TaskID req,
            xs_RC = (if pc_end (spawned run req) = Exited 0 then 0 else failed_rc cancelled (spawned run req)),
            xs_Stdout = take StdoutBufferMax (concat (pc_stdout (spawned run req))),
            xs_Stderr = concat (pc_stderr (spawned run req)),
            xs_Truncated = (pc_end (spawned run req) \<noteq> Exited 0 \<and> pc_deadline (spawned run req))
              \<or> StdoutBufferMax < length (concat (pc_stdout (spawned run req)))\<rparr>
     else \<lparr>xs_TaskID = xr_TaskID req, xs_RC = -1, xs_Stdout = [], xs_Stderr = ''task expired'', xs_Truncated = False\<rparr>)"
proof (cases "not_expired now req")
  case True
  with command_ran [OF assms True] show ?thesis by simp
next
  case False
  then show ?thesis by (auto simp: Run_def not_expired_def)
qed

definition example_spawner :: spawner where
  "example_spawner cmd stdin tmo = \<lparr>pc_start = None, pc_stdout = [cmd, ''!''], pc_stderr = [''warn''],
     pc_broken = (\<lambda>_. False), pc_end = Exited (if cmd = ''false'' then 1 else 0), pc_deadline = False\<rparr>"

definition example_xr :: "string \<Rightarrow> ExecRequest_agent" where
  "example_xr stdin = \<lparr>xr_TaskID = ''t1'', xr_Cmd = ''ls'', xr_StdinB64 = stdin, xr_Timeout = 30, xr_Become = False,
     xr_ExpiresAt = 100\<rparr>"

lemma command_result_witness:
  "Run example_spawner False 70 (example_xr []) = \<lparr>xs_TaskID = ''t1'', xs_RC = 0, xs_Stdout = ''ls!'',
     xs_Stderr = ''warn'', xs_Truncated = False\<rparr>"
  using command_result [of "example_xr []" example_spawner False 70]
  by (simp add: example_xr_def example_spawner_def StdoutBufferMax_def not_expired_def spawned_def)

text \<open>Two kinds of success are reported as a failure. A command that is given an input, gets all of it
  and exits with code 0 has return code 1: the reader of the input ends with an error that is not
  \<open>io.EOF\<close>. So has a command that exits with code 0 after a read of its output crossed the limit of the
  buffer: the writer then accepts less than it was given.\<close>

theorem success_reported_as_failure:
  assumes "not_expired now req" "pc_start (spawned run req) = None" "pc_end (spawned run req) = Exited 0"
    "\<not> pc_deadline (spawned run req)"
    and "stdin_bytes (xr_StdinB64 req) = Some d \<and> (\<forall>n. \<not> pc_broken (spawned run req) n)
      \<or> (\<exists>ps p qs. pc_stdout (spawned run req) = ps @ p # qs \<and> length (concat ps) < StdoutBufferMax + 1024
          \<and> StdoutBufferMax + 1024 < length (concat ps) + length p)"
  shows "xs_RC (Run run False now req) = 1
    \<and> (stdin_bytes (xr_StdinB64 req) = Some d \<and> (\<forall>n. \<not> pc_broken (spawned run req) n) \<longrightarrow>
        snd (copy_input (pc_broken (spawned run req)) d 0 []) = d)"
proof -
  let ?p = "spawned run req"
  have rc: "failed_rc False ?p = 1" using assms(3,4) by (simp add: failed_rc_def)
  have no: "\<not> run_ok run req"
    using assms(5)
  proof
    assume a: "stdin_bytes (xr_StdinB64 req) = Some d \<and> (\<forall>n. \<not> pc_broken ?p n)"
    then have "\<not> fst (copy_input (pc_broken ?p) d 0 [])" by (simp add: copy_input_all)
    with a show ?thesis by (simp add: run_ok_def Wait_ok_def)
  next
    assume "\<exists>ps p qs. pc_stdout ?p = ps @ p # qs \<and> length (concat ps) < StdoutBufferMax + 1024
          \<and> StdoutBufferMax + 1024 < length (concat ps) + length p"
    then have "\<not> fst (copy_output (pc_stdout ?p) [])"
      using copy_output_overflow by (auto simp: buffer_cap_def)
    then show ?thesis by (simp add: run_ok_def Wait_ok_def)
  qed
  have "xs_RC (Run run False now req) = 1"
    using Run_started [OF assms(1,2), of False] no rc by simp
  then show ?thesis by (auto simp: copy_input_all)
qed

lemma success_reported_as_failure_example:
  "xs_RC (Run example_spawner False 70 (example_xr ''QUJD'')) = 1"
proof -
  have "decode_any ''QUJD'' = Some ''ABC''" by code_simp
  then have "stdin_bytes (xr_StdinB64 (example_xr ''QUJD'')) = Some ''ABC''"
    by (simp add: stdin_bytes_def example_xr_def)
  then show ?thesis
    using success_reported_as_failure [of 70 "example_xr ''QUJD''" example_spawner "''ABC''"]
    by (simp add: example_xr_def example_spawner_def not_expired_def spawned_def)
qed

end
