(* ===== verification/MinionLoop.thy ===== *)
theory MinionLoop
  imports MinionSpec Examples
begin

text \<open>
  The agent as a state machine: every interleaving of its connections, of the messages of the server
  and of its goroutines. The invariant of its states bounds the commands of a connection and ties the
  table of cancellable tasks to the commands that run; the messages it sends are those the server
  decodes. The reconnection loop is characterised on every sequence of connection outcomes.
\<close>

section \<open>The state machine\<close>

datatype agent_event =
    AgConnect
  | AgDisconnect
  | AgMessage "json option"
  | AgAck nat
  | AgFinish spawner int nat
  | AgTransfer nat

text \<open>Messages are read while the connection is up.\<close>

fun agent_step :: "ext \<Rightarrow> fs_env \<Rightarrow> enroll_config \<Rightarrow> agent_event \<Rightarrow> Dispatcher_ws \<Rightarrow> Dispatcher_ws" where
  "agent_step X F ec AgConnect d = (if dw_up d then d else connected d)"
| "agent_step X F ec AgDisconnect d = disconnected d"
| "agent_step X F ec (AgMessage raw) d = (if dw_up d then read_message X F ec raw d else d)"
| "agent_step X F ec (AgAck g) d = ack_exec g d"
| "agent_step X F ec (AgFinish run now g) d = finish_exec run now g d"
| "agent_step X F ec (AgTransfer g) d = run_transfer F g d"

text \<open>Exit codes are those of \<open>ProcessState.ExitCode\<close>: a byte, or -1.\<close>

definition exit_codes :: "spawner \<Rightarrow> bool" where
  "exit_codes run \<longleftrightarrow> (\<forall>c i t n. pc_end (run c i t) = Exited n \<longrightarrow> -1 \<le> n \<and> n \<le> 255)"

fun possible :: "agent_event \<Rightarrow> bool" where
  "possible (AgFinish run now g) = exit_codes run"
| "possible _ = True"

inductive agent_reachable :: "ext \<Rightarrow> fs_env \<Rightarrow> enroll_config \<Rightarrow> Dispatcher_ws \<Rightarrow> bool" for X F ec where
  start: "agent_reachable X F ec (NewDispatcher_ws jwt n fs)"
| step: "agent_reachable X F ec d \<Longrightarrow> possible e \<Longrightarrow> agent_reachable X F ec (agent_step X F ec e d)"

section \<open>The invariant\<close>

definition running_inv :: "Dispatcher_ws \<Rightarrow> bool" where
  "running_inv d \<longleftrightarrow> distinct (mkeys (dw_running d)) \<and> distinct (mkeys (dw_tasks d))
   \<and> (\<forall>g t. mget (dw_running d) g = Some t \<longrightarrow> g < dw_next d \<and> et_conn t \<le> dw_conn d)
   \<and> (\<forall>i g. mget (dw_tasks d) i = Some g \<longrightarrow>
        (\<exists>t. mget (dw_running d) g = Some t \<and> em_TaskID (et_msg t) = i))"

definition slots_inv :: "Dispatcher_ws \<Rightarrow> bool" where
  "slots_inv d \<longleftrightarrow> (\<forall>c. slots_used c d \<le> dw_maxConcurrent d)"

lemma slots_fields [simp]:
  "slots_used c (d\<lparr>dw_tasks := x\<rparr>) = slots_used c d" "slots_used c (d\<lparr>dw_sent := x4\<rparr>) = slots_used c d"
  "slots_used c (d\<lparr>dw_files := x1\<rparr>) = slots_used c d" "slots_used c (d\<lparr>dw_transfers := x2\<rparr>) = slots_used c d"
  "slots_used c (d\<lparr>dw_jwt := x3\<rparr>) = slots_used c d" "slots_used c (d\<lparr>dw_next := x5\<rparr>) = slots_used c d"
  by (simp_all add: slots_used_def)

lemma send_on_fields [simp]:
  "dw_running (send_on c j d) = dw_running d" "dw_tasks (send_on c j d) = dw_tasks d"
  "dw_next (send_on c j d) = dw_next d" "dw_conn (send_on c j d) = dw_conn d"
  "dw_maxConcurrent (send_on c j d) = dw_maxConcurrent d" "dw_files (send_on c j d) = dw_files d"
  "dw_jwt (send_on c j d) = dw_jwt d" "dw_up (send_on c j d) = dw_up d"
  by (simp_all add: send_on_def)

lemma task_table_fields [simp]:
  "dw_running (unregisterTask i d) = dw_running d" "dw_running (registerTask i g d) = dw_running d"
  "dw_maxConcurrent (unregisterTask i d) = dw_maxConcurrent d" "dw_maxConcurrent (registerTask i g d) = dw_maxConcurrent d"
  by (simp_all add: unregisterTask_def registerTask_def)

lemma slots_congr: "dw_running d' = dw_running d \<Longrightarrow> slots_used c d' = slots_used c d"
  by (simp add: slots_used_def)

lemma filter_mput_fresh:
  "k \<notin> fst ` set m \<Longrightarrow> length (filter P (mput k v m)) = length (filter P m) + (if P (k, v) then 1 else 0)"
  by (simp add: mput_fresh)

lemma filter_mdel_le: "length (filter P (mdel k m)) \<le> length (filter P m)"
  by (induction m) auto

lemma filter_mput_same:
  "mget m k = Some v0 \<Longrightarrow> (\<And>x. P (k, v) = P (k, v0)) \<Longrightarrow> length (filter P (mput k v m)) = length (filter P m)"
  by (induction m) (auto split: if_splits)

lemma start_exec_running: "dw_running (start_exec msg d) =
    mput (dw_next d) \<lparr>et_conn = dw_conn d, et_msg = msg, et_cancelled = False\<rparr> (dw_running d)"
  by (simp add: start_exec_def Let_def)

lemma next_fresh: "running_inv d \<Longrightarrow> mget (dw_running d) (dw_next d) = None"
  by (cases "mget (dw_running d) (dw_next d)") (auto simp: running_inv_def simp del: map_of_eq_Some_iff)

lemma start_exec_inv:
  assumes "running_inv d"
  shows "running_inv (start_exec msg d)"
  using assms next_fresh [OF assms]
  by (auto simp: running_inv_def start_exec_def registerTask_def Let_def less_Suc_eq
      simp del: map_of_eq_Some_iff split: if_splits) (metis option.distinct(1))+

lemma start_exec_slots:
  assumes "running_inv d" "slots_inv d" "slots_used (dw_conn d) d < dw_maxConcurrent d"
  shows "slots_inv (start_exec msg d)"
proof -
  have fresh: "dw_next d \<notin> fst ` set (dw_running d)"
    using next_fresh [OF assms(1)] by (simp add: map_of_eq_None_iff)
  have "slots_used c (start_exec msg d) = slots_used c d + (if c = dw_conn d then 1 else 0)" for c
    unfolding slots_used_def start_exec_running by (subst filter_mput_fresh [OF fresh]) auto
  moreover have "dw_maxConcurrent (start_exec msg d) = dw_maxConcurrent d" by (simp add: start_exec_def Let_def)
  ultimately show ?thesis using assms(2,3) by (auto simp: slots_inv_def Suc_le_eq)
qed

lemma cancelTask_inv:
  assumes "running_inv d"
  shows "running_inv (cancelTask i d)" "slots_used c (cancelTask i d) = slots_used c d"
    "dw_maxConcurrent (cancelTask i d) = dw_maxConcurrent d"
proof -
  show "running_inv (cancelTask i d)"
    using assms
    by (auto simp: running_inv_def cancelTask_def simp del: map_of_eq_Some_iff split: option.splits if_splits)
      (metis option.inject)
  show "slots_used c (cancelTask i d) = slots_used c d"
    by (auto simp: cancelTask_def slots_used_def intro!: filter_mput_same split: option.splits)
  show "dw_maxConcurrent (cancelTask i d) = dw_maxConcurrent d"
    by (simp add: cancelTask_def split: option.splits)
qed

lemma finish_exec_inv:
  assumes "running_inv d"
  shows "running_inv (finish_exec run now g d)" "slots_used c (finish_exec run now g d) \<le> slots_used c d"
    "dw_maxConcurrent (finish_exec run now g d) = dw_maxConcurrent d"
proof -
  show "running_inv (finish_exec run now g d)"
  proof (cases "mget (dw_running d) g")
    case (Some t)
    let ?d = "finish_exec run now g d"
    have f: "dw_running ?d = mdel g (dw_running d)" "dw_tasks ?d = mdel (em_TaskID (et_msg t)) (dw_tasks d)"
        "dw_next ?d = dw_next d" "dw_conn ?d = dw_conn d"
      using Some by (simp_all add: finish_exec_def Let_def unregisterTask_def)
    from assms Some show ?thesis
      unfolding running_inv_def f by (auto simp del: map_of_eq_Some_iff split: if_splits) (metis option.inject)
  qed (use assms in \<open>simp add: finish_exec_def\<close>)
  show "slots_used c (finish_exec run now g d) \<le> slots_used c d"
    by (cases "mget (dw_running d) g")
      (simp_all add: finish_exec_def slots_used_def Let_def filter_mdel_le)
  show "dw_maxConcurrent (finish_exec run now g d) = dw_maxConcurrent d"
    by (simp add: finish_exec_def Let_def split: option.splits)
qed

lemma same_inv:
  assumes "running_inv d" "dw_running d' = dw_running d" "dw_tasks d' = dw_tasks d"
    "dw_next d \<le> dw_next d'" "dw_conn d \<le> dw_conn d'"
  shows "running_inv d'"
  using assms by (auto simp: running_inv_def) (meson less_le_trans le_trans)+

lemma handle_rekey_fields [simp]:
  "dw_running (handle_rekey X F ec j d) = dw_running d" "dw_tasks (handle_rekey X F ec j d) = dw_tasks d"
  "dw_next (handle_rekey X F ec j d) = dw_next d" "dw_conn (handle_rekey X F ec j d) = dw_conn d"
  "dw_maxConcurrent (handle_rekey X F ec j d) = dw_maxConcurrent d" "dw_sent (handle_rekey X F ec j d) = dw_sent d"
  by (simp_all add: handle_rekey_def split: option.splits prod.splits sum.splits)

lemma start_transfer_fields [simp]:
  "dw_running (start_transfer t d) = dw_running d" "dw_tasks (start_transfer t d) = dw_tasks d"
  "dw_next (start_transfer t d) = Suc (dw_next d)" "dw_conn (start_transfer t d) = dw_conn d"
  "dw_maxConcurrent (start_transfer t d) = dw_maxConcurrent d" "dw_sent (start_transfer t d) = dw_sent d"
  by (simp_all add: start_transfer_def)

text \<open>What a message can do, for the invariant.\<close>

lemma read_message_cases:
  obtains (rekey) j where "read_message X F ec raw d = handle_rekey X F ec j d"
  | (start) msg where "slots_used (dw_conn d) d < dw_maxConcurrent d" "read_message X F ec raw d = start_exec msg d"
  | (busy) i where "read_message X F ec raw d = send_on (dw_conn d) (result_message i (-1) [] ''agent_busy'' False) d"
  | (transfer) t where "read_message X F ec raw d = start_transfer t d"
  | (cancel) i where "read_message X F ec raw d = cancelTask i d"
  | (ignore) "read_message X F ec raw d = d"
proof (cases raw)
  case None
  then show thesis by (intro ignore) (simp add: read_message_def)
next
  case (Some j)
  show thesis
  proof (cases "BaseMsg j")
    case None
    with Some show thesis by (intro ignore) (simp add: read_message_def)
  next
    case (Some b)
    obtain i ty where b: "b = (i, ty)" by fastforce
    note read = read_message_def \<open>raw = Some j\<close> Some b
    consider "ty = ''rekey''" | "ty = ''exec''" | "ty = ''put_file''" | "ty = ''fetch_file''" | "ty = ''cancel''"
      | "ty \<notin> {''rekey'', ''exec'', ''put_file'', ''fetch_file'', ''cancel''}" by blast
    then show thesis
    proof cases
      case 1
      show thesis by (rule rekey [of j]) (simp add: read 1)
    next
      case 2
      show thesis
      proof (cases "decode_ExecMsg j")
        case None
        then show thesis by (intro ignore) (simp add: read 2)
      next
        case (Some msg)
        then show thesis
          by (cases "slots_used (dw_conn d) d < dw_maxConcurrent d")
            (rule start [of msg], simp_all add: read 2, rule busy [of i], simp add: read 2)
      qed
    next
      case 3
      then show thesis
        by (cases "decode_PutFileMsg j") (intro ignore, simp add: read, intro transfer, simp add: read)
    next
      case 4
      then show thesis
        by (cases "decode_FetchFileMsg j") (intro ignore, simp add: read, intro transfer, simp add: read)
    next
      case 5
      show thesis by (rule cancel [of i]) (simp add: read 5)
    next
      case 6
      then show thesis by (intro ignore) (simp add: read)
    qed
  qed
qed

lemma read_message_inv:
  assumes "running_inv d" "slots_inv d"
  shows "running_inv (read_message X F ec raw d) \<and> slots_inv (read_message X F ec raw d)"
proof (cases rule: read_message_cases [of X F ec raw d])
  case (rekey j)
  with assms show ?thesis by (auto intro: same_inv simp: slots_inv_def slots_used_def)
next
  case (start msg)
  with assms show ?thesis by (simp add: start_exec_inv start_exec_slots)
next
  case (busy i)
  with assms show ?thesis by (auto intro: same_inv simp: slots_inv_def slots_used_def)
next
  case (transfer t)
  with assms show ?thesis by (auto intro: same_inv simp: slots_inv_def slots_used_def)
next
  case (cancel i)
  with assms cancelTask_inv show ?thesis by (auto simp: slots_inv_def)
qed (use assms in simp)

lemma run_transfer_fields [simp]:
  "dw_running (run_transfer F g d) = dw_running d" "dw_tasks (run_transfer F g d) = dw_tasks d"
  "dw_next (run_transfer F g d) = dw_next d" "dw_conn (run_transfer F g d) = dw_conn d"
  "dw_maxConcurrent (run_transfer F g d) = dw_maxConcurrent d"
  by (simp_all add: run_transfer_def Let_def split: option.splits prod.splits)

lemma ack_exec_fields [simp]:
  "dw_running (ack_exec g d) = dw_running d" "dw_tasks (ack_exec g d) = dw_tasks d"
  "dw_next (ack_exec g d) = dw_next d" "dw_conn (ack_exec g d) = dw_conn d"
  "dw_maxConcurrent (ack_exec g d) = dw_maxConcurrent d"
  by (simp_all add: ack_exec_def split: option.splits)

lemma agent_step_inv:
  assumes "running_inv d" "slots_inv d"
  shows "running_inv (agent_step X F ec e d) \<and> slots_inv (agent_step X F ec e d)"
proof (cases e)
  case AgConnect
  with assms show ?thesis by (auto intro: same_inv simp: connected_def slots_inv_def slots_used_def)
next
  case AgDisconnect
  with assms show ?thesis by (auto intro: same_inv simp: disconnected_def slots_inv_def slots_used_def)
next
  case (AgMessage raw)
  with assms read_message_inv show ?thesis by simp
next
  case (AgAck g)
  with assms show ?thesis by (auto intro: same_inv simp: slots_inv_def slots_used_def)
next
  case (AgFinish run now g)
  with assms finish_exec_inv [OF assms(1)] show ?thesis
    by (auto simp: slots_inv_def) (meson le_trans)
next
  case (AgTransfer g)
  with assms show ?thesis by (auto intro: same_inv simp: slots_inv_def slots_used_def)
qed

lemma agent_invariant:
  "agent_reachable X F ec d \<Longrightarrow> running_inv d \<and> slots_inv d"
proof (induction rule: agent_reachable.induct)
  case (start jwt n fs)
  show ?case by (simp add: NewDispatcher_ws_def running_inv_def slots_inv_def slots_used_def)
next
  case (step d e)
  then show ?case using agent_step_inv by blast
qed

section \<open>Commands at a time\<close>

text \<open>C28: In every state an interleaving of connections, server messages and goroutines can reach, no
  connection has more commands running than the limit; every entry of the table of tasks is the
  command that runs under that id, which is the one a cancellation reaches; and a command that
  arrives is started and entered when its connection has a slot free, and otherwise starts nothing and
  is answered at once as a failure with \<open>agent_busy\<close>.\<close>

theorem agent_limits_commands:
  assumes "agent_reachable X F ec d"
  shows "(\<forall>c. slots_used c d \<le> dw_maxConcurrent d)
    \<and> (\<forall>i g. mget (dw_tasks d) i = Some g \<longrightarrow>
         (\<exists>t. mget (dw_running d) g = Some t \<and> em_TaskID (et_msg t) = i
           \<and> mget (dw_running (cancelTask i d)) g = Some (t\<lparr>et_cancelled := True\<rparr>)
           \<and> (\<forall>g'. g' \<noteq> g \<longrightarrow> mget (dw_running (cancelTask i d)) g' = mget (dw_running d) g')))
    \<and> (\<forall>j i msg. dw_up d \<and> BaseMsg j = Some (i, ''exec'') \<and> decode_ExecMsg j = Some msg \<longrightarrow>
         agent_step X F ec (AgMessage (Some j)) d =
           (if slots_used (dw_conn d) d < dw_maxConcurrent d then start_exec msg d
            else d\<lparr>dw_sent := dw_sent d @ [(dw_conn d, result_message i (-1) [] ''agent_busy'' False)]\<rparr>))"
proof (intro conjI allI impI)
  note inv = agent_invariant [OF assms]
  show "slots_used c d \<le> dw_maxConcurrent d" for c using inv by (simp add: slots_inv_def)
  fix i g
  assume g: "mget (dw_tasks d) i = Some g"
  then obtain t where t: "mget (dw_running d) g = Some t" "em_TaskID (et_msg t) = i"
    using inv unfolding running_inv_def by blast
  moreover have "mget (dw_running (cancelTask i d)) g' =
      (if g' = g then Some (t\<lparr>et_cancelled := True\<rparr>) else mget (dw_running d) g')" for g'
    using g t(1) by (simp add: cancelTask_def del: map_of_eq_Some_iff)
  ultimately show "\<exists>t. mget (dw_running d) g = Some t \<and> em_TaskID (et_msg t) = i
           \<and> mget (dw_running (cancelTask i d)) g = Some (t\<lparr>et_cancelled := True\<rparr>)
           \<and> (\<forall>g'. g' \<noteq> g \<longrightarrow> mget (dw_running (cancelTask i d)) g' = mget (dw_running d) g')"
    by (intro exI [of _ t]) (simp del: map_of_eq_Some_iff)
next
  fix j i msg
  assume "dw_up d \<and> BaseMsg j = Some (i, ''exec'') \<and> decode_ExecMsg j = Some msg"
  then show "agent_step X F ec (AgMessage (Some j)) d =
           (if slots_used (dw_conn d) d < dw_maxConcurrent d then start_exec msg d
            else d\<lparr>dw_sent := dw_sent d @ [(dw_conn d, result_message i (-1) [] ''agent_busy'' False)]\<rparr>)"
    by (simp add: read_message_def send_on_def)
qed

definition example_cfg :: enroll_config where
  "example_cfg = \<lparr>ec_Hostname = ''web2'', ec_PublicKeyPEM = [], ec_PrivateKey = Some ''A'', ec_EnrollmentToken = ''tok'',
     ec_CABundle = [], ec_JWTPath = ''/jwt'', ec_Insecure = False, ec_RegisterURL = ''https://relay/api/register'',
     ec_MaxRetries = 3\<rparr>"

abbreviation example_step :: "agent_event \<Rightarrow> Dispatcher_ws \<Rightarrow> Dispatcher_ws" where
  "example_step \<equiv> agent_step example_ext quiet_fs example_cfg"

lemma agent_limits_commands_witness:
  "slots_used 1 (example_step (AgMessage (Some (JObj []))) (connected (NewDispatcher_ws ''j'' 1 []))) \<le> 1"
proof -
  have "agent_reachable example_ext quiet_fs example_cfg (example_step (AgMessage (Some (JObj [])))
      (example_step AgConnect (NewDispatcher_ws ''j'' 1 [])))"
    by (intro agent_reachable.intros) simp_all
  from agent_limits_commands [OF this] show ?thesis
    by (simp add: NewDispatcher_ws_def connected_def read_message_def BaseMsg_def obj_pairs_def json_fields)
qed

text \<open>A reconnection undoes the limit and loses results. The slots belong to one connection, so
  after a reconnection the agent runs more commands than its limit; and the result of a command that
  outlives the connection that started it is never sent, on whatever connection the agent has then.\<close>

lemma reconnection_loses_results:
  assumes "agent_reachable X F ec d" "mget (dw_running d) g = Some t" "et_conn t \<noteq> dw_conn d"
  shows "dw_sent (agent_step X F ec (AgFinish run now g) d) = dw_sent d
    \<and> mget (dw_running (agent_step X F ec (AgFinish run now g) d)) g = None
    \<and> (dw_up d \<and> slots_used (dw_conn d) d < dw_maxConcurrent d \<and> decode_ExecMsg j = Some msg \<and> BaseMsg j = Some (i, ''exec'') \<longrightarrow>
        length (dw_running (agent_step X F ec (AgMessage (Some j)) d)) = Suc (length (dw_running d)))"
proof (intro conjI impI)
  show "dw_sent (agent_step X F ec (AgFinish run now g) d) = dw_sent d"
    "mget (dw_running (agent_step X F ec (AgFinish run now g) d)) g = None"
    using assms(2,3) by (simp_all add: finish_exec_def send_on_def unregisterTask_def Let_def)
  assume *: "dw_up d \<and> slots_used (dw_conn d) d < dw_maxConcurrent d \<and> decode_ExecMsg j = Some msg \<and> BaseMsg j = Some (i, ''exec'')"
  have "mget (dw_running d) (dw_next d) = None" using next_fresh agent_invariant [OF assms(1)] by blast
  then have "dw_next d \<notin> fst ` set (dw_running d)" by (simp add: map_of_eq_None_iff)
  with * show "length (dw_running (agent_step X F ec (AgMessage (Some j)) d)) = Suc (length (dw_running d))"
    by (simp add: read_message_def start_exec_running mput_fresh)
qed

definition example_exec_json :: "string \<Rightarrow> json" where
  "example_exec_json i = JObj [(''task_id'', JStr i), (''type'', JStr ''exec''), (''cmd'', JStr ''ls'')]"

definition example_busy :: Dispatcher_ws where
  "example_busy = connected (disconnected (start_exec
     \<lparr>em_TaskID = ''a'', em_Type = ''exec'', em_Cmd = ''ls'', em_Stdin = [], em_Timeout = 0, em_Become = False,
       em_BecomeMethod = [], em_ExpiresAt = 0\<rparr> (connected (NewDispatcher_ws ''j'' 1 []))))"

lemma example_exec_decode: "BaseMsg (example_exec_json i) = Some (i, ''exec'')"
  "decode_ExecMsg (example_exec_json i) = Some \<lparr>em_TaskID = i, em_Type = ''exec'', em_Cmd = ''ls'', em_Stdin = [],
     em_Timeout = 0, em_Become = False, em_BecomeMethod = [], em_ExpiresAt = 0\<rparr>"
  by (simp_all add: example_exec_json_def BaseMsg_def decode_ExecMsg_def obj_pairs_def json_fields)

lemma example_agent_reachable: "agent_reachable X F ec example_busy"
proof -
  have "agent_reachable X F ec (agent_step X F ec AgConnect (agent_step X F ec AgDisconnect
      (agent_step X F ec (AgMessage (Some (example_exec_json ''a''))) (agent_step X F ec AgConnect (NewDispatcher_ws ''j'' 1 [])))))"
    by (intro agent_reachable.intros) simp_all
  then show ?thesis
    by (simp add: example_busy_def disconnected_def connected_def NewDispatcher_ws_def read_message_def
        example_exec_decode slots_used_def)
qed

lemma reconnection_loses_results_example:
  "length (dw_running (example_step (AgMessage (Some (example_exec_json ''b''))) example_busy)) = 2
    \<and> dw_maxConcurrent example_busy = 1"
proof -
  have e: "mget (dw_running example_busy) 0 = Some \<lparr>et_conn = 1, et_msg = \<lparr>em_TaskID = ''a'', em_Type = ''exec'',
      em_Cmd = ''ls'', em_Stdin = [], em_Timeout = 0, em_Become = False, em_BecomeMethod = [], em_ExpiresAt = 0\<rparr>,
      et_cancelled = False\<rparr>" "dw_conn example_busy = 2" "dw_maxConcurrent example_busy = 1" "dw_up example_busy"
    "slots_used 2 example_busy = 0" "length (dw_running example_busy) = 1"
    by (simp_all add: example_busy_def connected_def disconnected_def start_exec_def registerTask_def
        NewDispatcher_ws_def slots_used_def Let_def)
  from reconnection_loses_results [OF example_agent_reachable e(1), where j = "example_exec_json ''b''"] e show ?thesis
    by (simp add: example_exec_decode del: agent_step.simps)
qed

section \<open>Well-formed messages\<close>

text \<open>The literal keys and texts of the messages are ASCII.\<close>

lemma decode_result_message:
  assumes "- (2 ^ 63) \<le> rc" "rc < 2 ^ 63"
  shows "decode_Message (wire (result_message t rc out err tr)) =
    Some (zero_Message\<lparr>ms_TaskID := to_valid t, ms_Type := ''result'', ms_RC := rc, ms_Stdout := to_valid out,
      ms_Stderr := to_valid err, ms_Truncated := tr\<rparr>)"
  using assms
  by (simp add: result_message_def decode_Message_def obj_pairs_def json_fields to_valid_ascii zero_Message_def)

lemma decode_ack_message:
  "decode_Message (wire (ack_message t)) = Some (zero_Message\<lparr>ms_TaskID := to_valid t, ms_Type := ''ack''\<rparr>)"
  by (simp add: ack_message_def decode_Message_def obj_pairs_def json_fields to_valid_ascii zero_Message_def)

lemma decode_fetch_answer:
  "decode_Message (wire (HandleFetchFile F msg fs)) =
    Some (case FetchFile_agent F (fm_Src msg) fs of
       Inl e \<Rightarrow> zero_Message\<lparr>ms_TaskID := to_valid (fm_TaskID msg), ms_Type := ''result'', ms_RC := -1,
                 ms_Stderr := to_valid (file_error_text F e)\<rparr>
     | Inr data \<Rightarrow> zero_Message\<lparr>ms_TaskID := to_valid (fm_TaskID msg), ms_Type := ''result'', ms_Data := to_valid data\<rparr>)"
  by (simp add: HandleFetchFile_def decode_Message_def obj_pairs_def json_fields to_valid_ascii zero_Message_def
      split: sum.split)

lemma Run_rc:
  assumes "exit_codes run"
  shows "-15 \<le> xs_RC (Run run cancelled now req)" "xs_RC (Run run cancelled now req) \<le> 255"
proof -
  have "-15 \<le> failed_rc b (run c i t) \<and> failed_rc b (run c i t) \<le> 255" for b c i t
    using assms by (fastforce simp: failed_rc_def exit_codes_def split: proc_end.split)
  then show "-15 \<le> xs_RC (Run run cancelled now req)" "xs_RC (Run run cancelled now req) \<le> 255"
    by (simp_all add: Run_def Let_def split: option.split prod.split)
qed

text \<open>What the server makes of a message of the agent.\<close>

definition agent_message :: "json \<Rightarrow> bool" where
  "agent_message j \<longleftrightarrow> (\<exists>m. decode_Message (wire j) = Some m \<and> (ms_Type m = ''ack'' \<or> ms_Type m = ''result'')
     \<and> ms_Error m = [] \<and> ms_Chunk m = [])"

lemma agent_message_result: "- 15 \<le> rc \<Longrightarrow> rc \<le> 255 \<Longrightarrow> agent_message (result_message t rc out err tr)"
  by (simp add: agent_message_def decode_result_message zero_Message_def)

lemma agent_message_ack: "agent_message (ack_message t)"
  by (simp add: agent_message_def decode_ack_message zero_Message_def)

lemma agent_message_transfer:
  "agent_message (fst (HandlePutFile F msg fs))" "agent_message (HandleFetchFile F fmsg fs)"
proof -
  show "agent_message (fst (HandlePutFile F msg fs))"
    by (auto simp: HandlePutFile_def agent_message_result split: prod.split sum.split)
  show "agent_message (HandleFetchFile F fmsg fs)"
    by (simp add: agent_message_def decode_fetch_answer zero_Message_def split: sum.split)
qed

lemma sent_message: "\<forall>(c, j)\<in>set (dw_sent d). agent_message j \<Longrightarrow> agent_message j' \<Longrightarrow>
    \<forall>(c, j)\<in>set (dw_sent (send_on c' j' d)). agent_message j"
  by (auto simp: send_on_def)

lemma last_HandleExec: "last (HandleExec run b now msg) =
    result_message (em_TaskID msg) (xs_RC (Run run b now (exec_request msg))) (xs_Stdout (Run run b now (exec_request msg)))
      (xs_Stderr (Run run b now (exec_request msg))) (xs_Truncated (Run run b now (exec_request msg)))"
  by (simp add: HandleExec_def Let_def) (simp add: Run_def exec_request_def Let_def split: option.split prod.split)

lemma agent_step_sent:
  assumes "\<forall>(c, j)\<in>set (dw_sent d). agent_message j" "possible e"
  shows "\<forall>(c, j)\<in>set (dw_sent (agent_step X F ec e d)). agent_message j"
proof (cases e)
  case (AgMessage raw)
  have "\<forall>(c, j)\<in>set (dw_sent (read_message X F ec raw d)). agent_message j"
  proof (cases rule: read_message_cases [of X F ec raw d])
    case (start msg)
    with assms(1) show ?thesis by (simp add: start_exec_def registerTask_def Let_def)
  next
    case (busy i)
    show ?thesis unfolding busy by (rule sent_message [OF assms(1)]) (simp add: agent_message_result)
  next
    case (cancel i)
    with assms(1) show ?thesis by (auto simp: cancelTask_def split: option.splits)
  qed (use assms(1) in simp_all)
  with AgMessage assms(1) show ?thesis by simp
next
  case (AgAck g)
  with assms(1) show ?thesis
    using sent_message [OF assms(1) agent_message_ack] by (simp add: ack_exec_def split: option.split)
next
  case (AgFinish run now g)
  with assms(2) have "agent_message (last (HandleExec run b now msg))" for b msg
    unfolding last_HandleExec using Run_rc by (intro agent_message_result) simp_all
  note sent_message [OF assms(1) this]
  with AgFinish assms(1) show ?thesis
    by (simp add: finish_exec_def unregisterTask_def Let_def split: option.split)
next
  case (AgTransfer g)
  show ?thesis
  proof (cases "mget (dw_transfers d) g")
    case None
    with AgTransfer assms(1) show ?thesis by (simp add: run_transfer_def)
  next
    case (Some ct)
    obtain c t where t: "ct = (c, t)" by fastforce
    obtain answer fs where a: "(case t of PutTask msg \<Rightarrow> HandlePutFile F msg (dw_files d)
        | FetchTask msg \<Rightarrow> (HandleFetchFile F msg (dw_files d), dw_files d)) = (answer, fs)" by fastforce
    have "agent_message answer"
      using a agent_message_transfer by (cases t) (auto, metis fst_conv)
    with Some t a AgTransfer assms(1) show ?thesis
      using sent_message [of "d\<lparr>dw_files := fs, dw_transfers := mdel g (dw_transfers d)\<rparr>" answer c]
      by (simp add: run_transfer_def)
  qed
qed (use assms(1) in \<open>simp_all add: connected_def disconnected_def\<close>)

text \<open>C33: Every message the agent ever sends is well-formed for the server: after its trip over the
  connection it decodes, as an acknowledgement or a result, and carries neither an error nor a chunk
  of output. So the server never takes the branch that answers an agent's error, such as
  \<open>agent_busy\<close>, and its accumulation of streamed output is never fed.\<close>

theorem agent_messages_decode:
  assumes "agent_reachable X F ec d" "(c, j) \<in> set (dw_sent d)"
  shows "\<exists>m. decode_Message (wire j) = Some m \<and> (ms_Type m = ''ack'' \<or> ms_Type m = ''result'')
    \<and> ms_Error m = [] \<and> ms_Chunk m = []"
proof -
  from assms(1) have "\<forall>(c, j)\<in>set (dw_sent d). agent_message j"
  proof (induction rule: agent_reachable.induct)
    case (start jwt n fs)
    show ?case by (simp add: NewDispatcher_ws_def)
  next
    case (step d e)
    then show ?case using agent_step_sent by blast
  qed
  with assms(2) show ?thesis by (auto simp: agent_message_def)
qed

lemma agent_messages_decode_witness:
  "\<exists>m. decode_Message (wire (ack_message ''a'')) = Some m \<and> (ms_Type m = ''ack'' \<or> ms_Type m = ''result'')
    \<and> ms_Error m = [] \<and> ms_Chunk m = []"
proof (rule agent_messages_decode)
  let ?m = "AgMessage (Some (example_exec_json ''a''))"
  show "agent_reachable example_ext quiet_fs example_cfg (example_step (AgAck 0)
      (example_step ?m (example_step AgConnect (NewDispatcher_ws ''j'' 1 []))))"
    by (intro agent_reachable.intros) simp_all
  show "(1, ack_message ''a'') \<in> set (dw_sent (example_step (AgAck 0)
      (example_step ?m (example_step AgConnect (NewDispatcher_ws ''j'' 1 [])))))"
    by (simp add: NewDispatcher_ws_def connected_def read_message_def example_exec_decode slots_used_def start_exec_def
        registerTask_def ack_exec_def send_on_def Let_def)
qed

end
