(* ===== verification/MinionReconnect.thy ===== *)
theory MinionReconnect
  imports MinionLoop
begin

text \<open>The reconnection loop of the agent, on every sequence of connection outcomes.\<close>

section \<open>Reconnection\<close>

text \<open>The outcomes that end \<open>Run\<close>, and those after which it waits and doubles its delay.\<close>

type_synonym attempt = "conn_outcome \<times> (unauthorized_error + string) \<times> bool"

fun final_attempt :: "attempt \<Rightarrow> bool" where
  "final_attempt (Ended (Some code), r, cancelled) = (code = 4001 \<or> cancelled)"
| "final_attempt (Refused code, r, cancelled) = (if code = 401 then isl r else cancelled)"
| "final_attempt (out, r, cancelled) = cancelled"

fun plain_failure :: "attempt \<Rightarrow> bool" where
  "plain_failure (Refused code, r, cancelled) = (code \<noteq> 401 \<and> \<not> cancelled)"
| "plain_failure (Unreachable, r, cancelled) = (\<not> cancelled)"
| "plain_failure (Ended code, r, cancelled) = False"

definition backoff :: "nat \<Rightarrow> nat" where
  "backoff k = min 60 (2 ^ k)"

definition standard :: "ReconnectManager \<Rightarrow> bool" where
  "standard r \<longleftrightarrow> rc_baseDelay r = 1 \<and> rc_maxDelay r = 60"

lemma NextDelay_standard: "standard r \<Longrightarrow> NextDelay r = (backoff (rc_attempt r), r\<lparr>rc_attempt := Suc (rc_attempt r)\<rparr>)"
  by (simp add: NextDelay_def standard_def backoff_def Let_def min_def)

lemma run_step_final: "final_attempt (out, re, b) \<longleftrightarrow> (\<exists>res. run_step out re b r jwt = Stop res)"
  by (cases "(out, re, b)" rule: final_attempt.cases)
    (auto simp: run_step_def Let_def ShouldReconnect_def split: prod.splits sum.splits)

lemma run_step_again:
  assumes "run_step out re b r jwt = Again delay r' jwt'" "standard r"
  shows "standard r' \<and> delay \<le> 60"
  using assms
  by (auto simp: run_step_def Let_def NextDelay_def Reset_def standard_def split: conn_outcome.splits if_splits
      sum.splits option.splits)

text \<open>The loop over a first part without a final outcome, and whatever follows.\<close>

lemma Run_loop_append:
  assumes "\<forall>x\<in>set pre. \<not> final_attempt x" "standard r"
  shows "\<exists>ds ts r' jwt'. length ds = length pre \<and> length ts = length pre \<and> (\<forall>d\<in>set ds. d \<le> 60) \<and> standard r'
    \<and> (\<forall>rest. Run_loop (pre @ rest) r jwt =
        (case Run_loop rest r' jwt' of (ds2, ts2, res) \<Rightarrow> (ds @ ds2, ts @ ts2, res)))"
  using assms
proof (induction pre arbitrary: r jwt)
  case Nil
  then show ?case by (intro exI [of _ "[]"] exI [of _ r] exI [of _ jwt]) (auto split: prod.splits)
next
  case (Cons x pre)
  obtain out re b where x: "x = (out, re, b)" by (cases x) auto
  with Cons.prems(1) obtain delay r1 jwt1 where st: "run_step out re b r jwt = Again delay r1 jwt1"
    using run_step_final [of out re b r jwt] by (cases "run_step out re b r jwt") auto
  note r1 = run_step_again [OF st Cons.prems(2)]
  from Cons.IH [of r1 jwt1] Cons.prems(1) r1 obtain ds ts r' jwt' where ih:
    "length ds = length pre" "length ts = length pre" "\<forall>d\<in>set ds. d \<le> 60" "standard r'"
    "\<And>rest. Run_loop (pre @ rest) r1 jwt1 =
        (case Run_loop rest r' jwt' of (ds2, ts2, res) \<Rightarrow> (ds @ ds2, ts @ ts2, res))" by auto
  have "Run_loop ((x # pre) @ rest) r jwt =
      (case Run_loop rest r' jwt' of (ds2, ts2, res) \<Rightarrow> ((delay # ds) @ ds2, (jwt # ts) @ ts2, res))" for rest
    by (simp add: x st ih(5) split: prod.splits)
  then show ?case
    using ih(1-4) r1
    by (intro exI [of _ "delay # ds"] exI [of _ "jwt # ts"] exI [of _ r'] exI [of _ jwt']) simp
qed

lemma plain_failures:
  assumes "\<forall>x\<in>set fails. plain_failure x" "standard r"
  shows "\<exists>ts res. Run_loop (fails @ rest) r jwt =
    (map (\<lambda>i. backoff (rc_attempt r + i)) [0..<length fails] @ ts, res)"
  using assms
proof (induction fails arbitrary: r)
  case Nil
  then show ?case by (simp add: surj_pair) (metis surj_pair)
next
  case (Cons x fails)
  obtain out re b where x: "x = (out, re, b)" by (cases x) auto
  let ?r = "r\<lparr>rc_attempt := Suc (rc_attempt r)\<rparr>"
  have st: "run_step out re b r jwt = Again (backoff (rc_attempt r)) ?r jwt"
    using Cons.prems NextDelay_standard [OF Cons.prems(2)]
    by (cases "(out, re, b)" rule: plain_failure.cases) (auto simp: x run_step_def Let_def)
  have "standard ?r" using Cons.prems(2) by (simp add: standard_def)
  from Cons.IH [OF _ this] Cons.prems(1) obtain ts res where
    "Run_loop (fails @ rest) ?r jwt = (map (\<lambda>i. backoff (Suc (rc_attempt r) + i)) [0..<length fails] @ ts, res)" by auto
  moreover have "map (\<lambda>i. backoff (rc_attempt r + i)) [0..<length (x # fails)] =
      backoff (rc_attempt r) # map (\<lambda>i. backoff (Suc (rc_attempt r) + i)) [0..<length fails]"
    by (simp add: upt_conv_Cons map_Suc_upt [symmetric] del: upt_Suc)
  ultimately show ?case by (auto simp: x st split: prod.splits)
qed

lemma Run_loop_final:
  "final_attempt x \<Longrightarrow> \<exists>res. Run_loop (x # rest) r jwt = ([], [jwt], Some res)"
  using run_step_final [of "fst x" "fst (snd x)" "snd (snd x)" r jwt] by (cases x) auto

lemma Run_loop_tokens: "\<exists>ds ts res. Run_loop os r jwt = (ds, jwt # ts, res)"
proof (cases os)
  case (Cons x rest)
  obtain out re b where x: "x = (out, re, b)" by (cases x) auto
  show ?thesis
  proof (cases "run_step out re b r jwt")
    case (Again delay r' jwt')
    with Cons x show ?thesis by (cases "Run_loop rest r' jwt'") simp
  qed (simp add: Cons x)
qed simp

lemma Run_loop_none:
  assumes "standard r"
  shows "snd (snd (Run_loop os r jwt)) = None \<longleftrightarrow> (\<forall>x\<in>set os. \<not> final_attempt x)"
    and "\<forall>d\<in>set (fst (Run_loop os r jwt)). d \<le> 60"
proof -
  have "(snd (snd (Run_loop os r jwt)) = None \<longleftrightarrow> (\<forall>x\<in>set os. \<not> final_attempt x))
      \<and> (\<forall>d\<in>set (fst (Run_loop os r jwt)). d \<le> 60)"
  proof (cases "\<forall>x\<in>set os. \<not> final_attempt x")
    case True
    from Run_loop_append [OF this assms, of jwt] obtain ds ts r' jwt' where a:
      "\<forall>d\<in>set ds. d \<le> 60" "\<And>rest. Run_loop (os @ rest) r jwt =
        (case Run_loop rest r' jwt' of (ds2, ts2, res) \<Rightarrow> (ds @ ds2, ts @ ts2, res))" by blast
    from a(2) [of "[]"] have "Run_loop os r jwt = (ds, ts @ [jwt'], None)" by simp
    with a(1) True show ?thesis by simp
  next
    case False
    then obtain pre x rest where os: "os = pre @ x # rest" "final_attempt x" "\<forall>x\<in>set pre. \<not> final_attempt x"
      using split_list_first_prop [of os final_attempt] by blast
    from Run_loop_append [OF os(3) assms, of jwt] obtain ds ts r' jwt' where a:
      "\<forall>d\<in>set ds. d \<le> 60" "Run_loop (pre @ x # rest) r jwt =
        (case Run_loop (x # rest) r' jwt' of (ds2, ts2, res) \<Rightarrow> (ds @ ds2, ts @ ts2, res))" by blast
    obtain res where "Run_loop (x # rest) r' jwt' = ([], [jwt'], Some res)" using Run_loop_final [OF os(2)] by blast
    with a os False show ?thesis by auto
  qed
  then show "snd (snd (Run_loop os r jwt)) = None \<longleftrightarrow> (\<forall>x\<in>set os. \<not> final_attempt x)"
    "\<forall>d\<in>set (fst (Run_loop os r jwt)). d \<le> 60" by blast+
qed

text \<open>The delays after a connection that ended: the backoff starts again.\<close>

lemma delays_after_connection:
  assumes run: "Run_ws outcomes jwt = (delays, tokens, res)"
    and a: "outcomes = pre @ (Ended code, e, False) # fails @ rest
        \<and> (\<forall>x\<in>set pre. \<not> final_attempt x) \<and> code \<noteq> Some 4001 \<and> (\<forall>x\<in>set fails. plain_failure x)"
  shows "take (Suc (length fails)) (drop (length pre) delays) = map (\<lambda>i. min 60 (2 ^ i)) [0..<Suc (length fails)]"
proof -
  have std: "standard (NewReconnectManager 1 60)" by (simp add: standard_def NewReconnectManager_def)
  from Run_loop_append [OF _ std, of pre jwt] a obtain ds ts r' jwt' where p:
    "length ds = length pre" "standard r'"
    "\<And>rest. Run_loop (pre @ rest) (NewReconnectManager 1 60) jwt =
        (case Run_loop rest r' jwt' of (ds2, ts2, res) \<Rightarrow> (ds @ ds2, ts @ ts2, res))" by blast
  let ?r = "r'\<lparr>rc_attempt := 1\<rparr>"
  have "run_step (Ended code) e False r' jwt' = Again 1 ?r jwt'"
    using a p(2) by (auto simp: run_step_def Reset_def NextDelay_def standard_def ShouldReconnect_def Let_def split: option.split)
  moreover have "standard ?r" using p(2) by (simp add: standard_def)
  moreover obtain ts2 res2 where "Run_loop (fails @ rest) ?r jwt' =
      (map (\<lambda>i. backoff (rc_attempt ?r + i)) [0..<length fails] @ ts2, res2)"
    using plain_failures [of fails ?r rest jwt'] a \<open>standard ?r\<close> by blast
  ultimately have "Run_ws outcomes jwt = (ds @ 1 # map (\<lambda>i. backoff (1 + i)) [0..<length fails] @ ts2,
      ts @ jwt' # fst res2, snd res2)"
    using a unfolding Run_ws_def by (simp only: p(3)) (auto split: prod.splits)
  then have "delays = ds @ 1 # map (\<lambda>i. backoff (1 + i)) [0..<length fails] @ ts2" using run by simp
  then have "take (Suc (length fails)) (drop (length pre) delays) = backoff 0 # map (\<lambda>i. backoff (Suc i)) [0..<length fails]"
    by (simp add: p(1) backoff_def)
  also have "\<dots> = map backoff [0..<Suc (length fails)]"
    by (simp add: upt_conv_Cons map_Suc_upt [symmetric] comp_def del: upt_Suc)
  finally show ?thesis
    by (simp add: backoff_def [abs_def])
qed

text \<open>C29: The agent goes on reconnecting for as long as it should: over any sequence of connection outcomes
  its loop returns only at one that revokes it (close code 4001), at a refused token that it cannot
  replace, or when it is shut down. It never waits more than a minute; after a lost connection the
  delays of the failures in a row are 1, 2, 4, 8, 16, 32 seconds and then 60; and after a refused token
  it reconnects at once with the new one.\<close>

theorem agent_keeps_reconnecting:
  assumes "Run_ws outcomes jwt = (delays, tokens, res)"
  shows "(res = None \<longleftrightarrow> (\<forall>x\<in>set outcomes. \<not> final_attempt x)) \<and> (\<forall>d\<in>set delays. d \<le> 60)
    \<and> (\<forall>pre code e fails rest. outcomes = pre @ (Ended code, e, False) # fails @ rest
        \<and> (\<forall>x\<in>set pre. \<not> final_attempt x) \<and> code \<noteq> Some 4001 \<and> (\<forall>x\<in>set fails. plain_failure x) \<longrightarrow>
        take (Suc (length fails)) (drop (length pre) delays) = map (\<lambda>i. min 60 (2 ^ i)) [0..<Suc (length fails)])
    \<and> (\<forall>pre new b rest. outcomes = pre @ (Refused 401, Inr new, b) # rest \<and> (\<forall>x\<in>set pre. \<not> final_attempt x) \<longrightarrow>
        delays ! length pre = 0 \<and> tokens ! Suc (length pre) = new)"
proof (intro conjI allI impI)
  have std: "standard (NewReconnectManager 1 60)" by (simp add: standard_def NewReconnectManager_def)
  note run = assms [unfolded Run_ws_def]
  show "res = None \<longleftrightarrow> (\<forall>x\<in>set outcomes. \<not> final_attempt x)" "\<forall>d\<in>set delays. d \<le> 60"
    using Run_loop_none [OF std, of outcomes jwt] run by simp_all
next
  fix pre code e fails rest
  assume "outcomes = pre @ (Ended code, e, False) # fails @ rest
        \<and> (\<forall>x\<in>set pre. \<not> final_attempt x) \<and> code \<noteq> Some 4001 \<and> (\<forall>x\<in>set fails. plain_failure x)"
  then show "take (Suc (length fails)) (drop (length pre) delays) = map (\<lambda>i. min 60 (2 ^ i)) [0..<Suc (length fails)]"
    by (rule delays_after_connection [OF assms])
next
  fix pre new b rest
  assume a: "outcomes = pre @ (Refused 401, Inr new, b) # rest \<and> (\<forall>x\<in>set pre. \<not> final_attempt x)"
  have std: "standard (NewReconnectManager 1 60)" by (simp add: standard_def NewReconnectManager_def)
  from Run_loop_append [OF _ std, of pre jwt] a obtain ds ts r' jwt' where p:
    "length ds = length pre" "length ts = length pre"
    "\<And>rest. Run_loop (pre @ rest) (NewReconnectManager 1 60) jwt =
        (case Run_loop rest r' jwt' of (ds2, ts2, res) \<Rightarrow> (ds @ ds2, ts @ ts2, res))" by blast
  obtain ds2 ts2 res2 where "Run_loop rest (Reset r') new = (ds2, new # ts2, res2)"
    using Run_loop_tokens by blast
  then show "delays ! length pre = 0" "tokens ! Suc (length pre) = new"
    using assms a p by (auto simp: Run_ws_def run_step_def nth_append split: prod.splits)
qed

lemma agent_keeps_reconnecting_witness:
  "fst (Run_ws [(Ended (Some 1006), Inr [], False), (Unreachable, Inr [], False), (Refused 403, Inr [], False)] ''j'') = [1, 2, 4]"
proof -
  let ?fails = "[(Unreachable, Inr [], False), (Refused 403, Inr [], False)] :: attempt list"
  let ?os = "(Ended (Some 1006), Inr [], False) # ?fails"
  obtain ds ts res where r: "Run_ws ?os ''j'' = (ds, ts, res)" by (cases "Run_ws ?os ''j''") auto
  have "length (fst (Run_ws ?os ''j'')) = 3" by code_simp
  then have len: "length ds = 3" by (simp only: r fst_conv)
  from agent_keeps_reconnecting [OF r, THEN conjunct2, THEN conjunct2, THEN conjunct1, rule_format,
      of "[]" "Some 1006" "Inr []" ?fails "[]"]
  have "take 3 ds = map (\<lambda>i. min 60 (2 ^ i)) [0..<3]" by (simp add: numeral_3_eq_3)
  with len have "ds = map (\<lambda>i. min 60 (2 ^ i)) [0..<3]" by simp
  then show ?thesis unfolding r by (simp add: upt_rec)
qed

end
