(* ===== verification/MinionJobs.thy ===== *)
theory MinionJobs
  imports MinionRegistry
begin

text \<open>What a restart of the agent keeps of its asynchronous jobs, and what becomes of those that died.\<close>

section \<open>Restart\<close>

definition settled :: "job_env \<Rightarrow> Job \<Rightarrow> Job" where
  "settled J j = (if \<not> jb_Finished j \<and> \<not> checkPIDAlive J (jb_PID j) then j\<lparr>jb_Finished := True, jb_RC := -1\<rparr> else j)"

lemma op_saved:
  assumes "registry_ok J r" "(None, r') \<in> {RegisterJob J now jid pid cmd tmo out r, UpdateJob J jid b rc r, RemoveJob J jid r}"
  shows "distinct (mkeys (rg_jobs r')) \<and> rg_file r' = Some (je_encode J (rg_jobs r'))"
proof -
  from assms(2) obtain jobs where "save J (r\<lparr>rg_jobs := jobs\<rparr>) = (None, r')" "distinct (mkeys jobs)"
    using registry_ok_keys [OF assms(1)]
    by (auto simp: RegisterJob_def UpdateJob_def RemoveJob_def split: option.splits)
  then show ?thesis by (auto dest: save_ok)
qed

lemma Restore_run:
  assumes "RestoreOnRestart J r = (None, r')"
  shows "rg_jobs r' = map (\<lambda>(k, j). (k, settled J j)) (rg_jobs r)
    \<and> (rg_file r' = Some (je_encode J (rg_jobs r')) \<or> r' = r)"
proof -
  let ?due = "\<lambda>j. \<not> checkPIDAlive J (jb_PID j)"
  have eq: "finish_due ?due (-1) jobs = map (\<lambda>(k, j). (k, settled J j)) jobs" for jobs
    by (simp add: finish_due_def settled_def)
  show ?thesis
  proof (cases "due_jobs ?due (rg_jobs r) = []")
    case True
    with assms due_none [OF True, of "-1"] show ?thesis by (simp add: RestoreOnRestart_def eq)
  next
    case False
    with assms have "save J (r\<lparr>rg_jobs := finish_due ?due (-1) (rg_jobs r)\<rparr>) = (None, r')"
      by (simp add: RestoreOnRestart_def)
    from save_ok [OF this] show ?thesis by (simp add: eq)
  qed
qed

lemma mget_map_values: "mget (map (\<lambda>(k, v). (k, f v)) m) k = map_option f (mget m k)"
  by (induction m) auto


text \<open>An unfinished job past its deadline is signalled once: the next check at that time finds nothing.\<close>

lemma expired_jobs_signalled_once:
  assumes "CheckAndKillExpired J now r = (pids, e, r')" "e = None"
  shows "pids = filter (je_find J) (map jb_PID (due_jobs (job_expired now) (rg_jobs r)))
    \<and> fst (CheckAndKillExpired J now r') = []"
proof -
  have "rg_jobs r' = finish_due (job_expired now) (-15) (rg_jobs r)"
    using assms by (auto simp: CheckAndKillExpired_def Let_def due_none split: if_splits dest: save_ok)
  with assms show ?thesis by (auto simp: CheckAndKillExpired_def Let_def due_finish_due)
qed

lemma job_expired_iff:
  "0 \<le> jb_Timeout j \<Longrightarrow> jb_Timeout j * 1000000000 < 2 ^ 63 \<Longrightarrow>
   job_expired now j \<longleftrightarrow> jb_StartedAt j + jb_Timeout j * 1000000000 < now"
  by (simp add: job_expired_def wrap64_id)

section \<open>An instance\<close>

text \<open>A text format for the file that round trips: numbers in unary, strings with their length.\<close>

definition put_nat :: "nat \<Rightarrow> string" where
  "put_nat n = replicate n CHR ''I'' @ ''.''"

definition take_nat :: "string \<Rightarrow> nat \<times> string" where
  "take_nat s = (length (takeWhile (\<lambda>c. c = CHR ''I'') s), tl (dropWhile (\<lambda>c. c = CHR ''I'') s))"

definition put_int :: "int \<Rightarrow> string" where
  "put_int n = put_nat (nat n) @ put_nat (nat (- n))"

definition take_int :: "string \<Rightarrow> int \<times> string" where
  "take_int s = (case take_nat s of (a, s) \<Rightarrow> (case take_nat s of (b, s) \<Rightarrow> (int a - int b, s)))"

definition put_string :: "string \<Rightarrow> string" where
  "put_string t = put_nat (length t) @ t"

definition take_string :: "string \<Rightarrow> string \<times> string" where
  "take_string s = (case take_nat s of (n, s) \<Rightarrow> (take n s, drop n s))"

definition put_job :: "Job \<Rightarrow> string" where
  "put_job j = put_string (jb_JID j) @ put_int (jb_PID j) @ put_string (jb_Cmd j) @ put_int (jb_Timeout j)
     @ put_string (jb_StdoutPath j) @ put_int (jb_StartedAt j) @ put_nat (if jb_Finished j then 1 else 0)
     @ put_int (jb_RC j)"

definition take_job :: "string \<Rightarrow> Job \<times> string" where
  "take_job s = (case take_string s of (jid, s) \<Rightarrow> case take_int s of (pid, s) \<Rightarrow> case take_string s of (cmd, s) \<Rightarrow>
     case take_int s of (tmo, s) \<Rightarrow> case take_string s of (out, s) \<Rightarrow> case take_int s of (st, s) \<Rightarrow>
     case take_nat s of (fin, s) \<Rightarrow> case take_int s of (rc, s) \<Rightarrow>
       (\<lparr>jb_JID = jid, jb_PID = pid, jb_Cmd = cmd, jb_Timeout = tmo, jb_StdoutPath = out, jb_StartedAt = st,
          jb_Finished = (fin = 1), jb_RC = rc\<rparr>, s))"

fun put_jobs :: "(string, Job) gomap \<Rightarrow> string" where
  "put_jobs [] = []"
| "put_jobs ((k, j) # m) = put_string k @ put_job j @ put_jobs m"

primrec take_jobs :: "nat \<Rightarrow> string \<Rightarrow> (string, Job) gomap" where
  "take_jobs 0 s = []"
| "take_jobs (Suc n) s = (case take_string s of (k, s) \<Rightarrow> case take_job s of (j, s) \<Rightarrow> (k, j) # take_jobs n s)"

lemma takes [simp]:
  "take_nat (put_nat n @ s) = (n, s)" "take_int (put_int i @ s) = (i, s)" "take_string (put_string t @ s) = (t, s)"
proof -
  show nat: "take_nat (put_nat n @ s) = (n, s)" for n s
    by (simp add: take_nat_def put_nat_def takeWhile_append dropWhile_append)
  show "take_int (put_int i @ s) = (i, s)" by (simp add: take_int_def put_int_def nat)
  show "take_string (put_string t @ s) = (t, s)" by (simp add: take_string_def put_string_def nat)
qed

lemma take_put_job: "take_job (put_job j @ s) = (j, s)"
  by (simp add: take_job_def put_job_def)

lemma take_put_jobs: "take_jobs (length m) (put_jobs m) = m"
  by (induction m rule: put_jobs.induct) (simp_all add: take_put_job)

definition unary_env :: job_env where
  "unary_env = \<lparr>je_encode = \<lambda>jobs. put_nat (length jobs) @ put_jobs jobs,
     je_decode = \<lambda>t. case take_nat t of (n, s) \<Rightarrow> Some (take_jobs n s), je_save_error = None, je_read_error = None,
     je_find = \<lambda>_. True, je_kill0 = \<lambda>pid. if pid = 1 then Signalled else SignalError, je_output = \<lambda>_. None\<rparr>"

lemma unary_roundtrip: "json_roundtrip unary_env" "je_read_error unary_env = None"
  by (simp_all add: json_roundtrip_def unary_env_def take_put_jobs)


end
