(* ===== verification/MinionWindows.thy ===== *)
theory MinionWindows
  imports MinionJobs "HOL-Library.Word"
begin

text \<open>
  The agent built for Windows (\<open>internal/registry/alive_windows.go\<close>): the check of a process by a handle
  and its exit code, in place of the signal of the Unix build, and what a restart makes of the jobs.
\<close>

section \<open>The check\<close>

text \<open>
  What the system answers: whether it opens a handle for a process id, the exit code read from the
  handle (an error is \<open>None\<close>), and the id of the agent itself. A process id is a word of 32 bits.
\<close>

record windows_env =
  wn_open :: "32 word \<Rightarrow> bool"
  wn_exit_code :: "32 word \<Rightarrow> 32 word option"
  wn_getpid :: int

definition stillActive :: "32 word" where
  "stillActive = 259"

definition checkPIDAlive_windows :: "windows_env \<Rightarrow> int \<Rightarrow> bool" where
  "checkPIDAlive_windows W pid =
     (let p = word_of_int pid in
      if \<not> wn_open W p then wn_getpid W = pid
      else (case wn_exit_code W p of
              None \<Rightarrow> False
            | Some exitCode \<Rightarrow> exitCode = stillActive))"

text \<open>The restart of the registry with this check; a saved job is settled by it.\<close>

definition windows_build :: "windows_env \<Rightarrow> job_env \<Rightarrow> job_env" where
  "windows_build W J = J\<lparr>je_find := checkPIDAlive_windows W, je_kill0 := \<lambda>_. Signalled\<rparr>"

lemma windows_build_check [simp]: "checkPIDAlive (windows_build W J) pid = checkPIDAlive_windows W pid"
  by (simp add: checkPIDAlive_def windows_build_def)

lemma windows_build_file [simp]:
  "json_roundtrip (windows_build W J) = json_roundtrip J" "save (windows_build W J) = save J"
  "New_Registry (windows_build W J) = New_Registry J"
  by (simp_all add: windows_build_def json_roundtrip_def save_def New_Registry_def load_def fun_eq_iff
      split: option.split)

section \<open>What it tells\<close>

lemma windows_alive_iff:
  "checkPIDAlive_windows W pid \<longleftrightarrow>
     (if wn_open W (word_of_int pid) then wn_exit_code W (word_of_int pid) = Some stillActive else wn_getpid W = pid)"
  by (simp add: checkPIDAlive_windows_def Let_def split: option.split)

text \<open>Process ids that agree in their lower 32 bits are the same process.\<close>

lemma windows_same_process:
  assumes "pid mod 2 ^ 32 = pid' mod 2 ^ 32" "wn_open W (word_of_int pid)"
  shows "checkPIDAlive_windows W pid = checkPIDAlive_windows W pid'"
proof -
  have "(word_of_int pid :: 32 word) = word_of_int pid'"
    using assms(1) by (simp add: word_of_int_eq_iff take_bit_eq_mod)
  with assms(2) show ?thesis by (simp add: windows_alive_iff)
qed

text \<open>After a restart every unfinished job has a process whose exit code is \<open>STILL_ACTIVE\<close>, or is the
  agent itself; a process the agent may not open counts as gone, although it may run, where the Unix
  build keeps its job.\<close>

lemma windows_restart:
  assumes "RestoreOnRestart (windows_build W J) r = (None, r')" "GetJob r k = Some j" "\<not> jb_Finished j"
  shows "\<exists>j'. GetJob r' k = Some j' \<and> (\<not> jb_Finished j' \<longleftrightarrow> checkPIDAlive_windows W (jb_PID j))"
  using Restore_run [OF assms(1)] assms(2,3) by (auto simp: GetJob_def mget_map_values settled_def)

lemma windows_foreign_process:
  assumes "RestoreOnRestart (windows_build W J) r = (None, r')" "RestoreOnRestart J r = (None, r'')"
    and "GetJob r k = Some j" "\<not> jb_Finished j"
    and "\<not> wn_open W (word_of_int (jb_PID j))" "wn_getpid W \<noteq> jb_PID j"
    and "je_find J (jb_PID j)" "je_kill0 J (jb_PID j) = NotPermitted"
  shows "GetJob r' k = Some (j\<lparr>jb_Finished := True, jb_RC := -1\<rparr>) \<and> GetJob r'' k = Some j"
proof -
  have "checkPIDAlive J (jb_PID j)" "\<not> checkPIDAlive_windows W (jb_PID j)"
    using assms(5-8) by (simp_all add: checkPIDAlive_def windows_alive_iff)
  then show ?thesis
    using Restore_run [OF assms(1)] Restore_run [OF assms(2)] assms(3,4)
    by (simp add: GetJob_def mget_map_values settled_def)
qed

end
