(* ===== verification/GoFloat.thy ===== *)
theory GoFloat
  imports Complex_Main
begin

text \<open>
  Go's \<open>float64\<close> as far as the program computes with it: numbers that are not negative, as rationals,
  each operation rounded to 53 significant bits, ties to even. Overflow and subnormal numbers do not
  occur for the values at hand.
\<close>

section \<open>Rounding\<close>

definition round_half_even :: "rat \<Rightarrow> int" where
  "round_half_even q =
     (let f = \<lfloor>q\<rfloor>; r = q - of_int f
      in if r < 1 / 2 \<or> r = 1 / 2 \<and> even f then f else f + 1)"

text \<open>The number of binary digits, and from it the exponent of the unit in the last place.\<close>

function bit_length :: "int \<Rightarrow> nat" where
  "bit_length n = (if n \<le> 0 then 0 else Suc (bit_length (n div 2)))"
  by pat_completeness auto
termination
  by (relation "measure nat") auto

declare bit_length.simps [simp del]

definition ulp_exponent :: "rat \<Rightarrow> int" where
  "ulp_exponent q =
     (let (n, d) = quotient_of q;
          e = int (bit_length n) - int (bit_length d) - 53
      in if 2 ^ 53 \<le> q / 2 powi e then e + 1 else e)"

definition float64 :: "rat \<Rightarrow> rat" where
  "float64 q =
     (if q \<le> 0 then 0
      else let e = ulp_exponent q in of_int (round_half_even (q / 2 powi e)) * 2 powi e)"

definition float_mul :: "rat \<Rightarrow> rat \<Rightarrow> rat" where
  "float_mul a b = float64 (a * b)"

definition float_div :: "rat \<Rightarrow> rat \<Rightarrow> rat" where
  "float_div a b = float64 (a / b)"

definition float_add :: "rat \<Rightarrow> rat \<Rightarrow> rat" where
  "float_add a b = float64 (a + b)"

lemma bit_length_bounds:
  assumes "0 < n"
  shows "0 < bit_length n" "2 ^ (bit_length n - 1) \<le> n" "n < 2 ^ bit_length n"
proof -
  have "0 < bit_length n \<and> 2 ^ (bit_length n - 1) \<le> n \<and> n < 2 ^ bit_length n"
    using assms
  proof (induction n rule: bit_length.induct)
    case (1 n)
    show ?case
    proof (cases "n = 1")
      case False
      with 1 have IH: "0 < bit_length (n div 2)" "2 ^ (bit_length (n div 2) - 1) \<le> n div 2"
          "n div 2 < 2 ^ bit_length (n div 2)" by auto
      then obtain k where k: "bit_length (n div 2) = Suc k" by (auto simp: gr0_conv_Suc)
      have "bit_length n = Suc (Suc k)" using 1 k by (simp add: bit_length.simps [of n])
      moreover have "2 ^ k \<le> n div 2" "n div 2 < 2 * 2 ^ k" using IH k by simp_all
      ultimately show ?thesis by simp linarith
    qed (simp add: bit_length.simps)
  qed
  then show "0 < bit_length n" "2 ^ (bit_length n - 1) \<le> n" "n < 2 ^ bit_length n" by auto
qed

lemma round_half_even_error: "\<bar>of_int (round_half_even q) - q\<bar> \<le> 1 / 2"
proof -
  have "of_int \<lfloor>q\<rfloor> \<le> q" "q < of_int \<lfloor>q\<rfloor> + 1" by linarith+
  then show ?thesis by (auto simp: round_half_even_def Let_def abs_le_iff)
qed

lemma powi_2_pos [simp]: "0 < (2 :: rat) powi e"
  by simp

lemma ulp_small:
  assumes "0 < q"
  shows "2 ^ 52 * 2 powi ulp_exponent q \<le> q"
proof -
  obtain n d where nd: "quotient_of q = (n, d)" by fastforce
  then have d: "0 < d" and q: "q = of_int n / of_int d" by (rule quotient_of_denom_pos, rule quotient_of_div)
  have n: "0 < n" using assms d by (simp add: q zero_less_divide_iff)
  let ?bn = "bit_length n" and ?bd = "bit_length d"
  let ?e = "int ?bn - int ?bd - 53"
  have "0 < ?bn" "2 ^ (?bn - 1) \<le> n" "d < 2 ^ ?bd"
    using bit_length_bounds n d by auto
  then have b: "2 ^ (?bn - 1) \<le> (of_int n :: rat)" "of_int d \<le> (2 :: rat) ^ ?bd"
    by (metis of_int_le_iff of_int_power of_int_numeral, metis of_int_le_iff of_int_power of_int_numeral less_imp_le)
  have "(2 :: rat) ^ (?bn - 1) / 2 ^ ?bd \<le> q"
    unfolding q using b n d by (intro frac_le) auto
  moreover have "(2 :: rat) ^ (?bn - 1) / 2 ^ ?bd = 2 powi (int (?bn - 1) - int ?bd)"
    by (simp add: power_int_diff)
  moreover have e: "int (?bn - 1) - int ?bd = 52 + ?e" using \<open>0 < ?bn\<close> by simp
  moreover have "(2 :: rat) powi (52 + ?e) = 2 ^ 52 * 2 powi ?e"
    using power_int_add [of "2 :: rat" 52 ?e] by simp
  ultimately have low: "2 ^ 52 * 2 powi ?e \<le> q" unfolding e by metis
  show ?thesis
  proof (cases "2 ^ 53 \<le> q / 2 powi ?e")
    case True
    then have "2 ^ 53 * 2 powi ?e \<le> q" by (simp add: le_divide_eq)
    moreover have "(2 :: rat) powi (?e + 1) = 2 powi ?e * 2" using power_int_add [of "2 :: rat" ?e 1] by simp
    ultimately show ?thesis using True by (simp add: ulp_exponent_def nd)
  next
    case False
    with low show ?thesis by (simp add: ulp_exponent_def nd)
  qed
qed

text \<open>The relative error of a rounding is at most \<open>2 powi (- 53)\<close>.\<close>

lemma float64_error:
  assumes "0 \<le> q"
  shows "\<bar>float64 q - q\<bar> \<le> q / 2 ^ 53"
proof (cases "q = 0")
  case False
  let ?u = "(2 :: rat) powi ulp_exponent q"
  have q: "0 < q" using assms False by simp
  have "float64 q - q = (of_int (round_half_even (q / ?u)) - q / ?u) * ?u"
    using q by (simp add: float64_def Let_def algebra_simps)
  then have "\<bar>float64 q - q\<bar> = \<bar>of_int (round_half_even (q / ?u)) - q / ?u\<bar> * ?u"
    by (simp add: abs_mult)
  also have "\<dots> \<le> 1 / 2 * ?u" by (intro mult_right_mono round_half_even_error) simp
  also have "\<dots> \<le> q / 2 ^ 53" using ulp_small [OF q] by simp
  finally show ?thesis .
qed (simp add: float64_def)

lemma float64_nonneg [simp]: "0 \<le> float64 q"
proof (cases "q \<le> 0")
  case False
  then have "0 \<le> q / 2 powi ulp_exponent q" by simp
  then have "0 \<le> round_half_even (q / 2 powi ulp_exponent q)" by (auto simp: round_half_even_def Let_def)
  then show ?thesis using False by (simp add: float64_def Let_def)
qed (simp add: float64_def)

text \<open>The same with the power written out, for linear arithmetic.\<close>

lemma float64_close:
  assumes "0 \<le> q"
  shows "q - q / 9007199254740992 \<le> float64 q" "float64 q \<le> q + q / 9007199254740992"
  using float64_error [OF assms] by (simp_all only: abs_le_iff) simp_all

end
