(* ===== verification/MinionFacts.thy ===== *)
theory MinionFacts
  imports GoNum GoPath GoFloat
begin

text \<open>
  The facts an agent collects about its host (\<open>secagent-minion/internal/facts\<close>). What the operating
  system answers is the record \<open>host\<close>: the text lines of a file, the output of \<open>uname -r\<close>, the
  interfaces with their addresses, the blocks of a file system and their size (\<open>statfs\<close>), the size that
  Windows gives. Floating-point operations round one by one: a processor that fuses a product and a sum
  may differ in the last place.
\<close>

section \<open>The host\<close>

record address =
  ad_Text :: string
  ad_Loopback :: bool
  ad_Is4 :: bool

text \<open>The address list holds \<open>None\<close> for an address that is neither \<open>IPNet\<close> nor \<open>IPAddr\<close>.\<close>

record iface =
  if_Name :: string
  if_MAC :: string
  if_Addrs :: "address option list option"

record host =
  ho_GOOS :: string
  ho_Hostname :: "string option"
  ho_lines :: "string \<Rightarrow> string list"
  ho_uname :: "string option"
  ho_GoVersion :: string
  ho_NumCPU :: int
  ho_Interfaces :: "iface list option"
  ho_Statfs :: "string \<Rightarrow> (nat \<times> int) option"
  ho_DiskFreeSpace :: "string \<Rightarrow> nat option"

section \<open>Texts\<close>

text \<open>\<open>strings.Trim\<close> with one character, and \<open>strings.Fields\<close>.\<close>

definition Trim_char :: "char \<Rightarrow> string \<Rightarrow> string" where
  "Trim_char c s = dropWhile (\<lambda>x. x = c) (TrimRight c s)"

definition begins_space :: "string \<Rightarrow> bool" where
  "begins_space s \<longleftrightarrow> (\<exists>e\<in>set space_encodings. HasPrefix s e)"

fun first_word :: "string \<Rightarrow> string" where
  "first_word [] = []"
| "first_word (c # s) = (if begins_space (c # s) then [] else c # first_word s)"

lemma length_trim: "length (trim_with encs s) \<le> length s"
  using trim_with_suffix [of encs s] by (rule suffix_length_le)

function Fields :: "string \<Rightarrow> string list" where
  "Fields s =
     (let s' = trim_with space_encodings s; w = first_word s' in
      if s' = [] \<or> w = [] then [] else w # Fields (drop (length w) s'))"
  by auto
termination
proof (relation "measure length")
  fix s s' w
  assume "s' = trim_with space_encodings s" "\<not> (s' = [] \<or> w = [])"
  then have "length (drop (length w) s') < length s'" by (cases w; cases s') auto
  with length_trim [of space_encodings s] \<open>s' = trim_with space_encodings s\<close>
  show "(drop (length w) s', s) \<in> measure length" by simp
qed simp

declare Fields.simps [simp del]

text \<open>A line without the separator, or with an empty key, is skipped; the last value of a key counts.\<close>

definition parseKeyValue :: "string list \<Rightarrow> (string, string) gomap" where
  "parseKeyValue lines =
     foldl (\<lambda>kv line. case index_of CHR ''='' line of
         Some idx \<Rightarrow> if 0 < idx then mput (take idx line) (drop (idx + 1) line) kv else kv
       | None \<Rightarrow> kv) [] lines"

section \<open>Facts\<close>

record OSInfo =
  os_System :: string
  os_Release :: string
  os_Version :: string

record NetworkIface =
  ni_Name :: string
  ni_MAC :: string
  ni_IPv4 :: "string list"
  ni_IPv6 :: "string list"

record Facts =
  fa_Hostname :: string
  fa_OS :: OSInfo
  fa_OSFamily :: string
  fa_KernelVersion :: string
  fa_CPUCount :: int
  fa_MemoryTotalMB :: int
  fa_DiskTotalGB :: rat
  fa_IPAddresses :: "string list"
  fa_NetworkInterfaces :: "NetworkIface list"
  fa_PythonVersion :: string

definition getHostname :: "host \<Rightarrow> string" where
  "getHostname H = (case ho_Hostname H of None \<Rightarrow> ''unknown'' | Some h \<Rightarrow> h)"

definition quoted :: "string option \<Rightarrow> string" where
  "quoted v = (case v of None \<Rightarrow> [] | Some v \<Rightarrow> Trim_char CHR 0x22 v)"

definition getOSInfo :: "host \<Rightarrow> OSInfo" where
  "getOSInfo H =
     (if ho_GOOS H = ''linux'' then
        let kv = parseKeyValue (ho_lines H ''/etc/os-release'')
        in \<lparr>os_System = ho_GOOS H, os_Release = quoted (mget kv ''VERSION_ID''), os_Version = quoted (mget kv ''VERSION'')\<rparr>
      else \<lparr>os_System = ho_GOOS H, os_Release = [], os_Version = []\<rparr>)"

definition family_of :: "string \<Rightarrow> string option" where
  "family_of part =
     (if part \<in> {''debian'', ''ubuntu'', ''linuxmint'', ''pop'', ''kali'', ''raspbian''} then Some ''Debian''
      else if part \<in> {''rhel'', ''centos'', ''fedora'', ''rocky'', ''almalinux'', ''ol'', ''scientific''} then Some ''RedHat''
      else if part \<in> {''suse'', ''opensuse'', ''sles''} then Some ''Suse''
      else if part \<in> {''arch'', ''manjaro'', ''endeavouros''} then Some ''Arch''
      else if part = ''alpine'' then Some ''Alpine''
      else if part = ''gentoo'' then Some ''Gentoo''
      else None)"

fun first_family :: "string list \<Rightarrow> string option" where
  "first_family [] = None"
| "first_family (part # parts) = (case family_of part of Some f \<Rightarrow> Some f | None \<Rightarrow> first_family parts)"

text \<open>\<open>ToLower\<close> folds ASCII letters; the identifiers of \<open>os-release\<close> are ASCII.\<close>

definition getOSFamily :: "host \<Rightarrow> string" where
  "getOSFamily H =
     (if ho_GOOS H = ''windows'' then ''Windows''
      else if ho_GOOS H \<noteq> ''linux'' then ho_GOOS H
      else let kv = parseKeyValue (ho_lines H ''/etc/os-release'');
               parts = (\<lambda>key. case mget kv key of None \<Rightarrow> [] | Some raw \<Rightarrow> Fields (ToLower (Trim_char CHR 0x22 raw)))
           in case first_family (parts ''ID_LIKE'') of
                Some f \<Rightarrow> f
              | None \<Rightarrow> (case first_family (parts ''ID'') of Some f \<Rightarrow> f | None \<Rightarrow> ''Linux''))"

definition getKernelVersion :: "host \<Rightarrow> string" where
  "getKernelVersion H = (case ho_uname H of None \<Rightarrow> ho_GoVersion H | Some out \<Rightarrow> TrimSpace out)"

definition getCPUCount :: "host \<Rightarrow> int" where
  "getCPUCount H = (if ho_NumCPU H < 0 then 0 else ho_NumCPU H)"

text \<open>Go's division truncates towards zero.\<close>

fun memory_of_lines :: "string list \<Rightarrow> int" where
  "memory_of_lines [] = 0"
| "memory_of_lines (line # lines) =
     (if HasPrefix line ''MemTotal:'' then
        (case Fields line of
           _ # num # _ \<Rightarrow>
             (case Atoi num of
                Some kb \<Rightarrow> if kb < 0 then - ((- kb) div 1024) else kb div 1024
              | None \<Rightarrow> memory_of_lines lines)
         | _ \<Rightarrow> memory_of_lines lines)
      else memory_of_lines lines)"

definition getMemoryTotalMB :: "host \<Rightarrow> int" where
  "getMemoryTotalMB H = (if ho_GOOS H \<noteq> ''linux'' then 0 else memory_of_lines (ho_lines H ''/proc/meminfo''))"

text \<open>The addresses of an interface that are used: those with a value that is not a loopback.\<close>

definition public_addrs :: "iface \<Rightarrow> address list" where
  "public_addrs i =
     (case if_Addrs i of
        None \<Rightarrow> []
      | Some addrs \<Rightarrow> filter (\<lambda>a. \<not> ad_Loopback a) (List.map_filter (\<lambda>a. a) addrs))"

definition add_new :: "string list \<Rightarrow> string \<Rightarrow> string list" where
  "add_new result s = (if s \<in> set result then result else result @ [s])"

definition getNonLoopbackIPs :: "host \<Rightarrow> string list" where
  "getNonLoopbackIPs H =
     (case ho_Interfaces H of
        None \<Rightarrow> []
      | Some ifaces \<Rightarrow> foldl add_new [] (map ad_Text (concat (map public_addrs ifaces))))"

definition getNetworkInterfaces :: "host \<Rightarrow> NetworkIface list" where
  "getNetworkInterfaces H =
     (case ho_Interfaces H of
        None \<Rightarrow> []
      | Some ifaces \<Rightarrow>
          map (\<lambda>i. \<lparr>ni_Name = if_Name i, ni_MAC = if_MAC i,
                 ni_IPv4 = map ad_Text (filter ad_Is4 (public_addrs i)),
                 ni_IPv6 = map ad_Text (filter (\<lambda>a. \<not> ad_Is4 a) (public_addrs i))\<rparr>)
            (filter (\<lambda>i. \<not> (if_Name i = ''lo'' \<or> HasPrefix (if_Name i) ''lo:'')) ifaces))"

text \<open>\<open>int\<close> truncates; the numbers are not negative.\<close>

definition roundFloat :: "rat \<Rightarrow> nat \<Rightarrow> rat" where
  "roundFloat f decimals =
     (let p = ((\<lambda>p. float_mul p 10) ^^ decimals) 1
      in float_div (float64 (of_int \<lfloor>float_add (float_mul f p) (1 / 2)\<rfloor>)) p)"

text \<open>The files \<open>disk_*.go\<close>: on Linux a product of unsigned 64-bit numbers, which wraps.\<close>

definition diskTotalBytesOS :: "host \<Rightarrow> string \<Rightarrow> nat option" where
  "diskTotalBytesOS H path =
     (if ho_GOOS H = ''linux''
      then (case ho_Statfs H path of
              Some (blocks, bsize) \<Rightarrow> Some (nat (int blocks * bsize mod 2 ^ 64))
            | None \<Rightarrow> None)
      else if ho_GOOS H = ''windows'' then ho_DiskFreeSpace H path
      else None)"

definition diskTotalBytes :: "host \<Rightarrow> string \<Rightarrow> nat option" where
  "diskTotalBytes H path = diskTotalBytesOS H path"

definition disk_path :: "host \<Rightarrow> string" where
  "disk_path H = (if ho_GOOS H = ''windows'' then ''C:'' @ [char_of (92 :: nat)] else ''/'')"

definition getDiskTotalGB :: "host \<Rightarrow> rat" where
  "getDiskTotalGB H =
     (case diskTotalBytes H (disk_path H) of
        Some bytes \<Rightarrow> if 0 < bytes then roundFloat (float_div (float64 (of_nat bytes)) (float64 (2 ^ 30))) 2 else 0
      | None \<Rightarrow> 0)"

definition Collect_facts :: "host \<Rightarrow> Facts" where
  "Collect_facts H =
     \<lparr>fa_Hostname = getHostname H, fa_OS = getOSInfo H, fa_OSFamily = getOSFamily H,
       fa_KernelVersion = getKernelVersion H, fa_CPUCount = getCPUCount H,
       fa_MemoryTotalMB = getMemoryTotalMB H,
       fa_DiskTotalGB = getDiskTotalGB H, fa_IPAddresses = getNonLoopbackIPs H,
       fa_NetworkInterfaces = getNetworkInterfaces H, fa_PythonVersion = ''N/A''\<rparr>"

section \<open>What the facts are\<close>

lemma foldl_add_new:
  "distinct acc \<Longrightarrow> distinct (foldl add_new acc xs) \<and> set (foldl add_new acc xs) = set acc \<union> set xs"
proof (induction xs arbitrary: acc)
  case (Cons x xs)
  then have "distinct (add_new acc x)" by (simp add: add_new_def)
  from Cons.IH [OF this] show ?case by (auto simp: add_new_def)
qed simp

text \<open>Every address that is not a loopback is listed, and only once.\<close>

lemma addresses_once:
  "distinct (getNonLoopbackIPs H) \<and> set (getNonLoopbackIPs H) =
     (case ho_Interfaces H of None \<Rightarrow> {} | Some ifaces \<Rightarrow> \<Union>i\<in>set ifaces. ad_Text ` set (public_addrs i))"
  using foldl_add_new [of "[]"] by (auto simp: getNonLoopbackIPs_def split: option.split)

text \<open>The disk fact is the size in gigabytes to two decimals: the four roundings on the way add at
  most one part in \<open>2 ^ 49\<close>.\<close>

lemma float64_values: "float64 (2 ^ 30) = 2 ^ 30" "float64 10 = 10" "float64 100 = 100"
  by code_simp+

lemma roundFloat_2:
  assumes "0 \<le> f"
  shows "\<bar>roundFloat f 2 - f\<bar> \<le> 1 / 200 + (f + 1) / 2 ^ 50"
proof -
  have p: "((\<lambda>p. float_mul p 10) ^^ 2) 1 = 100"
    by (simp add: float_mul_def numeral_2_eq_2 float64_values)
  let ?m = "float64 (f * 100)"
  let ?a = "float64 (?m + 1 / 2)"
  define w where "w = (of_int \<lfloor>?a\<rfloor> :: rat)"
  let ?k = "float64 w"
  have a0: "0 \<le> w" by (simp add: w_def)
  have fl: "w \<le> ?a" "?a < w + 1" unfolding w_def by linarith+
  have half: "0 \<le> ?m + 1 / 2" using float64_nonneg [of "f * 100"] by linarith
  have f100: "0 \<le> f * 100" and k100: "0 \<le> ?k / 100" using assms by simp_all
  note close = float64_close [OF f100] float64_close [OF half] float64_close [OF a0] float64_close [OF k100]
  have "roundFloat f 2 = float64 (?k / 100)"
    unfolding roundFloat_def p Let_def by (simp only: float_mul_def float_add_def float_div_def w_def)
  then show ?thesis using close fl a0 assms by (intro abs_leI) (simp_all add: field_simps)
qed

lemma disk_total_close:
  assumes "diskTotalBytes H (disk_path H) = Some bytes"
  shows "\<bar>getDiskTotalGB H - of_nat bytes / 2 ^ 30\<bar> \<le> 1 / 200 + (of_nat bytes / 2 ^ 30 + 1) / 2 ^ 49"
proof (cases "bytes = 0")
  case False
  define n where "n = (of_nat bytes :: rat)"
  let ?b = "float64 n"
  let ?f = "float64 (?b / 2 ^ 30)"
  have n: "0 \<le> n" and b: "0 \<le> ?b / 2 ^ 30" by (simp_all add: n_def)
  have "0 \<le> ?f" by simp
  then have "\<bar>roundFloat ?f 2 - ?f\<bar> \<le> 1 / 200 + (?f + 1) / 2 ^ 50" by (rule roundFloat_2)
  moreover have "getDiskTotalGB H = roundFloat ?f 2"
    using assms False by (simp only: getDiskTotalGB_def float_div_def float64_values option.case n_def) simp
  ultimately have "\<bar>getDiskTotalGB H - ?f\<bar> \<le> 1 / 200 + (?f + 1) / 2 ^ 50" by simp
  from abs_le_D1 [OF this] abs_le_D2 [OF this]
  have "\<bar>getDiskTotalGB H - n / 2 ^ 30\<bar> \<le> 1 / 200 + (n / 2 ^ 30 + 1) / 2 ^ 49"
    using float64_close [OF n] float64_close [OF b] n by (intro abs_leI) (simp_all add: field_simps)
  then show ?thesis by (simp only: n_def)
qed (use assms in \<open>simp add: getDiskTotalGB_def\<close>)

text \<open>An agent on another system has no disk fact, and a Linux file system of at least \<open>2 ^ 64\<close> bytes
  is reported by what is left of its size.\<close>

lemma disk_on_linux:
  assumes "ho_GOOS H = ''linux''" "ho_Statfs H ''/'' = Some (blocks, bsize)" "0 \<le> bsize"
  shows "\<bar>getDiskTotalGB H - of_int (int blocks * bsize mod 2 ^ 64) / 2 ^ 30\<bar>
    \<le> 1 / 200 + (of_int (int blocks * bsize mod 2 ^ 64) / 2 ^ 30 + 1) / 2 ^ 49"
  using assms disk_total_close [of H "nat (int blocks * bsize mod 2 ^ 64)"]
  by (simp add: diskTotalBytes_def diskTotalBytesOS_def disk_path_def)

lemma disk_elsewhere: "ho_GOOS H \<noteq> ''linux'' \<Longrightarrow> ho_GOOS H \<noteq> ''windows'' \<Longrightarrow> getDiskTotalGB H = 0"
  by (simp add: getDiskTotalGB_def diskTotalBytes_def diskTotalBytesOS_def)

end
