(* ===== verification/MinionMain.thy ===== *)
theory MinionMain
  imports MinionWs MinionRegistry MinionFacts
begin

text \<open>
  The start of the agent (\<open>secagent-minion/main.go\<close>): the configuration from the environment, the
  private key that is loaded or generated, the token that is reused or obtained by enrollment, the job
  registry, and the dispatcher that is then run.
\<close>

section \<open>Configuration\<close>

record agentConfig =
  ac_serverURL :: string
  ac_wsURL :: string
  ac_hostname :: string
  ac_privateKeyPath :: string
  ac_jwtPath :: string
  ac_enrollmentToken :: string
  ac_caBundle :: string
  ac_asyncDir :: string
  ac_insecure :: bool
  ac_maxConcurrentTasks :: int

definition getenv_or :: "(string \<Rightarrow> string) \<Rightarrow> string \<Rightarrow> string \<Rightarrow> string" where
  "getenv_or env key fallback = (if env key \<noteq> [] then env key else fallback)"

definition loadConfig :: "(string \<Rightarrow> string) \<Rightarrow> agentConfig" where
  "loadConfig env =
     (let maxTasks = (case Atoi (env ''MAX_CONCURRENT_TASKS'') of
            Some n \<Rightarrow> if 0 < n then n else 10
          | None \<Rightarrow> 10)
      in \<lparr>ac_serverURL = getenv_or env ''RELAY_SERVER_URL'' ''https://localhost:7770'',
          ac_wsURL = getenv_or env ''RELAY_WS_URL'' ''wss://localhost:7772/ws/agent'',
          ac_hostname = getenv_or env ''RELAY_AGENT_HOSTNAME'' [],
          ac_privateKeyPath = getenv_or env ''RELAY_PRIVATE_KEY'' ''/etc/secagent-minion/id_rsa'',
          ac_jwtPath = getenv_or env ''RELAY_JWT_PATH'' ''/etc/secagent-minion/token.jwt'',
          ac_enrollmentToken = env ''RELAY_ENROLLMENT_TOKEN'',
          ac_caBundle = getenv_or env ''RELAY_CA_BUNDLE'' [],
          ac_asyncDir = getenv_or env ''RELAY_ASYNC_DIR'' ''/var/lib/secagent-minion/async'',
          ac_insecure = (getenv_or env ''RELAY_INSECURE_TLS'' [] = ''true''),
          ac_maxConcurrentTasks = maxTasks\<rparr>)"

section \<open>The private key and the token\<close>

datatype start_error =
    KeyLoad key_error
  | KeyGenerate
  | KeyStore string
  | EnrollFailed enroll_error
  | RegistryFailed string

text \<open>\<open>n\<close> is the draw of the random source from which a new key is generated.\<close>

definition GenerateRSAKey :: "ext \<Rightarrow> nat \<Rightarrow> string option" where
  "GenerateRSAKey X n = gen_rsa X n"

definition loadOrGenerateKey ::
  "ext \<Rightarrow> fs_env \<Rightarrow> string option \<Rightarrow> nat \<Rightarrow> agentConfig \<Rightarrow> host_files \<Rightarrow> (start_error + string) \<times> host_files" where
  "loadOrGenerateKey X F rename n cfg fs =
     (case LoadPrivateKeyFromFile X F (ac_privateKeyPath cfg) fs of
        Inr key \<Rightarrow> (Inr key, fs)
      | Inl KeyMissing \<Rightarrow>
          (case GenerateRSAKey X n of
             None \<Rightarrow> (Inl KeyGenerate, fs)
           | Some key \<Rightarrow>
               (case StorePrivateKey X F rename key (ac_privateKeyPath cfg) fs of
                  (Some e, fs') \<Rightarrow> (Inl (KeyStore e), fs')
                | (None, fs') \<Rightarrow> (Inr key, fs')))
      | Inl e \<Rightarrow> (Inl (KeyLoad e), fs))"

definition first_enrollment :: "ext \<Rightarrow> agentConfig \<Rightarrow> string \<Rightarrow> string \<Rightarrow> enroll_config" where
  "first_enrollment X cfg hostname privKey =
     \<lparr>ec_Hostname = hostname, ec_PublicKeyPEM = PublicKeyPEM X privKey, ec_PrivateKey = Some privKey,
       ec_EnrollmentToken = ac_enrollmentToken cfg, ec_CABundle = ac_caBundle cfg, ec_JWTPath = ac_jwtPath cfg,
       ec_Insecure = ac_insecure cfg, ec_RegisterURL = ac_serverURL cfg @ ''/api/register'', ec_MaxRetries = 0\<rparr>"

text \<open>A token file that can be read and is not empty is used as it is.\<close>

definition stored_jwt :: "fs_env \<Rightarrow> string \<Rightarrow> host_files \<Rightarrow> string option" where
  "stored_jwt F path fs =
     (case ReadFile F path fs of Inr data \<Rightarrow> if data \<noteq> [] then Some data else None | Inl _ \<Rightarrow> None)"

definition loadOrEnroll ::
  "ext \<Rightarrow> fs_env \<Rightarrow> string option \<Rightarrow> nat \<Rightarrow> 's poster \<Rightarrow> agentConfig \<Rightarrow> string \<Rightarrow> string \<Rightarrow> host_files
     \<Rightarrow> ('s, (enroll_error + string) \<times> host_files) state" where
  "loadOrEnroll X F ca n post cfg hostname privKey fs =
     (case stored_jwt F (ac_jwtPath cfg) fs of
        Some token \<Rightarrow> State_Monad.return (Inr token, fs)
      | None \<Rightarrow> Enroll X F ca n post (first_enrollment X cfg hostname privKey) fs)"

section \<open>The start\<close>

text \<open>
  What the start leaves: the dispatcher with its token, the configuration it re-enrolls with, and the
  job registry. \<open>H\<close> is the host, \<open>J\<close> the jobs file's environment and \<open>jobs\<close> its text; a failing
  \<open>RestoreOnRestart\<close> is only logged.
\<close>

record agent_start =
  st_dispatcher :: Dispatcher_ws
  st_enroll :: enroll_config
  st_registry :: Registry

definition dispatcher_enrollment :: "agentConfig \<Rightarrow> string \<Rightarrow> string \<Rightarrow> enroll_config" where
  "dispatcher_enrollment cfg hostname privKey =
     WithEnrollConfig
       \<lparr>ec_Hostname = hostname, ec_PublicKeyPEM = [], ec_PrivateKey = Some privKey,
         ec_EnrollmentToken = ac_enrollmentToken cfg, ec_CABundle = [], ec_JWTPath = ac_jwtPath cfg,
         ec_Insecure = ac_insecure cfg, ec_RegisterURL = ac_serverURL cfg @ ''/api/register'', ec_MaxRetries = 3\<rparr>"

definition agent_main ::
  "ext \<Rightarrow> fs_env \<Rightarrow> string option \<Rightarrow> string option \<Rightarrow> nat \<Rightarrow> nat \<Rightarrow> 's poster \<Rightarrow> host \<Rightarrow> job_env \<Rightarrow> string option
     \<Rightarrow> (string \<Rightarrow> string) \<Rightarrow> host_files \<Rightarrow> ('s, (start_error + agent_start) \<times> host_files) state" where
  "agent_main X F rename ca n m post H J jobs env fs =
     (let cfg = loadConfig env in
      case loadOrGenerateKey X F rename n cfg fs of
        (Inl e, fs1) \<Rightarrow> State_Monad.return (Inl e, fs1)
      | (Inr privKey, fs1) \<Rightarrow>
          (let hostname = (if ac_hostname cfg = [] then fa_Hostname (Collect_facts H) else ac_hostname cfg) in
           do {
             token \<leftarrow> loadOrEnroll X F ca m post cfg hostname privKey fs1;
             State_Monad.return
               (case token of
                  (Inl e, fs2) \<Rightarrow> (Inl (EnrollFailed e), fs2)
                | (Inr jwt, fs2) \<Rightarrow>
                    (case New_Registry J jobs of
                       Inl e \<Rightarrow> (Inl (RegistryFailed e), fs2)
                     | Inr reg \<Rightarrow>
                         (Inr \<lparr>st_dispatcher = NewDispatcher_ws jwt (ac_maxConcurrentTasks cfg) fs2,
                               st_enroll = dispatcher_enrollment cfg hostname privKey,
                               st_registry = snd (RestoreOnRestart J reg)\<rparr>, fs2)))
           }))"

section \<open>What a restart does not do\<close>

text \<open>An agent that finds a token on disk starts with it and sends nothing.\<close>

lemma stored_token_used:
  "stored_jwt F (ac_jwtPath cfg) fs = Some token \<Longrightarrow>
   run_state (loadOrEnroll X F ca n post cfg hostname key fs) s = ((Inr token, fs), s)"
  by (simp add: loadOrEnroll_def)

lemma loaded_key_kept:
  "LoadPrivateKeyFromFile X F (ac_privateKeyPath cfg) fs = Inr key \<Longrightarrow>
   loadOrGenerateKey X F rename n cfg fs = (Inr key, fs)"
  by (simp add: loadOrGenerateKey_def)

end
