(* ===== verification/AgentEnrolls.thy ===== *)
theory AgentEnrolls
  imports MinionMain MinionLoop GoWire RegisterSpec
begin

text \<open>
  The agent's enrollment run against the server: the agent's requests are handled by the registration
  endpoint, both directions as JSON on the wire, and the clock moves on between them. A fresh agent
  gets a token the server accepts; the dispatcher's re-enrollment never does.
\<close>

section \<open>The connection\<close>

text \<open>Each request reaches the server after the delay \<open>d\<close>; \<open>r\<close> is the rest of the HTTP request.\<close>

definition server_post :: "ext \<Rightarrow> request \<Rightarrow> int \<Rightarrow> world poster" where
  "server_post X r d body = do {
     _ \<leftarrow> modify (\<lambda>w. w\<lparr>clock := clock w + d\<rparr>);
     resp \<leftarrow> RegisterAgent X (r\<lparr>rq_Method := ''POST'', rq_Body := Some (wire body)\<rparr>);
     State_Monad.return
       (case resp of Reply code j \<Rightarrow> Inr (code, Some (wire j)) | Aborted \<Rightarrow> Inl ''EOF'')
   }"

lemma b64_val_ascii: "b64_val c \<noteq> None \<Longrightarrow> (of_char c :: nat) < 128"
  by (auto simp: b64_val_def Let_def split: if_splits)

lemma decode_std_ascii: "decode_std s = Some bs \<Longrightarrow> ascii s"
proof (induction s arbitrary: bs rule: decode_std.induct)
  case (2 a b c d rest)
  then show ?case
    using b64_val_ascii [of a] b64_val_ascii [of b] b64_val_ascii [of c] b64_val_ascii [of d]
    by (auto split: option.splits if_splits)
qed simp_all

text \<open>Base64 text crosses the wire unchanged.\<close>

lemma DecodeString_ascii:
  assumes "DecodeString s = Some t"
  shows "ascii s"
proof -
  have f: "ascii (skip_newlines s)" using assms by (auto simp: DecodeString_def dest: decode_std_ascii)
  show ?thesis unfolding ascii_def list_all_iff
  proof
    fix c assume "c \<in> set s"
    then show "(of_char c :: nat) < 128"
      using f newline_val [of c] by (cases "newline c") (auto simp: ascii_def list_all_iff skip_newlines_def)
  qed
qed

lemma unseal_wire: "unseal X a s = Some t \<Longrightarrow> to_valid s = s"
  using DecodeString_ascii [of s] by (auto simp: unseal_def to_valid_ascii split: bind_splits)

lemma encoded_wire: "to_valid (EncodeToString s) = EncodeToString s"
  by (rule to_valid_ascii [OF DecodeString_ascii [OF DecodeString_EncodeToString]])

lemma decrypt_unseal: "decryptOAEP X a s = unseal X a s"
  by (simp add: decryptOAEP_def unseal_def)

lemma RegisterAgent_clock [simp]: "clock (snd (run_state (RegisterAgent X r) w)) = clock w"
  by (simp add: RegisterAgent_def registerAgentWithToken_def registerAgentLegacy_def register_phase1_def register_phase2_def
      finalize_enrollment_def Let_def split: option.split sum.split prod.split)

lemma server_post_run:
  "run_state (RegisterAgent X (r\<lparr>rq_Method := ''POST'', rq_Body := Some (wire body)\<rparr>)) (w\<lparr>clock := clock w + d\<rparr>) =
     (Reply code j, w') \<Longrightarrow>
   run_state (server_post X r d body) w = (Inr (code, Some (wire j)), w')"
  by (simp add: server_post_def)

lemma decode_steps:
  assumes "valid_utf8 (ec_Hostname cfg)" "valid_utf8 (ec_PublicKeyPEM cfg)" "valid_utf8 (ec_EnrollmentToken cfg)"
  shows "decode_RegisterRequest (wire (step1Request cfg)) = Some \<lparr>rr_Hostname = ec_Hostname cfg,
       rr_PublicKeyPEM = ec_PublicKeyPEM cfg, rr_EnrollmentToken = ec_EnrollmentToken cfg, rr_ChallengeResponse = []\<rparr>"
    "decode_RegisterRequest (wire (step2Request cfg (EncodeToString c))) = Some \<lparr>rr_Hostname = ec_Hostname cfg,
       rr_PublicKeyPEM = ec_PublicKeyPEM cfg, rr_EnrollmentToken = ec_EnrollmentToken cfg,
       rr_ChallengeResponse = EncodeToString c\<rparr>"
  using assms
  by (simp_all add: step1Request_def step2Request_def decode_RegisterRequest_def obj_pairs_def json_fields
      to_valid_ascii to_valid_id encoded_wire)

lemma read_steps:
  assumes "to_valid c = c" "to_valid k = k" "c \<noteq> []" "k \<noteq> []"
  shows "step1_result n (Some (wire (ChallengeResponse c k))) = Inr (c, k)"
    "step2_result n (Some (wire (RegisterResponse c c k))) = Inr c"
  using assms
  by (simp_all add: step1_result_def step2_result_def reply_fields_def ChallengeResponse_def RegisterResponse_def
      obj_pairs_def json_fields to_valid_ascii)

text \<open>The two requests of an enrollment that both succeed.\<close>

lemma Enroll_run:
  assumes "ec_PrivateKey cfg = Some a" "ec_EnrollmentToken cfg \<noteq> []" "ec_Insecure cfg \<or> ec_CABundle cfg = [] \<or> ca = None"
    and "run_state (post (step1Request cfg)) w = (Inr (200, body1), w1)" "step1_result 1 body1 = Inr (chal, pem)"
    and "unseal X a chal = Some nonce" "parsePublicKeyPEM X pem = Some spub"
    and "seal_response X spub (nonce @ ec_EnrollmentToken cfg) n = Some c"
    and "run_state (post (step2Request cfg c)) w1 = (Inr (200, body2), w2)" "step2_result 2 body2 = Inr sealed"
    and "unseal X a sealed = Some jwt"
    and "ec_JWTPath cfg \<noteq> []" "writeSecret F (ec_JWTPath cfg) jwt fs = (None, fs')"
  shows "run_state (Enroll X F ca n post cfg fs) w = ((Inr jwt, fs'), w2)"
  using assms by (auto simp: Enroll_def enrollStep1_def enrollStep2_def decryptChallenge_def decryptJWT_def unseal_def [symmetric])

section \<open>Enrollment\<close>

text \<open>The laws of RSA-OAEP used here: a ciphertext has the length of the key, so it is never empty.\<close>

definition oaep_sized :: "ext \<Rightarrow> bool" where
  "oaep_sized X \<longleftrightarrow> (\<forall>priv. oaep_decrypt X priv [] = None)"

lemma unseal_nonempty: "oaep_sized X \<Longrightarrow> unseal X a s = Some t \<Longrightarrow> s \<noteq> []"
  by (auto simp: unseal_def oaep_sized_def DecodeString_def skip_newlines_def)

definition ready_server :: "ext \<Rightarrow> string \<Rightarrow> world \<Rightarrow> bool" where
  "ready_server X s w \<longleftrightarrow> healthy (db w) \<and> registerStore_set w \<and> sv_PrivateKey (server w) = Some s
     \<and> sv_JWTSecret (server w) \<noteq> [] \<and> 1000000000 \<le> sv_JWTttl (server w)
     \<and> key_text X s (sv_PublicPEM (server w)) \<and> valid_utf8 (sv_PublicPEM (server w)) \<and> sv_PublicPEM (server w) \<noteq> []"

definition ready_agent :: "ext \<Rightarrow> string \<Rightarrow> enroll_config \<Rightarrow> bool" where
  "ready_agent X a cfg \<longleftrightarrow> ec_PrivateKey cfg = Some a \<and> ec_CABundle cfg = [] \<and> ec_EnrollmentToken cfg \<noteq> []
     \<and> TrimSpace (ec_Hostname cfg) = ec_Hostname cfg \<and> ec_Hostname cfg \<noteq> [] \<and> ec_JWTPath cfg \<noteq> []
     \<and> TrimSpace (ec_PublicKeyPEM cfg) \<noteq> [] \<and> key_text X a (TrimSpace (ec_PublicKeyPEM cfg))
     \<and> valid_utf8 (ec_Hostname cfg) \<and> valid_utf8 (ec_PublicKeyPEM cfg) \<and> valid_utf8 (ec_EnrollmentToken cfg)"

text \<open>The two exchanges on the wire: the replies of the server and what it has recorded after the second.\<close>

lemma enrollment_exchange:
  assumes laws: "oaep_laws X" "oaep_sized X" "jwt_laws {sv_JWTSecret (server w)} (jwt_signer X) (jwt_parser X)"
    and ready: "ready_server X s w" "ready_agent X a cfg"
    and draws: "rand_bytes X 16 (entropy w) = Some nonce" "can_seal X a nonce"
      "\<And>jti. can_seal X a (signed_for X (sv_JWTSecret (server w)) (ec_Hostname cfg) jti (clock w + 2 * d)
         (sv_JWTttl (server w)))"
    and token: "token_verdict X (clock w + d) (ec_Hostname cfg) (token_row X w (ec_EnrollmentToken cfg)) = Inr tok"
      "token_verdict X (clock w + 2 * d) (ec_Hostname cfg) (token_row X w (ec_EnrollmentToken cfg)) = Inr tok"
    and delay: "d \<le> 60000000000"
    and c2: "oaep_encrypt X (rsa_public X s) (nonce @ ec_EnrollmentToken cfg) n = Some c2"
  obtains chal sealed raw rec w1 w2 where "unseal X a chal = Some nonce" "unseal X a sealed = Some raw"
    "run_state (server_post X r d (step1Request cfg)) w =
      (Inr (200, Some (wire (ChallengeResponse chal (sv_PublicPEM (server w))))), w1)"
    "run_state (server_post X r d (step2Request cfg (EncodeToString c2))) w1 =
      (Inr (200, Some (wire (RegisterResponse sealed sealed (sv_PublicPEM (server w))))), w2)"
    "auth_ExtractSub (jwt_parser X) (New_JWTService (GetServerJWTSecrets w2) (sv_JWTttl (server w2))) (clock w2) raw
        = Inr (ec_Hostname cfg, False)"
    "agent_map (db w2) (ec_Hostname cfg) = Some rec" "ag_PublicKeyPEM rec = TrimSpace (ec_PublicKeyPEM cfg)"
    "raw = signed_for X (sv_JWTSecret (server w)) (ec_Hostname cfg) (ag_TokenJTI rec) (clock w2) (sv_JWTttl (server w))"
    "token_row X w2 (ec_EnrollmentToken cfg) = Some (used_once_more (clock w2) tok)"
    "mget (pendingNonces w2) (ec_Hostname cfg) = None"
proof -
  let ?h = "ec_Hostname cfg" and ?t = "ec_EnrollmentToken cfg" and ?pk = "TrimSpace (ec_PublicKeyPEM cfg)"
  let ?v = "w\<lparr>clock := clock w + d\<rparr>"
  note srv = ready(1) [unfolded ready_server_def] and ag = ready(2) [unfolded ready_agent_def]
  have c2': "c2 \<noteq> []" using c2 laws(1,2) unfolding oaep_laws_def oaep_sized_def by (metis option.distinct(1))
  let ?r1 = "r\<lparr>rq_Method := ''POST'', rq_Body := Some (wire (step1Request cfg))\<rparr>"
  let ?r2 = "r\<lparr>rq_Method := ''POST'', rq_Body := Some (wire (step2Request cfg (EncodeToString c2)))\<rparr>"
  obtain resp1 w1 where one: "run_state (RegisterAgent X ?r1) ?v = (resp1, w1)" by fastforce
  then have clock1: "clock w1 = clock w + d" using RegisterAgent_clock [of X ?r1 ?v] by simp
  have now2: "clock w1 + d = clock w + 2 * d" by (simp add: clock1)
  obtain resp2 w2 where two: "run_state (RegisterAgent X ?r2) (w1\<lparr>clock := clock w + 2 * d\<rparr>) = (resp2, w2)" by fastforce
  then have clock2: "clock w2 = clock w + 2 * d"
    using RegisterAgent_clock [of X ?r2 "w1\<lparr>clock := clock w + 2 * d\<rparr>"] by simp
  have row: "token_row X ?v ?t = token_row X w ?t" by (simp add: token_row_def)
  have dec: "Option.bind (rq_Body ?r1) decode_RegisterRequest = Some \<lparr>rr_Hostname = ?h,
       rr_PublicKeyPEM = ec_PublicKeyPEM cfg, rr_EnrollmentToken = ?t, rr_ChallengeResponse = []\<rparr>"
    "Option.bind (rq_Body ?r2) decode_RegisterRequest = Some \<lparr>rr_Hostname = ?h,
       rr_PublicKeyPEM = ec_PublicKeyPEM cfg, rr_EnrollmentToken = ?t, rr_ChallengeResponse = EncodeToString c2\<rparr>"
    using ag decode_steps by simp_all
  from protocol_enrolls [of X ?v s ?h "ec_PublicKeyPEM cfg" ?pk a nonce "clock w + 2 * d" ?t tok ?r1 resp1 w1 n c2 ?r2 resp2 w2]
  obtain chal sealed raw rec where res:
    "resp1 = Reply 200 (ChallengeResponse chal (sv_PublicPEM (server w)))" "unseal X a chal = Some nonce"
    "resp2 = Reply 200 (RegisterResponse sealed sealed (sv_PublicPEM (server w)))" "unseal X a sealed = Some raw"
    "auth_ExtractSub (jwt_parser X) (New_JWTService (GetServerJWTSecrets w2) (sv_JWTttl (server w2))) (clock w2) raw
        = Inr (?h, False)"
    "agent_map (db w2) ?h = Some rec" "ag_PublicKeyPEM rec = ?pk"
    "raw = signed_for X (sv_JWTSecret (server w)) ?h (ag_TokenJTI rec) (clock w2) (sv_JWTttl (server w))"
    "token_row X w2 ?t = Some (used_once_more (clock w2) tok)" "mget (pendingNonces w2) ?h = None"
    using laws(1,3) srv ag draws token delay row dec one two c2 c2' clock2 by auto
  have "run_state (server_post X r d (step1Request cfg)) w =
      (Inr (200, Some (wire (ChallengeResponse chal (sv_PublicPEM (server w))))), w1)"
    using one res(1) by (intro server_post_run) simp
  moreover have "run_state (server_post X r d (step2Request cfg (EncodeToString c2))) w1 =
      (Inr (200, Some (wire (RegisterResponse sealed sealed (sv_PublicPEM (server w))))), w2)"
    using two res(3) by (intro server_post_run) (simp add: now2)
  ultimately show thesis by (rule that [OF res(2,4) _ _ res(5-10)])
qed


definition enrolling_cfg :: enroll_config where
  "enrolling_cfg = example_cfg\<lparr>ec_PublicKeyPEM := example_key\<rparr>"

lemma enrolling_facts:
  "ec_Hostname enrolling_cfg = ''web2''" "ec_EnrollmentToken enrolling_cfg = ''tok''"
  "ec_PublicKeyPEM enrolling_cfg = example_key" "ec_JWTPath enrolling_cfg = ''/jwt''" "ec_CABundle enrolling_cfg = []"
  "ec_PrivateKey enrolling_cfg = Some ''A''"
  by (simp_all add: enrolling_cfg_def example_cfg_def)

lemma enrolling_ready:
  "oaep_sized example_ext" "ready_server example_ext ''S'' example_world" "ready_agent example_ext ''A'' enrolling_cfg"
proof -
  have texts: "valid_utf8 example_key" "valid_utf8 ''web2''" "valid_utf8 ''tok''" "valid_utf8 (sv_PublicPEM example_server)"
    by (simp_all add: valid_utf8_def to_valid_def [symmetric] to_valid_ascii example_key_def spell_def example_server_def)
  show "ready_server example_ext ''S'' example_world" "ready_agent example_ext ''A'' enrolling_cfg"
    unfolding ready_server_def ready_agent_def enrolling_facts
    using texts by (simp_all add: example_srv) (simp_all add: example_world_def example_server_def key_text_def example_ext_def)
  show "oaep_sized example_ext" by (simp add: oaep_sized_def example_ext_def unspell_def)
qed


section \<open>Re-enrollment\<close>

text \<open>The first request of the dispatcher's re-enrollment names its key \<open>pubkey_pem\<close>, which the server ignores.\<close>

lemma reenroll_request_decoded:
  "decode_RegisterRequest (wire (reenroll1Request ec pem)) = Some \<lparr>rr_Hostname = to_valid (ec_Hostname ec),
     rr_PublicKeyPEM = [], rr_EnrollmentToken = to_valid (ec_EnrollmentToken ec), rr_ChallengeResponse = []\<rparr>"
  by (simp add: reenroll1Request_def decode_RegisterRequest_def obj_pairs_def json_fields to_valid_ascii)

lemma reenroll_post:
  "run_state (server_post X r d (reenroll1Request ec pem)) w =
     (Inr (400, Some (wire (error_json ''missing_fields''))), w\<lparr>clock := clock w + d\<rparr>)"
proof (rule server_post_run)
  let ?r = "r\<lparr>rq_Method := ''POST'', rq_Body := Some (wire (reenroll1Request ec pem))\<rparr>"
  have "Option.bind (rq_Body ?r) decode_RegisterRequest = Some \<lparr>rr_Hostname = to_valid (ec_Hostname ec),
     rr_PublicKeyPEM = [], rr_EnrollmentToken = to_valid (ec_EnrollmentToken ec), rr_ChallengeResponse = []\<rparr>"
    by (simp add: reenroll_request_decoded)
  from RegisterAgent_run [OF this, of X]
  show "run_state (RegisterAgent X ?r) (w\<lparr>clock := clock w + d\<rparr>) =
      (reply_error 400 ''missing_fields'', w\<lparr>clock := clock w + d\<rparr>)"
    by simp
qed

lemma reEnrollOnce_fails:
  "\<exists>e t. run_state (reEnrollOnce X F n (server_post X r d) ec key pem fs) w = ((Inl e, fs), w\<lparr>clock := t\<rparr>)
     \<and> \<not> isForbiddenErr e"
proof (cases "ec_EnrollmentToken ec = []")
  case True
  have "w = w\<lparr>clock := clock w\<rparr>" by simp
  with True show ?thesis
    by (auto simp: reEnrollOnce_def isForbiddenErr_def intro!: exI [of _ "clock w"])
next
  case False
  then show ?thesis
    by (auto simp: reEnrollOnce_def reenrollStep1_def reenroll_post isForbiddenErr_def)
qed

lemma attempts_fail:
  "\<exists>e t. run_state (reenroll_attempts X F draws cancelled (server_post X r d) ec key attempt left fs) w =
      ((Inl e, fs), w\<lparr>clock := t\<rparr>) \<and> (e = AttemptsExhausted (ec_MaxRetries ec) \<or> e = ContextDone)"
proof (induction left arbitrary: attempt w)
  case 0
  have "w = w\<lparr>clock := clock w\<rparr>" by simp
  then show ?case by (auto intro!: exI [of _ "clock w"])
next
  case (Suc left)
  obtain e t where once: "run_state (reEnrollOnce X F (draws attempt) (server_post X r d) ec key (defaultPublicKeyPEMFromPrivate X key) fs) w =
      ((Inl e, fs), w\<lparr>clock := t\<rparr>)" "\<not> isForbiddenErr e"
    using reEnrollOnce_fails by blast
  show ?case
  proof (cases "0 < left \<and> cancelled attempt")
    case True
    with once show ?thesis by auto
  next
    case False
    from Suc.IH [of "Suc attempt" "w\<lparr>clock := t\<rparr>"] once False show ?thesis by auto
  qed
qed

text \<open>C35: Re-enrollment after a refused token never succeeds against this server: its first request
  is always answered 400, whatever the enrollment token and the key on record, because the dispatcher
  sends the key in a field the server does not read. Every attempt fails, nothing but time changes on
  the server, the agent's token file has been removed, and its connection loop ends with an error. The
  stop on a 403 that the code provides for is never taken.\<close>

theorem reenrollment_always_rejected:
  assumes "ec_PrivateKey ec = Some key" "ec_RegisterURL ec \<noteq> []"
    and "run_state (handleUnauthorized X F draws cancelled (server_post X r d) ec fs) w = ((result, fs'), w')"
  shows "\<exists>e t. result = Inl e \<and> w' = w\<lparr>clock := t\<rparr>
    \<and> (e = AttemptsExhausted (ec_MaxRetries (WithEnrollConfig ec)) \<or> e = ContextDone)
    \<and> fs' = (if ec_JWTPath ec = [] then fs else mdel (ec_JWTPath ec) fs)
    \<and> run_step (Refused 401) result stop rm jwt = Stop (ReEnrollmentFailed e)"
proof -
  have cfg: "ec_PrivateKey (WithEnrollConfig ec) = Some key" "ec_RegisterURL (WithEnrollConfig ec) \<noteq> []"
    "ec_JWTPath (WithEnrollConfig ec) = ec_JWTPath ec"
    using assms(1,2) by (simp_all add: WithEnrollConfig_def)
  have "run_state (reenroll_attempts X F draws cancelled (server_post X r d) (WithEnrollConfig ec) key 1
      (nat (ec_MaxRetries (WithEnrollConfig ec))) (if ec_JWTPath ec = [] then fs else mdel (ec_JWTPath ec) fs)) w =
      ((result, fs'), w')"
    using assms(3) cfg by (simp add: handleUnauthorized_def Let_def split: if_splits)
  with attempts_fail [of X F draws cancelled r d "WithEnrollConfig ec" key 1 "nat (ec_MaxRetries (WithEnrollConfig ec))"
      "if ec_JWTPath ec = [] then fs else mdel (ec_JWTPath ec) fs" w]
  show ?thesis by (auto simp: run_step_def Let_def)
qed

lemma reenrollment_always_rejected_witness:
  "isl (fst (fst (run_state (handleUnauthorized example_ext quiet_fs id (\<lambda>_. False)
      (server_post example_ext example_request 0) enrolling_cfg []) example_world)))"
proof -
  obtain result fs' w' where run: "run_state (handleUnauthorized example_ext quiet_fs id (\<lambda>_. False)
      (server_post example_ext example_request 0) enrolling_cfg []) example_world = ((result, fs'), w')"
    by (metis prod.exhaust)
  have "ec_PrivateKey enrolling_cfg = Some ''A''" "ec_RegisterURL enrolling_cfg \<noteq> []"
    by (simp_all add: enrolling_cfg_def example_cfg_def)
  from reenrollment_always_rejected [OF this run, of False "NewReconnectManager 1 60" "[]"] show ?thesis
    by (auto simp: run)
qed

end
