(* ===== verification/MinionDial.thy ===== *)
theory MinionDial
  imports MinionWs HttpClient
begin

text \<open>
  How the agent opens its connection (\<open>connect\<close> in \<open>secagent-minion/internal/ws/dispatcher.go\<close> up to
  the established connection): the TLS configuration, the handshake with the current token, and the
  errors by which the loop tells a rejected token from an unreachable server; with the HTTP client of
  the enrollment (\<open>internal/enrollment/enrollment.go\<close>). Reading the CA bundle, its certificates and the
  transport are parameters.
\<close>

section \<open>TLS\<close>

text \<open>The minimum version is always TLS 1.2; \<open>tl_RootCAs\<close> is the text of the bundle, \<open>None\<close> the system's roots.\<close>

record tls_Config =
  tl_InsecureSkipVerify :: bool
  tl_RootCAs :: "string option"

definition buildTLSConfig :: "(string \<Rightarrow> string + string) \<Rightarrow> (string \<Rightarrow> bool) \<Rightarrow> string \<Rightarrow> bool \<Rightarrow> string + tls_Config" where
  "buildTLSConfig read has_certs caBundle insecure =
     (if \<not> insecure \<and> caBundle \<noteq> [] then
        (case read caBundle of
           Inl e \<Rightarrow> Inl (''read CA bundle: '' @ e)
         | Inr pem \<Rightarrow>
             if \<not> has_certs pem then Inl (''no valid certs in CA bundle '' @ caBundle)
             else Inr \<lparr>tl_InsecureSkipVerify = insecure, tl_RootCAs = Some pem\<rparr>)
      else Inr \<lparr>tl_InsecureSkipVerify = insecure, tl_RootCAs = None\<rparr>)"

definition loadCABundle :: "(string \<Rightarrow> string + string) \<Rightarrow> (string \<Rightarrow> bool) \<Rightarrow> string \<Rightarrow> string + string" where
  "loadCABundle read has_certs path =
     (case read path of
        Inl e \<Rightarrow> Inl e
      | Inr pem \<Rightarrow> if \<not> has_certs pem then Inl (''no valid certificates in '' @ path) else Inr pem)"

definition buildHTTPClient :: "(string \<Rightarrow> string + string) \<Rightarrow> (string \<Rightarrow> bool) \<Rightarrow> string \<Rightarrow> bool \<Rightarrow> string + tls_Config" where
  "buildHTTPClient read has_certs caBundle insecure =
     (if \<not> insecure \<and> caBundle \<noteq> [] then
        (case loadCABundle read has_certs caBundle of
           Inl e \<Rightarrow> Inl (''load CA bundle: '' @ e)
         | Inr pool \<Rightarrow> Inr \<lparr>tl_InsecureSkipVerify = insecure, tl_RootCAs = Some pool\<rparr>)
      else Inr \<lparr>tl_InsecureSkipVerify = insecure, tl_RootCAs = None\<rparr>)"

section \<open>The handshake\<close>

record ConnConfig =
  cc_ServerURL :: string
  cc_JWT :: string
  cc_CABundle :: string
  cc_Insecure :: bool

text \<open>An error of \<open>connect\<close>: \<open>httpStatusError\<close> or another.\<close>

datatype conn_error = HttpStatusError int string | ConnError string

definition isHTTP401 :: "conn_error \<Rightarrow> bool" where
  "isHTTP401 e = (case e of HttpStatusError code _ \<Rightarrow> code = 401 | ConnError _ \<Rightarrow> False)"

definition httpStatusError_Error :: "int \<Rightarrow> string \<Rightarrow> string" where
  "httpStatusError_Error code msg = ''http '' @ show_nat (nat code) @ '': '' @ msg"

definition handshake_request :: "string \<Rightarrow> string \<Rightarrow> client_request" where
  "handshake_request url jwt =
     \<lparr>cr_Method = ''GET'', cr_URL = url, cr_Header = [(''Authorization'', ''Bearer '' @ jwt)], cr_Body = None\<rparr>"

text \<open>What the dialer makes of the answer: \<open>Inl\<close> is an error of the transport, without a response.\<close>

definition handshake_result :: "string \<Rightarrow> string + served \<Rightarrow> conn_error + nat" where
  "handshake_result url answer =
     (case answer of
        Inr (Upgraded c) \<Rightarrow> Inr c
      | Inr (Served (Reply code _)) \<Rightarrow>
          if code = 401 then Inl (HttpStatusError 401 ''ws handshake rejected (401 Unauthorized)'')
          else if code = 403 then Inl (HttpStatusError 403 ''ws handshake rejected (403 Forbidden)'')
          else Inl (ConnError (''ws: dial '' @ url))
      | _ \<Rightarrow> Inl (ConnError (''ws: dial '' @ url)))"

text \<open>\<open>dial\<close> is the dialer with a TLS configuration. The result is the connection, and \<open>connect\<close> then reads from it.\<close>

definition open_connection ::
  "(string \<Rightarrow> string + string) \<Rightarrow> (string \<Rightarrow> bool) \<Rightarrow> (tls_Config \<Rightarrow> client_request \<Rightarrow> ('s, string + served) state)
   \<Rightarrow> ConnConfig \<Rightarrow> string \<Rightarrow> ('s, conn_error + nat) state" where
  "open_connection read has_certs dial cfg currentJWT =
     (case buildTLSConfig read has_certs (cc_CABundle cfg) (cc_Insecure cfg) of
        Inl e \<Rightarrow> State_Monad.return (Inl (ConnError (''ws: build TLS config: '' @ e)))
      | Inr tls \<Rightarrow> do {
          answer \<leftarrow> dial tls (handshake_request (cc_ServerURL cfg) currentJWT);
          State_Monad.return (handshake_result (cc_ServerURL cfg) answer)
        })"

text \<open>
  The outcome of \<open>connect\<close> as its loop sees it: \<open>closed\<close> is how an established connection ends.
\<close>

definition outcome_of :: "conn_error + nat \<Rightarrow> int option \<Rightarrow> conn_outcome" where
  "outcome_of result closed =
     (case result of
        Inl (HttpStatusError code _) \<Rightarrow> Refused code
      | Inl (ConnError _) \<Rightarrow> Unreachable
      | Inr _ \<Rightarrow> Ended closed)"

end
