(* ===== verification/AgentConnects.thy ===== *)
theory AgentConnects
  imports MinionDial ServerMain RoutesSpec
begin

text \<open>
  The agent's handshake answered by the server: which tokens connect, and what the loop of the agent
  makes of a refusal.
\<close>

text \<open>The dialer that reaches the modelled server: the port \<open>p\<close> under the URL \<open>base\<close>, from the address \<open>addr\<close>.\<close>

definition dial_server ::
  "ext \<Rightarrow> serving \<Rightarrow> port \<Rightarrow> string \<Rightarrow> string \<Rightarrow> tls_Config \<Rightarrow> client_request \<Rightarrow> (world, string + served) state" where
  "dial_server X v p base addr tls q =
     State_Monad.bind (case received base addr q of (path, r) \<Rightarrow> ServeHTTP (port_router X v p) path r)
       (\<lambda>s. State_Monad.return (Inr s))"

definition handshake_http :: "string \<Rightarrow> string \<Rightarrow> request" where
  "handshake_http addr jwt =
     \<lparr>rq_Method = ''GET'', rq_Header = [(''Authorization'', ''Bearer '' @ jwt)], rq_RemoteAddr = addr,
      rq_PathValue = [], rq_Query = [], rq_Body = None\<rparr>"

lemma received_handshake:
  "received base addr (handshake_request (base @ ''/ws/agent'') jwt) = (''/ws/agent'', handshake_http addr jwt)"
proof -
  have "split_at CHR ''?'' ''/ws/agent'' = (''/ws/agent'', [])" by (rule split_at_none) simp
  then show ?thesis
    by (simp add: received_def handshake_request_def handshake_http_def parse_query_def)
qed

lemma ws_route:
  assumes "p \<noteq> Admin"
  shows "ServeHTTP (port_router X v p) ''/ws/agent'' (handshake_http addr jwt) =
    websocket (AgentHandler X (on_upgraded v)) (handshake_http addr jwt)"
proof -
  have path: "cleanPath ''/ws/agent'' = ''/ws/agent''" "path_segments ''/ws/agent'' = [''ws'', ''agent'']"
    by code_simp+
  show ?thesis
    using assms by (cases p) (simp_all add: port_router_def ServeHTTP_def path find_route_parsed parsed_routers
        method_matches_def handshake_http_def)
qed

lemma open_run:
  assumes "buildTLSConfig read has_certs (cc_CABundle cc) (cc_Insecure cc) = Inr tls"
    and "cc_ServerURL cc = base @ ''/ws/agent''" "p \<noteq> Admin"
  shows "run_state (open_connection read has_certs (dial_server X v p base addr) cc jwt) w =
    (let (out, w') = run_state (AgentHandler X (on_upgraded v) (handshake_http addr jwt)) w
     in (handshake_result (cc_ServerURL cc) (Inr (case out of Inl e \<Rightarrow> Served e | Inr c \<Rightarrow> Upgraded c)), w'))"
  by (simp add: open_connection_def dial_server_def assms(1,2) received_handshake ws_route [OF assms(3)] Let_def split_def)

lemma handshake_identity:
  assumes "jwt_laws {sc_current s, sc_previous s, k} (jwt_signer X) (jwt_parser X)" "sc_current s \<noteq> []"
    and "h \<noteq> []" "jwt = signed_for X k h jti iat ttl" "jwt \<noteq> []"
  shows "extractHostnameFromRequest (jwt_parser X) js (Some s) now (handshake_http addr jwt) = Inr (x, prev) \<longleftrightarrow>
    x = h \<and> unix_sec now < unix_sec (iat + ttl)
    \<and> (if prev then k \<noteq> sc_current s \<and> k = sc_previous s \<and> k \<noteq> [] \<and> Before_deadline now (sc_deadline s)
       else k = sc_current s)"
proof -
  have parse: "parseJWT (jwt_parser X) now jwt k' = Inr c \<longleftrightarrow>
      k' = k \<and> unix_sec now < unix_sec (iat + ttl) \<and> c = agent_claims h jti iat ttl"
    if "k' \<in> {sc_current s, sc_previous s}" for k' c
    using assms(1) that unfolding jwt_laws_def by (auto simp: parseJWT_def assms(4) signed_for_def)
  have header: "Header_Get (handshake_http addr jwt) ''Authorization'' = ''Bearer '' @ jwt"
    by (simp add: handshake_http_def Header_Get_def mget_or_def)
  have isl: "isl (parseJWT (jwt_parser X) now jwt k') \<longleftrightarrow> \<not> (k' = k \<and> unix_sec now < unix_sec (iat + ttl))"
    if "k' \<in> {sc_current s, sc_previous s}" for k'
    using parse [OF that] by (cases "parseJWT (jwt_parser X) now jwt k'") auto
  have sub: "claim_string ''sub'' (agent_claims h jti iat ttl) = h"
    by (simp add: agent_claims_def claim_string_def)
  show ?thesis
    using assms(2,3,5) by (auto simp: extractHostname_iff header ws_jwt.accepts_iff parse isl sub HasPrefix_iff)
qed

text \<open>C15: Which tokens connect an agent. An agent that dials either WebSocket endpoint with a token the
  server signed for its host is connected exactly when the token has not expired and was signed with
  the secret in force, or with the previous one before the deadline of the rotation; it then is the
  connection of that host. Otherwise nothing changes on the server, the agent sees the 401 and its
  loop goes to re-enrollment, and stops if that fails.\<close>

theorem agent_handshake:
  assumes "jwt_laws {sv_JWTSecret (server w), sv_JWTPreviousSecret (server w), k} (jwt_signer X) (jwt_parser X)"
    and "sv_JWTSecret (server w) \<noteq> []" "h \<noteq> []" "jwt = signed_for X k h jti iat ttl" "jwt \<noteq> []"
    and "buildTLSConfig read has_certs (cc_CABundle cc) (cc_Insecure cc) = Inr tls"
    and "cc_ServerURL cc = base @ ''/ws/agent''" "p \<noteq> Admin" "on_upgraded v"
    and "run_state (open_connection read has_certs (dial_server X v p base addr) cc jwt) w = (res, w')"
  shows "if unix_sec (clock w) < unix_sec (iat + ttl)
      \<and> (k = sv_JWTSecret (server w)
         \<or> k = sv_JWTPreviousSecret (server w) \<and> k \<noteq> [] \<and> Before_deadline (clock w) (sv_KeyRotationDeadline (server w)))
    then \<exists>c. res = Inr c \<and> GetConnection h (hb w') = Inr c
    else w' = w \<and> (\<exists>e. res = Inl e \<and> isHTTP401 e)
       \<and> (\<forall>closed e cancelled r t. run_step (outcome_of res closed) (Inl e) cancelled r t = Stop (ReEnrollmentFailed e))"
proof -
  let ?s = "GetServerJWTSecrets w" and ?r = "handshake_http addr jwt"
  let ?id = "extractHostnameFromRequest (jwt_parser X) (json_parser X) (Some ?s) (clock w) ?r"
  have ident: "?id = Inr (x, prev) \<longleftrightarrow> x = h \<and> unix_sec (clock w) < unix_sec (iat + ttl)
      \<and> (if prev then k \<noteq> sv_JWTSecret (server w) \<and> k = sv_JWTPreviousSecret (server w) \<and> k \<noteq> []
           \<and> Before_deadline (clock w) (sv_KeyRotationDeadline (server w)) else k = sv_JWTSecret (server w))" for x prev
    using handshake_identity [of ?s k X h jwt jti iat ttl] assms(1-5)
    by (simp add: GetServerJWTSecrets_def GetJWTSecrets_def)
  note run = assms(10) [unfolded open_run [OF assms(6-8)]]
  show ?thesis
  proof (cases ?id)
    case (Inl e)
    then have "\<not> (unix_sec (clock w) < unix_sec (iat + ttl) \<and> (k = sv_JWTSecret (server w)
         \<or> k = sv_JWTPreviousSecret (server w) \<and> k \<noteq> [] \<and> Before_deadline (clock w) (sv_KeyRotationDeadline (server w))))"
      using ident [of h False] ident [of h True] by auto
    moreover have "res = Inl (HttpStatusError 401 ''ws handshake rejected (401 Unauthorized)'') \<and> w' = w"
      using run Inl by (simp add: AgentHandler_def handshake_result_def)
    ultimately show ?thesis by (auto simp: isHTTP401_def outcome_of_def run_step_def Let_def)
  next
    case (Inr xp)
    then obtain prev where id: "?id = Inr (h, prev)" using ident by (cases xp) auto
    obtain c u where "run_state (AgentHandler X True ?r) w = (Inr c, u)" "GetConnection h (hb u) = Inr c"
      using agent_handler_registers [OF id] by blast
    moreover have "unix_sec (clock w) < unix_sec (iat + ttl) \<and> (k = sv_JWTSecret (server w)
         \<or> k = sv_JWTPreviousSecret (server w) \<and> k \<noteq> [] \<and> Before_deadline (clock w) (sv_KeyRotationDeadline (server w)))"
      using ident [of h prev] id by (auto split: if_splits)
    ultimately show ?thesis using run assms(9) by (simp add: handshake_result_def)
  qed
qed

definition example_conn :: ConnConfig where
  "example_conn = \<lparr>cc_ServerURL = ''wss://relay:7772/ws/agent'', cc_JWT = [], cc_CABundle = [], cc_Insecure = False\<rparr>"

abbreviation example_open :: "string \<Rightarrow> (world, conn_error + nat) state" where
  "example_open secret \<equiv> open_connection Inl (\<lambda>_. False) (dial_server example_ext example_serving WS ''wss://relay:7772'' ''10.0.0.2:1'')
     example_conn (signed_for example_ext secret ''web1'' ''j'' 5000000000 60000000000)"

text \<open>A token under the secret in force connects, one under another secret is refused.\<close>

lemma agent_handshake_witness:
  "(\<exists>c w'. run_state (example_open ''k1'') example_world = (Inr c, w') \<and> GetConnection ''web1'' (hb w') = Inr c)
    \<and> snd (run_state (example_open ''other'') example_world) = example_world"
proof -
  have step: "if unix_sec (clock example_world) < unix_sec (5000000000 + 60000000000)
      \<and> (k = sv_JWTSecret (server example_world) \<or> k = sv_JWTPreviousSecret (server example_world) \<and> k \<noteq> []
         \<and> Before_deadline (clock example_world) (sv_KeyRotationDeadline (server example_world)))
    then \<exists>c. res = Inr c \<and> GetConnection ''web1'' (hb w') = Inr c
    else w' = example_world \<and> (\<exists>e. res = Inl e \<and> isHTTP401 e)
       \<and> (\<forall>closed e cancelled r t. run_step (outcome_of res closed) (Inl e) cancelled r t = Stop (ReEnrollmentFailed e))"
    if "run_state (example_open k) example_world = (res, w')" for k res w'
    by (rule agent_handshake [OF example_laws(2) _ _ refl _ _ _ _ _ that, where tls = "\<lparr>tl_InsecureSkipVerify = False, tl_RootCAs = None\<rparr>"])
      (simp_all add: example_world_def example_server_def example_conn_def buildTLSConfig_def example_serving_def
        signed_for_def example_ext_def toy_sign_def agent_claims_def spell_def)
  obtain r1 w1 r2 w2 where runs: "run_state (example_open ''k1'') example_world = (r1, w1)"
      "run_state (example_open ''other'') example_world = (r2, w2)" by fastforce
  from step [OF runs(1)] step [OF runs(2)] runs show ?thesis
    by (auto simp: example_world_def example_server_def unix_sec_def Before_deadline_def)
qed

end
