(* ===== verification/AgentTasks.thy ===== *)
theory AgentTasks
  imports AgentEnrolls ExecSpec SecuritySpec
begin

text \<open>
  Tasks from the caller's request to the agent and back: what a task endpoint writes to the connection
  is decoded by the agent, what its handlers answer is read by the server, both as JSON on the wire.
\<close>

section \<open>One task over one connection\<close>

text \<open>An authenticated request for a host whose agent is connected by \<open>c\<close>; \<open>v\<close> is the state after the check.\<close>

definition online :: "ext \<Rightarrow> request \<Rightarrow> world \<Rightarrow> world \<Rightarrow> nat \<Rightarrow> bool" where
  "online X r w v c \<longleftrightarrow> (\<exists>a. run_state (requirePluginAuth X r) w = (Inr a, v)) \<and> hub_reachable (hb w)
     \<and> PathValue r ''hostname'' \<noteq> [] \<and> GetConnection (PathValue r ''hostname'') (hb w) = Inr c
     \<and> (\<exists>cn. mget (conns (hb w)) c = Some cn \<and> cn_Reading cn \<and> cn_Broken cn = None)"

lemma online_hub: "online X r w v c \<Longrightarrow> hb v = hb w"
  by (auto simp: online_def requirePluginAuth_run Let_def split: option.splits if_splits)

definition acks :: "json \<Rightarrow> bool" where
  "acks j \<longleftrightarrow> (\<exists>m. decode_Message j = Some m \<and> ms_Type m = ''ack'')"

lemma ack_reads:
  assumes "list_all acks js" "mget (conns h) c = Some cn" "cn_Reading cn"
  shows "fold hub_step (map (\<lambda>j. EvRead c (Some j)) js) h = h"
  using assms(1)
proof (induction js)
  case (Cons j js)
  then obtain m where m: "decode_Message j = Some m" "ms_Type m = ''ack''" by (auto simp: acks_def)
  have "hub_step (EvRead c (Some j)) h = h"
    unfolding read_message [OF assms(2,3) m(1)] using m(2) by (simp add: HandleMessage_def)
  with Cons show ?case by simp
qed simp

lemma exchange:
  assumes "online X r w v c" "t \<noteq> []" "mget (stdoutBuffers (hb w)) t = None" "0 < totalTimeout n"
    and "list_all acks js" "decode_Message j = Some m" "ms_TaskID m = t" "ms_Type m = ''result''"
  shows "fst (sendTaskAndWait (map (\<lambda>j. EvRead c (Some j)) (js @ [j])) (PathValue r ''hostname'') t msg n (hb w)) = Inr m"
proof -
  let ?x = "PathValue r ''hostname''"
  obtain cn where on: "hub_reachable (hb w)" "GetConnection ?x (hb w) = Inr c"
      "mget (conns (hb w)) c = Some cn" "cn_Reading cn" "cn_Broken cn = None"
    using assms(1) by (auto simp: online_def)
  obtain ch e h1 where s: "sent ?x t msg (hb w) = (ch, e, h1)" by (cases "sent ?x t msg (hb w)") auto
  have e: "e = None" and h1: "stdoutBuffers h1 = stdoutBuffers (hb w)"
      "\<exists>cn'. mget (conns h1) c = Some cn' \<and> cn_Reading cn'"
    using s on(2-5)
    by (auto simp: sent_run RegisterFuture_def make_chan_def SendToAgent_def GetConnection_def conn_write_def
        Let_def split: option.splits)
  then obtain cn' where cn': "mget (conns h1) c = Some cn'" "cn_Reading cn'" by blast
  have buf: "mget_or [] (stdoutBuffers h1) t = []" using h1(1) assms(3) by (simp add: mget_or_def)
  define h2 where "h2 = hub_step (EvRead c (Some j)) h1"
  have h2: "h2 = settle t m h1"
    unfolding h2_def using read_message [OF cn' assms(6)] assms(2,7,8) buf
    by (simp add: HandleMessage_def handle_result_settle with_stdout_def)
  have "mget (chans h2) ch = Some [m]"
    using sent_facts(2) [OF on(1) s]
    by (simp add: h2 settle_chans [OF reachable_inv [OF sent_facts(1) [OF on(1) s]]])
  then obtain h3 where "try_receive ch h2 = (Some m, h3)" by (simp add: try_receive_def)
  moreover have "fold hub_step (map (\<lambda>j. EvRead c (Some j)) (js @ [j])) h1 = h2"
    by (simp add: ack_reads [OF assms(5) cn'] h2_def del: hub_step.simps)
  ultimately show ?thesis
    using assms(4) e by (simp add: sendTaskAndWait_sent [OF s] Let_def del: fold_append)
qed

definition fresh_task :: "string \<Rightarrow> world \<Rightarrow> bool" where
  "fresh_task t w \<longleftrightarrow> t \<noteq> [] \<and> valid_utf8 t \<and> mget (stdoutBuffers (hb w)) t = None"

lemma short_timeouts: "0 < n \<Longrightarrow> n \<le> 1000000000 \<Longrightarrow> 0 < totalTimeout n"
  by (simp add: totalTimeout_def timeoutMarginSec_def wrap64_id)

section \<open>A command\<close>

lemma exec_message_decoded:
  assumes "valid_utf8 t" "valid_utf8 (ex_Cmd req)" "valid_utf8 (ex_BecomeMethod req)" "ex_Stdin req = None"
    and "0 < ex_Timeout req" "0 \<le> unix_sec now" "unix_sec now + ex_Timeout req < 2 ^ 63" "ex_Timeout req \<le> 1000000000"
  shows "decode_ExecMsg (wire (exec_message t req now)) = Some \<lparr>em_TaskID = t, em_Type = ''exec'', em_Cmd = ex_Cmd req,
      em_Stdin = [], em_Timeout = ex_Timeout req, em_Become = ex_Become req, em_BecomeMethod = ex_BecomeMethod req,
      em_ExpiresAt = unix_sec now + ex_Timeout req\<rparr>"
  using assms
  by (simp add: decode_ExecMsg_def exec_message_def obj_pairs_def json_fields to_valid_ascii to_valid_id wrap64_id)

lemma HandleExec_messages: "HandleExec run b now msg = [ack_message (em_TaskID msg), last (HandleExec run b now msg)]"
  by (simp add: HandleExec_def Let_def)

text \<open>C5: A command sent through the server is the command the agent runs, and what it did is what the
  caller reads: the agent decodes the task as it was asked for, runs it once in the shell with the
  requested timeout, and the caller gets 200 with its exit code, the first 5 MB of its output as valid
  UTF-8 (flagged if there was more) and its error output. This holds for a command without input whose
  outputs fit the agent's buffers, on an agent whose clock is not past the task's expiry.\<close>

theorem command_runs_on_agent:
  assumes "online X r w v c"
    and "Option.bind (rq_Body r) decode_ExecRequest = Some req0" "validateExecRequest req0 = Inr req"
    and "t = fst (task_id_of X (ex_TaskID req) (entropy v))" "fresh_task t w"
    and "valid_utf8 (ex_Cmd req)" "valid_utf8 (ex_BecomeMethod req)" "ex_Stdin req = None"
    and "0 < ex_Timeout req" "ex_Timeout req \<le> 1000000000"
    and "0 \<le> unix_sec (clock v)" "now \<le> unix_sec (clock v) + ex_Timeout req" "unix_sec (clock v) + ex_Timeout req < 2 ^ 63"
    and "decode_ExecMsg (wire (exec_message t req (clock v))) = Some msg"
    and "p = run (ex_Cmd req) None (ex_Timeout req)" "pc_start p = None" "exit_codes run"
    and "length (concat (pc_stdout p)) \<le> StdoutBufferMax + 1024" "length (concat (pc_stderr p)) \<le> StdoutBufferMax + 1024"
    and "run_state (ExecCommand X (map (\<lambda>j. EvRead c (Some (wire j))) (HandleExec run False now msg)) r) w = (resp, w')"
  shows "resp = Reply 200 (JObj [(''rc'', JNum (if pc_end p = Exited 0 then 0 else failed_rc False p)),
      (''stdout'', JStr (to_valid (take StdoutBufferMax (concat (pc_stdout p))))),
      (''stderr'', JStr (to_valid (concat (pc_stderr p)))),
      (''truncated'', JBool ((pc_end p \<noteq> Exited 0 \<and> pc_deadline p) \<or> StdoutBufferMax < length (concat (pc_stdout p))))])"
proof -
  let ?x = "PathValue r ''hostname''"
  have t: "t \<noteq> []" "valid_utf8 t" "mget (stdoutBuffers (hb w)) t = None" using assms(5) by (simp_all add: fresh_task_def)
  have msg: "msg = \<lparr>em_TaskID = t, em_Type = ''exec'', em_Cmd = ex_Cmd req, em_Stdin = [], em_Timeout = ex_Timeout req,
      em_Become = ex_Become req, em_BecomeMethod = ex_BecomeMethod req, em_ExpiresAt = unix_sec (clock v) + ex_Timeout req\<rparr>"
    using assms(14) exec_message_decoded [OF t(2) assms(6-9,11,13,10)] by simp
  let ?q = "exec_request msg"
  have q: "xr_StdinB64 ?q = []" "xr_TaskID ?q = t" "not_expired now ?q" "spawned run ?q = p"
    using assms(9,10,12,15)
    by (simp_all add: exec_request_def msg not_expired_def spawned_def stdin_bytes_def run_timeout_def)
  have res: "Run run False now ?q = \<lparr>xs_TaskID = t, xs_RC = (if pc_end p = Exited 0 then 0 else failed_rc False p),
      xs_Stdout = take StdoutBufferMax (concat (pc_stdout p)), xs_Stderr = concat (pc_stderr p),
      xs_Truncated = (pc_end p \<noteq> Exited 0 \<and> pc_deadline p) \<or> StdoutBufferMax < length (concat (pc_stdout p))\<rparr>"
    using command_ran [of ?q run now False] q assms(16,18,19) by simp
  let ?m = "zero_Message\<lparr>ms_TaskID := t, ms_Type := ''result'', ms_RC := xs_RC (Run run False now ?q),
      ms_Stdout := to_valid (xs_Stdout (Run run False now ?q)), ms_Stderr := to_valid (xs_Stderr (Run run False now ?q)),
      ms_Truncated := xs_Truncated (Run run False now ?q)\<rparr>"
  have dec: "decode_Message (wire (last (HandleExec run False now msg))) = Some ?m"
    unfolding last_HandleExec
    by (subst decode_result_message) (use Run_rc [OF assms(17), of False now ?q] in \<open>simp_all add: msg to_valid_id t(2)\<close>)
  have "acks (wire (ack_message (em_TaskID msg)))" by (simp add: acks_def decode_ack_message zero_Message_def)
  then have out: "fst (sendTaskAndWait (map (\<lambda>j. EvRead c (Some (wire j))) (HandleExec run False now msg)) ?x t
      (exec_message t req (clock v)) (ex_Timeout req) (hb w)) = Inr ?m"
    using exchange [OF assms(1) t(1,3) short_timeouts [OF assms(9,10)], of "[wire (ack_message (em_TaskID msg))]"
        "wire (last (HandleExec run False now msg))" ?m "exec_message t req (clock v)"] dec
    by (subst HandleExec_messages) (simp add: zero_Message_def)
  have on: "checkAgentOnline ?x (hb w) = None" and "\<exists>a. run_state (requirePluginAuth X r) w = (Inr a, v)"
    using assms(1) by (auto simp: online_def checkAgentOnline_def)
  then have "resp = task_response exec_body (Inr ?m)"
    using assms(2-4,20) out online_hub [OF assms(1)] by (auto simp: ExecCommand_def Let_def)
  then show ?thesis by (simp add: task_response_def exec_body_def zero_Message_def res)
qed

lemma example_online:
  "\<exists>v. online example_ext (example_request\<lparr>rq_Body := b\<rparr>) example_world (example_world\<lparr>db := v\<rparr>) 0"
proof -
  have "PathValue (example_request\<lparr>rq_Body := b\<rparr>) ''hostname'' = ''web1''"
    by (simp add: PathValue_def mget_or_def example_request_def)
  with example_auth [of b] show ?thesis
    by (auto simp: online_def example_hub_of_world example_hub_reachable example_conn)
qed

lemma example_exit_codes: "exit_codes example_spawner"
  by (simp add: exit_codes_def example_spawner_def)

lemma command_runs_on_agent_witness:
  "\<exists>env. fst (run_state (ExecCommand example_ext env example_command) example_world) =
     Reply 200 (JObj [(''rc'', JNum 0), (''stdout'', JStr ''ls!''), (''stderr'', JStr ''warn''), (''truncated'', JBool False)])"
proof -
  let ?q = "\<lparr>ex_TaskID = Some ''t9'', ex_Cmd = ''ls'', ex_Stdin = None, ex_Timeout = 0, ex_Become = False,
      ex_BecomeMethod = []\<rparr>"
  let ?r = "?q\<lparr>ex_Timeout := 30, ex_BecomeMethod := ''sudo''\<rparr>"
  have q: "Option.bind (rq_Body example_command) decode_ExecRequest = Some ?q" "validateExecRequest ?q = Inr ?r"
    by (simp_all add: example_command_def decode_ExecRequest_def obj_pairs_def json_fields validateExecRequest_def
        TrimSpace_id)
  obtain v where on: "online example_ext example_command example_world (example_world\<lparr>db := v\<rparr>) 0"
    using example_online unfolding example_command_def by blast
  have utf8: "valid_utf8 ''t9''" "valid_utf8 ''ls''" "valid_utf8 ''sudo''"
    by (simp_all add: valid_utf8_def to_valid_def [symmetric] to_valid_ascii)
  have five: "unix_sec (clock example_world) = 5" by (simp add: example_srv unix_sec_def)
  have fresh: "fresh_task ''t9'' example_world"
    using utf8(1) by (simp add: fresh_task_def example_hub_of_world example_conn)
  let ?p = "example_spawner ''ls'' None 30"
  obtain msg where msg: "decode_ExecMsg (wire (exec_message ''t9'' ?r (clock example_world))) = Some msg"
    using exec_message_decoded [OF utf8(1), of ?r "clock example_world"] utf8 five by simp
  define env where "env = map (\<lambda>j. EvRead 0 (Some (wire j))) (HandleExec example_spawner False 6 msg)"
  obtain resp w' where run: "run_state (ExecCommand example_ext env example_command) example_world = (resp, w')"
    by fastforce
  have "resp = Reply 200 (JObj [(''rc'', JNum (if pc_end ?p = Exited 0 then 0 else failed_rc False ?p)),
      (''stdout'', JStr (to_valid (take StdoutBufferMax (concat (pc_stdout ?p))))),
      (''stderr'', JStr (to_valid (concat (pc_stderr ?p)))),
      (''truncated'', JBool ((pc_end ?p \<noteq> Exited 0 \<and> pc_deadline ?p) \<or> StdoutBufferMax < length (concat (pc_stdout ?p))))])"
    by (rule command_runs_on_agent [where p = ?p, OF on q _ fresh _ _ _ _ _ _ _ _ _ _ _ example_exit_codes _ _ run [unfolded env_def]])
      (use utf8 five msg in \<open>simp_all add: task_id_of_def example_spawner_def StdoutBufferMax_def\<close>)
  with run show ?thesis
    by (intro exI [of _ env]) (simp add: example_spawner_def StdoutBufferMax_def to_valid_ascii)
qed

section \<open>Files\<close>

lemma put_message_decoded:
  assumes "valid_utf8 t" "valid_utf8 (up_Dest up)" "DecodeString (up_Data up) = Some data"
  shows "decode_PutFileMsg (wire (upload_message t up)) =
    Some \<lparr>pm_TaskID = t, pm_Dest = up_Dest up, pm_Data = up_Data up, pm_Mode = to_valid (up_Mode up)\<rparr>"
  using assms DecodeString_ascii [OF assms(3)]
  by (simp add: decode_PutFileMsg_def upload_message_def obj_pairs_def json_fields to_valid_ascii to_valid_id)

lemma fetch_message_decoded:
  assumes "valid_utf8 t" "valid_utf8 (fe_Src fe)"
  shows "decode_FetchFileMsg (wire (fetch_message t fe)) = Some \<lparr>fm_TaskID = t, fm_Src = fe_Src fe\<rparr>"
  using assms by (simp add: decode_FetchFileMsg_def fetch_message_def obj_pairs_def json_fields to_valid_ascii to_valid_id)

definition quiet_on :: "fs_env \<Rightarrow> string \<Rightarrow> bool" where
  "quiet_on F p \<longleftrightarrow> fe_mkdir F (Dir p) = None \<and> fe_write F p = None \<and> fe_chmod F p = None \<and> fe_read F p = None"

lemma put_done:
  assumes "IsAbs dest" "lies_under AllowedWritePrefixes (resolve dest)" "TrimSpace dest \<noteq> []"
    and "DecodeString b = Some data" "length data \<le> fileMaxBytes" "quiet_on F (abs_path (resolve dest))"
  shows "\<exists>fs' f. HandlePutFile F \<lparr>pm_TaskID = t, pm_Dest = dest, pm_Data = b, pm_Mode = m\<rparr> fs =
      (result_message t 0 [] [] False, fs') \<and> mget fs' (abs_path (resolve dest)) = Some f \<and> hf_data f = data"
proof -
  have v: "validatePath dest AllowedWritePrefixes ''dest'' = Inr (abs_path (resolve dest))"
    using assms(1-3) by (simp add: validatePath_Inr allowed_abs)
  have "\<not> MaxFileSize < length data" using assms(5) by (simp add: fileMaxBytes_def MaxFileSize_def)
  then show ?thesis
    using v assms(4,6)
    by (simp add: HandlePutFile_def PutFile_def decode_any_def quiet_on_def WriteFile_def Chmod_def Let_def)
qed

lemma fetch_done:
  assumes "IsAbs src" "lies_under AllowedReadPrefixes (resolve src)" "TrimSpace src \<noteq> []"
    and "mget fs (abs_path (resolve src)) = Some f" "fe_read F (abs_path (resolve src)) = None"
  shows "FetchFile_agent F src fs = Inr (EncodeToString (hf_data f))"
proof -
  have "validatePath src AllowedReadPrefixes ''src'' = Inr (abs_path (resolve src))"
    using assms(1-3) by (simp add: validatePath_Inr allowed_abs)
  then show ?thesis using assms(4,5) by (simp add: FetchFile_agent_def ReadFile_def)
qed

lemma lies_under_readable: "lies_under AllowedWritePrefixes d \<Longrightarrow> lies_under AllowedReadPrefixes d"
  by (auto simp: lies_under_def AllowedWritePrefixes_def AllowedReadPrefixes_def)

text \<open>C11: A file uploaded to an agent can be fetched back unchanged. An upload of valid base64 within
  the size limit to a path under a writable directory of the agent answers 200 with return code 0;
  afterwards a fetch of the same path, by whatever connection the agent then has, answers 200 with the
  base64 text of exactly the uploaded bytes.\<close>

theorem upload_then_fetch:
  assumes up: "online X r1 w1 v1 c1" "Option.bind (rq_Body r1) decode_UploadRequest = Some up0"
      "validateUploadRequest up0 = Inr up" "DecodeString (up_Data up) = Some data" "length data \<le> fileMaxBytes"
      "t1 = fst (task_id_of X (up_TaskID up) (entropy v1))" "fresh_task t1 w1"
    and path: "IsAbs (up_Dest up)" "lies_under AllowedWritePrefixes (resolve (up_Dest up))" "valid_utf8 (up_Dest up)"
      "quiet_on F (abs_path (resolve (up_Dest up)))"
    and agent1: "decode_PutFileMsg (wire (upload_message t1 up)) = Some pm" "HandlePutFile F pm fs = (answer, fs')"
      "run_state (UploadFile X [EvRead c1 (Some (wire answer))] r1) w1 = (resp1, w1')"
    and down: "online X r2 w2 v2 c2" "Option.bind (rq_Body r2) decode_FetchRequest = Some fe0"
      "validateFetchRequest fe0 = Inr fe" "fe_Src fe = up_Dest up"
      "t2 = fst (task_id_of X (fe_TaskID fe) (entropy v2))" "fresh_task t2 w2"
    and agent2: "decode_FetchFileMsg (wire (fetch_message t2 fe)) = Some fm"
      "run_state (FetchFile X [EvRead c2 (Some (wire (HandleFetchFile F fm fs')))] r2) w2 = (resp2, w2')"
  shows "resp1 = Reply 200 (JObj [(''rc'', JNum 0)])
    \<and> resp2 = Reply 200 (JObj [(''rc'', JNum 0), (''data'', JStr (EncodeToString data))])"
proof -
  let ?dest = "up_Dest up" and ?x1 = "PathValue r1 ''hostname''" and ?x2 = "PathValue r2 ''hostname''"
  have t: "t1 \<noteq> []" "valid_utf8 t1" "mget (stdoutBuffers (hb w1)) t1 = None"
    "t2 \<noteq> []" "valid_utf8 t2" "mget (stdoutBuffers (hb w2)) t2 = None"
    using up(7) down(6) by (simp_all add: fresh_task_def)
  have trim: "TrimSpace ?dest \<noteq> []" using up(3) by (auto simp: validateUploadRequest_def split: if_splits)
  have pm: "pm = \<lparr>pm_TaskID = t1, pm_Dest = ?dest, pm_Data = up_Data up, pm_Mode = to_valid (up_Mode up)\<rparr>"
    using agent1(1) put_message_decoded [OF t(2) path(3) up(4)] by simp
  obtain f where put: "answer = result_message t1 0 [] [] False" "mget fs' (abs_path (resolve ?dest)) = Some f" "hf_data f = data"
    using put_done [OF path(1,2) trim up(4,5) path(4), of t1 "to_valid (up_Mode up)" fs] agent1(2) by (auto simp: pm)
  let ?m1 = "zero_Message\<lparr>ms_TaskID := t1, ms_Type := ''result''\<rparr>"
  have "decode_Message (wire answer) = Some ?m1"
    unfolding put(1) by (subst decode_result_message) (simp_all add: to_valid_id t(2) zero_Message_def)
  then have out1: "fst (sendTaskAndWait [EvRead c1 (Some (wire answer))] ?x1 t1 (upload_message t1 up) 60 (hb w1)) = Inr ?m1"
    using exchange [OF up(1) t(1,3), of 60 "[]" "wire answer" ?m1 "upload_message t1 up"]
    by (simp add: short_timeouts zero_Message_def)
  have on1: "checkAgentOnline ?x1 (hb w1) = None" "\<exists>a. run_state (requirePluginAuth X r1) w1 = (Inr a, v1)"
    and on2: "checkAgentOnline ?x2 (hb w2) = None" "\<exists>a. run_state (requirePluginAuth X r2) w2 = (Inr a, v2)"
    using up(1) down(1) by (auto simp: online_def checkAgentOnline_def)
  have one: "resp1 = task_response (\<lambda>m. JObj [(''rc'', JNum (ms_RC m))]) (Inr ?m1)"
    using on1 up(2-6) agent1(3) out1 online_hub [OF up(1)] by (auto simp: UploadFile_def Let_def)
  have fm: "fm = \<lparr>fm_TaskID = t2, fm_Src = ?dest\<rparr>"
    using agent2(1) fetch_message_decoded [OF t(5), of fe] path(3) down(4) by simp
  have got: "FetchFile_agent F ?dest fs' = Inr (EncodeToString data)"
    using fetch_done [OF path(1) lies_under_readable [OF path(2)] trim put(2)] put(3) path(4) by (simp add: quiet_on_def)
  let ?m2 = "zero_Message\<lparr>ms_TaskID := t2, ms_Type := ''result'', ms_Data := EncodeToString data\<rparr>"
  have "decode_Message (wire (HandleFetchFile F fm fs')) = Some ?m2"
    by (simp add: decode_fetch_answer fm got to_valid_id t(5) encoded_wire)
  then have out2: "fst (sendTaskAndWait [EvRead c2 (Some (wire (HandleFetchFile F fm fs')))] ?x2 t2
      (fetch_message t2 fe) 60 (hb w2)) = Inr ?m2"
    using exchange [OF down(1) t(4,6), of 60 "[]" "wire (HandleFetchFile F fm fs')" ?m2 "fetch_message t2 fe"]
    by (simp add: short_timeouts zero_Message_def)
  have two: "resp2 = task_response (\<lambda>m. JObj [(''rc'', JNum (ms_RC m)), (''data'', JStr (ms_Data m))]) (Inr ?m2)"
    using on2 down(2,3,5) agent2(2) out2 online_hub [OF down(1)] by (auto simp: FetchFile_def Let_def)
  show ?thesis by (simp add: one two task_response_def zero_Message_def)
qed

lemma upload_then_fetch_witness:
  "\<exists>w. fst (run_state (FetchFile example_ext
       [EvRead 0 (Some (wire (HandleFetchFile quiet_fs \<lparr>fm_TaskID = ''ux'', fm_Src = ''/tmp/f''\<rparr>
         (snd (HandlePutFile quiet_fs \<lparr>pm_TaskID = ''u'', pm_Dest = ''/tmp/f'', pm_Data = ''QUJD'', pm_Mode = ''0644''\<rparr> [])))))]
       (example_request\<lparr>rq_Body := Some (JObj [(''src'', JStr ''/tmp/f''), (''task_id'', JStr ''ux'')])\<rparr>)) w) =
     Reply 200 (JObj [(''rc'', JNum 0), (''data'', JStr (EncodeToString ''ABC''))])"
proof -
  let ?r2 = "example_request\<lparr>rq_Body := Some (JObj [(''src'', JStr ''/tmp/f''), (''task_id'', JStr ''ux'')])\<rparr>"
  let ?raw = "\<lparr>up_TaskID = None, up_Dest = ''/tmp/f'', up_Data = ''QUJD'', up_Mode = []\<rparr>"
  let ?up = "?raw\<lparr>up_Mode := ''0644''\<rparr>" and ?fe = "\<lparr>fe_TaskID = Some ''ux'', fe_Src = ''/tmp/f''\<rparr>"
  let ?pm = "\<lparr>pm_TaskID = ''u'', pm_Dest = ''/tmp/f'', pm_Data = ''QUJD'', pm_Mode = ''0644''\<rparr>"
  obtain v1 v2 where on: "online example_ext example_upload example_world (example_world\<lparr>db := v1\<rparr>) 0"
      "online example_ext ?r2 example_world (example_world\<lparr>db := v2\<rparr>) 0"
    using example_online unfolding example_upload_def by blast
  have trim: "TrimSpace ''/tmp/f'' = ''/tmp/f''" "TrimSpace ''QUJD'' = ''QUJD''" by (simp_all add: TrimSpace_id)
  have q: "Option.bind (rq_Body example_upload) decode_UploadRequest = Some ?raw" "validateUploadRequest ?raw = Inr ?up"
    "Option.bind (rq_Body ?r2) decode_FetchRequest = Some ?fe" "validateFetchRequest ?fe = Inr ?fe"
    using trim by (simp_all add: example_upload_def decode_UploadRequest_def decode_FetchRequest_def obj_pairs_def json_fields
        validateUploadRequest_def validateFetchRequest_def)
  have d: "DecodeString (up_Data ?up) = Some ''ABC''" by simp code_simp
  have utf8: "valid_utf8 ''u''" "valid_utf8 ''ux''" "valid_utf8 ''/tmp/f''" "to_valid ''0644'' = ''0644''"
    by (simp_all add: valid_utf8_def to_valid_def [symmetric] to_valid_ascii)
  have fresh: "fresh_task ''u'' example_world" "fresh_task ''ux'' example_world"
    using utf8 by (simp_all add: fresh_task_def example_hub_of_world example_conn)
  have path: "IsAbs (up_Dest ?up)" "lies_under AllowedWritePrefixes (resolve (up_Dest ?up))"
    by (simp_all add: IsAbs_def HasPrefix_def lies_under_def AllowedWritePrefixes_def resolve_def step_into_def)
  have quiet: "quiet_on quiet_fs p" for p by (simp add: quiet_on_def quiet_fs_def)
  have tid: "''u'' = fst (task_id_of example_ext (up_TaskID ?up) (entropy (example_world\<lparr>db := v1\<rparr>)))"
    by (simp add: task_id_of_def example_ext_def example_hub_of_world)
  obtain answer fs' where put: "HandlePutFile quiet_fs ?pm [] = (answer, fs')" by fastforce
  have dec: "decode_PutFileMsg (wire (upload_message ''u'' ?up)) = Some ?pm"
    using put_message_decoded [OF utf8(1) _ d] utf8(3,4) by simp
  have dec2: "decode_FetchFileMsg (wire (fetch_message ''ux'' ?fe)) = Some \<lparr>fm_TaskID = ''ux'', fm_Src = ''/tmp/f''\<rparr>"
    using fetch_message_decoded [OF utf8(2), of ?fe] utf8(3) by simp
  obtain resp1 w1' where run1: "run_state (UploadFile example_ext [EvRead 0 (Some (wire answer))] example_upload) example_world =
      (resp1, w1')" by fastforce
  obtain resp2 w2' where run2: "run_state (FetchFile example_ext [EvRead 0 (Some (wire (HandleFetchFile quiet_fs
      \<lparr>fm_TaskID = ''ux'', fm_Src = ''/tmp/f''\<rparr> fs')))] ?r2) example_world = (resp2, w2')" by fastforce
  have "resp2 = Reply 200 (JObj [(''rc'', JNum 0), (''data'', JStr (EncodeToString ''ABC''))])"
    by (rule upload_then_fetch [THEN conjunct2, OF on(1) q(1,2) d _ tid fresh(1) path _ quiet dec put run1 on(2) q(3,4) _ _ fresh(2)
          dec2 run2]) (use utf8(3) in \<open>simp_all add: fileMaxBytes_def task_id_of_def\<close>)
  with run2 put show ?thesis by (intro exI [of _ example_world]) simp
qed

section \<open>A rotated token\<close>

text \<open>C14: A rekeyed agent keeps working: when the server reports a rekey as done, the message is on the
  wire of the agent's registered connection; the agent that reads it (with the key it enrolled with)
  replaces its token, in memory and in its token file, by one that the server accepts for that host
  under its current secret for the token's whole lifetime, and whose id is recorded for the agent.
  Its running tasks and its connection are untouched.\<close>

theorem rekey_reaches_agent:
  assumes "run_state (RekeyAgent X hostname) w = (True, w')"
    and "row_find ag_Hostname hostname (agents (db w)) = Some a" "healthy (db w)"
    and "oaep_laws X" "key_text X priv (ag_PublicKeyPEM a)"
    and "jwt_laws {sv_JWTSecret (server w)} (jwt_signer X) (jwt_parser X)" "sv_JWTSecret (server w) \<noteq> []"
    and "lifetime = (if sv_JWTttl (server w) = 0 then 3600 * 1000000000 else sv_JWTttl (server w))"
    and "ec_PrivateKey ec = Some priv" "ec_JWTPath ec \<noteq> []" "quiet_on F (ec_JWTPath ec)"
  shows "\<exists>c cn frame d'. mget (wsConnections (hb w)) hostname = Some c \<and> mget (conns (hb w')) c = Some cn
    \<and> cn_Sent cn \<noteq> [] \<and> last (cn_Sent cn) = TextFrame frame \<and> d' = read_message X F ec (Some (wire frame)) d
    \<and> (\<exists>f. mget (dw_files d') (ec_JWTPath ec) = Some f \<and> hf_data f = dw_jwt d')
    \<and> (\<forall>now. unix_sec now < unix_sec (clock w + lifetime) \<longrightarrow>
        (\<exists>jti. validateJWTDualKey (jwt_parser X) (Some (GetServerJWTSecrets w')) now (dw_jwt d') =
            Inr (agent_claims hostname jti (clock w) lifetime, False)
          \<and> map_option ag_TokenJTI (row_find ag_Hostname hostname (agents (db w'))) = Some jti))
    \<and> dw_running d' = dw_running d \<and> dw_tasks d' = dw_tasks d \<and> dw_conn d' = dw_conn d \<and> dw_up d' = dw_up d"
proof -
  from rekey_delivers_token [OF assms(1,2,4-8)] obtain c cn sealed token jti where r:
    "mget (wsConnections (hb w)) hostname = Some c" "mget (conns (hb w')) c = Some cn" "cn_Sent cn \<noteq> []"
    "last (cn_Sent cn) = TextFrame (rekey_message sealed)" "unseal X priv sealed = Some token"
    "\<forall>now. unix_sec now < unix_sec (clock w + lifetime) \<longrightarrow>
       validateJWTDualKey (jwt_parser X) (Some (GetServerJWTSecrets w')) now token =
         Inr (agent_claims hostname jti (clock w) lifetime, False)"
    "map_option ag_TokenJTI (row_find ag_Hostname hostname (agents (db w'))) = Some jti"
    using assms(3) by blast
  have msg: "BaseMsg (wire (rekey_message sealed)) = Some ([], ''rekey'')" "RekeyMsg (wire (rekey_message sealed)) = Some sealed"
    using unseal_wire [OF r(5)]
    by (simp_all add: BaseMsg_def RekeyMsg_def rekey_message_def obj_pairs_def json_fields to_valid_ascii)
  obtain f fs where saved: "writeSecret F (ec_JWTPath ec) token (dw_files d) = (None, fs)"
      "mget fs (ec_JWTPath ec) = Some f" "hf_data f = token"
    using assms(11) by (auto simp: writeSecret_def WriteFile_def quiet_on_def Let_def)
  have "read_message X F ec (Some (wire (rekey_message sealed))) d = d\<lparr>dw_files := fs, dw_jwt := token\<rparr>"
    using r(5) assms(9,10) saved(1)
    by (simp add: read_message_def msg handle_rekey_def defaultDecryptAndSaveToken_def decrypt_unseal)
  with r saved show ?thesis by auto
qed

lemma rekey_reaches_agent_witness:
  "\<exists>frame w' jti. run_state (RekeyAgent example_ext ''web1'') example_rekeyed = (True, w')
     \<and> validateJWTDualKey (jwt_parser example_ext) (Some (GetServerJWTSecrets w')) 6000000000
         (dw_jwt (read_message example_ext quiet_fs enrolling_cfg (Some (wire frame)) (NewDispatcher_ws ''old'' 1 []))) =
         Inr (agent_claims ''web1'' jti 5000000000 3600000000000, False)"
proof -
  have a: "row_find ag_Hostname ''web1'' (agents (db example_rekeyed)) = Some (example_agent\<lparr>ag_PublicKeyPEM := example_key\<rparr>)"
    by (simp add: example_agent_def)
  obtain w' where run: "run_state (RekeyAgent example_ext ''web1'') example_rekeyed = (True, w')"
    using example_rekey by blast
  let ?d = "NewDispatcher_ws ''old'' 1 []"
  have q: "quiet_on quiet_fs (ec_JWTPath enrolling_cfg)" by (simp add: quiet_on_def quiet_fs_def)
  obtain frame jti where f: "validateJWTDualKey (jwt_parser example_ext) (Some (GetServerJWTSecrets w')) 6000000000
      (dw_jwt (read_message example_ext quiet_fs enrolling_cfg (Some (wire frame)) ?d)) =
      Inr (agent_claims ''web1'' jti 5000000000 3600000000000, False)"
    using rekey_reaches_agent [OF run a _ example_laws(1) _ example_laws(2) _ refl _ _ q, of "''A''" ?d]
    by (force simp: example_srv unix_sec_def enrolling_cfg_def example_cfg_def)
  with run show ?thesis by blast
qed

end
