(* ===== verification/AgentOnline.thy ===== *)
theory AgentOnline
  imports AgentConnects AgentTasks Handlers
begin

text \<open>
  From enrollment to the first task: the token an agent gets when it enrolls connects it, and callers
  with a plugin token then find it online, in the state in which commands, uploads and downloads run.
\<close>

section \<open>What an enrollment leaves alone\<close>

lemma register_maintains: "maintains (\<lambda>w. hb w = h \<and> server w = s) (RegisterAgent X r)"
proof -
  let ?P = "\<lambda>w. hb w = h \<and> server w = s"
  have db: "maintains ?P (on_store m)" for m :: "'a db"
    by (simp add: maintains_def)
  have parts: "maintains ?P draw" "maintains ?P (newTaskID X)" "maintains ?P (dispatch_hook e x st t)"
      "maintains ?P (encryptWithPublicKey X p q)" for e x st t p q
    by (simp_all add: maintains_def newTaskID_def dispatch_hook_def encryptWithPublicKey_def split: option.split)
  have "maintains ?P (registerAgentWithToken X req)" for req
    by (rule enrollment_maintains) (simp_all add: db)
  then show ?thesis
    unfolding RegisterAgent_def registerAgentLegacy_def by (intro maintains_intros parts db)
qed

lemma post_maintains: "maintains (\<lambda>w. hb w = h \<and> server w = s) (server_post X r d body)"
  using register_maintains [of h s X "r\<lparr>rq_Method := ''POST'', rq_Body := Some (wire body)\<rparr>"]
  by (simp add: maintains_def server_post_def split_def)

lemma Enroll_maintains:
  assumes "\<And>body. maintains P (post body)"
  shows "maintains P (Enroll X F ca n post ec fs)"
  unfolding Enroll_def enrollStep1_def enrollStep2_def by (intro maintains_intros assms)

section \<open>Connecting\<close>

text \<open>An agent whose token carries the secret in force is connected, and its connection can be used.\<close>

lemma connected_online:
  assumes "jwt_laws {sv_JWTSecret (server w), sv_JWTPreviousSecret (server w)} (jwt_signer X) (jwt_parser X)"
    and "sv_JWTSecret (server w) \<noteq> []" "x \<noteq> []" "jwt = signed_for X (sv_JWTSecret (server w)) x jti iat ttl" "jwt \<noteq> []"
    and "unix_sec (clock w) < unix_sec (iat + ttl)" "hub_reachable (hb w)"
    and "buildTLSConfig read has_certs (cc_CABundle cc) (cc_Insecure cc) = Inr tls"
    and "cc_ServerURL cc = base @ ''/ws/agent''" "p \<noteq> Admin" "on_upgraded v"
  shows "\<exists>c u. run_state (open_connection read has_certs (dial_server X v p base addr) cc jwt) w = (Inr c, u)
    \<and> GetConnection x (hb u) = Inr c
    \<and> (\<forall>r a u'. run_state (requirePluginAuth X r) u = (Inr a, u') \<longrightarrow> PathValue r ''hostname'' = x \<longrightarrow> online X r u u' c)"
proof -
  let ?s = "GetServerJWTSecrets w"
  have ident: "extractHostnameFromRequest (jwt_parser X) (json_parser X) (Some ?s) (clock w) (handshake_http addr jwt) = Inr (x, False)"
    using handshake_identity [of ?s "sv_JWTSecret (server w)" X x jwt jti iat ttl "json_parser X" "clock w" addr x False] assms(1-6)
    by (simp add: GetServerJWTSecrets_def GetJWTSecrets_def insert_commute)
  let ?h = "hub_step (EvOpen x False None) (hb w)" and ?c = "next_id (hb w)"
  have run: "run_state (AgentHandler X True (handshake_http addr jwt)) w = (Inr ?c, w\<lparr>hb := ?h\<rparr>)"
    by (simp add: AgentHandler_def ident agent_open_def Let_def)
  have reach: "hub_reachable ?h" using assms(7) by (rule hub_reachable.step)
  have fresh: "mget (wsConnections (hb w)) x \<noteq> Some ?c"
    using reachable_inv [OF assms(7)] unfolding hub_inv_def conns_inv_def by blast
  have conn: "GetConnection x ?h = Inr ?c"
      "\<exists>cn. mget (conns ?h) ?c = Some cn \<and> cn_Reading cn \<and> cn_Broken cn = None"
    using fresh
    by (auto simp: agent_open_def RegisterConnection_def DispatchFunc_def GetConnection_def conn_close_def conn_fail_def
        Let_def split: option.split)
  have "run_state (open_connection read has_certs (dial_server X v p base addr) cc jwt) w = (Inr ?c, w\<lparr>hb := ?h\<rparr>)"
    using run assms(11) by (simp add: open_run [OF assms(8-10)] handshake_result_def)
  moreover have "online X r (w\<lparr>hb := ?h\<rparr>) u' ?c"
    if "run_state (requirePluginAuth X r) (w\<lparr>hb := ?h\<rparr>) = (Inr a, u')" "PathValue r ''hostname'' = x" for r a u'
    using that reach conn assms(3) by (auto simp: online_def)
  ultimately show ?thesis using conn(1) by auto
qed



end
