(* ===== verification/Spec2Isabelle.thy ===== *)
theory Spec2Isabelle
  imports StoreProps HubSpec Jwt PluginAuth RegisterSpec ExecSpec SecuritySpec AdminSpec HooksSpec RoutesSpec
    ServerMain ServerRuns InventorySpec Broker CliSpec TokenJourney
    MinionReconnect MinionWindows MinionMain AgentEnrolls AgentConnects AgentTasks AgentOnline
begin

text \<open>
  \<^bold>\<open>The system.\<close> Ansible-SecAgent lets Ansible reach hosts that only open connections outwards. An agent
  (\<open>src/GO/cmd/secagent-minion\<close>) enrolls with the relay server (\<open>src/GO/cmd/secagent-server\<close>), gets a
  token sealed for its RSA key, and keeps a WebSocket connection open. Ansible's plugins post commands
  and files to the server, which sends them over the agent's connection and answers with the result.
  The administrator uses the same binary as a command line against the administration port; the
  inventory program (\<open>src/GO/cmd/secagent-inventory\<close>) gives Ansible the hosts.

  The server has three ports: 7770 for agents, plugins and the inventory, 7771 for the administrator,
  7772 for WebSocket connections. Its state is the database, the WebSocket hub, the keys and secrets,
  and the pending nonces of enrollments: the record \<open>world\<close>. Every HTTP handler is a computation in the
  state monad over it, in the order of the code, with each early return a branch.

  \<^bold>\<open>What the language and its library give.\<close> \<open>Prelude\<close>: Go maps, SQL tables, the interface \<open>keyed\<close> of a
  keyed collection and the collections of rewrite rules. \<open>GoText\<close>, \<open>GoNum\<close>, \<open>GoFloat\<close>, \<open>GoBase64\<close>,
  \<open>GoPath\<close>: byte strings with UTF-8, numbers in text, rounded floating-point numbers, base64, cleaned paths. \<open>GoJson\<close> and \<open>GoWire\<close>: JSON values, the
  decoding into struct fields, and what survives writing and reading. \<open>Http\<close> and \<open>HttpClient\<close>: requests,
  responses, and a client connected to a modelled port. Sixty-four-bit integers wrap where the code
  multiplies or adds them (\<open>wrap64\<close>); instants are nanoseconds, and seconds in the database.

  \<^bold>\<open>The server, theory by theory.\<close>
  \<^item> \<open>Storage\<close>, \<open>TokenStore\<close> (\<open>internal/storage\<close>): the tables as lists of rows, one operation for each method of
    \<open>Store\<close>; \<open>db_faults\<close> decides which statements fail. \<open>StoreSpec\<close>, \<open>StoreProps\<close>: the integrity of the schema
    over every history of calls, the refinement of an abstract registry of agents, results on a healthy
    database.
  \<^item> \<open>Hub\<close> (\<open>internal/ws/handler.go\<close>): the maps of connections, futures and buffers, with channels and connections
    in heaps of their own. \<open>HubSpec\<close>: the hub as a state machine over every interleaving of events, its
    invariant, and what becomes of a result, of a lost agent's tasks and of an evicted connection.
  \<^item> \<open>Jwt\<close> (\<open>ws/jwt.go\<close>, \<open>auth/jwt.go\<close>): both dual-key validations, proved to obey one contract (locale
    \<open>dual_key\<close>, interpreted on both).
  \<^item> \<open>World\<close>, \<open>Keys\<close> (\<open>crypto/aes.go\<close>, the start-up of \<open>handlers/register.go\<close>): shared state, external functions,
    stored keys. \<open>Examples\<close>: the concrete instance used by the witnesses.
  \<^item> \<open>Register\<close>, \<open>RegisterSpec\<close> (\<open>handlers/register.go\<close>): enrollment, legacy registration, pre-authorization,
    refresh; who gets a token, and that nonces and one-shot tokens serve once, except in the race shown.
  \<^item> \<open>PluginAuth\<close> (\<open>handlers/plugin_auth.go\<close>), \<open>Exec\<close>, \<open>ExecSpec\<close> (\<open>handlers/exec.go\<close>): who may run tasks, and what a
    task endpoint does whatever the hub does while it waits.
  \<^item> \<open>Security\<close>, \<open>SecuritySpec\<close> (\<open>handlers/security.go\<close>): rotation of secrets and keys, rekeying, recovery at a
    restart. \<open>Admin\<close>, \<open>AdminTokens\<close>, \<open>AdminSpec\<close> (\<open>handlers/admin.go\<close>, \<open>admin_tokens.go\<close>, \<open>inventory.go\<close>).
  \<^item> \<open>Hooks\<close>, \<open>HooksSpec\<close> (\<open>internal/hooks\<close>): templates, executors with retries, the bounded queue (locale
    \<open>bounded_queue\<close>), the action log.
  \<^item> \<open>Routes\<close>, \<open>ServerMain\<close> (\<open>main.go\<close>): the route tables under the matching rules of \<open>net/http\<close>, the start of the
    process, the reload of the hooks. \<open>RoutesSpec\<close>: no request matches two routes, and the administration
    port is closed without its token.
  \<^item> \<open>Handlers\<close>: what all handlers keep, proved once. A predicate that the listed operations of the database
    and the hub keep is kept by every handler that sends no task (locale \<open>quiet_handlers\<close>), by those of the
    task endpoints (\<open>open_handlers\<close>), and by those of the administrator (\<open>admin_handlers\<close>). \<open>Outsider\<close>: the server
    under every history of requests without the administrator's token; its locale \<open>outsider_view\<close> is one of
    \<open>open_handlers\<close>, interpreted on the credentials and on the authorized keys. \<open>ServerRuns\<close>: the server over
    its whole life, with any requests, any behaviour of the agents, failing statements and restarts on
    the database it left; the integrity of its state, and that every task an agent is sent goes back to a
    request with a valid plugin token.
  \<^item> \<open>Broker\<close> (\<open>internal/broker\<close>): streams, publication, consumption, and a task that crosses nodes.
  \<^item> \<open>CliClient\<close>, \<open>Cli\<close>, \<open>CliTokens\<close>, \<open>CliSpec\<close> (\<open>internal/cli\<close>): every command as the requests it makes, what it
    prints and its exit code; the commands run against the modelled administration port.
  \<^item> \<open>InventoryCmd\<close>, \<open>InventorySpec\<close> (\<open>secagent-inventory\<close>): the program, run against the modelled API port.
    \<open>TokenJourney\<close>: a token from the command line through the server to the inventory program.

  \<^bold>\<open>The agent.\<close>
  \<^item> \<open>MinionFiles\<close>, \<open>MinionExec\<close>, \<open>MinionRegistry\<close>, \<open>MinionFacts\<close> (\<open>internal/files\<close>, \<open>executor\<close>, \<open>registry\<close>, \<open>facts\<close>): the
    operations on the host, with what the operating system answers as parameters.
  \<^item> \<open>MinionEnroll\<close> (\<open>internal/enrollment\<close>, \<open>ws/enrollment_bridge.go\<close>), \<open>MinionDial\<close> and \<open>MinionWs\<close>
    (\<open>ws/dispatcher.go\<close> and the handlers of \<open>main.go\<close>), \<open>MinionMain\<close> (\<open>main.go\<close>): the protocol, the handshake,
    the connection, the start.
  \<^item> \<open>MinionSpec\<close>, \<open>MinionLoop\<close>, \<open>MinionReconnect\<close>, \<open>MinionJobs\<close>: files stay inside the allowed directories, what
    a result holds, the agent as a state machine over every interleaving, reconnection, restart. \<open>MinionWindows\<close>: the check of a process in the Windows build.

  \<^bold>\<open>Both together.\<close> \<open>AgentEnrolls\<close> runs the agent's enrollment against the registration endpoint,
  \<open>AgentConnects\<close> its handshake against the WebSocket endpoints, and \<open>AgentTasks\<close> commands, uploads,
  downloads and rekeying from the caller's request through the server to the agent and back, each
  message passing the wire as JSON. \<open>AgentOnline\<close> joins them: an agent that enrolls can connect with the
  token it got, and callers then find it online.

  \<^bold>\<open>How the parts are written.\<close> Operations are \<open>definition\<close>s and \<open>fun\<close>s that compute; state machines are step
  functions or inductive relations (\<open>hub_reachable\<close>, \<open>agent_reachable\<close>, \<open>outsider_step\<close>, \<open>server_run\<close>) with invariants by rule
  induction. A goroutine is a step that may happen at any time between the steps of others; a handler
  that waits takes what the others do meanwhile as a list of events. No recursion has fuel except
  where the code counts: the retries of a webhook are bounded by its own count, the reconnection loop
  runs over the list of outcomes of its connections, and a delivery or a loop is proved to end.

  \<^bold>\<open>Hypotheses.\<close> Code that is not in the repository is a parameter (\<open>ext\<close>, \<open>hook_env\<close>, \<open>fs_env\<close>, \<open>job_env\<close>, \<open>nats\<close>,
  \<open>boot\<close>, \<open>host\<close>): hashing, RSA, AES-GCM, PEM, the token library, regular expressions, the broker, the operating
  system. Where a property needs what such code promises, it says so (\<open>oaep_laws\<close> and the like), and a
  witness applies it to a concrete instance.

  \<^bold>\<open>Not modelled.\<close>
  \<^item> SQL text, the drivers (\<open>driver_cgo.go\<close>), PRAGMAs and locks: a method is one atomic step per statement.
  \<^item> TLS itself, sockets, the WebSocket framing with its pings, time limits of the listeners, graceful shutdown
    and signals other than the reload: I/O around operations that are modelled.
  \<^item> Log lines, the texts of library errors, the layout of printed tables and YAML, percent escapes in
    request paths, redirects followed by a client.
  \<^item> Symbolic links in file transfers; the path check of the code does not look at them either.
  \<^item> The Ansible plugins in Python and the deployment files: another language, clients of the interface
    modelled here.
\<close>

end
